(* ===== verification/Prelude.thy ===== *)
theory Prelude
  imports Complex_Main "HOL-Library.Char_ord" "HOL-Library.List_Lexorder"
begin

text \<open>
  Shared vocabulary of the development: Python numbers, text and dictionary defaults as the
  engines use them.  A Python \<open>float\<close> is an exact rational (binary rounding is not modelled;
  the explicit \<open>round(x, n)\<close> calls of the source are), a Python \<open>int\<close> is an \<open>int\<close>,
  \<open>None\<close> is the \<open>None\<close> of \<open>option\<close>.  The generic lemmas here carry the component
  proofs through the collections \<open>py_simps\<close> and \<open>cfg_simps\<close>.
\<close>

named_theorems py_simps \<open>evaluation of the Python primitives\<close>
named_theorems cfg_simps \<open>dictionary defaults of the configuration readers\<close>

type_synonym money = rat
type_synonym token = string
type_synonym index_name = string

section \<open>Definitions\<close>

subsection \<open>Python arithmetic\<close>

definition round_half_even :: "rat \<Rightarrow> int" where
  "round_half_even x =
     (let f = \<lfloor>x\<rfloor>; d = x - of_int f
      in if d < 1 / 2 then f else if 1 / 2 < d then f + 1 else if even f then f else f + 1)"

definition py_round :: "nat \<Rightarrow> rat \<Rightarrow> rat" where
  "py_round n x = of_int (round_half_even (x * 10 ^ n)) / 10 ^ n"

definition py_trunc :: "rat \<Rightarrow> int" where
  "py_trunc x = (if 0 \<le> x then \<lfloor>x\<rfloor> else \<lceil>x\<rceil>)"

subsection \<open>\<open>d.get(k) or default\<close>\<close>

definition num_or :: "'a::zero option \<Rightarrow> 'a \<Rightarrow> 'a" where
  "num_or v d = (case v of None \<Rightarrow> d | Some x \<Rightarrow> if x = 0 then d else x)"

definition get_or :: "'a option \<Rightarrow> 'a \<Rightarrow> 'a" where
  "get_or v d = (case v of None \<Rightarrow> d | Some x \<Rightarrow> x)"

definition str_or :: "string option \<Rightarrow> string \<Rightarrow> string" where
  "str_or v d = (case v of None \<Rightarrow> d | Some s \<Rightarrow> if s = [] then d else s)"

definition decode :: "string option \<Rightarrow> string" where
  "decode v = (case v of None \<Rightarrow> [] | Some s \<Rightarrow> s)"

subsection \<open>Decimal text\<close>

definition digit_char :: "nat \<Rightarrow> char" where
  "digit_char d = char_of (48 + d)"

fun digits_nat :: "nat \<Rightarrow> string" where
  "digits_nat n = (if n < 10 then [digit_char n] else digits_nat (n div 10) @ [digit_char (n mod 10)])"

definition str_int :: "int \<Rightarrow> string" where
  "str_int i = (if i < 0 then CHR ''-'' # digits_nat (nat (- i)) else digits_nat (nat i))"

definition char_digit :: "char \<Rightarrow> nat option" where
  "char_digit c = (let n = of_char c in if 48 \<le> n \<and> n \<le> 57 then Some (n - 48) else None)"

fun parse_digits :: "nat \<Rightarrow> string \<Rightarrow> nat option" where
  "parse_digits acc [] = Some acc"
| "parse_digits acc (c # cs) =
     (case char_digit c of None \<Rightarrow> None | Some d \<Rightarrow> parse_digits (10 * acc + d) cs)"

definition int_of_str :: "string \<Rightarrow> int option" where
  "int_of_str s =
     (case s of
        [] \<Rightarrow> None
      | c # cs \<Rightarrow>
          if c = CHR ''-'' then (if cs = [] then None else map_option (\<lambda>n. - int n) (parse_digits 0 cs))
          else map_option int (parse_digits 0 (c # cs)))"

text \<open>\<open>f"{h:02d}:{m:02d}"\<close>, the wall-clock text the engines compare with \<open>>=\<close>.\<close>

definition two_digits :: "nat \<Rightarrow> string" where
  "two_digits n = [digit_char (n div 10), digit_char (n mod 10)]"

definition hhmm_text :: "nat \<Rightarrow> nat \<Rightarrow> string" where
  "hhmm_text h m = two_digits h @ CHR '':'' # two_digits m"

text \<open>\<open>f"{x:.nf}"\<close> and \<open>str.lower()\<close> on ASCII.\<close>

definition fmt_fixed :: "nat \<Rightarrow> rat \<Rightarrow> string" where
  "fmt_fixed n x =
     (let k = nat (round_half_even (\<bar>x\<bar> * 10 ^ n)); frac = digits_nat (k mod 10 ^ n)
      in (if x < 0 then ''-'' else []) @ digits_nat (k div 10 ^ n) @
         (if n = 0 then [] else CHR ''.'' # replicate (n - length frac) CHR ''0'' @ frac))"

definition lower_char :: "char \<Rightarrow> char" where
  "lower_char c = (let n = (of_char c :: nat) in if 65 \<le> n \<and> n \<le> 90 then char_of (n + 32) else c)"

definition py_lower :: "string \<Rightarrow> string" where
  "py_lower s = map lower_char s"

text \<open>\<open>str.split(c)\<close>.\<close>

fun split_on :: "char \<Rightarrow> string \<Rightarrow> string list" where
  "split_on c [] = [[]]"
| "split_on c (x # xs) =
     (if x = c then [] # split_on c xs
      else (case split_on c xs of [] \<Rightarrow> [[x]] | y # ys \<Rightarrow> (x # y) # ys))"

subsection \<open>Lists\<close>

definition last_n :: "nat \<Rightarrow> 'a list \<Rightarrow> 'a list" where
  "last_n n xs = drop (length xs - n) xs"

fun first_some :: "('a \<Rightarrow> 'b option) \<Rightarrow> 'a list \<Rightarrow> 'b option" where
  "first_some f [] = None"
| "first_some f (x # xs) = (case f x of None \<Rightarrow> first_some f xs | Some y \<Rightarrow> Some y)"

definition somes :: "'a option list \<Rightarrow> 'a list" where
  "somes xs = map the (filter (\<lambda>x. x \<noteq> None) xs)"

text \<open>\<open>d[k] = v\<close> on a dictionary in insertion order.\<close>

fun dict_set :: "'k \<Rightarrow> 'v \<Rightarrow> ('k \<times> 'v) list \<Rightarrow> ('k \<times> 'v) list" where
  "dict_set k v [] = [(k, v)]"
| "dict_set k v ((k', v') # xs) = (if k = k' then (k, v) # xs else (k', v') # dict_set k v xs)"

text \<open>The last value that is not \<open>None\<close>.\<close>

definition last_known :: "'a \<Rightarrow> 'a option list \<Rightarrow> 'a" where
  "last_known d xs = (case rev (somes xs) of [] \<Rightarrow> d | x # _ \<Rightarrow> x)"

section \<open>Lemmas\<close>

subsection \<open>Rounding\<close>

lemma round_half_even_error: "\<bar>of_int (round_half_even x) - x\<bar> \<le> 1 / 2"
proof -
  have "of_int \<lfloor>x\<rfloor> \<le> x" and "x < of_int \<lfloor>x\<rfloor> + 1" by linarith+
  then show ?thesis unfolding round_half_even_def Let_def abs_le_iff by (simp; linarith)
qed

lemma round_half_even_of_int [simp]: "round_half_even (of_int i) = i"
  by (simp add: round_half_even_def)

lemma round_half_even_bounds: "\<lfloor>x\<rfloor> \<le> round_half_even x" "round_half_even x \<le> \<lfloor>x\<rfloor> + 1"
  by (auto simp: round_half_even_def Let_def)

lemma round_half_even_mono:
  assumes "x \<le> y"
  shows "round_half_even x \<le> round_half_even y"
proof (cases "\<lfloor>x\<rfloor> = \<lfloor>y\<rfloor>")
  case True
  with assms show ?thesis by (auto simp: round_half_even_def Let_def)
next
  case False
  with assms floor_mono [OF assms] have "\<lfloor>x\<rfloor> + 1 \<le> \<lfloor>y\<rfloor>" by linarith
  then show ?thesis using round_half_even_bounds(2) [of x] round_half_even_bounds(1) [of y] by linarith
qed

lemma py_round_mono: "x \<le> y \<Longrightarrow> py_round n x \<le> py_round n y"
  unfolding py_round_def by (intro divide_right_mono) (auto intro!: round_half_even_mono)

lemma py_round_error: "\<bar>py_round n x - x\<bar> \<le> 1 / (2 * 10 ^ n)"
proof -
  have p: "(0::rat) < 10 ^ n" by simp
  have "py_round n x - x = (of_int (round_half_even (x * 10 ^ n)) - x * 10 ^ n) / 10 ^ n"
    using p by (simp add: py_round_def field_simps)
  also have "\<bar>\<dots>\<bar> = \<bar>of_int (round_half_even (x * 10 ^ n)) - x * 10 ^ n\<bar> / 10 ^ n"
    using p by (simp add: abs_divide)
  also have "\<dots> \<le> (1 / 2) / 10 ^ n"
    using p round_half_even_error by (intro divide_right_mono) auto
  finally show ?thesis by simp
qed

lemma py_round_fix:
  assumes "x * 10 ^ n = of_int i"
  shows "py_round n x = x"
  using assms by (simp add: py_round_def field_simps)

lemma py_round_0 [simp]: "py_round n 0 = 0"
  by (rule py_round_fix [where i = 0]) simp

lemma py_round_nonneg: "0 \<le> x \<Longrightarrow> 0 \<le> py_round n x"
  using py_round_mono [of 0 x n] by simp

subsection \<open>Defaults\<close>

lemma num_or_simps [simp, cfg_simps]:
  "num_or None d = d" "num_or (Some x) d = (if x = 0 then d else x)"
  by (simp_all add: num_or_def)

lemma get_or_simps [simp, cfg_simps]: "get_or None d = d" "get_or (Some x) d = x"
  by (simp_all add: get_or_def)

lemma decode_simps [simp, cfg_simps]: "decode None = []" "decode (Some s) = s"
  by (simp_all add: decode_def)

lemma str_or_simps [simp, cfg_simps]:
  "str_or None d = d" "str_or (Some s) d = (if s = [] then d else s)"
  by (simp_all add: str_or_def)

subsection \<open>Lists\<close>

lemma length_last_n [simp]: "length (last_n n xs) = min n (length xs)"
  by (simp add: last_n_def)

lemma set_last_n: "set (last_n n xs) \<subseteq> set xs"
  by (simp add: last_n_def set_drop_subset)

lemma last_n_all [simp]: "length xs \<le> n \<Longrightarrow> last_n n xs = xs"
  by (simp add: last_n_def)

lemma last_last_n [simp]: "0 < n \<Longrightarrow> xs \<noteq> [] \<Longrightarrow> last (last_n n xs) = last xs"
  by (simp add: last_n_def)

lemma first_some_Some_D: "first_some f xs = Some y \<Longrightarrow> \<exists>x \<in> set xs. f x = Some y"
  by (induction xs) (auto split: option.splits)

lemma first_some_None_iff: "first_some f xs = None \<longleftrightarrow> (\<forall>x \<in> set xs. f x = None)"
  by (induction xs) (auto split: option.splits)

lemma somes_simps [simp]:
  "somes [] = []" "somes (None # xs) = somes xs" "somes (Some x # xs) = x # somes xs"
  by (simp_all add: somes_def)

lemma map_of_dict_set: "map_of (dict_set k v xs) = (map_of xs)(k \<mapsto> v)"
  by (induction k v xs rule: dict_set.induct) auto

lemma dict_set_keys: "k \<in> fst ` set xs \<Longrightarrow> map fst (dict_set k v xs) = map fst xs"
  by (induction k v xs rule: dict_set.induct) auto

lemma somes_append [simp]: "somes (xs @ ys) = somes xs @ somes ys"
  by (simp add: somes_def)

lemma last_known_simps [simp]:
  "last_known d [] = d" "last_known d (xs @ [None]) = last_known d xs" "last_known d (xs @ [Some x]) = x"
  by (simp_all add: last_known_def somes_def)

lemma distinct_count_list: "distinct xs \<Longrightarrow> count_list xs x = (if x \<in> set xs then 1 else 0)"
  by (induction xs) (auto simp: count_list_0_iff)

lemma somes_length: "length (somes xs) \<le> length xs"
  by (simp add: somes_def)

lemma set_somes: "set (somes xs) = {x. Some x \<in> set xs}"
  by (force simp: somes_def)

subsection \<open>Decimal text\<close>

declare digits_nat.simps [simp del]

lemma char_digit_digit_char [simp]: "d < 10 \<Longrightarrow> char_digit (digit_char d) = Some d"
  by (simp add: char_digit_def digit_char_def)

lemma digit_char_inject [simp]:
  "a < 10 \<Longrightarrow> b < 10 \<Longrightarrow> digit_char a = digit_char b \<longleftrightarrow> a = b"
  by (metis char_digit_digit_char option.inject)

lemma digit_char_neq_minus [simp]: "d < 10 \<Longrightarrow> digit_char d \<noteq> CHR ''-''"
proof
  assume "d < 10" "digit_char d = CHR ''-''"
  then have "char_digit (CHR ''-'') = Some d" using char_digit_digit_char [of d] by simp
  then show False by (simp add: char_digit_def)
qed

lemma digit_char_neq_colon [simp]: "d < 10 \<Longrightarrow> digit_char d \<noteq> CHR '':''"
proof
  assume "d < 10" "digit_char d = CHR '':''"
  then have "char_digit (CHR '':'') = Some d" using char_digit_digit_char [of d] by simp
  then show False by (simp add: char_digit_def)
qed

lemma digits_nat_nonempty [simp]: "digits_nat n \<noteq> []"
  by (subst digits_nat.simps) simp

lemma digits_nat_chars: "c \<in> set (digits_nat n) \<Longrightarrow> \<exists>d < 10. c = digit_char d"
proof (induction n rule: digits_nat.induct)
  case (1 n)
  show ?case
  proof (cases "n < 10")
    case True
    with "1.prems" show ?thesis by (subst (asm) digits_nat.simps) auto
  next
    case False
    with "1.prems" have "c \<in> set (digits_nat (n div 10)) \<or> c = digit_char (n mod 10)"
      by (subst (asm) digits_nat.simps) auto
    moreover have "n mod 10 < 10" by simp
    ultimately show ?thesis using "1.IH" False by blast
  qed
qed

lemma parse_digits_append:
  "parse_digits acc (xs @ ys) =
     (case parse_digits acc xs of None \<Rightarrow> None | Some n \<Rightarrow> parse_digits n ys)"
  by (induction xs arbitrary: acc) (auto split: option.splits)

lemma parse_digits_nat [simp]: "parse_digits 0 (digits_nat n) = Some n"
proof (induction n rule: digits_nat.induct)
  case (1 n)
  show ?case
  proof (cases "n < 10")
    case True
    then show ?thesis by (subst digits_nat.simps) simp
  next
    case False
    with "1.IH" show ?thesis by (subst digits_nat.simps) (simp add: parse_digits_append)
  qed
qed

lemma int_of_str_two_digits: "n < 100 \<Longrightarrow> int_of_str (two_digits n) = Some (int n)"
proof -
  assume "n < 100"
  then have d: "n div 10 < 10" "n mod 10 < 10" by simp_all
  have "10 * (n div 10) + n mod 10 = n" by simp
  with d show ?thesis by (simp add: two_digits_def int_of_str_def)
qed

lemma int_of_str_str_int [simp]: "int_of_str (str_int i) = Some i"
proof (cases "i < 0")
  case True
  then show ?thesis by (simp add: str_int_def int_of_str_def)
next
  case False
  obtain c cs where c: "digits_nat (nat i) = c # cs" by (cases "digits_nat (nat i)") auto
  with digits_nat_chars [of c "nat i"] have "c \<noteq> CHR ''-''" by auto
  with False c parse_digits_nat [of "nat i"] show ?thesis by (simp add: str_int_def int_of_str_def)
qed

lemma str_int_inject [simp]: "str_int i = str_int j \<longleftrightarrow> i = j"
  by (metis int_of_str_str_int option.inject)

lemma str_int_nonempty [simp]: "str_int i \<noteq> []"
  by (simp add: str_int_def)

subsection \<open>Wall-clock text\<close>

lemma digit_char_less [simp]:
  "a < 10 \<Longrightarrow> b < 10 \<Longrightarrow> digit_char a < digit_char b \<longleftrightarrow> a < b"
  by (simp add: digit_char_def less_char_def)

lemma two_digits_less_append:
  assumes "a < 100" "b < 100"
  shows "two_digits a @ xs < two_digits b @ ys \<longleftrightarrow> a < b \<or> (a = b \<and> xs < ys)"
proof -
  have d: "a div 10 < 10" "b div 10 < 10" "a mod 10 < 10" "b mod 10 < 10" using assms by auto
  have "two_digits a @ xs < two_digits b @ ys \<longleftrightarrow>
      a div 10 < b div 10 \<or> (a div 10 = b div 10 \<and>
        (a mod 10 < b mod 10 \<or> (a mod 10 = b mod 10 \<and> xs < ys)))"
    using d by (simp add: two_digits_def)
  moreover obtain p q r s where "a div 10 = p" "a mod 10 = q" "b div 10 = r" "b mod 10 = s"
      "a = 10 * p + q" "b = 10 * r + s" by (metis mult_div_mod_eq)
  ultimately show ?thesis using d by auto
qed

text \<open>Comparing two \<open>HH:MM\<close> texts is comparing the times they show.\<close>

lemma hhmm_text_less:
  assumes "h < 100" "m < 100" "h' < 100" "m' < 100"
  shows "hhmm_text h m < hhmm_text h' m' \<longleftrightarrow> h < h' \<or> (h = h' \<and> m < m')"
proof -
  have "CHR '':'' # two_digits m @ [] < CHR '':'' # two_digits m' @ [] \<longleftrightarrow> m < m'"
    using two_digits_less_append [OF assms(2,4), of "[]" "[]"] by simp
  then show ?thesis
    using two_digits_less_append [OF assms(1,3)] by (simp add: hhmm_text_def)
qed

lemma hhmm_text_le:
  assumes "h < 100" "m < 100" "h' < 100" "m' < 100"
  shows "hhmm_text h' m' \<le> hhmm_text h m \<longleftrightarrow> h' < h \<or> (h' = h \<and> m' \<le> m)"
  using hhmm_text_less [OF assms] by (auto simp flip: not_less)

end
