(* ===== verification/Schemas.thy ===== *)
theory Schemas
  imports Prelude
begin

text \<open>
  The data the engines exchange: the pydantic models of \<open>backend/state/schemas\<close> as records and
  datatypes, with the validators' constraints as boolean predicates, and the option-chain leaf
  of \<open>market_data:indexes:{idx}:option_chain\<close>.  A \<open>datetime\<close> is its epoch in milliseconds.
  A JSON object read with \<open>.get\<close> is a record of optional fields, \<open>None\<close> where the key is
  missing or null.
\<close>

section \<open>Signals\<close>

datatype side = CE | PE

datatype signal_intent = FRESH_ENTRY | REVERSAL_FLIP | MANUAL_EXIT

record signal =
  s_sig_id :: string
  s_strategy_id :: string
  s_instrument_id :: index_name
  s_index :: index_name
  s_side :: side
  s_strike :: int
  s_instrument_token :: token
  s_intent :: signal_intent
  s_qty_lots :: int
  s_score :: "rat option"
  s_score_breakdown :: "(string \<times> int) list"
  s_net_pressure :: "rat option"
  s_decision_ts :: int
  s_diff :: rat
  s_sum_ce :: rat
  s_sum_pe :: rat
  s_delta :: rat
  s_delta_pcr :: "rat option"
  s_strategy_version :: string
  s_ts :: int

definition schema_indexes :: "index_name list" where
  "schema_indexes = [''nifty50'', ''banknifty'', ''sensex'']"

definition signal_valid :: "signal \<Rightarrow> bool" where
  "signal_valid s \<longleftrightarrow>
     s_instrument_id s \<in> set schema_indexes \<and> s_index s \<in> set schema_indexes \<and> 0 < s_qty_lots s"

section \<open>Positions\<close>

datatype exit_reason =
    ER_HARD_SL | ER_HARD_TARGET | ER_TRAILING_SL | ER_REVERSAL_FLIP | ER_TIME_EXIT | ER_EOD
  | ER_LIQUIDITY | ER_DAILY_LOSS_CIRCUIT | ER_MANUAL | ER_STRATEGY_EXIT

fun exit_reason_value :: "exit_reason \<Rightarrow> string" where
  "exit_reason_value ER_HARD_SL = ''HARD_SL''"
| "exit_reason_value ER_HARD_TARGET = ''HARD_TARGET''"
| "exit_reason_value ER_TRAILING_SL = ''TRAILING_SL''"
| "exit_reason_value ER_REVERSAL_FLIP = ''REVERSAL_FLIP''"
| "exit_reason_value ER_TIME_EXIT = ''TIME_EXIT''"
| "exit_reason_value ER_EOD = ''EOD''"
| "exit_reason_value ER_LIQUIDITY = ''LIQUIDITY''"
| "exit_reason_value ER_DAILY_LOSS_CIRCUIT = ''DAILY_LOSS_CIRCUIT''"
| "exit_reason_value ER_MANUAL = ''MANUAL''"
| "exit_reason_value ER_STRATEGY_EXIT = ''STRATEGY_EXIT''"

datatype position_stage =
    GATE_PREENTRY | ENTRY_SUBMITTING | ENTRY_OPEN | ENTRY_FILLED | EXIT_EVAL | EXIT_SUBMITTING
  | EXIT_OPEN | EXIT_FILLED | REPORTING | CLEANUP | DONE | ABORTED

record exit_profile =
  xp_sl_pct :: rat
  xp_target_pct :: rat
  xp_tsl_arm_pct :: rat
  xp_tsl_trail_pct :: rat
  xp_max_hold_sec :: int

record position =
  p_pos_id :: string
  p_sig_id :: string
  p_index :: index_name
  p_side :: side
  p_strike :: int
  p_instrument_token :: token
  p_qty :: int
  p_entry_order_id :: string
  p_exit_order_id :: "string option"
  p_entry_price :: money
  p_entry_ts :: int
  p_exit_price :: "money option"
  p_exit_ts :: "int option"
  p_mode :: string
  p_intent :: signal_intent
  p_sl_level :: money
  p_target_level :: money
  p_tsl_armed :: bool
  p_tsl_arm_pct :: rat
  p_tsl_trail_pct :: rat
  p_tsl_level :: "money option"
  p_peak_premium :: money
  p_current_premium :: money
  p_pnl :: money
  p_pnl_pct :: rat
  p_holding_seconds :: int
  p_exit_profile :: exit_profile
  p_sum_ce_at_entry :: rat
  p_sum_pe_at_entry :: rat
  p_delta_pcr_at_entry :: "rat option"
  p_strategy_version :: string

definition position_valid :: "position \<Rightarrow> bool" where
  "position_valid p \<longleftrightarrow>
     p_index p \<in> {''nifty50'', ''banknifty''} \<and> 0 < p_qty p \<and>
     p_mode p \<in> {''paper'', ''live''} \<and> p_intent p \<in> {FRESH_ENTRY, REVERSAL_FLIP} \<and>
     0 < xp_max_hold_sec (p_exit_profile p)"

section \<open>Order events and reports\<close>

text \<open>One record for the event dictionaries of the order trail: those the engine appends
  itself and those it reads back from \<open>orders:stream:order_events\<close>.\<close>

record order_event =
  oe_ts :: "int option"
  oe_event_type :: string
  oe_order_id :: string
  oe_qty :: "int option"
  oe_price :: "money option"
  oe_broker_status :: "string option"
  oe_note :: "string option"
  oe_filled_qty :: "int option"
  oe_avg_price :: "money option"
  oe_reject_reason :: "string option"

record market_snapshot =
  ms_ts :: int
  ms_spot :: rat
  ms_sum_ce :: rat
  ms_sum_pe :: rat
  ms_delta :: rat
  ms_delta_pcr_cumulative :: "rat option"

record latencies =
  lt_signal_to_submit_ms :: int
  lt_submit_to_ack_ms :: int
  lt_ack_to_fill_ms :: int
  lt_decision_to_exit_submit_ms :: int
  lt_exit_submit_to_fill_ms :: int

record pnl_breakdown =
  pb_gross :: money
  pb_charges :: money
  pb_slippage :: money
  pb_net :: money

record eval_entry =
  ee_ts_ms :: int
  ee_premium :: money
  ee_should_exit :: bool
  ee_reason :: "exit_reason option"

record trail_entry =
  te_ts_ms :: int
  te_peak :: money
  te_tsl_level :: "money option"

record report =
  r_sig_id :: string
  r_index :: index_name
  r_mode :: string
  r_side :: side
  r_strike :: int
  r_instrument_token :: token
  r_qty :: int
  r_entry_ts :: int
  r_exit_ts :: int
  r_holding_seconds :: int
  r_entry_price :: money
  r_exit_price :: money
  r_pnl :: money
  r_pnl_pct :: rat
  r_exit_reason :: exit_reason
  r_intent :: signal_intent
  r_signal_snapshot :: "signal option"
  r_market_snapshot_entry :: market_snapshot
  r_market_snapshot_exit :: market_snapshot
  r_exit_eval_history :: "eval_entry list option"
  r_trailing_history :: "trail_entry list option"
  r_order_events :: "order_event list"
  r_latencies :: latencies
  r_pnl_breakdown :: pnl_breakdown
  r_strategy_version :: string

definition report_valid :: "report \<Rightarrow> bool" where
  "report_valid r \<longleftrightarrow>
     r_index r \<in> {''nifty50'', ''banknifty''} \<and> r_mode r \<in> {''paper'', ''live''} \<and>
     0 < r_qty r \<and> 0 \<le> r_holding_seconds r \<and> r_intent r \<in> {FRESH_ENTRY, REVERSAL_FLIP}"

section \<open>Runtime configuration\<close>

record execution_config =
  buffer_inr :: "money option"
  eod_buffer_inr :: "money option"
  spread_skip_pct :: "rat option"
  drift_threshold_inr :: "money option"
  chase_ceiling_inr :: "money option"
  open_timeout_sec :: "int option"
  partial_grace_sec :: "int option"
  max_retries :: "int option"
  worker_pool_size :: "int option"
  liquidity_exit_suppress_after :: "string option"

record risk_config =
  daily_loss_circuit_pct :: "rat option"
  max_concurrent_positions :: "int option"
  trading_capital_inr :: "money option"

text \<open>\<open>strategy:configs:strategies:{sid}:instruments:{idx}\<close>: the instrument blob that order
  execution and the strategy vessels share.\<close>

record index_config =
  strike_step :: "int option"
  lot_size :: "int option"
  qty_lots :: "int option"
  basket_size :: "int option"
  spread_good_inr :: "money option"
  spread_moderate_inr :: "money option"
  sl_pct :: "rat option"
  target_pct :: "rat option"
  tsl_arm_pct :: "rat option"
  tsl_trail_pct :: "rat option"
  max_hold_sec :: "int option"
  post_sl_cooldown_sec :: "int option"
  post_reversal_cooldown_sec :: "int option"
  post_strategy_exit_cooldown_sec :: "int option"

text \<open>The empty JSON objects.\<close>

definition empty_execution_config :: execution_config where
  "empty_execution_config = \<lparr>buffer_inr = None, eod_buffer_inr = None, spread_skip_pct = None,
     drift_threshold_inr = None, chase_ceiling_inr = None, open_timeout_sec = None,
     partial_grace_sec = None, max_retries = None, worker_pool_size = None,
     liquidity_exit_suppress_after = None\<rparr>"

definition empty_risk_config :: risk_config where
  "empty_risk_config = \<lparr>daily_loss_circuit_pct = None, max_concurrent_positions = None,
     trading_capital_inr = None\<rparr>"

definition empty_index_config :: index_config where
  "empty_index_config = \<lparr>strike_step = None, lot_size = None, qty_lots = None, basket_size = None,
     spread_good_inr = None, spread_moderate_inr = None, sl_pct = None, target_pct = None,
     tsl_arm_pct = None, tsl_trail_pct = None, max_hold_sec = None, post_sl_cooldown_sec = None,
     post_reversal_cooldown_sec = None, post_strategy_exit_cooldown_sec = None\<rparr>"

section \<open>Option chain\<close>

record leaf =
  l_token :: "token option"
  l_ltp :: "money option"
  l_bid :: "money option"
  l_ask :: "money option"
  l_bid_qty :: "int option"
  l_ask_qty :: "int option"
  l_bid_prices :: "money option list option"
  l_ask_prices :: "money option list option"
  l_bid_qtys :: "int option list option"
  l_ask_qtys :: "int option list option"
  l_total_bid_qty :: "int option"
  l_total_ask_qty :: "int option"
  l_vol :: "int option"
  l_oi :: "int option"
  l_ts :: "int option"

text \<open>The text of the two literal fields, written and read back.\<close>

fun side_value :: "side \<Rightarrow> string" where
  "side_value CE = ''CE''"
| "side_value PE = ''PE''"

fun intent_value :: "signal_intent \<Rightarrow> string" where
  "intent_value FRESH_ENTRY = ''FRESH_ENTRY''"
| "intent_value REVERSAL_FLIP = ''REVERSAL_FLIP''"
| "intent_value MANUAL_EXIT = ''MANUAL_EXIT''"

definition side_of_text :: "string \<Rightarrow> side option" where
  "side_of_text s = (if s = ''CE'' then Some CE else if s = ''PE'' then Some PE else None)"

definition intent_of_text :: "string \<Rightarrow> signal_intent option" where
  "intent_of_text s =
     (if s = ''FRESH_ENTRY'' then Some FRESH_ENTRY else if s = ''REVERSAL_FLIP'' then Some REVERSAL_FLIP
      else if s = ''MANUAL_EXIT'' then Some MANUAL_EXIT else None)"

text \<open>\<open>{strike: {"ce": leaf | None, "pe": leaf | None}}\<close>, in insertion order.\<close>

type_synonym sides = "leaf option \<times> leaf option"
type_synonym chain = "(string \<times> sides) list"

definition token_matches :: "token \<Rightarrow> leaf option \<Rightarrow> bool" where
  "token_matches tok lf = (case lf of None \<Rightarrow> False | Some l \<Rightarrow> l_token l = Some tok)"

fun find_leaf :: "chain \<Rightarrow> token \<Rightarrow> leaf option" where
  "find_leaf [] tok = None"
| "find_leaf ((_, ce, pe) # rest) tok =
     (if token_matches tok ce then ce
      else if token_matches tok pe then pe
      else find_leaf rest tok)"

section \<open>Lemmas\<close>

lemma side_of_text_value [simp]: "side_of_text (side_value s) = Some s"
  by (cases s) (simp_all add: side_of_text_def)

lemma intent_of_text_value [simp]: "intent_of_text (intent_value i) = Some i"
  by (cases i) (simp_all add: intent_of_text_def)

lemma find_leaf_token: "find_leaf ch tok = Some l \<Longrightarrow> l_token l = Some tok"
  by (induction ch tok rule: find_leaf.induct)
     (auto simp: token_matches_def split: if_splits option.splits)

lemma find_leaf_in_chain:
  "find_leaf ch tok = Some l \<Longrightarrow> \<exists>k ce pe. (k, ce, pe) \<in> set ch \<and> (ce = Some l \<or> pe = Some l)"
  by (induction ch tok rule: find_leaf.induct) (fastforce split: if_splits)+

lemma exit_reason_value_inject [simp]:
  "exit_reason_value a = exit_reason_value b \<longleftrightarrow> a = b"
  by (cases a; cases b) simp_all

end
