(* ===== verification/Store.thy ===== *)
theory Store
  imports Schemas
begin

text \<open>
  The shared Redis state of the trading engines as one record, a field per key family of
  \<open>backend/state/keys.py\<close> that order execution and the strategy vessels read or write.  Keys
  parameterised by an index or an id are functions of it; the per-vessel keys are those of
  \<open>DEFAULT_STRATEGY_ID\<close>, the only ones order execution uses.  \<open>None\<close> is a missing key; sets, lists
  and streams are empty when missing, as in Redis.  A hash or stream value is kept as the
  Python value its text denotes (\<open>hval\<close>).  \<open>w_now_ms\<close> and \<open>w_now_hhmm\<close> are the clock readings
  (\<open>int(time.time() * 1000)\<close> and the IST \<open>HH:MM\<close> text) a handler makes between two polls.
\<close>

section \<open>Hash and stream values\<close>

datatype hval =
    HText string
  | HInt int
  | HFloat rat
  | HBool bool
  | HTime int
  | HProfile exit_profile
  | HMap "(string \<times> int) list"

text \<open>\<open>if not value\<close> on the decoded text: only the empty text is falsy.\<close>

fun hval_empty :: "hval \<Rightarrow> bool" where
  "hval_empty (HText s) = (s = [])"
| "hval_empty _ = False"

fun hval_text :: "hval \<Rightarrow> string option" where
  "hval_text (HText s) = Some s"
| "hval_text (HInt i) = Some (str_int i)"
| "hval_text _ = None"

text \<open>\<open>int(text)\<close> and \<open>float(text)\<close>; \<open>None\<close> is the ValueError.\<close>

fun hval_int :: "hval \<Rightarrow> int option" where
  "hval_int (HInt i) = Some i"
| "hval_int (HText s) = int_of_str s"
| "hval_int _ = None"

fun hval_float :: "hval \<Rightarrow> rat option" where
  "hval_float (HInt i) = Some (of_int i)"
| "hval_float (HFloat r) = Some r"
| "hval_float (HText s) = map_option of_int (int_of_str s)"
| "hval_float _ = None"

type_synonym hash = "string \<Rightarrow> hval option"

section \<open>Per-vessel keys\<close>

record vessel =
  v_enabled :: "string option"
  v_state :: "string option"
  v_current_position_id :: "string option"
  v_cooldown_until_ts :: "int option"
  v_cooldown_reason :: "string option"
  v_entries_today :: int
  v_reversals_today :: int
  v_wins_today :: int

section \<open>Allocator keys\<close>

text \<open>\<open>orders:allocator:deployed\<close> and \<open>orders:allocator:open_count\<close> are hashes read with
  \<open>hget(...) or 0\<close> and written with HINCRBY, so a missing field is 0.\<close>

record allocator_db =
  deployed :: "string \<Rightarrow> money"
  open_count :: "string \<Rightarrow> int"
  open_symbols :: "string set"

section \<open>Broker snapshots\<close>

record kill_switch_entry =
  ks_segment :: "string option"
  ks_segment_status :: "string option"
  ks_enabled :: bool

text \<open>\<open>user:capital:kill_switch\<close>: the poller caches the broker's list, the API gateway caches
  \<open>{"segments": list}\<close>.\<close>

datatype kill_switch_blob =
    KsList "kill_switch_entry list"
  | KsSegments "kill_switch_entry list"

datatype auth_blob = AuthDict "string option" | AuthBare string

section \<open>The world\<close>

record world =
  w_now_ms :: int
  w_now_hhmm :: string
  w_trading_active :: "string option"
  w_daily_loss_circuit :: "string option"
  w_order_exec_up :: "string option"
  w_mode_today :: "string option"
  w_mode :: "string option"
  w_kill_switch :: "kill_switch_blob option"
  w_access_token :: "auth_blob option"
  w_execution_config :: "execution_config option"
  w_risk_config :: "risk_config option"
  w_index_config :: "string \<Rightarrow> index_name \<Rightarrow> index_config option"
  w_chain :: "index_name \<Rightarrow> chain option"
  w_spot :: "index_name \<Rightarrow> money option"
  w_alloc :: allocator_db
  w_vessel :: "index_name \<Rightarrow> vessel"
  w_positions :: "string \<Rightarrow> hash option"
  w_status :: "string \<Rightarrow> (position_stage \<times> string \<times> int) option"
  w_signals :: "string \<Rightarrow> signal option"
  w_orders :: "string set"
  w_broker_pos :: "string set"
  w_broker_open_orders :: "string set"
  w_open :: "string set"
  w_open_by_index :: "index_name \<Rightarrow> string set"
  w_closed_today :: "string set"
  w_exit_pull :: "string \<Rightarrow> string option"
  w_reports_pending :: "report list"
  w_rejected :: "(string \<times> index_name \<times> string) list"

text \<open>\<open>K._validate_index\<close>: every index-keyed helper raises ValueError for anything else,
  \<open>sensex\<close> included.\<close>

definition valid_index :: "index_name \<Rightarrow> bool" where
  "valid_index i \<longleftrightarrow> i \<in> {''nifty50'', ''banknifty''}"

definition DEFAULT_STRATEGY_ID :: string where
  "DEFAULT_STRATEGY_ID = ''bid_ask_imbalance_v1''"

text \<open>\<open>K._validate_strategy_id\<close>: non-empty and, without underscores, \<open>isalnum()\<close> (ASCII text).\<close>

definition is_alnum :: "char \<Rightarrow> bool" where
  "is_alnum c \<longleftrightarrow>
     (let n = (of_char c :: nat) in 48 \<le> n \<and> n \<le> 57 \<or> 65 \<le> n \<and> n \<le> 90 \<or> 97 \<le> n \<and> n \<le> 122)"

definition valid_strategy_id :: "string \<Rightarrow> bool" where
  "valid_strategy_id sid \<longleftrightarrow>
     (let r = filter (\<lambda>c. c \<noteq> CHR ''_'') sid in r \<noteq> [] \<and> list_all is_alnum r)"

datatype pyexc =
    ValueError | JSONDecodeError | ValidationError | AttributeError | TypeError | OverflowError | KeyError | RuntimeError

definition upd_vessel :: "index_name \<Rightarrow> (vessel \<Rightarrow> vessel) \<Rightarrow> world \<Rightarrow> world" where
  "upd_vessel i f w = w\<lparr>w_vessel := (w_vessel w)(i := f (w_vessel w i))\<rparr>"

text \<open>\<open>_read_leaf\<close> / \<open>_read_leaf_for_token\<close>: the first leg of the cached chain with the token.\<close>

definition read_leaf :: "world \<Rightarrow> index_name \<Rightarrow> token \<Rightarrow> leaf option" where
  "read_leaf w idx tok = (case w_chain w idx of None \<Rightarrow> None | Some ch \<Rightarrow> find_leaf ch tok)"

definition read_execution_config :: "world \<Rightarrow> execution_config" where
  "read_execution_config w = get_or (w_execution_config w) empty_execution_config"

definition read_risk_config :: "world \<Rightarrow> risk_config" where
  "read_risk_config w = get_or (w_risk_config w) empty_risk_config"

definition read_index_config :: "world \<Rightarrow> index_name \<Rightarrow> index_config" where
  "read_index_config w idx = get_or (w_index_config w DEFAULT_STRATEGY_ID idx) empty_index_config"

text \<open>A flushed Redis, for concrete runs.\<close>

definition boot_world :: world where
  "boot_world = \<lparr>w_now_ms = 0, w_now_hhmm = ''09:20'', w_trading_active = None,
     w_daily_loss_circuit = None, w_order_exec_up = None, w_mode_today = None, w_mode = None,
     w_kill_switch = None, w_access_token = None, w_execution_config = None, w_risk_config = None,
     w_index_config = (\<lambda>_ _. None), w_chain = (\<lambda>_. None), w_spot = (\<lambda>_. None),
     w_alloc = \<lparr>deployed = (\<lambda>_. 0), open_count = (\<lambda>_. 0), open_symbols = {}\<rparr>,
     w_vessel = (\<lambda>_. \<lparr>v_enabled = Some ''true'', v_state = Some ''FLAT'',
       v_current_position_id = Some [], v_cooldown_until_ts = Some 0, v_cooldown_reason = Some [],
       v_entries_today = 0, v_reversals_today = 0, v_wins_today = 0\<rparr>),
     w_positions = (\<lambda>_. None), w_status = (\<lambda>_. None), w_signals = (\<lambda>_. None), w_orders = {},
     w_broker_pos = {}, w_broker_open_orders = {}, w_open = {}, w_open_by_index = (\<lambda>_. {}),
     w_closed_today = {}, w_exit_pull = (\<lambda>_. None), w_reports_pending = [], w_rejected = []\<rparr>"

section \<open>Lemmas\<close>

lemma upd_vessel_simps [simp]:
  "w_alloc (upd_vessel i f w) = w_alloc w"
  "w_positions (upd_vessel i f w) = w_positions w"
  "w_open (upd_vessel i f w) = w_open w"
  "w_open_by_index (upd_vessel i f w) = w_open_by_index w"
  "w_closed_today (upd_vessel i f w) = w_closed_today w"
  "w_reports_pending (upd_vessel i f w) = w_reports_pending w"
  "w_exit_pull (upd_vessel i f w) = w_exit_pull w"
  "w_status (upd_vessel i f w) = w_status w"
  "w_rejected (upd_vessel i f w) = w_rejected w"
  "w_now_ms (upd_vessel i f w) = w_now_ms w"
  "w_vessel (upd_vessel i f w) j = (if j = i then f (w_vessel w i) else w_vessel w j)"
  by (simp_all add: upd_vessel_def)

lemma world_alloc_self [simp]: "w\<lparr>w_alloc := w_alloc w\<rparr> = w"
  by simp

lemma read_leaf_token: "read_leaf w idx tok = Some l \<Longrightarrow> l_token l = Some tok"
  by (auto simp: read_leaf_def split: option.splits dest: find_leaf_token)

end
