(* ===== verification/Allocator.thy ===== *)
theory Allocator
  imports Store
begin

text \<open>
  \<open>backend/engines/order_exec/allocator.py\<close>: the capital and concurrency reservation shared by
  all order-execution workers.  \<open>reserve_txn\<close> is the callable run under WATCH/MULTI/EXEC,
  \<open>check_and_reserve\<close> the bounded retry around it, \<open>release\<close> the unconditional give-back.
  The abstract contract is a ledger \<open>index \<rightharpoonup> premium\<close>; \<open>ledger_rel\<close> says that the three
  Redis structures are exactly that ledger, every operation refines its abstract counterpart,
  and the caps hold in every reachable state.  The locale \<open>slot_allocator\<close> is the interface the
  worker relies on.
\<close>

section \<open>Model\<close>

definition TXN_MAX_RETRIES :: nat where
  "TXN_MAX_RETRIES = 5"

type_synonym reserve_result = "bool \<times> string \<times> money \<times> int"

definition reserve_txn ::
  "allocator_db \<Rightarrow> index_name \<Rightarrow> money \<Rightarrow> money \<Rightarrow> int \<Rightarrow> reserve_result \<times> allocator_db"
where
  "reserve_txn db idx premium capital max_conc =
     (if idx \<in> open_symbols db then
        ((False, ''ALREADY_OPEN_ON_INDEX'', deployed db ''total'', open_count db ''total''), db)
      else if max_conc < open_count db ''total'' + 1 then
        ((False, ''MAX_CONCURRENT_REACHED'', deployed db ''total'', open_count db ''total''), db)
      else if capital < deployed db ''total'' + premium then
        ((False, ''INSUFFICIENT_CAPITAL'', deployed db ''total'', open_count db ''total''), db)
      else
        (let d1 = (deployed db)(idx := deployed db idx + premium);
             d2 = d1(''total'' := d1 ''total'' + premium);
             c1 = (open_count db)(idx := open_count db idx + 1);
             c2 = c1(''total'' := c1 ''total'' + 1)
         in ((True, ''OK'', deployed db ''total'' + premium, open_count db ''total'' + 1),
             db\<lparr>deployed := d2, open_count := c2, open_symbols := insert idx (open_symbols db)\<rparr>)))"

text \<open>What one \<open>redis.transaction\<close> call does: commit, lose the optimistic lock to another client's
  write, or fail.  An exhausted list means no further interference.\<close>

datatype attempt = Commit | Conflict "allocator_db \<Rightarrow> allocator_db" | Fault

fun reserve_loop ::
  "nat \<Rightarrow> attempt list \<Rightarrow> allocator_db \<Rightarrow> index_name \<Rightarrow> money \<Rightarrow> money \<Rightarrow> int
     \<Rightarrow> reserve_result \<times> allocator_db"
where
  "reserve_loop 0 as db idx premium capital max_conc =
     ((False, ''ALLOCATOR_RETRY_EXHAUSTED'', 0, 0), db)"
| "reserve_loop (Suc n) [] db idx premium capital max_conc =
     reserve_txn db idx premium capital max_conc"
| "reserve_loop (Suc n) (Commit # as) db idx premium capital max_conc =
     reserve_txn db idx premium capital max_conc"
| "reserve_loop (Suc n) (Conflict f # as) db idx premium capital max_conc =
     reserve_loop n as (f db) idx premium capital max_conc"
| "reserve_loop (Suc n) (Fault # as) db idx premium capital max_conc =
     ((False, ''ALLOCATOR_ERROR'', 0, 0), db)"

definition check_and_reserve ::
  "attempt list \<Rightarrow> allocator_db \<Rightarrow> index_name \<Rightarrow> money \<Rightarrow> money \<Rightarrow> int
     \<Rightarrow> reserve_result \<times> allocator_db"
where
  "check_and_reserve as db idx premium capital max_conc =
     reserve_loop TXN_MAX_RETRIES as db idx premium capital max_conc"

definition release_db :: "allocator_db \<Rightarrow> index_name \<Rightarrow> money \<Rightarrow> allocator_db" where
  "release_db db idx premium =
     (let d1 = (deployed db)(idx := deployed db idx - premium);
          d2 = d1(''total'' := d1 ''total'' - premium);
          c1 = (open_count db)(idx := open_count db idx - 1);
          c2 = c1(''total'' := c1 ''total'' - 1)
      in db\<lparr>deployed := d2, open_count := c2, open_symbols := open_symbols db - {idx}\<rparr>)"

definition release ::
  "bool \<Rightarrow> allocator_db \<Rightarrow> index_name \<Rightarrow> money \<Rightarrow> (bool \<times> string) \<times> allocator_db"
where
  "release fault db idx premium =
     (if fault then ((False, ''ALLOCATOR_ERROR''), db) else ((True, ''OK''), release_db db idx premium))"

section \<open>Abstract contract\<close>

type_synonym ledger = "index_name \<Rightarrow> money option"

definition committed :: "ledger \<Rightarrow> money" where
  "committed L = (\<Sum>i \<in> dom L. the (L i))"

definition ledger_rel :: "allocator_db \<Rightarrow> ledger \<Rightarrow> bool" where
  "ledger_rel db L \<longleftrightarrow>
     finite (dom L) \<and> ''total'' \<notin> dom L \<and> open_symbols db = dom L \<and>
     (\<forall>i. i \<noteq> ''total'' \<longrightarrow> deployed db i = get_or (L i) 0) \<and>
     (\<forall>i. i \<noteq> ''total'' \<longrightarrow> open_count db i = (if i \<in> dom L then 1 else 0)) \<and>
     deployed db ''total'' = committed L \<and> open_count db ''total'' = int (card (dom L))"

definition admits :: "ledger \<Rightarrow> index_name \<Rightarrow> money \<Rightarrow> money \<Rightarrow> int \<Rightarrow> bool" where
  "admits L idx premium capital max_conc \<longleftrightarrow>
     L idx = None \<and> int (card (dom L)) + 1 \<le> max_conc \<and> committed L + premium \<le> capital"

definition empty_db :: allocator_db where
  "empty_db = \<lparr>deployed = (\<lambda>_. 0), open_count = (\<lambda>_. 0), open_symbols = {}\<rparr>"

text \<open>The allocator as the workers drive it: any worker may reserve at any moment, and a
  worker that holds a reservation releases it with the premium it reserved.\<close>

inductive alloc_step :: "money \<Rightarrow> int \<Rightarrow> allocator_db \<times> ledger \<Rightarrow> allocator_db \<times> ledger \<Rightarrow> bool"
  for capital :: money and max_conc :: int
where
  reserve_ok: "reserve_txn db i p capital max_conc = ((True, r), db') \<Longrightarrow> 0 < p \<Longrightarrow> i \<noteq> ''total'' \<Longrightarrow>
     alloc_step capital max_conc (db, L) (db', L(i \<mapsto> p))"
| reserve_no: "reserve_txn db i p capital max_conc = ((False, r), db') \<Longrightarrow>
     alloc_step capital max_conc (db, L) (db', L)"
| give_back: "L i = Some p \<Longrightarrow>
     alloc_step capital max_conc (db, L) (release_db db i p, L(i := None))"

inductive alloc_reachable :: "money \<Rightarrow> int \<Rightarrow> allocator_db \<Rightarrow> ledger \<Rightarrow> bool"
  for capital :: money and max_conc :: int
where
  start: "alloc_reachable capital max_conc empty_db Map.empty"
| step: "alloc_reachable capital max_conc db L \<Longrightarrow> alloc_step capital max_conc (db, L) (db', L') \<Longrightarrow>
     alloc_reachable capital max_conc db' L'"

inductive_cases alloc_stepE: "alloc_step capital max_conc (db, L) (db', L')"

section \<open>The interface\<close>

text \<open>What a client may rely on: a granted reservation is visible on its index only, refused
  ones change nothing, and giving back a held reservation restores the previous ledger.\<close>

locale slot_allocator =
  fixes try_reserve :: "'db \<Rightarrow> index_name \<Rightarrow> money \<Rightarrow> 'db option"
    and give :: "'db \<Rightarrow> index_name \<Rightarrow> money \<Rightarrow> 'db"
    and rel :: "'db \<Rightarrow> ledger \<Rightarrow> bool"
  assumes reserve_rel: "rel db L \<Longrightarrow> i \<noteq> ''total'' \<Longrightarrow> try_reserve db i p = Some db' \<Longrightarrow>
      L i = None \<and> rel db' (L(i \<mapsto> p))"
    and give_rel: "rel db L \<Longrightarrow> L i = Some p \<Longrightarrow> rel (give db i p) (L(i := None))"
    and rel_fun: "rel db L \<Longrightarrow> rel db L' \<Longrightarrow> L = L'"
begin

lemma reserve_give_back:
  assumes "rel db L" "i \<noteq> ''total''" "try_reserve db i p = Some db'"
  shows "rel (give db' i p) L"
proof -
  from reserve_rel [OF assms] have "L i = None" and r: "rel db' (L(i \<mapsto> p))" by auto
  with give_rel [OF r, of i p] show ?thesis by (simp add: fun_upd_idem)
qed

lemma no_second_reservation:
  assumes "rel db L" "L i = Some q" "i \<noteq> ''total''"
  shows "try_reserve db i p = None"
  using assms reserve_rel [of db L i p] by (cases "try_reserve db i p") auto

end

definition try_reserve :: "money \<Rightarrow> int \<Rightarrow> allocator_db \<Rightarrow> index_name \<Rightarrow> money \<Rightarrow> allocator_db option"
where
  "try_reserve capital max_conc db idx premium =
     (case reserve_txn db idx premium capital max_conc of
        ((True, _), db') \<Rightarrow> Some db'
      | ((False, _), _) \<Rightarrow> None)"

section \<open>Refinement lemmas\<close>

lemma committed_insert:
  assumes "finite (dom L)" "L i = None"
  shows "committed (L(i \<mapsto> p)) = committed L + p"
proof -
  have "i \<notin> dom L" using assms(2) by auto
  have "committed (L(i \<mapsto> p)) = (\<Sum>j \<in> insert i (dom L). the ((L(i \<mapsto> p)) j))"
    by (simp add: committed_def)
  also have "\<dots> = p + (\<Sum>j \<in> dom L. the ((L(i \<mapsto> p)) j))"
    using assms(1) \<open>i \<notin> dom L\<close> by simp
  also have "(\<Sum>j \<in> dom L. the ((L(i \<mapsto> p)) j)) = committed L"
    unfolding committed_def using \<open>i \<notin> dom L\<close> by (intro sum.cong) auto
  finally show ?thesis by (metis add.commute)
qed

lemma committed_delete:
  assumes "finite (dom L)" "L i = Some p"
  shows "committed (L(i := None)) = committed L - p"
proof -
  have "committed ((L(i := None))(i \<mapsto> p)) = committed (L(i := None)) + p"
    using assms(1) by (intro committed_insert) auto
  then show ?thesis using assms(2) by (simp add: fun_upd_idem)
qed

lemma committed_nonneg: "(\<forall>i p. L i = Some p \<longrightarrow> 0 \<le> p) \<Longrightarrow> 0 \<le> committed L"
  unfolding committed_def by (intro sum_nonneg) auto

lemma ledger_rel_empty: "ledger_rel empty_db Map.empty"
  by (simp add: ledger_rel_def empty_db_def committed_def)

lemma reserve_txn_refused: "reserve_txn db i p cap mx = ((False, r), db') \<Longrightarrow> db' = db"
  by (auto simp: reserve_txn_def Let_def split: if_splits)

lemma reserve_txn_ok_iff:
  assumes "ledger_rel db L"
  shows "fst (fst (reserve_txn db i p cap mx)) \<longleftrightarrow> admits L i p cap mx"
  using assms by (auto simp: reserve_txn_def ledger_rel_def admits_def Let_def not_less)

lemma reserve_txn_rel:
  assumes rel: "ledger_rel db L" and i: "i \<noteq> ''total''"
    and ok: "reserve_txn db i p cap mx = ((True, r), db')"
  shows "ledger_rel db' (L(i \<mapsto> p))"
proof -
  have adm: "L i = None" using reserve_txn_ok_iff [OF rel, of i p cap mx] ok by (simp add: admits_def)
  then have "i \<notin> dom L" by auto
  have fin: "finite (dom L)" using rel by (simp add: ledger_rel_def)
  have "deployed db' = (deployed db)(i := deployed db i + p, ''total'' := deployed db ''total'' + p)"
    and "open_count db' = (open_count db)(i := open_count db i + 1, ''total'' := open_count db ''total'' + 1)"
    and "open_symbols db' = insert i (open_symbols db)"
    using ok i by (auto simp: reserve_txn_def Let_def split: if_splits)
  then show ?thesis
    using rel i adm \<open>i \<notin> dom L\<close> committed_insert [OF fin adm, of p] fin
    by (auto simp: ledger_rel_def)
qed

lemma release_db_rel:
  assumes rel: "ledger_rel db L" and held: "L i = Some p"
  shows "ledger_rel (release_db db i p) (L(i := None))"
proof -
  have i: "i \<noteq> ''total''" and fin: "finite (dom L)" and mem: "i \<in> dom L"
    using rel held by (auto simp: ledger_rel_def)
  have card: "int (card (dom L - {i})) = int (card (dom L)) - 1"
    using fin mem by (simp add: of_nat_diff Suc_leI card_gt_0_iff) (metis One_nat_def Suc_leI card_gt_0_iff empty_iff of_nat_1 of_nat_diff)
  show ?thesis
    using rel i held fin card committed_delete [OF fin held]
    by (auto simp: ledger_rel_def release_db_def Let_def)
qed

lemma release_db_sel:
  assumes "i \<noteq> ''total''"
  shows "open_count (release_db db i p) =
      (open_count db)(i := open_count db i - 1, ''total'' := open_count db ''total'' - 1)"
    and "deployed (release_db db i p) =
      (deployed db)(i := deployed db i - p, ''total'' := deployed db ''total'' - p)"
    and "open_symbols (release_db db i p) = open_symbols db - {i}"
  using assms by (simp_all add: release_db_def Let_def)

lemma ledger_rel_fun:
  assumes "ledger_rel db L" "ledger_rel db L'"
  shows "L = L'"
proof
  fix i
  have dom: "dom L = dom L'" using assms by (simp add: ledger_rel_def)
  show "L i = L' i"
  proof (cases "L i")
    case None
    with dom have "i \<notin> dom L'" by blast
    with None show ?thesis by (simp add: domIff)
  next
    case (Some p)
    with dom obtain q where q: "L' i = Some q" by blast
    have "i \<noteq> ''total''" using assms(1) Some by (auto simp: ledger_rel_def)
    with assms Some q show ?thesis by (auto simp: ledger_rel_def)
  qed
qed

lemma try_reserve_Some:
  "try_reserve cap mx db i p = Some db' \<longleftrightarrow> (\<exists>r. reserve_txn db i p cap mx = ((True, r), db'))"
  by (auto simp: try_reserve_def split: prod.splits bool.splits)

interpretation slots: slot_allocator "try_reserve capital max_conc" release_db ledger_rel
proof unfold_locales
  fix db L i p db'
  assume "ledger_rel db L" "i \<noteq> ''total''" "try_reserve capital max_conc db i p = Some db'"
  then show "L i = None \<and> ledger_rel db' (L(i \<mapsto> p))"
    using reserve_txn_ok_iff [of db L i p capital max_conc]
    by (auto simp: try_reserve_Some admits_def intro: reserve_txn_rel)
qed (auto intro: release_db_rel ledger_rel_fun)

lemma alloc_reachable_rel:
  assumes "alloc_reachable cap mx db L"
  shows "ledger_rel db L \<and> (\<forall>i p. L i = Some p \<longrightarrow> 0 < p) \<and>
    (0 \<le> cap \<longrightarrow> committed L \<le> cap) \<and> (0 \<le> mx \<longrightarrow> int (card (dom L)) \<le> mx)"
  using assms
proof (induction rule: alloc_reachable.induct)
  case start
  show ?case by (simp add: ledger_rel_empty) (simp add: committed_def)
next
  case (step db L db' L')
  then have rel: "ledger_rel db L" and fin: "finite (dom L)" by (auto simp: ledger_rel_def)
  from step.hyps(2) show ?case
  proof (cases rule: alloc_step.cases)
    case (reserve_ok i p r)
    have adm: "admits L i p cap mx" using reserve_ok(2) reserve_txn_ok_iff [OF rel, of i p cap mx] by simp
    then have "L i = None" by (simp add: admits_def)
    moreover from this have "i \<notin> dom L" by auto
    ultimately have "card (dom L') = Suc (card (dom L))" "committed L' = committed L + p"
      using fin committed_insert [OF fin, of i p] unfolding reserve_ok(1) by simp_all
    moreover have "ledger_rel db' L'"
      unfolding reserve_ok(1) using reserve_txn_rel [OF rel reserve_ok(4,2)] .
    moreover have "\<forall>j q. L' j = Some q \<longrightarrow> 0 < q" using step.IH reserve_ok(1,3) by simp
    ultimately show ?thesis using adm by (simp add: admits_def)
  next
    case (reserve_no i p r)
    with step.IH reserve_txn_refused [OF reserve_no(2)] show ?thesis by simp
  next
    case (give_back i p)
    have "0 < p" using step.IH give_back by blast
    then have "committed L' \<le> committed L" "card (dom L') \<le> card (dom L)"
      using fin committed_delete [OF fin give_back(3)] unfolding give_back(2)
      by (simp_all add: card_Diff1_le)
    moreover have "ledger_rel db' L'"
      unfolding give_back(1,2) using release_db_rel [OF rel give_back(3)] .
    moreover have "\<forall>j q. L' j = Some q \<longrightarrow> 0 < q" using step.IH give_back(2) by simp
    ultimately show ?thesis using step.IH by fastforce
  qed
qed

lemma reserve_loop_refused_frame:
  assumes "\<forall>a \<in> set as. \<not> (\<exists>f. a = Conflict f)"
    and "reserve_loop n as db i p cap mx = ((False, r), db')"
  shows "db' = db"
proof (cases n)
  case 0
  with assms show ?thesis by simp
next
  case (Suc m)
  show ?thesis
  proof (cases as)
    case Nil
    with Suc assms(2) show ?thesis by (auto dest: reserve_txn_refused)
  next
    case (Cons a rest)
    with assms Suc show ?thesis by (cases a) (auto dest: reserve_txn_refused)
  qed
qed

lemma reserve_loop_conflicts:
  "length fs < n \<Longrightarrow>
     reserve_loop n (map Conflict fs @ Commit # rest) db i p cap mx =
       reserve_txn (fold (\<lambda>f. f) fs db) i p cap mx"
proof (induction fs arbitrary: n db)
  case Nil
  then show ?case by (cases n) auto
next
  case (Cons f fs)
  then show ?case by (cases n) auto
qed

section \<open>Properties\<close>





text \<open>\<open>release\<close> is the exact inverse of a granted reservation, but it is not
  idempotent: a second release of the same reservation drives the index's and the global slot
  count below zero by one more, and the deployed capital below the truth by the premium.\<close>

theorem release_twice_corrupts:
  assumes "ledger_rel db L" and "L i = Some p"
  shows "ledger_rel (release_db db i p) (L(i := None)) \<and>
     open_count (release_db (release_db db i p) i p) i = -1 \<and>
     open_count (release_db (release_db db i p) i p) ''total'' = int (card (dom L)) - 2 \<and>
     deployed (release_db (release_db db i p) i p) ''total'' = committed (L(i := None)) - p"
proof -
  have i: "i \<noteq> ''total''" and fin: "finite (dom L)" and mem: "i \<in> dom L"
    using assms by (auto simp: ledger_rel_def)
  have vals: "open_count db i = 1" "open_count db ''total'' = int (card (dom L))"
    "deployed db ''total'' = committed L"
    using assms(1) i mem by (simp_all add: ledger_rel_def)
  show ?thesis
    by (simp add: release_db_rel [OF assms] release_db_sel [OF i] i vals committed_delete [OF fin assms(2)])
qed

theorem release_twice_corrupts_witness:
  "open_count (release_db (release_db (snd (reserve_txn empty_db ''nifty50'' 750 20000 2))
     ''nifty50'' 750) ''nifty50'' 750) ''total'' = -1"
proof -
  have "ledger_rel (snd (reserve_txn empty_db ''nifty50'' 750 20000 2)) [''nifty50'' \<mapsto> 750]"
    by (simp add: ledger_rel_def reserve_txn_def empty_db_def Let_def committed_def)
  from release_twice_corrupts [OF this, of "''nifty50''" 750] show ?thesis by simp
qed

end
