(* ===== verification/PreEntryGate.thy ===== *)
theory PreEntryGate
  imports Allocator
begin

text \<open>
  \<open>backend/engines/order_exec/pre_entry_gate.py\<close>, stage A of the order pipeline: the read-only
  gates \<open>check\<close> in the order the code tests them, and \<open>gate_check_and_reserve\<close>, which adds the
  atomic capital reservation.  An index that \<open>keys.py\<close> does not know makes the chain read raise.
\<close>

section \<open>Model\<close>

fun segment_entry_engaged :: "string \<Rightarrow> kill_switch_entry list \<Rightarrow> bool" where
  "segment_entry_engaged seg [] = False"
| "segment_entry_engaged seg (e # es) =
     (if ks_segment e = Some seg
      then (if ks_segment_status e \<noteq> Some ''ACTIVE'' then True else ks_enabled e)
      else segment_entry_engaged seg es)"

definition kill_switch_engaged :: "world \<Rightarrow> string \<Rightarrow> bool" where
  "kill_switch_engaged w seg =
     (case w_kill_switch w of
        None \<Rightarrow> False
      | Some (KsList es) \<Rightarrow> segment_entry_engaged seg es
      | Some (KsSegments es) \<Rightarrow> False)"

definition check_quotes :: "execution_config \<Rightarrow> leaf \<Rightarrow> bool \<times> string" where
  "check_quotes cfg lf =
     (let skip = num_or (spread_skip_pct cfg) 0.05;
          ltp = num_or (l_ltp lf) 0; bid = num_or (l_bid lf) 0; ask = num_or (l_ask lf) 0
      in if ltp \<le> 0 \<or> bid \<le> 0 \<or> ask \<le> 0 then (False, ''no_quotes'')
         else if ask \<le> bid then (False, ''crossed_book'')
         else if skip < (ask - bid) / ltp
           then (False, ''spread_too_wide:'' @ fmt_fixed 4 ((ask - bid) / ltp))
         else (True, ''ok''))"

definition check :: "world \<Rightarrow> signal \<Rightarrow> pyexc + (bool \<times> string)" where
  "check w sig =
     (if decode (w_trading_active w) \<noteq> ''true'' then Inr (False, ''trading_inactive'')
      else if decode (w_daily_loss_circuit w) = ''true'' then Inr (False, ''daily_loss_circuit'')
      else if kill_switch_engaged w ''NSE_FO'' then Inr (False, ''kill_switch_engaged'')
      else if decode (w_order_exec_up w) \<noteq> ''true'' then Inr (False, ''order_exec_not_up'')
      else if \<not> valid_index (s_index sig) then Inl ValueError
      else case read_leaf w (s_index sig) (s_instrument_token sig) of
             None \<Rightarrow> Inr (False, ''leaf_missing'')
           | Some lf \<Rightarrow> Inr (check_quotes (read_execution_config w) lf))"

definition compute_premium_required :: "leaf \<Rightarrow> int \<Rightarrow> int \<Rightarrow> money" where
  "compute_premium_required lf lots lot =
     (let ask = num_or (l_ask lf) 0; ask' = (if ask \<le> 0 then num_or (l_ltp lf) 0 else ask)
      in of_int lots * of_int lot * ask')"

definition gate_check_and_reserve ::
  "attempt list \<Rightarrow> world \<Rightarrow> signal \<Rightarrow> pyexc + (bool \<times> string \<times> money \<times> world)"
where
  "gate_check_and_reserve as w sig =
     (case check w sig of
        Inl e \<Rightarrow> Inl e
      | Inr (False, reason) \<Rightarrow> Inr (False, reason, 0, w)
      | Inr (True, _) \<Rightarrow>
          (case read_leaf w (s_index sig) (s_instrument_token sig) of
             None \<Rightarrow> Inr (False, ''leaf_missing'', 0, w)
           | Some lf \<Rightarrow>
               (let lot = num_or (lot_size (read_index_config w (s_index sig))) 1;
                    rc = read_risk_config w;
                    capital = num_or (trading_capital_inr rc) 0;
                    max_conc = num_or (max_concurrent_positions rc) 0;
                    premium = compute_premium_required lf (s_qty_lots sig) lot
                in if capital \<le> 0 then Inr (False, ''allocator_no_capital_configured'', 0, w)
                   else if max_conc \<le> 0 then Inr (False, ''allocator_no_concurrency_configured'', 0, w)
                   else if premium \<le> 0 then Inr (False, ''allocator_premium_zero'', 0, w)
                   else (case check_and_reserve as (w_alloc w) (s_index sig) premium capital max_conc of
                           ((ok, reason, _, _), db) \<Rightarrow>
                             if ok then Inr (True, ''ok'', premium, w\<lparr>w_alloc := db\<rparr>)
                             else Inr (False, ''allocator_'' @ py_lower reason, 0, w\<lparr>w_alloc := db\<rparr>)))))"

text \<open>The gate's contract, stated without the code's order of tests.\<close>

definition tradeable_quotes :: "execution_config \<Rightarrow> leaf \<Rightarrow> bool" where
  "tradeable_quotes cfg lf \<longleftrightarrow>
     (\<exists>ltp bid ask. l_ltp lf = Some ltp \<and> l_bid lf = Some bid \<and> l_ask lf = Some ask \<and>
        0 < ltp \<and> 0 < bid \<and> bid < ask \<and> (ask - bid) / ltp \<le> num_or (spread_skip_pct cfg) 0.05)"

definition gate_open :: "world \<Rightarrow> signal \<Rightarrow> bool" where
  "gate_open w sig \<longleftrightarrow>
     w_trading_active w = Some ''true'' \<and> w_daily_loss_circuit w \<noteq> Some ''true'' \<and>
     \<not> kill_switch_engaged w ''NSE_FO'' \<and> w_order_exec_up w = Some ''true'' \<and>
     valid_index (s_index sig) \<and>
     (\<exists>lf. read_leaf w (s_index sig) (s_instrument_token sig) = Some lf \<and>
        tradeable_quotes (read_execution_config w) lf)"

abbreviation risk_capital :: "world \<Rightarrow> money" where
  "risk_capital w \<equiv> num_or (trading_capital_inr (read_risk_config w)) 0"

abbreviation risk_max_conc :: "world \<Rightarrow> int" where
  "risk_max_conc w \<equiv> num_or (max_concurrent_positions (read_risk_config w)) 0"

section \<open>Lemmas\<close>

lemma decode_eq_iff [simp]: "s \<noteq> [] \<Longrightarrow> decode v = s \<longleftrightarrow> v = Some s"
  by (cases v) auto

lemma num_or_0_pos: "0 < num_or v (0::rat) \<longleftrightarrow> (\<exists>x. v = Some x \<and> 0 < x)"
  by (cases v) auto

lemma check_quotes_ok_iff: "check_quotes cfg lf = (True, r) \<longleftrightarrow> r = ''ok'' \<and> tradeable_quotes cfg lf"
proof -
  let ?ltp = "num_or (l_ltp lf) 0" and ?bid = "num_or (l_bid lf) 0" and ?ask = "num_or (l_ask lf) 0"
  have "tradeable_quotes cfg lf \<longleftrightarrow>
      0 < ?ltp \<and> 0 < ?bid \<and> 0 < ?ask \<and> ?bid < ?ask \<and> (?ask - ?bid) / ?ltp \<le> num_or (spread_skip_pct cfg) 0.05"
    by (cases "l_ltp lf"; cases "l_bid lf"; cases "l_ask lf") (auto simp: tradeable_quotes_def)
  then show ?thesis by (auto simp: check_quotes_def Let_def not_le not_less)
qed

lemma check_ok_iff: "check w sig = Inr (True, r) \<longleftrightarrow> r = ''ok'' \<and> gate_open w sig"
  by (auto simp: check_def gate_open_def check_quotes_ok_iff split: option.splits if_splits)

lemma tradeable_premium:
  assumes "tradeable_quotes cfg lf" "0 < lots" "0 < lot"
  shows "0 < compute_premium_required lf lots lot"
    and "l_ask lf = Some ask \<Longrightarrow> compute_premium_required lf lots lot = of_int lots * of_int lot * ask"
  using assms by (auto simp: tradeable_quotes_def compute_premium_required_def Let_def)

text \<open>The gate writes nothing but the allocator.\<close>

lemma gate_frame:
  "gate_check_and_reserve as w sig = Inr (ok, r, prem, w') \<Longrightarrow> w' = w\<lparr>w_alloc := w_alloc w'\<rparr>"
  by (auto simp: gate_check_and_reserve_def Let_def split: sum.splits prod.splits bool.splits
      option.splits if_splits)

lemma gate_ok_D:
  assumes "gate_check_and_reserve as w sig = Inr (True, r, prem, w')"
  shows "r = ''ok'' \<and> gate_open w sig \<and> 0 < prem \<and> 0 < risk_capital w \<and> 0 < risk_max_conc w \<and>
    (\<exists>x. check_and_reserve as (w_alloc w) (s_index sig) prem (risk_capital w) (risk_max_conc w)
        = ((True, x), w_alloc w'))"
  using assms
  by (auto simp: gate_check_and_reserve_def Let_def check_ok_iff not_le
      split: sum.splits prod.splits bool.splits option.splits if_splits)

lemma gate_ok_txn:
  assumes "gate_check_and_reserve [] w sig = Inr (True, r, prem, w')"
  obtains x where "reserve_txn (w_alloc w) (s_index sig) prem (risk_capital w) (risk_max_conc w)
        = ((True, x), w_alloc w')"
  using gate_ok_D [OF assms] by (auto simp: check_and_reserve_def TXN_MAX_RETRIES_def eval_nat_numeral)

lemma gate_refused_no_interference:
  assumes "gate_check_and_reserve [] w sig = Inr (False, r, prem, w')"
  shows "prem = 0 \<and> w_alloc w' = w_alloc w"
  using assms reserve_loop_refused_frame [of "[]"]
  by (auto simp: gate_check_and_reserve_def check_and_reserve_def Let_def
      split: sum.splits prod.splits bool.splits option.splits if_splits)

lemma valid_index_not_total: "valid_index i \<Longrightarrow> i \<noteq> ''total''"
  by (auto simp: valid_index_def)

lemma gate_ok_rel:
  assumes rel: "ledger_rel (w_alloc w) L"
    and gate: "gate_check_and_reserve [] w sig = Inr (True, r, prem, w')"
  shows "admits L (s_index sig) prem (risk_capital w) (risk_max_conc w)"
    and "ledger_rel (w_alloc w') (L(s_index sig \<mapsto> prem))"
proof -
  obtain x where txn: "reserve_txn (w_alloc w) (s_index sig) prem (risk_capital w) (risk_max_conc w)
      = ((True, x), w_alloc w')" using gate_ok_txn [OF gate] .
  show "admits L (s_index sig) prem (risk_capital w) (risk_max_conc w)"
    using reserve_txn_ok_iff [OF rel, of "s_index sig" prem "risk_capital w" "risk_max_conc w"] txn by simp
  have "s_index sig \<noteq> ''total''"
    using gate_ok_D [OF gate] by (auto simp: gate_open_def dest: valid_index_not_total)
  with txn show "ledger_rel (w_alloc w') (L(s_index sig \<mapsto> prem))"
    using slots.reserve_rel [OF rel, of "s_index sig" "risk_capital w" "risk_max_conc w" prem "w_alloc w'"]
    by (simp add: try_reserve_def)
qed

section \<open>Properties\<close>

text \<open>The read-only gate passes exactly the signals it should: trading is active, the
  daily-loss circuit has not tripped, the cached kill switch does not block the segment, the
  engine is up, the index is known, the chosen leg is in the chain, and its book is two-sided,
  not crossed and no wider than the spread limit.\<close>

theorem check_passes_iff: "check w sig = Inr (True, r) \<longleftrightarrow> r = ''ok'' \<and> gate_open w sig"
  by (rule check_ok_iff)


definition sample_leaf :: leaf where
  "sample_leaf = \<lparr>l_token = Some ''NSE_FO|1'', l_ltp = Some 100, l_bid = Some 99, l_ask = Some 101,
     l_bid_qty = Some 500, l_ask_qty = Some 400, l_bid_prices = None, l_ask_prices = None,
     l_bid_qtys = None, l_ask_qtys = None,
     l_total_bid_qty = Some 900, l_total_ask_qty = Some 600, l_vol = None, l_oi = None, l_ts = Some 1\<rparr>"

definition sample_world :: world where
  "sample_world = boot_world\<lparr>w_trading_active := Some ''true'', w_order_exec_up := Some ''true'',
     w_risk_config := Some \<lparr>daily_loss_circuit_pct = None, max_concurrent_positions = Some 2,
       trading_capital_inr = Some 200000\<rparr>,
     w_index_config := (\<lambda>_ _. Some (empty_index_config\<lparr>lot_size := Some 75\<rparr>)),
     w_chain := (\<lambda>_. Some [(''24000'', Some sample_leaf, None)])\<rparr>"

definition sample_signal :: signal where
  "sample_signal = \<lparr>s_sig_id = ''sig'', s_strategy_id = ''bid_ask_imbalance_v1'',
     s_instrument_id = ''nifty50'', s_index = ''nifty50'', s_side = CE, s_strike = 24000,
     s_instrument_token = ''NSE_FO|1'', s_intent = FRESH_ENTRY, s_qty_lots = 2, s_score = Some 8,
     s_score_breakdown = [], s_net_pressure = Some 1, s_decision_ts = 1, s_diff = 0, s_sum_ce = 0,
     s_sum_pe = 0, s_delta = 0, s_delta_pcr = None, s_strategy_version = ''bid_ask_imbalance_v1'',
     s_ts = 1\<rparr>"

lemmas sample_defs = sample_leaf_def sample_world_def sample_signal_def boot_world_def
  empty_index_config_def empty_execution_config_def empty_risk_config_def

lemma sample_gate:
  "gate_check_and_reserve [] sample_world sample_signal =
     Inr (True, ''ok'', 15150,
       sample_world\<lparr>w_alloc := snd (reserve_txn empty_db ''nifty50'' 15150 200000 2)\<rparr>)"
  by (simp add: gate_check_and_reserve_def check_def check_quotes_def sample_defs
      kill_switch_engaged_def valid_index_def read_leaf_def token_matches_def Let_def
      read_execution_config_def read_index_config_def read_risk_config_def
      compute_premium_required_def check_and_reserve_def TXN_MAX_RETRIES_def eval_nat_numeral
      reserve_txn_def empty_db_def)


end
