(* ===== verification/OrderEntry.thy ===== *)
theory OrderEntry
  imports PreEntryGate
begin

text \<open>
  \<open>backend/engines/order_exec/entry.py\<close>, stages B and C.  Paper mode fills at once at ask plus
  buffer; live mode places a BUY, then polls the broker event stream until fill, reject, chase
  ceiling or timeout.  The broker client is a parameter \<open>broker\<close>: its answer to a placement may
  depend on every call made before; cancel and modify answers are ignored by the code, so those
  calls are only logged.  A request keeps the fields that vary (the code always sends a LIMIT order,
  product I, validity DAY, sliced, with the session's access token).  A \<open>poll\<close> is one XREAD: what the environment did to the shared state
  (clock included) while the call blocked, and the answer.  The loop is a recursion over the
  polls and yields \<open>None\<close> as long as the code is still looping when they run out.
\<close>

section \<open>Broker calls and polls\<close>

datatype txn_type = BUY | SELL

record order_req =
  rq_token :: token
  rq_quantity :: int
  rq_txn :: txn_type
  rq_price :: money
  rq_tag :: string

datatype broker_call =
    PlaceCall order_req
  | ModifyCall string money
  | CancelCall string

datatype place_result = Placed "string option" | PlaceRejected string

type_synonym broker = "broker_call list \<Rightarrow> order_req \<Rightarrow> place_result"

datatype xread_resp = XFail | XEmpty | XEvents "order_event list"

record poll =
  po_env :: "world \<Rightarrow> world"
  po_resp :: xread_resp

definition order_trail_event :: "int \<Rightarrow> string \<Rightarrow> string \<Rightarrow> int option \<Rightarrow> money \<Rightarrow> string option \<Rightarrow> string option \<Rightarrow> order_event" where
  "order_trail_event now ty oid qty price status note =
     \<lparr>oe_ts = Some now, oe_event_type = ty, oe_order_id = oid, oe_qty = qty, oe_price = Some price,
      oe_broker_status = status, oe_note = note, oe_filled_qty = None, oe_avg_price = None,
      oe_reject_reason = None\<rparr>"

section \<open>Entry\<close>

record entry_result =
  er_filled_qty :: int
  er_avg_fill_price :: money
  er_order_id :: string
  er_order_events :: "order_event list"
  er_abandon_reason :: "string option"
  er_submit_to_ack_ms :: int
  er_ack_to_fill_ms :: int

definition entry_abandoned :: "string \<Rightarrow> order_event list \<Rightarrow> string \<Rightarrow> entry_result" where
  "entry_abandoned oid evs reason =
     \<lparr>er_filled_qty = 0, er_avg_fill_price = 0, er_order_id = oid, er_order_events = evs,
      er_abandon_reason = Some reason, er_submit_to_ack_ms = 0, er_ack_to_fill_ms = 0\<rparr>"

text \<open>\<open>uid\<close> is the fresh \<open>uuid4().hex[:12]\<close>.\<close>

definition submit_and_monitor_paper :: "string \<Rightarrow> world \<Rightarrow> signal \<Rightarrow> int \<Rightarrow> entry_result" where
  "submit_and_monitor_paper uid w sig lot =
     (let buffer = num_or (buffer_inr (read_execution_config w)) 2
      in case read_leaf w (s_index sig) (s_instrument_token sig) of
           None \<Rightarrow> entry_abandoned [] [] ''leaf_missing''
         | Some lf \<Rightarrow>
             (let ask = num_or (l_ask lf) 0
              in if ask \<le> 0 then entry_abandoned [] [] ''no_ask''
                 else
                   (let fill_price = py_round 2 (ask + buffer);
                        qty = s_qty_lots sig * lot;
                        oid = ''PAPER-'' @ uid
                    in \<lparr>er_filled_qty = qty, er_avg_fill_price = fill_price, er_order_id = oid,
                        er_order_events =
                          [order_trail_event (w_now_ms w) ''SUBMIT'' oid (Some qty) fill_price (Some ''paper_submit'') None,
                           order_trail_event (w_now_ms w) ''FILL'' oid (Some qty) fill_price (Some ''paper_filled'') None],
                        er_abandon_reason = None, er_submit_to_ack_ms = 0, er_ack_to_fill_ms = 0\<rparr>)))"

text \<open>The locals of the live monitor loop that change.\<close>

record entry_state =
  es_initial_ask :: money
  es_events :: "order_event list"
  es_last_partial_seen :: "int option"
  es_filled_qty :: int
  es_avg_fill_price :: money
  es_fill_ts :: "int option"
  es_calls :: "broker_call list"

fun entry_events ::
  "string \<Rightarrow> int \<Rightarrow> money \<Rightarrow> int \<Rightarrow> order_event list \<Rightarrow> entry_state \<Rightarrow> entry_state + entry_result"
where
  "entry_events oid qty price now [] st = Inl st"
| "entry_events oid qty price now (e # es) st =
     (if oe_order_id e \<noteq> oid then entry_events oid qty price now es st
      else
        (let st1 = st\<lparr>es_events := es_events st @ [e]\<rparr>
         in if oe_event_type e = ''FILL'' then
              entry_events oid qty price now es
                (st1\<lparr>es_filled_qty := get_or (oe_filled_qty e) qty,
                     es_avg_fill_price := get_or (oe_avg_price e) price,
                     es_fill_ts := Some now\<rparr>)
            else if oe_event_type e = ''PARTIAL_FILL'' then
              entry_events oid qty price now es (st1\<lparr>es_last_partial_seen := Some now\<rparr>)
            else if oe_event_type e = ''REJECT'' then
              Inr (entry_abandoned oid (es_events st1)
                     (''broker_reject:'' @ get_or (oe_reject_reason e) ''None''))
            else entry_events oid qty price now es st1))"

text \<open>The parameters fixed before the loop.\<close>

record entry_params =
  ep_index :: index_name
  ep_token :: token
  ep_order_id :: string
  ep_qty :: int
  ep_submit_price :: money
  ep_buffer :: money
  ep_drift :: money
  ep_ceiling :: money
  ep_partial_grace_ms :: int
  ep_deadline_ms :: int
  ep_submit_ts :: int
  ep_ack_ts :: int

text \<open>The drift check of an empty poll: \<open>Inr\<close> abandons.\<close>

definition drift_check :: "entry_params \<Rightarrow> world \<Rightarrow> entry_state \<Rightarrow> entry_state + entry_result \<times> broker_call list" where
  "drift_check ep w st =
     (case read_leaf w (ep_index ep) (ep_token ep) of
        None \<Rightarrow> Inl st
      | Some lf \<Rightarrow>
          (let cur_ask = num_or (l_ask lf) 0
           in if 0 < cur_ask \<and> ep_ceiling ep \<le> cur_ask - es_initial_ask st then
                Inr (entry_abandoned (ep_order_id ep) (es_events st)
                       (''chase_ceiling_breached:'' @ fmt_fixed 2 cur_ask),
                     es_calls st @ [CancelCall (ep_order_id ep)])
              else if 0 < cur_ask \<and> ep_drift ep \<le> cur_ask - es_initial_ask st then
                (let new_price = py_round 2 (cur_ask + ep_buffer ep)
                 in Inl (st\<lparr>es_initial_ask := cur_ask,
                            es_events := es_events st @
                              [order_trail_event (w_now_ms w) ''MODIFY'' (ep_order_id ep) None new_price None None],
                            es_calls := es_calls st @ [ModifyCall (ep_order_id ep) new_price]\<rparr>))
              else Inl st))"

text \<open>After the loop.\<close>

definition entry_finish :: "entry_params \<Rightarrow> world \<Rightarrow> entry_state \<Rightarrow> entry_result \<times> broker_call list" where
  "entry_finish ep w st =
     (if es_filled_qty st = 0 then
        (entry_abandoned (ep_order_id ep) (es_events st) ''open_timeout'',
         es_calls st @ [CancelCall (ep_order_id ep)])
      else
        (\<lparr>er_filled_qty = es_filled_qty st, er_avg_fill_price = es_avg_fill_price st,
          er_order_id = ep_order_id ep, er_order_events = es_events st, er_abandon_reason = None,
          er_submit_to_ack_ms = ep_ack_ts ep - ep_submit_ts ep,
          er_ack_to_fill_ms = get_or (es_fill_ts st) (w_now_ms w) - ep_ack_ts ep\<rparr>,
         es_calls st))"

fun entry_loop ::
  "entry_params \<Rightarrow> world \<Rightarrow> poll list \<Rightarrow> entry_state \<Rightarrow> (entry_result \<times> broker_call list \<times> world \<times> poll list) option"
where
  "entry_loop ep w polls st =
     (if ep_deadline_ms ep \<le> w_now_ms w
      then (case entry_finish ep w st of (r, cs) \<Rightarrow> Some (r, cs, w, polls))
      else case polls of
        [] \<Rightarrow> None
      | q # rest \<Rightarrow>
          (let w' = po_env q w
           in case po_resp q of
                XFail \<Rightarrow> (case entry_finish ep w' st of (r, cs) \<Rightarrow> Some (r, cs, w', rest))
              | XEmpty \<Rightarrow>
                  (case drift_check ep w' st of
                     Inr (r, cs) \<Rightarrow> Some (r, cs, w', rest)
                   | Inl st' \<Rightarrow> entry_loop ep w' rest st')
              | XEvents es \<Rightarrow>
                  (case entry_events (ep_order_id ep) (ep_qty ep) (ep_submit_price ep) (w_now_ms w') es st of
                     Inr r \<Rightarrow> Some (r, es_calls st, w', rest)
                   | Inl st' \<Rightarrow>
                       if es_fill_ts st' \<noteq> None
                         then (case entry_finish ep w' st' of (r, cs) \<Rightarrow> Some (r, cs, w', rest))
                       else if (case es_last_partial_seen st' of
                                  None \<Rightarrow> False
                                | Some t \<Rightarrow> ep_partial_grace_ms ep < w_now_ms w' - t)
                         then (case entry_finish ep w'
                                 (st'\<lparr>es_calls := es_calls st' @ [CancelCall (ep_order_id ep)]\<rparr>) of
                               (r, cs) \<Rightarrow> Some (r, cs, w', rest))
                       else entry_loop ep w' rest st')))"

declare entry_loop.simps [simp del]

definition buy_request :: "world \<Rightarrow> signal \<Rightarrow> string \<Rightarrow> int \<Rightarrow> money \<Rightarrow> order_req" where
  "buy_request w sig pos_id lot ask =
     \<lparr>rq_token = s_instrument_token sig, rq_quantity = s_qty_lots sig * lot, rq_txn = BUY,
      rq_price = py_round 2 (ask + num_or (buffer_inr (read_execution_config w)) 2), rq_tag = pos_id\<rparr>"

definition live_params :: "world \<Rightarrow> signal \<Rightarrow> order_req \<Rightarrow> string \<Rightarrow> entry_params" where
  "live_params w sig req oid =
     (let cfg = read_execution_config w
      in \<lparr>ep_index = s_index sig, ep_token = s_instrument_token sig, ep_order_id = oid,
          ep_qty = rq_quantity req, ep_submit_price = rq_price req,
          ep_buffer = num_or (buffer_inr cfg) 2, ep_drift = num_or (drift_threshold_inr cfg) 3,
          ep_ceiling = num_or (chase_ceiling_inr cfg) 15,
          ep_partial_grace_ms = num_or (partial_grace_sec cfg) 3 * 1000,
          ep_deadline_ms = w_now_ms w + num_or (open_timeout_sec cfg) 8 * 1000,
          ep_submit_ts = w_now_ms w, ep_ack_ts = w_now_ms w\<rparr>)"

definition live_start :: "world \<Rightarrow> order_req \<Rightarrow> string \<Rightarrow> money \<Rightarrow> broker_call list \<Rightarrow> entry_state" where
  "live_start w req oid ask calls =
     \<lparr>es_initial_ask = ask,
      es_events = [order_trail_event (w_now_ms w) ''SUBMIT'' oid (Some (rq_quantity req)) (rq_price req) None None],
      es_last_partial_seen = None, es_filled_qty = 0, es_avg_fill_price = 0, es_fill_ts = None,
      es_calls = calls\<rparr>"

definition submit_and_monitor_live ::
  "broker \<Rightarrow> broker_call list \<Rightarrow> poll list \<Rightarrow> world \<Rightarrow> signal \<Rightarrow> string \<Rightarrow> int
     \<Rightarrow> (entry_result \<times> broker_call list \<times> world \<times> poll list) option"
where
  "submit_and_monitor_live broker calls polls w sig pos_id lot =
     (case read_leaf w (s_index sig) (s_instrument_token sig) of
        None \<Rightarrow> Some (entry_abandoned [] [] ''leaf_missing'', calls, w, polls)
      | Some lf \<Rightarrow>
          (let ask = num_or (l_ask lf) 0
           in if ask \<le> 0 then Some (entry_abandoned [] [] ''no_ask'', calls, w, polls)
              else
                (let req = buy_request w sig pos_id lot ask; calls1 = calls @ [PlaceCall req]
                 in case broker calls req of
                      PlaceRejected err \<Rightarrow>
                        Some (entry_abandoned [] [] (''place_rejected:'' @ err), calls1, w, polls)
                    | Placed oid \<Rightarrow>
                        entry_loop (live_params w sig req (decode oid)) w polls
                          (live_start w req (decode oid) ask calls1))))"

definition submit_and_monitor ::
  "broker \<Rightarrow> string \<Rightarrow> broker_call list \<Rightarrow> poll list \<Rightarrow> world \<Rightarrow> signal \<Rightarrow> string \<Rightarrow> string \<Rightarrow> int
     \<Rightarrow> (entry_result \<times> broker_call list \<times> world \<times> poll list) option"
where
  "submit_and_monitor broker uid calls polls w sig pos_id mode lot =
     (if mode = ''paper'' then Some (submit_and_monitor_paper uid w sig lot, calls, w, polls)
      else submit_and_monitor_live broker calls polls w sig pos_id lot)"

section \<open>Contract of the live monitor\<close>

definition is_place :: "broker_call \<Rightarrow> bool" where
  "is_place c = (case c of PlaceCall _ \<Rightarrow> True | _ \<Rightarrow> False)"

definition fill_event :: "string \<Rightarrow> order_event \<Rightarrow> bool" where
  "fill_event oid e \<longleftrightarrow> oe_order_id e = oid \<and> oe_event_type e = ''FILL''"

definition reject_event :: "string \<Rightarrow> order_event \<Rightarrow> bool" where
  "reject_event oid e \<longleftrightarrow> oe_order_id e = oid \<and> oe_event_type e = ''REJECT''"

text \<open>How a placed BUY may end: filled, with the broker's FILL event in the trail, or given up
  with nothing reported as held, after a cancel or a broker reject.\<close>

definition entry_settled :: "string \<Rightarrow> int \<Rightarrow> money \<Rightarrow> entry_result \<Rightarrow> broker_call list \<Rightarrow> bool" where
  "entry_settled oid qty price r cs \<longleftrightarrow>
     er_order_id r = oid \<and>
     (case er_abandon_reason r of
        None \<Rightarrow> er_filled_qty r \<noteq> 0 \<and>
          (\<exists>e \<in> set (er_order_events r). fill_event oid e \<and>
             er_filled_qty r = get_or (oe_filled_qty e) qty \<and>
             er_avg_fill_price r = get_or (oe_avg_price e) price)
      | Some _ \<Rightarrow> er_filled_qty r = 0 \<and> er_avg_fill_price r = 0 \<and>
          (last cs = CancelCall oid \<or> (\<exists>e \<in> set (er_order_events r). reject_event oid e)))"

definition clock_reaches :: "int \<Rightarrow> world \<Rightarrow> poll list \<Rightarrow> bool" where
  "clock_reaches t w polls \<longleftrightarrow>
     (\<exists>k \<le> length polls. t \<le> w_now_ms (fold po_env (take k polls) w))"

definition poll_events :: "poll list \<Rightarrow> order_event set" where
  "poll_events polls = (\<Union>q \<in> set polls. case po_resp q of XEvents es \<Rightarrow> set es | _ \<Rightarrow> {})"

definition entry_inv :: "entry_params \<Rightarrow> entry_state \<Rightarrow> bool" where
  "entry_inv ep st \<longleftrightarrow>
     (es_filled_qty st \<noteq> 0 \<longrightarrow>
        (\<exists>e \<in> set (es_events st). fill_event (ep_order_id ep) e \<and>
           es_filled_qty st = get_or (oe_filled_qty e) (ep_qty ep) \<and>
           es_avg_fill_price st = get_or (oe_avg_price e) (ep_submit_price ep)))"

section \<open>Lemmas\<close>

lemma is_place_simps [simp]:
  "is_place (PlaceCall q)" "\<not> is_place (ModifyCall i m)" "\<not> is_place (CancelCall i)"
  by (simp_all add: is_place_def)

lemma clock_reaches_Nil [simp]: "clock_reaches t w [] \<longleftrightarrow> t \<le> w_now_ms w"
  by (simp add: clock_reaches_def)

lemma clock_reaches_Cons:
  "clock_reaches t w (q # qs) \<longleftrightarrow> t \<le> w_now_ms w \<or> clock_reaches t (po_env q w) qs"
proof
  assume "clock_reaches t w (q # qs)"
  then obtain k where k: "k \<le> Suc (length qs)" "t \<le> w_now_ms (fold po_env (take k (q # qs)) w)"
    by (auto simp: clock_reaches_def)
  then show "t \<le> w_now_ms w \<or> clock_reaches t (po_env q w) qs"
    by (cases k) (auto simp: clock_reaches_def)
next
  assume "t \<le> w_now_ms w \<or> clock_reaches t (po_env q w) qs"
  then show "clock_reaches t w (q # qs)"
  proof
    assume "t \<le> w_now_ms w"
    then show ?thesis unfolding clock_reaches_def by (intro exI [of _ 0]) simp
  next
    assume "clock_reaches t (po_env q w) qs"
    then obtain k where "k \<le> length qs" "t \<le> w_now_ms (fold po_env (take k qs) (po_env q w))"
      by (auto simp: clock_reaches_def)
    then show ?thesis unfolding clock_reaches_def by (intro exI [of _ "Suc k"]) simp
  qed
qed

lemma poll_events_simps [simp]:
  "poll_events [] = {}"
  "poll_events (q # qs) = (case po_resp q of XEvents es \<Rightarrow> set es | _ \<Rightarrow> {}) \<union> poll_events qs"
  by (simp_all add: poll_events_def)

text \<open>One induction for everything the event loop keeps.\<close>

lemma entry_events_keeps:
  assumes "entry_events oid qty price now es st = Inl st'" and "P st"
    and other: "\<And>s e. P s \<Longrightarrow> P (s\<lparr>es_events := es_events s @ [e]\<rparr>)"
    and part: "\<And>s e. P s \<Longrightarrow> P (s\<lparr>es_events := es_events s @ [e], es_last_partial_seen := Some now\<rparr>)"
    and fill: "\<And>s e. P s \<Longrightarrow> e \<in> set es \<Longrightarrow> fill_event oid e \<Longrightarrow>
        P (s\<lparr>es_events := es_events s @ [e], es_filled_qty := get_or (oe_filled_qty e) qty,
             es_avg_fill_price := get_or (oe_avg_price e) price, es_fill_ts := Some now\<rparr>)"
  shows "P st'"
  using assms(1,2) fill
proof (induction es arbitrary: st)
  case (Cons e es)
  have IH: "P s \<Longrightarrow> entry_events oid qty price now es s = Inl st' \<Longrightarrow> P st'" for s
    using Cons.IH [of s] Cons.prems(3) by simp
  show ?case
  proof (cases "oe_order_id e = oid")
    case False
    with Cons.prems IH show ?thesis by simp
  next
    case True
    then have fe: "oe_event_type e = ''FILL'' \<Longrightarrow> fill_event oid e" by (simp add: fill_event_def)
    note run = Cons.prems(1) [unfolded entry_events.simps(2) Let_def]
    consider (f) "oe_event_type e = ''FILL''" | (p) "oe_event_type e = ''PARTIAL_FILL''"
      | (o) "oe_event_type e \<noteq> ''FILL''" "oe_event_type e \<noteq> ''PARTIAL_FILL''" by blast
    then show ?thesis
    proof cases
      case f
      with run True show ?thesis by (intro IH [OF Cons.prems(3) [OF Cons.prems(2) _ fe]]) simp_all
    next
      case p
      with run True show ?thesis by (intro IH [OF part [OF Cons.prems(2)]]) simp
    next
      case o
      with run True show ?thesis by (intro IH [OF other [OF Cons.prems(2)]]) (simp split: if_splits)
    qed
  qed
qed simp

lemma entry_events_calls:
  assumes "entry_events oid qty price now es st = Inl st'"
  shows "es_calls st' = es_calls st"
  by (rule entry_events_keeps [OF assms, where P = "\<lambda>s. es_calls s = es_calls st"]) simp_all

lemma entry_events_inv:
  assumes "entry_events (ep_order_id ep) (ep_qty ep) (ep_submit_price ep) now es st = Inl st'"
    and "entry_inv ep st"
  shows "entry_inv ep st'"
  using assms by (rule entry_events_keeps) (auto simp: entry_inv_def)

lemma entry_events_no_fill:
  assumes "entry_events oid qty price now es st = Inl st'" and "\<forall>e \<in> set es. \<not> fill_event oid e"
  shows "es_filled_qty st' = es_filled_qty st \<and> es_fill_ts st' = es_fill_ts st"
  using assms(2)
  by (intro entry_events_keeps [OF assms(1), where P = "\<lambda>s. es_filled_qty s = es_filled_qty st \<and> es_fill_ts s = es_fill_ts st"])
     simp_all

lemma entry_events_reject:
  "entry_events oid qty price now es st = Inr r \<Longrightarrow>
     er_order_id r = oid \<and> er_filled_qty r = 0 \<and> er_avg_fill_price r = 0 \<and>
     er_abandon_reason r \<noteq> None \<and> (\<exists>e \<in> set (er_order_events r). reject_event oid e)"
  by (induction oid qty price now es st rule: entry_events.induct)
     (auto simp: Let_def entry_abandoned_def reject_event_def split: if_splits)

lemma entry_finish_settled:
  "entry_inv ep st \<Longrightarrow> entry_finish ep w st = (r, cs) \<Longrightarrow>
     entry_settled (ep_order_id ep) (ep_qty ep) (ep_submit_price ep) r cs"
  by (auto simp: entry_finish_def entry_settled_def entry_inv_def entry_abandoned_def split: if_splits)

lemma entry_finish_places:
  "entry_finish ep w st = (r, cs) \<Longrightarrow> filter is_place cs = filter is_place (es_calls st)"
  by (auto simp: entry_finish_def split: if_splits)

lemma drift_check_Inl:
  "drift_check ep w st = Inl st' \<Longrightarrow>
     es_filled_qty st' = es_filled_qty st \<and> es_avg_fill_price st' = es_avg_fill_price st \<and>
     es_fill_ts st' = es_fill_ts st \<and> set (es_events st) \<subseteq> set (es_events st') \<and>
     filter is_place (es_calls st') = filter is_place (es_calls st)"
  by (auto simp: drift_check_def Let_def split: option.splits if_splits)

lemma drift_check_Inr:
  "drift_check ep w st = Inr (r, cs) \<Longrightarrow>
     entry_settled (ep_order_id ep) qty price r cs \<and> er_abandon_reason r \<noteq> None \<and>
     filter is_place cs = filter is_place (es_calls st)"
  by (auto simp: drift_check_def Let_def entry_settled_def entry_abandoned_def split: option.splits if_splits)

lemma drift_check_inv: "drift_check ep w st = Inl st' \<Longrightarrow> entry_inv ep st \<Longrightarrow> entry_inv ep st'"
  using drift_check_Inl [of ep w st st'] by (auto simp: entry_inv_def)

text \<open>Every way out of the loop goes through one of its three exits.\<close>

lemma entry_loop_cases:
  assumes "entry_loop ep w polls st = Some (r, cs, w', rest)" and "entry_inv ep st"
  shows "entry_settled (ep_order_id ep) (ep_qty ep) (ep_submit_price ep) r cs \<and>
    filter is_place cs = filter is_place (es_calls st)"
  using assms
proof (induction polls arbitrary: w st)
  case Nil
  then show ?case
    by (subst (asm) entry_loop.simps)
       (auto split: if_splits prod.splits dest: entry_finish_settled entry_finish_places)
next
  case (Cons q qs)
  show ?case
  proof (cases "ep_deadline_ms ep \<le> w_now_ms w")
    case True
    with Cons.prems show ?thesis
      by (subst (asm) entry_loop.simps)
         (auto split: prod.splits dest: entry_finish_settled entry_finish_places)
  next
    case False
    note step = Cons.prems(1) [unfolded entry_loop.simps [of ep w "q # qs"]]
    show ?thesis
    proof (cases "po_resp q")
      case XFail
      with step False Cons.prems(2) show ?thesis
        by (auto simp: Let_def split: prod.splits dest: entry_finish_settled entry_finish_places)
    next
      case XEmpty
      show ?thesis
      proof (cases "drift_check ep (po_env q w) st")
        case (Inl st')
        with step False XEmpty have "entry_loop ep (po_env q w) qs st' = Some (r, cs, w', rest)"
          by (simp add: Let_def)
        from Cons.IH [OF this drift_check_inv [OF Inl Cons.prems(2)]] drift_check_Inl [OF Inl]
        show ?thesis by simp
      next
        case (Inr res)
        with step False XEmpty show ?thesis
          by (cases res) (auto simp: Let_def dest: drift_check_Inr)
      qed
    next
      case (XEvents es)
      let ?ev = "entry_events (ep_order_id ep) (ep_qty ep) (ep_submit_price ep) (w_now_ms (po_env q w)) es st"
      show ?thesis
      proof (cases ?ev)
        case (Inr r')
        with step False XEvents have "r = r'" "cs = es_calls st" by (simp_all add: Let_def)
        with entry_events_reject [OF Inr] show ?thesis by (auto simp: entry_settled_def split: option.splits)
      next
        case (Inl st')
        have inv: "entry_inv ep st'" using entry_events_inv [OF Inl Cons.prems(2)] .
        then have inv': "entry_inv ep (st'\<lparr>es_calls := cl\<rparr>)" for cl by (simp add: entry_inv_def)
        show ?thesis
          using step False XEvents Inl entry_events_calls [OF Inl] Cons.IH [of "po_env q w" st'] inv inv'
          by (auto simp: Let_def split: if_splits prod.splits dest: entry_finish_settled entry_finish_places)
      qed
    qed
  qed
qed

lemma entry_loop_returns: "clock_reaches (ep_deadline_ms ep) w polls \<Longrightarrow> entry_loop ep w polls st \<noteq> None"
proof (induction polls arbitrary: w st)
  case Nil
  then show ?case by (subst entry_loop.simps) (simp split: prod.splits)
next
  case (Cons q qs)
  then have IH: "entry_loop ep (po_env q w) qs st' \<noteq> None"
    if "\<not> ep_deadline_ms ep \<le> w_now_ms w" for st' using that by (simp add: clock_reaches_Cons)
  show ?case
    unfolding entry_loop.simps [of ep w "q # qs"]
    using IH by (simp add: Let_def del: not_None_eq split: prod.split xread_resp.split sum.split option.split)
qed

lemma entry_loop_no_fill:
  assumes "entry_loop ep w polls st = Some (r, cs, w', rest)" and "es_filled_qty st = 0"
    and "es_fill_ts st = None" and "\<forall>e \<in> poll_events polls. \<not> fill_event (ep_order_id ep) e"
  shows "er_filled_qty r = 0 \<and> er_abandon_reason r \<noteq> None"
  using assms
proof (induction polls arbitrary: w st)
  case Nil
  then show ?case
    by (subst (asm) entry_loop.simps) (auto simp: entry_finish_def entry_abandoned_def split: if_splits)
next
  case (Cons q qs)
  have fin: "er_filled_qty r = 0 \<and> er_abandon_reason r \<noteq> None"
    if "entry_finish ep v s = (r, cs)" "es_filled_qty s = 0" for v s
    using that by (auto simp: entry_finish_def entry_abandoned_def)
  show ?case
  proof (cases "ep_deadline_ms ep \<le> w_now_ms w")
    case True
    with Cons.prems show ?thesis
      by (subst (asm) entry_loop.simps) (auto split: prod.splits dest: fin)
  next
    case False
    note step = Cons.prems(1) [unfolded entry_loop.simps [of ep w "q # qs"]]
    show ?thesis
    proof (cases "po_resp q")
      case XFail
      with step False Cons.prems(2) show ?thesis by (auto simp: Let_def split: prod.splits dest: fin)
    next
      case XEmpty
      show ?thesis
      proof (cases "drift_check ep (po_env q w) st")
        case (Inl st')
        with step False XEmpty have "entry_loop ep (po_env q w) qs st' = Some (r, cs, w', rest)"
          by (simp add: Let_def)
        from Cons.IH [OF this] drift_check_Inl [OF Inl] Cons.prems(2-) show ?thesis by simp
      next
        case (Inr res)
        with step False XEmpty show ?thesis
          by (cases res) (auto simp: Let_def drift_check_def entry_abandoned_def split: option.splits if_splits)
      qed
    next
      case (XEvents es)
      let ?ev = "entry_events (ep_order_id ep) (ep_qty ep) (ep_submit_price ep) (w_now_ms (po_env q w)) es st"
      show ?thesis
      proof (cases ?ev)
        case (Inr r')
        with step False XEvents entry_events_reject [OF Inr] show ?thesis by (simp add: Let_def)
      next
        case (Inl st')
        have "es_filled_qty st' = 0" "es_fill_ts st' = None"
          using entry_events_no_fill [OF Inl] Cons.prems(2-) XEvents by auto
        then show ?thesis
          using step False XEvents Inl Cons.IH [of "po_env q w" st'] Cons.prems(4)
          by (auto simp: Let_def split: if_splits prod.splits dest: fin)
      qed
    qed
  qed
qed

lemma buy_request_simps [simp]:
  "rq_txn (buy_request w sig pid lot ask) = BUY"
  "rq_quantity (buy_request w sig pid lot ask) = s_qty_lots sig * lot"
  "rq_tag (buy_request w sig pid lot ask) = pid"
  by (simp_all add: buy_request_def)

lemma live_params_simps [simp]:
  "ep_order_id (live_params w sig req oid) = oid"
  "ep_qty (live_params w sig req oid) = rq_quantity req"
  "ep_submit_price (live_params w sig req oid) = rq_price req"
  "ep_deadline_ms (live_params w sig req oid) =
     w_now_ms w + num_or (open_timeout_sec (read_execution_config w)) 8 * 1000"
  by (simp_all add: live_params_def Let_def)

lemma live_start_simps [simp]:
  "es_filled_qty (live_start w req oid ask cs) = 0"
  "es_fill_ts (live_start w req oid ask cs) = None"
  "es_calls (live_start w req oid ask cs) = cs"
  by (simp_all add: live_start_def)

lemma live_start_inv: "entry_inv ep (live_start w req oid ask cs)"
  by (simp add: entry_inv_def)

lemma live_cases [consumes 1, case_names none refused placed]:
  assumes "submit_and_monitor_live broker calls polls w sig pos_id lot = Some (r, cs, w', rest)"
  obtains (none) "cs = calls" "er_filled_qty r = 0" "er_abandon_reason r \<noteq> None"
  | (refused) lf :: leaf and err where
      "broker calls (buy_request w sig pos_id lot (num_or (l_ask lf) 0)) = PlaceRejected err"
      "cs = calls @ [PlaceCall (buy_request w sig pos_id lot (num_or (l_ask lf) 0))]"
      "r = entry_abandoned [] [] (''place_rejected:'' @ err)"
  | (placed) lf :: leaf and oid where "0 < num_or (l_ask lf) 0"
      "broker calls (buy_request w sig pos_id lot (num_or (l_ask lf) 0)) = Placed oid"
      "entry_loop (live_params w sig (buy_request w sig pos_id lot (num_or (l_ask lf) 0)) (decode oid))
         w polls (live_start w (buy_request w sig pos_id lot (num_or (l_ask lf) 0)) (decode oid)
           (num_or (l_ask lf) 0) (calls @ [PlaceCall (buy_request w sig pos_id lot (num_or (l_ask lf) 0))]))
       = Some (r, cs, w', rest)"
proof (cases "read_leaf w (s_index sig) (s_instrument_token sig)")
  case None
  with assms show ?thesis by (intro none) (auto simp: submit_and_monitor_live_def entry_abandoned_def)
next
  case (Some lf)
  let ?ask = "num_or (l_ask lf) 0"
  show ?thesis
  proof (cases "?ask \<le> 0")
    case True
    with Some assms show ?thesis by (intro none) (auto simp: submit_and_monitor_live_def entry_abandoned_def)
  next
    case False
    note run = assms [unfolded submit_and_monitor_live_def Let_def Some option.case if_not_P [OF False]]
    show ?thesis
    proof (cases "broker calls (buy_request w sig pos_id lot ?ask)")
      case (Placed oid)
      with run False show ?thesis by (intro placed [of lf oid]) simp_all
    next
      case (PlaceRejected err)
      with run show ?thesis by (intro refused [of lf err]) auto
    qed
  qed
qed

section \<open>Properties\<close>

text \<open>Claim C24.  A live entry always settles.  Whatever the broker and the environment do, when
  \<open>submit_and_monitor_live\<close> returns it has sent at most one BUY, for exactly lots times lot size,
  and either reports a fill that a FILL event of that order carries (quantity and average price
  as in the event), or reports nothing held and has cancelled the order, unless the broker
  refused or rejected it.\<close>

theorem live_entry_settles:
  assumes "submit_and_monitor_live broker calls polls w sig pos_id lot = Some (r, cs, w', rest)"
  shows "(cs = calls \<and> er_filled_qty r = 0 \<and> er_abandon_reason r \<noteq> None) \<or>
    (\<exists>req. rq_txn req = BUY \<and> rq_quantity req = s_qty_lots sig * lot \<and> rq_tag req = pos_id \<and>
       filter is_place cs = filter is_place calls @ [PlaceCall req] \<and>
       (case broker calls req of
          PlaceRejected err \<Rightarrow> er_filled_qty r = 0 \<and> er_abandon_reason r = Some (''place_rejected:'' @ err)
        | Placed oid \<Rightarrow> entry_settled (decode oid) (s_qty_lots sig * lot) (rq_price req) r cs))"
  using assms
proof (cases rule: live_cases)
  case none
  then show ?thesis by simp
next
  case (refused lf err)
  then show ?thesis
    by (intro disjI2 exI [of _ "buy_request w sig pos_id lot (num_or (l_ask lf) 0)"])
       (simp add: buy_request_simps entry_abandoned_def)
next
  case (placed lf oid)
  from entry_loop_cases [OF placed(3) live_start_inv] placed(2) show ?thesis
    by (intro disjI2 exI [of _ "buy_request w sig pos_id lot (num_or (l_ask lf) 0)"])
       (simp add: buy_request_simps live_params_simps live_start_simps)
qed

definition sample_order_event :: "string \<Rightarrow> string \<Rightarrow> int option \<Rightarrow> order_event" where
  "sample_order_event ty oid fq = (order_trail_event 900 ty oid None 103 None None)\<lparr>oe_filled_qty := fq\<rparr>"

definition advance_clock :: "int \<Rightarrow> world \<Rightarrow> world" where
  "advance_clock ms w = w\<lparr>w_now_ms := w_now_ms w + ms\<rparr>"

lemmas live_entry_eval = submit_and_monitor_live_def buy_request_def live_params_def live_start_def entry_loop.simps entry_finish_def entry_abandoned_def
  drift_check_def read_leaf_def token_matches_def read_execution_config_def Let_def sample_order_event_def
  order_trail_event_def advance_clock_def sample_defs

theorem live_entry_settles_witness:
  "\<exists>r cs w' rest. submit_and_monitor_live (\<lambda>_ _. Placed (Some ''o1'')) []
      [\<lparr>po_env = advance_clock 500, po_resp = XEvents [sample_order_event ''FILL'' ''o1'' (Some 150)]\<rparr>]
      sample_world sample_signal ''P-1'' 75 = Some (r, cs, w', rest) \<and>
    er_filled_qty r = 150 \<and> er_abandon_reason r = None \<and> length (filter is_place cs) = 1"
proof -
  obtain r cs w' rest where run: "submit_and_monitor_live (\<lambda>_ _. Placed (Some ''o1'')) []
      [\<lparr>po_env = advance_clock 500, po_resp = XEvents [sample_order_event ''FILL'' ''o1'' (Some 150)]\<rparr>]
      sample_world sample_signal ''P-1'' 75 = Some (r, cs, w', rest)"
    and q: "er_filled_qty r = 150" "er_abandon_reason r = None"
    by (simp add: live_entry_eval)
  from live_entry_settles [OF run] q have "length (filter is_place cs) = 1"
    by (auto split: place_result.splits)
  with run q show ?thesis by blast
qed

text \<open>Claim C26.  The live entry loop terminates: once the clock has passed the open timeout at
  some poll, \<open>submit_and_monitor_live\<close> has returned, whatever the polls delivered.\<close>

theorem live_entry_returns:
  assumes "clock_reaches (w_now_ms w + num_or (open_timeout_sec (read_execution_config w)) 8 * 1000) w polls"
  shows "\<exists>r cs w' rest. submit_and_monitor_live broker calls polls w sig pos_id lot = Some (r, cs, w', rest)"
proof -
  have "entry_loop (live_params w sig req oid) w polls st \<noteq> None" for req oid st
    using assms by (intro entry_loop_returns) simp
  then have "submit_and_monitor_live broker calls polls w sig pos_id lot \<noteq> None"
    unfolding submit_and_monitor_live_def Let_def
    by (simp del: not_None_eq split: option.split place_result.split)
  then show ?thesis by (metis option.exhaust prod.exhaust)
qed

theorem live_entry_returns_witness:
  "\<exists>r cs w' rest. submit_and_monitor_live (\<lambda>_ _. Placed (Some ''o1'')) []
     (replicate 16 \<lparr>po_env = advance_clock 500, po_resp = XEmpty\<rparr>) sample_world sample_signal ''P-1'' 75
       = Some (r, cs, w', rest)"
proof (rule live_entry_returns)
  have "w_now_ms (fold po_env (replicate n \<lparr>po_env = advance_clock 500, po_resp = XEmpty\<rparr>) w)
      = w_now_ms w + 500 * int n" for n w
    by (induction n arbitrary: w) (simp_all add: advance_clock_def)
  then show "clock_reaches (w_now_ms sample_world +
      num_or (open_timeout_sec (read_execution_config sample_world)) 8 * 1000) sample_world
      (replicate 16 \<lparr>po_env = advance_clock 500, po_resp = XEmpty\<rparr>)"
    unfolding clock_reaches_def
    by (intro exI [of _ 16]) (simp add: read_execution_config_def sample_defs)
qed

text \<open>Only a FILL event makes an entry count as held.  If no poll delivers a FILL event
  of any order, the entry is abandoned with zero quantity, whatever quantities PARTIAL_FILL
  events reported: shares bought by a partial fill are not tracked.\<close>

theorem partial_fill_not_counted:
  assumes "submit_and_monitor_live broker calls polls w sig pos_id lot = Some (r, cs, w', rest)"
    and "\<forall>e \<in> poll_events polls. oe_event_type e \<noteq> ''FILL''"
  shows "er_filled_qty r = 0 \<and> er_abandon_reason r \<noteq> None"
  using assms(1)
proof (cases rule: live_cases)
  case (placed lf oid)
  from assms(2) have "\<forall>e \<in> poll_events polls. \<not> fill_event (decode oid) e" by (auto simp: fill_event_def)
  with entry_loop_no_fill [OF placed(3)] show ?thesis by simp
qed (simp_all add: entry_abandoned_def)

theorem partial_fill_not_counted_witness:
  "\<exists>r cs w' rest. submit_and_monitor_live (\<lambda>_ _. Placed (Some ''o1'')) []
      [\<lparr>po_env = advance_clock 500, po_resp = XEvents [sample_order_event ''PARTIAL_FILL'' ''o1'' (Some 75)]\<rparr>,
       \<lparr>po_env = advance_clock 9000, po_resp = XFail\<rparr>]
      sample_world sample_signal ''P-1'' 75 = Some (r, cs, w', rest) \<and> er_filled_qty r = 0"
proof -
  let ?polls = "[\<lparr>po_env = advance_clock 500, po_resp = XEvents [sample_order_event ''PARTIAL_FILL'' ''o1'' (Some 75)]\<rparr>,
       \<lparr>po_env = advance_clock 9000, po_resp = XFail\<rparr>]"
  obtain r cs w' rest where run: "submit_and_monitor_live (\<lambda>_ _. Placed (Some ''o1'')) [] ?polls
      sample_world sample_signal ''P-1'' 75 = Some (r, cs, w', rest)"
    by (simp add: live_entry_eval)
  moreover have "\<forall>e \<in> poll_events ?polls. oe_event_type e \<noteq> ''FILL''"
    by (simp add: sample_order_event_def order_trail_event_def)
  ultimately show ?thesis using partial_fill_not_counted [OF run] by blast
qed

lemma paper_entry_fill:
  assumes "gate_open w sig" and "read_leaf w (s_index sig) (s_instrument_token sig) = Some lf"
  shows "er_filled_qty (submit_and_monitor_paper uid w sig lot) = s_qty_lots sig * lot \<and>
    er_abandon_reason (submit_and_monitor_paper uid w sig lot) = None \<and>
    er_avg_fill_price (submit_and_monitor_paper uid w sig lot) =
      py_round 2 (the (l_ask lf) + num_or (buffer_inr (read_execution_config w)) 2)"
  using assms by (auto simp: gate_open_def tradeable_quotes_def submit_and_monitor_paper_def Let_def)

lemma submit_and_monitor_paper_abandon:
  "er_abandon_reason (submit_and_monitor_paper uid w sig lot) = None \<or>
   er_filled_qty (submit_and_monitor_paper uid w sig lot) = 0"
  by (auto simp: submit_and_monitor_paper_def entry_abandoned_def Let_def split: option.splits)

end
