(* ===== verification/ExitEval.thy ===== *)
theory ExitEval
  imports Store
begin

text \<open>
  \<open>backend/engines/order_exec/exit_eval.py\<close>, stage D: the trigger cascade \<open>evaluate\<close> and the
  trailing-stop update \<open>update_trailing_state\<close>.  The keyword arguments of \<open>evaluate\<close> are the
  record \<open>exit_args\<close>.  The contract is declarative: \<open>triggered\<close> says when each exit reason
  applies, \<open>priority\<close> orders them, and the cascade picks the applicable reason of highest
  priority.  Any sequence of trailing updates has a closed form.
\<close>

section \<open>Model\<close>

record exit_args =
  xa_current_premium :: money
  xa_current_leaf :: "leaf option"
  xa_now_ts_ms :: int
  xa_now_hhmm :: string
  xa_daily_loss_circuit_triggered :: bool
  xa_strategy_exit_pull :: "string option"
  xa_eod_squareoff_hhmm :: string
  xa_liquidity_suppress_after_hhmm :: string
  xa_spread_skip_pct :: rat

definition wide_spread :: "rat \<Rightarrow> leaf option \<Rightarrow> bool" where
  "wide_spread skip lf =
     (case lf of
        None \<Rightarrow> False
      | Some l \<Rightarrow>
          (let ltp = num_or (l_ltp l) 0; bid = num_or (l_bid l) 0; ask = num_or (l_ask l) 0
           in 0 < ltp \<and> 0 < bid \<and> 0 < ask \<and> bid < ask \<and> skip < (ask - bid) / ltp))"

definition holding_seconds :: "int \<Rightarrow> int \<Rightarrow> int" where
  "holding_seconds now_ms entry_ms = max 0 ((now_ms - entry_ms) div 1000)"

definition evaluate :: "position \<Rightarrow> exit_args \<Rightarrow> bool \<times> exit_reason option" where
  "evaluate p a =
     (if xa_strategy_exit_pull a \<noteq> None \<and> xa_strategy_exit_pull a \<noteq> Some []
        then (True, Some ER_STRATEGY_EXIT)
      else if xa_daily_loss_circuit_triggered a then (True, Some ER_DAILY_LOSS_CIRCUIT)
      else if xa_eod_squareoff_hhmm a \<le> xa_now_hhmm a then (True, Some ER_EOD)
      else if xa_current_premium a \<le> p_sl_level p then (True, Some ER_HARD_SL)
      else if p_target_level p \<le> xa_current_premium a then (True, Some ER_HARD_TARGET)
      else if p_tsl_armed p \<and> (case p_tsl_level p of None \<Rightarrow> False | Some l \<Rightarrow> xa_current_premium a \<le> l)
        then (True, Some ER_TRAILING_SL)
      else if xa_now_hhmm a < xa_liquidity_suppress_after_hhmm a \<and>
              wide_spread (xa_spread_skip_pct a) (xa_current_leaf a)
        then (True, Some ER_LIQUIDITY)
      else if xp_max_hold_sec (p_exit_profile p) \<le> holding_seconds (xa_now_ts_ms a) (p_entry_ts p)
        then (True, Some ER_TIME_EXIT)
      else (False, None))"

definition update_trailing_state :: "position \<Rightarrow> money \<Rightarrow> position" where
  "update_trailing_state p premium =
     (let new_peak = max (p_peak_premium p) premium;
          arm_threshold = p_entry_price p * (1 + p_tsl_arm_pct p);
          new_armed = (if \<not> p_tsl_armed p \<and> arm_threshold \<le> premium then True else p_tsl_armed p);
          new_level = (if new_armed then Some (py_round 4 (new_peak * (1 - p_tsl_trail_pct p)))
                       else p_tsl_level p)
      in p\<lparr>p_peak_premium := new_peak, p_tsl_armed := new_armed, p_tsl_level := new_level,
           p_current_premium := premium\<rparr>)"

section \<open>Contract\<close>

fun triggered :: "position \<Rightarrow> exit_args \<Rightarrow> exit_reason \<Rightarrow> bool" where
  "triggered p a ER_STRATEGY_EXIT = (\<exists>s. xa_strategy_exit_pull a = Some s \<and> s \<noteq> [])"
| "triggered p a ER_DAILY_LOSS_CIRCUIT = xa_daily_loss_circuit_triggered a"
| "triggered p a ER_EOD = (xa_eod_squareoff_hhmm a \<le> xa_now_hhmm a)"
| "triggered p a ER_HARD_SL = (xa_current_premium a \<le> p_sl_level p)"
| "triggered p a ER_HARD_TARGET = (p_target_level p \<le> xa_current_premium a)"
| "triggered p a ER_TRAILING_SL =
     (p_tsl_armed p \<and> (\<exists>l. p_tsl_level p = Some l \<and> xa_current_premium a \<le> l))"
| "triggered p a ER_LIQUIDITY =
     (xa_now_hhmm a < xa_liquidity_suppress_after_hhmm a \<and>
      wide_spread (xa_spread_skip_pct a) (xa_current_leaf a))"
| "triggered p a ER_TIME_EXIT =
     (xp_max_hold_sec (p_exit_profile p) \<le> holding_seconds (xa_now_ts_ms a) (p_entry_ts p))"
| "triggered p a ER_REVERSAL_FLIP = False"
| "triggered p a ER_MANUAL = False"

fun priority :: "exit_reason \<Rightarrow> nat" where
  "priority ER_STRATEGY_EXIT = 0"
| "priority ER_DAILY_LOSS_CIRCUIT = 1"
| "priority ER_EOD = 2"
| "priority ER_HARD_SL = 3"
| "priority ER_HARD_TARGET = 4"
| "priority ER_TRAILING_SL = 5"
| "priority ER_LIQUIDITY = 6"
| "priority ER_TIME_EXIT = 7"
| "priority ER_REVERSAL_FLIP = 8"
| "priority ER_MANUAL = 9"

text \<open>The trailing state after the premiums \<open>xs\<close>, oldest first.\<close>

definition run_trailing :: "position \<Rightarrow> money list \<Rightarrow> position" where
  "run_trailing p xs = foldl update_trailing_state p xs"

section \<open>Lemmas\<close>

lemma pull_present:
  "xa_strategy_exit_pull a \<noteq> None \<and> xa_strategy_exit_pull a \<noteq> Some [] \<longleftrightarrow> triggered p a ER_STRATEGY_EXIT"
  by (cases "xa_strategy_exit_pull a") auto

lemma tsl_present:
  "(p_tsl_armed p \<and> (case p_tsl_level p of None \<Rightarrow> False | Some l \<Rightarrow> xa_current_premium a \<le> l))
     \<longleftrightarrow> triggered p a ER_TRAILING_SL"
  by (auto split: option.splits)

lemma evaluate_cascade:
  "evaluate p a =
     (if triggered p a ER_STRATEGY_EXIT then (True, Some ER_STRATEGY_EXIT)
      else if triggered p a ER_DAILY_LOSS_CIRCUIT then (True, Some ER_DAILY_LOSS_CIRCUIT)
      else if triggered p a ER_EOD then (True, Some ER_EOD)
      else if triggered p a ER_HARD_SL then (True, Some ER_HARD_SL)
      else if triggered p a ER_HARD_TARGET then (True, Some ER_HARD_TARGET)
      else if triggered p a ER_TRAILING_SL then (True, Some ER_TRAILING_SL)
      else if triggered p a ER_LIQUIDITY then (True, Some ER_LIQUIDITY)
      else if triggered p a ER_TIME_EXIT then (True, Some ER_TIME_EXIT)
      else (False, None))"
  unfolding evaluate_def pull_present [of a p] tsl_present by (simp only: triggered.simps)

lemma evaluate_fst: "fst (evaluate p a) \<longleftrightarrow> snd (evaluate p a) \<noteq> None"
  unfolding evaluate_cascade by simp

lemma evaluate_triggered: "snd (evaluate p a) = Some r \<Longrightarrow> triggered p a r"
  unfolding evaluate_cascade by (simp split: if_splits)

lemma evaluate_minimal:
  "snd (evaluate p a) = Some r \<Longrightarrow> triggered p a q \<Longrightarrow> priority r \<le> priority q"
  unfolding evaluate_cascade by (cases q) (simp_all split: if_splits)

lemma evaluate_None: "snd (evaluate p a) = None \<longleftrightarrow> (\<forall>r. \<not> triggered p a r)"
proof
  assume n: "snd (evaluate p a) = None"
  show "\<forall>r. \<not> triggered p a r"
  proof
    fix r
    show "\<not> triggered p a r" using n unfolding evaluate_cascade by (cases r) (simp_all split: if_splits)
  qed
next
  assume "\<forall>r. \<not> triggered p a r"
  then show "snd (evaluate p a) = None"
    using evaluate_triggered [of p a] by (cases "snd (evaluate p a)") auto
qed

lemma priority_inject: "priority r = priority q \<longleftrightarrow> r = q"
  by (cases r; cases q) simp_all

lemma evaluate_some_iff:
  "snd (evaluate p a) = Some r \<longleftrightarrow>
     triggered p a r \<and> (\<forall>q. triggered p a q \<longrightarrow> priority r \<le> priority q)"
proof
  assume "snd (evaluate p a) = Some r"
  then show "triggered p a r \<and> (\<forall>q. triggered p a q \<longrightarrow> priority r \<le> priority q)"
    using evaluate_triggered evaluate_minimal by blast
next
  assume r: "triggered p a r \<and> (\<forall>q. triggered p a q \<longrightarrow> priority r \<le> priority q)"
  then obtain q where q: "snd (evaluate p a) = Some q" using evaluate_None [of p a] by auto
  with r evaluate_triggered evaluate_minimal have "priority r = priority q" by (meson le_antisym)
  with q show "snd (evaluate p a) = Some r" by (simp add: priority_inject)
qed

lemma update_trailing_frame:
  "update_trailing_state p x =
     p\<lparr>p_peak_premium := p_peak_premium (update_trailing_state p x),
       p_tsl_armed := p_tsl_armed (update_trailing_state p x),
       p_tsl_level := p_tsl_level (update_trailing_state p x), p_current_premium := x\<rparr>"
  by (simp add: update_trailing_state_def Let_def)

lemma update_trailing_simps [simp]:
  "p_peak_premium (update_trailing_state p x) = max (p_peak_premium p) x"
  "p_tsl_armed (update_trailing_state p x) \<longleftrightarrow>
     p_tsl_armed p \<or> p_entry_price p * (1 + p_tsl_arm_pct p) \<le> x"
  "p_current_premium (update_trailing_state p x) = x"
  "p_entry_price (update_trailing_state p x) = p_entry_price p"
  "p_tsl_arm_pct (update_trailing_state p x) = p_tsl_arm_pct p"
  "p_tsl_trail_pct (update_trailing_state p x) = p_tsl_trail_pct p"
  "p_entry_ts (update_trailing_state p x) = p_entry_ts p"
  "p_exit_profile (update_trailing_state p x) = p_exit_profile p"
  "p_sl_level (update_trailing_state p x) = p_sl_level p"
  "p_target_level (update_trailing_state p x) = p_target_level p"
  "p_qty (update_trailing_state p x) = p_qty p"
  "p_pos_id (update_trailing_state p x) = p_pos_id p"
  "p_index (update_trailing_state p x) = p_index p"
  by (auto simp: update_trailing_state_def Let_def)

lemma update_trailing_level:
  "p_tsl_level (update_trailing_state p x) =
     (if p_tsl_armed (update_trailing_state p x)
      then Some (py_round 4 (max (p_peak_premium p) x * (1 - p_tsl_trail_pct p))) else p_tsl_level p)"
  by (simp add: update_trailing_state_def Let_def)

lemma run_trailing_simps [simp]:
  "run_trailing p [] = p"
  "run_trailing p (x # xs) = run_trailing (update_trailing_state p x) xs"
  by (simp_all add: run_trailing_def)

lemma run_trailing_snoc: "run_trailing p (xs @ [x]) = update_trailing_state (run_trailing p xs) x"
  by (simp add: run_trailing_def)

lemma run_trailing_frame [simp]:
  "p_entry_price (run_trailing p xs) = p_entry_price p"
  "p_tsl_arm_pct (run_trailing p xs) = p_tsl_arm_pct p"
  "p_tsl_trail_pct (run_trailing p xs) = p_tsl_trail_pct p"
  by (induction xs arbitrary: p) simp_all

lemma run_trailing_peak: "p_peak_premium (run_trailing p xs) = Max (set (p_peak_premium p # xs))"
proof (induction xs rule: rev_induct)
  case (snoc x xs)
  have "set (p_peak_premium p # xs @ [x]) = insert x (set (p_peak_premium p # xs))" by auto
  then have "Max (set (p_peak_premium p # xs @ [x])) = max x (Max (set (p_peak_premium p # xs)))"
    by (simp only:) (rule Max_insert; simp)
  then show ?case using snoc by (simp only: run_trailing_snoc update_trailing_simps max.commute)
qed simp

lemma run_trailing_armed:
  "p_tsl_armed (run_trailing p xs) \<longleftrightarrow>
     p_tsl_armed p \<or> (\<exists>x \<in> set xs. p_entry_price p * (1 + p_tsl_arm_pct p) \<le> x)"
  by (induction xs arbitrary: p) auto

lemma run_trailing_level:
  "xs \<noteq> [] \<Longrightarrow> p_tsl_level (run_trailing p xs) =
     (if p_tsl_armed (run_trailing p xs)
      then Some (py_round 4 (p_peak_premium (run_trailing p xs) * (1 - p_tsl_trail_pct p)))
      else p_tsl_level p)"
proof (induction xs rule: rev_induct)
  case (snoc x xs)
  show ?case
  proof (cases "xs = []")
    case True
    then show ?thesis by (simp add: update_trailing_level)
  next
    case False
    then show ?thesis using snoc by (auto simp: run_trailing_snoc update_trailing_level)
  qed
qed simp

section \<open>Properties\<close>

text \<open>Claim C5.  The cascade is a priority choice.  \<open>evaluate\<close> reports an exit with reason \<open>r\<close>
  exactly when \<open>r\<close> applies and no applicable reason has a higher priority (strategy exit,
  daily-loss circuit, end of day, hard stop, target, trailing stop, liquidity, time); it
  reports no exit exactly when no reason applies.\<close>

theorem evaluate_is_priority_choice:
  "(evaluate p a = (True, Some r) \<longleftrightarrow>
      triggered p a r \<and> (\<forall>q. priority q < priority r \<longrightarrow> \<not> triggered p a q)) \<and>
   (evaluate p a = (False, None) \<longleftrightarrow> (\<forall>q. \<not> triggered p a q))"
proof -
  have "evaluate p a = (True, Some r) \<longleftrightarrow> snd (evaluate p a) = Some r"
    using evaluate_fst [of p a] by (cases "evaluate p a") auto
  moreover have "evaluate p a = (False, None) \<longleftrightarrow> snd (evaluate p a) = None"
    using evaluate_fst [of p a] by (cases "evaluate p a") auto
  ultimately show ?thesis using evaluate_some_iff [of p a r] evaluate_None [of p a] by (auto simp: not_less)
qed

definition sample_position :: position where
  "sample_position = \<lparr>p_pos_id = ''pos'', p_sig_id = ''sig'', p_index = ''nifty50'', p_side = CE,
     p_strike = 24000, p_instrument_token = ''NSE_FO|1'', p_qty = 75, p_entry_order_id = ''ord'',
     p_exit_order_id = None, p_entry_price = 100, p_entry_ts = 0, p_exit_price = None,
     p_exit_ts = None, p_mode = ''paper'', p_intent = FRESH_ENTRY, p_sl_level = 80,
     p_target_level = 150, p_tsl_armed = False, p_tsl_arm_pct = 15/100, p_tsl_trail_pct = 5/100,
     p_tsl_level = None, p_peak_premium = 100, p_current_premium = 100, p_pnl = 0, p_pnl_pct = 0,
     p_holding_seconds = 0, p_exit_profile = \<lparr>xp_sl_pct = 20/100, xp_target_pct = 50/100,
       xp_tsl_arm_pct = 15/100, xp_tsl_trail_pct = 5/100, xp_max_hold_sec = 1500\<rparr>,
     p_sum_ce_at_entry = 0, p_sum_pe_at_entry = 0, p_delta_pcr_at_entry = None,
     p_strategy_version = ''v1''\<rparr>"

definition sample_args :: exit_args where
  "sample_args = \<lparr>xa_current_premium = 79, xa_current_leaf = None, xa_now_ts_ms = 2000000,
     xa_now_hhmm = ''10:00'', xa_daily_loss_circuit_triggered = False, xa_strategy_exit_pull = None,
     xa_eod_squareoff_hhmm = ''15:15'', xa_liquidity_suppress_after_hhmm = ''15:00'',
     xa_spread_skip_pct = 5/100\<rparr>"

theorem evaluate_is_priority_choice_witness:
  "triggered sample_position sample_args ER_HARD_SL \<and> triggered sample_position sample_args ER_TIME_EXIT \<and>
   evaluate sample_position sample_args = (True, Some ER_HARD_SL)"
proof -
  have "\<forall>q. priority q < priority ER_HARD_SL \<longrightarrow> \<not> triggered sample_position sample_args q"
  proof
    fix q
    show "priority q < priority ER_HARD_SL \<longrightarrow> \<not> triggered sample_position sample_args q"
      by (cases q) (simp_all add: sample_args_def less_eq_char_def)
  qed
  moreover have "triggered sample_position sample_args ER_HARD_SL"
    "triggered sample_position sample_args ER_TIME_EXIT"
    by (simp_all add: sample_position_def sample_args_def holding_seconds_def)
  ultimately show ?thesis
    using evaluate_is_priority_choice [of sample_position sample_args ER_HARD_SL] by simp
qed

text \<open>Claim C28.  The trailing stop after any non-empty sequence of premiums is what the strategy
  asks for: the peak is the maximum premium seen, the stop is armed exactly when some premium
  reached the arming threshold (or it was armed before), and an armed stop lies at the peak less
  the trail percentage, rounded to four decimals.  So with a non-negative trail factor one more
  tick never lowers an armed stop, and never disarms it.\<close>

theorem trailing_stop_closed_form:
  assumes "xs \<noteq> []" and "p_tsl_trail_pct p \<le> 1"
  shows "p_peak_premium (run_trailing p xs) = Max (set (p_peak_premium p # xs)) \<and>
    (p_tsl_armed (run_trailing p xs) \<longleftrightarrow>
       p_tsl_armed p \<or> (\<exists>x \<in> set xs. p_entry_price p * (1 + p_tsl_arm_pct p) \<le> x)) \<and>
    (p_tsl_armed (run_trailing p xs) \<longrightarrow>
       p_tsl_level (run_trailing p xs) =
         Some (py_round 4 (Max (set (p_peak_premium p # xs)) * (1 - p_tsl_trail_pct p))) \<and>
       p_tsl_armed (run_trailing p (xs @ [y])) \<and>
       the (p_tsl_level (run_trailing p xs)) \<le> the (p_tsl_level (run_trailing p (xs @ [y]))))"
proof -
  let ?pk = "p_peak_premium (run_trailing p xs)" and ?t = "1 - p_tsl_trail_pct p"
  have "?pk * ?t \<le> max ?pk y * ?t" using assms(2) by (intro mult_right_mono) auto
  then have "py_round 4 (?pk * ?t) \<le> py_round 4 (max ?pk y * ?t)" by (rule py_round_mono)
  then show ?thesis
    using run_trailing_level [OF assms(1), of p] unfolding run_trailing_peak [symmetric]
    by (auto simp: run_trailing_armed run_trailing_snoc update_trailing_level)
qed

theorem trailing_stop_closed_form_witness:
  "p_tsl_level (run_trailing sample_position [110, 120, 112]) = Some 114 \<and>
   p_tsl_armed (run_trailing sample_position [110, 120, 112])"
proof -
  have "py_round 4 (114::rat) = 114" by (rule py_round_fix [where i = 1140000]) simp
  with trailing_stop_closed_form [of "[110, 120, 112]" sample_position 0] show ?thesis
    by (simp add: sample_position_def)
qed

end
