(* ===== verification/ExitSubmit.thy ===== *)
theory ExitSubmit
  imports OrderEntry ExitEval
begin

text \<open>
  \<open>backend/engines/order_exec/exit_submit.py\<close>, stage E: the SELL that closes a position.  Paper
  mode fills at once at bid less buffer; live mode places a SELL and then only modifies or
  re-places it until a FILL event arrives.  Broker and polls are as in \<open>OrderEntry\<close>; \<open>None\<close> says
  that the loop is still running when the polls run out.
\<close>

section \<open>Model\<close>

record exit_result =
  xr_filled_qty :: int
  xr_avg_fill_price :: money
  xr_order_id :: string
  xr_order_events :: "order_event list"
  xr_decision_to_exit_submit_ms :: int
  xr_exit_submit_to_fill_ms :: int

definition effective_buffer :: "string \<Rightarrow> execution_config \<Rightarrow> money" where
  "effective_buffer now_hhmm cfg =
     (let buffer = num_or (buffer_inr cfg) 2; eod_buffer = num_or (eod_buffer_inr cfg) 5;
          suppress_after = str_or (liquidity_exit_suppress_after cfg) ''15:00''
      in if suppress_after \<le> now_hhmm then eod_buffer else buffer)"

definition sell_price :: "money \<Rightarrow> money \<Rightarrow> money" where
  "sell_price bid buffer = py_round 2 (max 0.05 (bid - buffer))"

text \<open>The bid of the cached leg, or the last premium, or the entry price.\<close>

definition exit_bid :: "world \<Rightarrow> position \<Rightarrow> money" where
  "exit_bid w p =
     (let bid = (case read_leaf w (p_index p) (p_instrument_token p) of
                   None \<Rightarrow> 0 | Some lf \<Rightarrow> num_or (l_bid lf) 0)
      in if bid \<le> 0 then (if p_current_premium p = 0 then p_entry_price p else p_current_premium p)
         else bid)"

definition submit_and_complete_paper :: "string \<Rightarrow> world \<Rightarrow> position \<Rightarrow> string \<Rightarrow> string \<Rightarrow> exit_result" where
  "submit_and_complete_paper uid w p reason now_hhmm =
     (let buffer = effective_buffer now_hhmm (read_execution_config w);
          fill_price = sell_price (exit_bid w p) buffer;
          oid = ''PAPER-X-'' @ uid
      in \<lparr>xr_filled_qty = p_qty p, xr_avg_fill_price = fill_price, xr_order_id = oid,
          xr_order_events =
            [order_trail_event (w_now_ms w) ''SUBMIT'' oid (Some (p_qty p)) fill_price (Some ''paper_submit'')
               (Some (''exit:'' @ reason)),
             order_trail_event (w_now_ms w) ''FILL'' oid (Some (p_qty p)) fill_price (Some ''paper_filled'') None],
          xr_decision_to_exit_submit_ms = 0, xr_exit_submit_to_fill_ms = 0\<rparr>)"

record exit_state =
  xs_order_id :: string
  xs_bid :: money
  xs_submit_price :: money
  xs_events :: "order_event list"
  xs_calls :: "broker_call list"

definition sell_request :: "position \<Rightarrow> money \<Rightarrow> order_req" where
  "sell_request p price =
     \<lparr>rq_token = p_instrument_token p, rq_quantity = p_qty p, rq_txn = SELL, rq_price = price,
      rq_tag = p_pos_id p\<rparr>"

text \<open>The REJECT branch: refresh the quote and place again; the old id stays when that fails.\<close>

definition replace_after_reject :: "broker \<Rightarrow> world \<Rightarrow> position \<Rightarrow> money \<Rightarrow> exit_state \<Rightarrow> exit_state" where
  "replace_after_reject broker w p buffer st =
     (let cur_bid = (case read_leaf w (p_index p) (p_instrument_token p) of
                       None \<Rightarrow> xs_bid st | Some lf \<Rightarrow> num_or (l_bid lf) (xs_bid st));
          price = sell_price cur_bid buffer;
          req = sell_request p price
      in st\<lparr>xs_submit_price := price,
            xs_order_id := (case broker (xs_calls st) req of
                              Placed oid \<Rightarrow> str_or oid (xs_order_id st)
                            | PlaceRejected _ \<Rightarrow> xs_order_id st),
            xs_calls := xs_calls st @ [PlaceCall req]\<rparr>)"

fun exit_events ::
  "broker \<Rightarrow> world \<Rightarrow> position \<Rightarrow> money \<Rightarrow> int \<Rightarrow> order_event list \<Rightarrow> exit_state \<Rightarrow> exit_state + exit_result \<times> broker_call list"
where
  "exit_events broker w p buffer submit_ts [] st = Inl st"
| "exit_events broker w p buffer submit_ts (e # es) st =
     (if oe_order_id e \<noteq> xs_order_id st then exit_events broker w p buffer submit_ts es st
      else
        (let st1 = st\<lparr>xs_events := xs_events st @ [e]\<rparr>
         in if oe_event_type e = ''FILL'' then
              Inr (\<lparr>xr_filled_qty = get_or (oe_filled_qty e) (p_qty p),
                    xr_avg_fill_price = get_or (oe_avg_price e) (xs_submit_price st),
                    xr_order_id = xs_order_id st, xr_order_events = xs_events st1,
                    xr_decision_to_exit_submit_ms = 0,
                    xr_exit_submit_to_fill_ms = w_now_ms w - submit_ts\<rparr>, xs_calls st1)
            else if oe_event_type e = ''REJECT'' then
              exit_events broker w p buffer submit_ts es (replace_after_reject broker w p buffer st1)
            else exit_events broker w p buffer submit_ts es st1))"

definition requote :: "world \<Rightarrow> position \<Rightarrow> money \<Rightarrow> exit_state \<Rightarrow> exit_state" where
  "requote w p buffer st =
     (case read_leaf w (p_index p) (p_instrument_token p) of
        None \<Rightarrow> st
      | Some lf \<Rightarrow>
          (let cur_bid = num_or (l_bid lf) 0
           in if 0 < cur_bid \<and> 1 \<le> \<bar>cur_bid - xs_bid st\<bar> then
                (let price = sell_price cur_bid buffer
                 in st\<lparr>xs_bid := cur_bid, xs_submit_price := price,
                       xs_events := xs_events st @
                         [order_trail_event (w_now_ms w) ''MODIFY'' (xs_order_id st) None price None None],
                       xs_calls := xs_calls st @ [ModifyCall (xs_order_id st) price]\<rparr>)
              else st))"

fun exit_loop ::
  "broker \<Rightarrow> position \<Rightarrow> money \<Rightarrow> int \<Rightarrow> world \<Rightarrow> poll list \<Rightarrow> exit_state
     \<Rightarrow> (exit_result \<times> broker_call list \<times> world \<times> poll list) option"
where
  "exit_loop broker p buffer submit_ts w [] st = None"
| "exit_loop broker p buffer submit_ts w (q # rest) st =
     (let w' = po_env q w
      in case po_resp q of
           XFail \<Rightarrow> exit_loop broker p buffer submit_ts w' rest st
         | XEmpty \<Rightarrow> exit_loop broker p buffer submit_ts w' rest (requote w' p buffer st)
         | XEvents es \<Rightarrow>
             (case exit_events broker w' p buffer submit_ts es st of
                Inr (r, cs) \<Rightarrow> Some (r, cs, w', rest)
              | Inl st' \<Rightarrow> exit_loop broker p buffer submit_ts w' rest st'))"

text \<open>The state when the loop starts: the first SELL has been sent, and a refused placement leaves
  the empty order id.\<close>

definition exit_start :: "broker \<Rightarrow> broker_call list \<Rightarrow> world \<Rightarrow> position \<Rightarrow> string \<Rightarrow> money \<Rightarrow> exit_state" where
  "exit_start broker calls w p reason buffer =
     (let bid = exit_bid w p; price = sell_price bid buffer; req = sell_request p price;
          oid = (case broker calls req of Placed o_id \<Rightarrow> decode o_id | PlaceRejected _ \<Rightarrow> [])
      in \<lparr>xs_order_id = oid, xs_bid = bid, xs_submit_price = price,
          xs_events = [order_trail_event (w_now_ms w) ''SUBMIT'' oid (Some (p_qty p)) price None
                         (Some (''exit:'' @ reason))],
          xs_calls = calls @ [PlaceCall req]\<rparr>)"

definition submit_and_complete_live ::
  "broker \<Rightarrow> broker_call list \<Rightarrow> poll list \<Rightarrow> world \<Rightarrow> position \<Rightarrow> string \<Rightarrow> string
     \<Rightarrow> (exit_result \<times> broker_call list \<times> world \<times> poll list) option"
where
  "submit_and_complete_live broker calls polls w p reason now_hhmm =
     (let buffer = effective_buffer now_hhmm (read_execution_config w)
      in exit_loop broker p buffer (w_now_ms w) w polls (exit_start broker calls w p reason buffer))"

definition submit_and_complete ::
  "broker \<Rightarrow> string \<Rightarrow> broker_call list \<Rightarrow> poll list \<Rightarrow> world \<Rightarrow> position \<Rightarrow> string \<Rightarrow> string \<Rightarrow> string
     \<Rightarrow> (exit_result \<times> broker_call list \<times> world \<times> poll list) option"
where
  "submit_and_complete broker uid calls polls w p reason mode now_hhmm =
     (if mode = ''paper'' then Some (submit_and_complete_paper uid w p reason now_hhmm, calls, w, polls)
      else submit_and_complete_live broker calls polls w p reason now_hhmm)"

section \<open>Contract\<close>

definition PRICE_FLOOR :: money where
  "PRICE_FLOOR = 0.05"

fun sell_call :: "position \<Rightarrow> broker_call \<Rightarrow> bool" where
  "sell_call p (PlaceCall q) =
     (rq_txn q = SELL \<and> rq_quantity q = p_qty p \<and> rq_token q = p_instrument_token p \<and> PRICE_FLOOR \<le> rq_price q)"
| "sell_call p (ModifyCall _ m) = (PRICE_FLOOR \<le> m)"
| "sell_call p (CancelCall _) = False"

text \<open>The calls made so far are the old ones and then sell-side calls only, one placement more
  than rejects seen.\<close>

definition exit_inv :: "position \<Rightarrow> broker_call list \<Rightarrow> exit_state \<Rightarrow> bool" where
  "exit_inv p calls st \<longleftrightarrow>
     PRICE_FLOOR \<le> xs_submit_price st \<and>
     (\<exists>cs. xs_calls st = calls @ cs \<and> (\<forall>c \<in> set cs. sell_call p c) \<and>
        length (filter is_place cs) =
          Suc (length (filter (\<lambda>e. oe_event_type e = ''REJECT'') (xs_events st))))"

definition exit_closed :: "position \<Rightarrow> broker_call list \<Rightarrow> exit_result \<Rightarrow> broker_call list \<Rightarrow> bool" where
  "exit_closed p calls r cs \<longleftrightarrow>
     (\<exists>e. last (xr_order_events r) = e \<and> xr_order_events r \<noteq> [] \<and> fill_event (xr_order_id r) e \<and>
        xr_filled_qty r = get_or (oe_filled_qty e) (p_qty p) \<and>
        (oe_avg_price e = None \<longrightarrow> PRICE_FLOOR \<le> xr_avg_fill_price r)) \<and>
     (\<exists>new. cs = calls @ new \<and> (\<forall>c \<in> set new. sell_call p c) \<and>
        length (filter is_place new) =
          Suc (length (filter (\<lambda>e. oe_event_type e = ''REJECT'') (xr_order_events r))))"

section \<open>Lemmas\<close>

lemma sell_price_floor [simp]: "PRICE_FLOOR \<le> sell_price bid buffer"
proof -
  have "py_round 2 (0.05 :: rat) = 0.05" by (rule py_round_fix [where i = 5]) simp
  moreover have "py_round 2 (0.05 :: rat) \<le> sell_price bid buffer"
    unfolding sell_price_def by (rule py_round_mono) simp
  ultimately show ?thesis by (simp add: PRICE_FLOOR_def)
qed

lemma sell_request_simps [simp]:
  "rq_txn (sell_request p m) = SELL" "rq_quantity (sell_request p m) = p_qty p"
  "rq_token (sell_request p m) = p_instrument_token p" "rq_price (sell_request p m) = m"
  by (simp_all add: sell_request_def)

lemma sell_request_call [simp]: "sell_call p (PlaceCall (sell_request p (sell_price b f)))"
  using sell_price_floor [of b f] by simp

lemma exit_inv_extend:
  assumes "exit_inv p calls st" and "sell_call p c" and "PRICE_FLOOR \<le> xs_submit_price st'"
    and "xs_calls st' = xs_calls st @ [c]"
    and "length (filter (\<lambda>e. oe_event_type e = ''REJECT'') (xs_events st')) =
      length (filter (\<lambda>e. oe_event_type e = ''REJECT'') (xs_events st)) + (if is_place c then 1 else 0)"
  shows "exit_inv p calls st'"
proof -
  from assms(1) obtain cs where "xs_calls st = calls @ cs" "\<forall>c \<in> set cs. sell_call p c"
    "length (filter is_place cs) = Suc (length (filter (\<lambda>e. oe_event_type e = ''REJECT'') (xs_events st)))"
    by (auto simp: exit_inv_def)
  with assms(2-) show ?thesis unfolding exit_inv_def by (intro conjI exI [of _ "cs @ [c]"]) auto
qed

lemma requote_inv:
  assumes inv: "exit_inv p calls st"
  shows "exit_inv p calls (requote w p buffer st)"
proof (cases "xs_calls (requote w p buffer st) = xs_calls st")
  case True
  then have "requote w p buffer st = st" by (auto simp: requote_def Let_def split: option.splits)
  with inv show ?thesis by simp
next
  case False
  then obtain m where "xs_calls (requote w p buffer st) =
        xs_calls st @ [ModifyCall (xs_order_id st) (sell_price m buffer)]"
      "xs_submit_price (requote w p buffer st) = sell_price m buffer"
      "filter (\<lambda>e. oe_event_type e = ''REJECT'') (xs_events (requote w p buffer st)) =
        filter (\<lambda>e. oe_event_type e = ''REJECT'') (xs_events st)"
    by (auto simp: requote_def Let_def order_trail_event_def split: option.splits if_splits)
  then show ?thesis by (intro exit_inv_extend [OF inv]) auto
qed

lemma replace_inv:
  assumes "exit_inv p calls st" and "oe_event_type e = ''REJECT''"
  shows "exit_inv p calls (replace_after_reject broker w p buffer (st\<lparr>xs_events := xs_events st @ [e]\<rparr>))"
  using assms(1)
  by (rule exit_inv_extend) (auto simp: replace_after_reject_def Let_def assms(2) simp del: sell_call.simps)

lemma append_event_inv:
  assumes "exit_inv p calls st" and "oe_event_type e \<noteq> ''REJECT''"
  shows "exit_inv p calls (st\<lparr>xs_events := xs_events st @ [e]\<rparr>)"
  using assms by (simp add: exit_inv_def)

lemma exit_events_spec:
  assumes "exit_inv p calls st"
  shows "case exit_events broker w p buffer ts es st of
           Inl st' \<Rightarrow> exit_inv p calls st' | Inr (r, cs) \<Rightarrow> exit_closed p calls r cs"
  using assms
proof (induction es arbitrary: st)
  case (Cons e es)
  consider (skip) "oe_order_id e \<noteq> xs_order_id st"
    | (fill) "oe_order_id e = xs_order_id st" "oe_event_type e = ''FILL''"
    | (reject) "oe_order_id e = xs_order_id st" "oe_event_type e = ''REJECT''"
    | (other) "oe_order_id e = xs_order_id st" "oe_event_type e \<noteq> ''FILL''" "oe_event_type e \<noteq> ''REJECT''"
    by blast
  then show ?case
  proof cases
    case skip
    with Cons show ?thesis by simp
  next
    case fill
    with Cons.prems show ?thesis
      by (auto simp: Let_def exit_closed_def fill_event_def exit_inv_def)
  next
    case reject
    with Cons.IH [OF replace_inv [OF Cons.prems, of e broker w buffer]] show ?thesis
      by (simp add: Let_def)
  next
    case other
    with Cons.IH [OF append_event_inv [OF Cons.prems, of e]] show ?thesis by (simp add: Let_def)
  qed
qed simp

lemma exit_loop_closed:
  assumes "exit_loop broker p buffer ts w polls st = Some (r, cs, w', rest)" and "exit_inv p calls st"
  shows "exit_closed p calls r cs"
  using assms
proof (induction polls arbitrary: w st)
  case (Cons q qs)
  show ?case
  proof (cases "po_resp q")
    case (XEvents es)
    with Cons exit_events_spec [OF Cons.prems(2), of broker "po_env q w" buffer ts es] show ?thesis
      by (auto simp: Let_def split: sum.splits)
  qed (use Cons in \<open>auto simp: Let_def intro: requote_inv\<close>)
qed simp

lemma exit_start_inv: "exit_inv p calls (exit_start broker calls w p reason buffer)"
  unfolding exit_inv_def exit_start_def Let_def
  using sell_price_floor by (auto simp: order_trail_event_def)

lemma exit_events_no_id:
  "\<forall>e \<in> set es. oe_order_id e \<noteq> xs_order_id st \<Longrightarrow> exit_events broker w p buffer ts es st = Inl st"
  by (induction es) auto

lemma requote_order_id [simp]: "xs_order_id (requote w p buffer st) = xs_order_id st"
  by (simp add: requote_def Let_def split: option.split)

lemma exit_loop_no_id:
  "\<forall>e \<in> poll_events polls. oe_order_id e \<noteq> xs_order_id st \<Longrightarrow>
     exit_loop broker p buffer ts w polls st = None"
proof (induction polls arbitrary: w st)
  case (Cons q qs)
  then show ?case by (cases "po_resp q") (auto simp: Let_def exit_events_no_id)
qed simp

lemma exit_events_until_fill:
  assumes "\<forall>e \<in> set es. \<not> reject_event (xs_order_id st) e"
  shows "case exit_events broker w p buffer ts es st of
      Inr (r, cs) \<Rightarrow> xr_order_id r = xs_order_id st
    | Inl st' \<Rightarrow> xs_order_id st' = xs_order_id st \<and> (\<forall>e \<in> set es. \<not> fill_event (xs_order_id st) e)"
  using assms
proof (induction es arbitrary: st)
  case (Cons e es)
  consider (skip) "oe_order_id e \<noteq> xs_order_id st"
    | (fill) "oe_order_id e = xs_order_id st" "oe_event_type e = ''FILL''"
    | (other) "oe_order_id e = xs_order_id st" "oe_event_type e \<noteq> ''FILL''" "oe_event_type e \<noteq> ''REJECT''"
    using Cons.prems by (auto simp: reject_event_def)
  then show ?case
  proof cases
    case skip
    with Cons.IH [of st] Cons.prems show ?thesis by (auto simp: fill_event_def split: sum.splits)
  next
    case fill
    then show ?thesis by (simp add: Let_def)
  next
    case other
    with Cons.IH [of "st\<lparr>xs_events := xs_events st @ [e]\<rparr>"] Cons.prems show ?thesis
      by (auto simp: Let_def fill_event_def split: sum.splits)
  qed
qed simp

lemma exit_loop_returns:
  assumes "\<exists>e \<in> poll_events polls. fill_event (xs_order_id st) e"
    and "\<forall>e \<in> poll_events polls. \<not> reject_event (xs_order_id st) e"
  shows "\<exists>r cs w' rest. exit_loop broker p buffer ts w polls st = Some (r, cs, w', rest) \<and>
    xr_order_id r = xs_order_id st"
  using assms
proof (induction polls arbitrary: w st)
  case (Cons q qs)
  show ?case
  proof (cases "po_resp q")
    case (XEvents es)
    have "\<forall>e \<in> set es. \<not> reject_event (xs_order_id st) e" using Cons.prems(2) XEvents by auto
    note ev = exit_events_until_fill [OF this, of broker "po_env q w" p buffer ts]
    show ?thesis
    proof (cases "exit_events broker (po_env q w) p buffer ts es st")
      case (Inr res)
      with ev XEvents show ?thesis by (cases res) (auto simp: Let_def)
    next
      case (Inl st')
      with ev have st': "xs_order_id st' = xs_order_id st" "\<forall>e \<in> set es. \<not> fill_event (xs_order_id st) e"
        by simp_all
      have "\<exists>r cs w' rest. exit_loop broker p buffer ts (po_env q w) qs st' = Some (r, cs, w', rest) \<and>
          xr_order_id r = xs_order_id st'"
        using Cons.prems XEvents st' by (intro Cons.IH) auto
      with Inl XEvents st' show ?thesis by (simp add: Let_def)
    qed
  next
    case XEmpty
    with Cons.IH [of "requote (po_env q w) p buffer st" "po_env q w"] Cons.prems show ?thesis
      by (simp add: Let_def)
  next
    case XFail
    with Cons.IH [of st "po_env q w"] Cons.prems show ?thesis by (simp add: Let_def)
  qed
qed simp

section \<open>Properties\<close>

text \<open>Claim C23.  A live exit closes the position or does not return.  When
  \<open>submit_and_complete_live\<close> returns, its trail ends with the FILL event of the order it reports
  and the quantity is that event's (or the position's when the event has none); every broker
  call it made is a SELL of exactly the position's quantity or a price change, never below
  \<open>0.05\<close> and never a cancel, and it placed one SELL plus one for each reject it saw.\<close>

theorem live_exit_closes:
  assumes "submit_and_complete_live broker calls polls w p reason hhmm = Some (r, cs, w', rest)"
  shows "exit_closed p calls r cs"
  using assms unfolding submit_and_complete_live_def Let_def
  by (rule exit_loop_closed [OF _ exit_start_inv])

lemmas live_exit_eval = submit_and_complete_live_def exit_start_def exit_bid_def sell_request_def
  read_leaf_def Let_def sample_order_event_def order_trail_event_def

definition sample_exit_position :: position where
  "sample_exit_position = sample_position\<lparr>p_pos_id := ''P-1'', p_mode := ''live''\<rparr>"

definition reject_then_fill :: "poll list" where
  "reject_then_fill =
     [\<lparr>po_env = advance_clock 500, po_resp = XEvents [sample_order_event ''REJECT'' ''x1'' None]\<rparr>,
      \<lparr>po_env = advance_clock 500, po_resp = XEvents [sample_order_event ''FILL'' ''x2'' (Some 75)]\<rparr>]"

definition two_ids :: broker where
  "two_ids calls req = (if calls = [] then Placed (Some ''x1'') else Placed (Some ''x2''))"

theorem live_exit_closes_witness:
  "\<exists>r cs w' rest. submit_and_complete_live two_ids [] reject_then_fill sample_world sample_exit_position
      ''HARD_SL'' ''10:00'' = Some (r, cs, w', rest) \<and> exit_closed sample_exit_position [] r cs \<and>
    xr_filled_qty r = 75 \<and> length (filter is_place cs) = 2"
proof -
  obtain r cs w' rest where run: "submit_and_complete_live two_ids [] reject_then_fill sample_world
      sample_exit_position ''HARD_SL'' ''10:00'' = Some (r, cs, w', rest)"
    and q: "xr_filled_qty r = 75" "length (filter is_place cs) = 2"
    by (simp add: live_exit_eval reject_then_fill_def two_ids_def replace_after_reject_def)
  with live_exit_closes [OF run] show ?thesis by blast
qed

text \<open>Claim C27.  A live exit whose SELL was accepted completes: if some poll delivers the FILL
  event of that order and none delivers its reject, \<open>submit_and_complete_live\<close> returns, with
  that order, whatever else happens in between.\<close>

theorem live_exit_completes:
  assumes "broker calls (sell_request p (sell_price (exit_bid w p)
      (effective_buffer hhmm (read_execution_config w)))) = Placed (Some oid)"
    and "\<exists>e \<in> poll_events polls. fill_event oid e"
    and "\<forall>e \<in> poll_events polls. \<not> reject_event oid e"
  shows "\<exists>r cs w' rest. submit_and_complete_live broker calls polls w p reason hhmm = Some (r, cs, w', rest) \<and>
    xr_order_id r = oid"
proof -
  let ?st = "exit_start broker calls w p reason (effective_buffer hhmm (read_execution_config w))"
  have "xs_order_id ?st = oid" using assms(1) by (simp add: exit_start_def Let_def)
  then show ?thesis
    using exit_loop_returns [of polls ?st] assms(2,3) by (simp add: submit_and_complete_live_def Let_def)
qed

theorem live_exit_completes_witness:
  "\<exists>r cs w' rest. submit_and_complete_live (\<lambda>_ _. Placed (Some ''x1'')) []
      [\<lparr>po_env = id, po_resp = XFail\<rparr>, \<lparr>po_env = id, po_resp = XEvents [sample_order_event ''FILL'' ''x1'' None]\<rparr>]
      sample_world sample_exit_position ''EOD'' ''15:20'' = Some (r, cs, w', rest) \<and> xr_order_id r = ''x1''"
  by (rule live_exit_completes)
     (simp_all add: fill_event_def reject_event_def sample_order_event_def order_trail_event_def)

text \<open>A live exit whose first placement is refused never completes.  The code logs a
  retry but only a reject event of the empty order id would trigger one; as long as every event
  carries a non-empty order id the loop never returns, so the position stays open.\<close>

theorem live_exit_stuck_when_refused:
  assumes "broker calls (sell_request p (sell_price (exit_bid w p)
      (effective_buffer hhmm (read_execution_config w)))) = PlaceRejected err"
    and "\<forall>e \<in> poll_events polls. oe_order_id e \<noteq> []"
  shows "submit_and_complete_live broker calls polls w p reason hhmm = None"
proof -
  let ?st = "exit_start broker calls w p reason (effective_buffer hhmm (read_execution_config w))"
  have "xs_order_id ?st = []" using assms(1) by (simp add: exit_start_def Let_def)
  with assms(2) show ?thesis
    using exit_loop_no_id [of polls ?st] by (simp add: submit_and_complete_live_def Let_def)
qed

theorem live_exit_stuck_when_refused_witness:
  "submit_and_complete_live (\<lambda>_ _. PlaceRejected ''UDAPI'') [] (replicate 1000 \<lparr>po_env = advance_clock 500, po_resp = XEmpty\<rparr>)
     sample_world sample_exit_position ''HARD_SL'' ''10:00'' = None"
  by (rule live_exit_stuck_when_refused) (simp_all add: poll_events_def)

lemma submit_and_complete_paper_simps [simp]:
  "xr_filled_qty (submit_and_complete_paper uid w p reason hhmm) = p_qty p"
  "xr_order_id (submit_and_complete_paper uid w p reason hhmm) = ''PAPER-X-'' @ uid"
  "xr_avg_fill_price (submit_and_complete_paper uid w p reason hhmm) =
     sell_price (exit_bid w p) (effective_buffer hhmm (read_execution_config w))"
  by (simp_all add: submit_and_complete_paper_def Let_def)

end
