(* ===== verification/Reporting.thy ===== *)
theory Reporting
  imports ExitSubmit
begin

text \<open>
  Stage F: \<open>backend/engines/order_exec/reporting.py\<close> (the closed-position report) and
  \<open>backend/engines/order_exec/cleanup.py\<close> (the teardown of a position's keys).  The report
  constructor validates, so building one may raise.  The cleanup pipeline is the list of its
  commands, each answering whether it touched something.
\<close>

section \<open>Report\<close>

definition to_event_entry :: "int \<Rightarrow> order_event \<Rightarrow> order_event" where
  "to_event_entry now e =
     \<lparr>oe_ts = Some (get_or (oe_ts e) now), oe_event_type = oe_event_type e, oe_order_id = oe_order_id e,
      oe_qty = oe_qty e, oe_price = oe_price e,
      oe_broker_status = (if decode (oe_broker_status e) = [] then None else oe_broker_status e),
      oe_note = (if decode (oe_note e) = [] then None else oe_note e),
      oe_filled_qty = None, oe_avg_price = None, oe_reject_reason = None\<rparr>"

definition to_event_entries :: "int \<Rightarrow> order_event list \<Rightarrow> order_event list" where
  "to_event_entries now es = map (to_event_entry now) es"

definition validate_report :: "report \<Rightarrow> pyexc + report" where
  "validate_report r = (if report_valid r then Inr r else Inl ValidationError)"

definition build_report ::
  "int \<Rightarrow> position \<Rightarrow> entry_result \<Rightarrow> exit_result \<Rightarrow> exit_reason \<Rightarrow> market_snapshot \<Rightarrow> market_snapshot
     \<Rightarrow> signal option \<Rightarrow> int \<Rightarrow> eval_entry list option \<Rightarrow> trail_entry list option \<Rightarrow> pyexc + report"
where
  "build_report now p en ex reason snap_entry snap_exit sig_snap signal_to_submit evals trails =
     (let qty = er_filled_qty en; entry_price = er_avg_fill_price en; exit_price = xr_avg_fill_price ex;
          gross = (exit_price - entry_price) * of_int qty; charges = 0; slippage = 0;
          net = gross - charges;
          pct = (if 0 < entry_price \<and> 0 < qty then gross / (entry_price * of_int qty) * 100 else 0);
          exit_ts = (if xr_order_events ex = [] then now else get_or (oe_ts (last (xr_order_events ex))) now)
      in validate_report
           \<lparr>r_sig_id = p_sig_id p, r_index = p_index p, r_mode = p_mode p, r_side = p_side p,
            r_strike = p_strike p, r_instrument_token = p_instrument_token p, r_qty = qty,
            r_entry_ts = p_entry_ts p, r_exit_ts = exit_ts,
            r_holding_seconds = holding_seconds exit_ts (p_entry_ts p),
            r_entry_price = entry_price, r_exit_price = exit_price, r_pnl = py_round 4 net,
            r_pnl_pct = py_round 4 pct, r_exit_reason = reason, r_intent = p_intent p,
            r_signal_snapshot = sig_snap, r_market_snapshot_entry = snap_entry,
            r_market_snapshot_exit = snap_exit, r_exit_eval_history = evals, r_trailing_history = trails,
            r_order_events = to_event_entries now (er_order_events en @ xr_order_events ex),
            r_latencies = \<lparr>lt_signal_to_submit_ms = signal_to_submit,
              lt_submit_to_ack_ms = er_submit_to_ack_ms en, lt_ack_to_fill_ms = er_ack_to_fill_ms en,
              lt_decision_to_exit_submit_ms = xr_decision_to_exit_submit_ms ex,
              lt_exit_submit_to_fill_ms = xr_exit_submit_to_fill_ms ex\<rparr>,
            r_pnl_breakdown = \<lparr>pb_gross = py_round 4 gross, pb_charges = py_round 4 charges,
              pb_slippage = py_round 4 slippage, pb_net = py_round 4 net\<rparr>,
            r_strategy_version = p_strategy_version p\<rparr>)"

section \<open>Cleanup\<close>

type_synonym command = "world \<Rightarrow> bool \<times> world"

definition del_position :: "string \<Rightarrow> command" where
  "del_position pid w = (w_positions w pid \<noteq> None, w\<lparr>w_positions := (w_positions w)(pid := None)\<rparr>)"

definition del_status :: "string \<Rightarrow> command" where
  "del_status pid w = (w_status w pid \<noteq> None, w\<lparr>w_status := (w_status w)(pid := None)\<rparr>)"

definition del_signal :: "string \<Rightarrow> command" where
  "del_signal sid w = (w_signals w sid \<noteq> None, w\<lparr>w_signals := (w_signals w)(sid := None)\<rparr>)"

definition del_order :: "string \<Rightarrow> command" where
  "del_order oid w = (oid \<in> w_orders w, w\<lparr>w_orders := w_orders w - {oid}\<rparr>)"

definition del_broker_pos :: "string \<Rightarrow> command" where
  "del_broker_pos oid w = (oid \<in> w_broker_pos w, w\<lparr>w_broker_pos := w_broker_pos w - {oid}\<rparr>)"

definition srem_open_order :: "string \<Rightarrow> command" where
  "srem_open_order oid w = (oid \<in> w_broker_open_orders w, w\<lparr>w_broker_open_orders := w_broker_open_orders w - {oid}\<rparr>)"

definition srem_open :: "string \<Rightarrow> command" where
  "srem_open pid w = (pid \<in> w_open w, w\<lparr>w_open := w_open w - {pid}\<rparr>)"

definition srem_open_by_index :: "index_name \<Rightarrow> string \<Rightarrow> command" where
  "srem_open_by_index idx pid w =
     (pid \<in> w_open_by_index w idx,
      w\<lparr>w_open_by_index := (w_open_by_index w)(idx := w_open_by_index w idx - {pid})\<rparr>)"

definition sadd_closed :: "string \<Rightarrow> command" where
  "sadd_closed pid w = (pid \<notin> w_closed_today w, w\<lparr>w_closed_today := insert pid (w_closed_today w)\<rparr>)"

definition clear_current_position :: "index_name \<Rightarrow> command" where
  "clear_current_position idx w = (True, upd_vessel idx (\<lambda>v. v\<lparr>v_current_position_id := Some []\<rparr>) w)"

fun run_pipeline :: "command list \<Rightarrow> world \<Rightarrow> nat \<times> world" where
  "run_pipeline [] w = (0, w)"
| "run_pipeline (c # cs) w =
     (case c w of (hit, w') \<Rightarrow>
       (case run_pipeline cs w' of (n, w'') \<Rightarrow> ((if hit then Suc n else n), w'')))"

definition cleanup_commands :: "string \<Rightarrow> string \<Rightarrow> string list \<Rightarrow> index_name \<Rightarrow> command list" where
  "cleanup_commands pos_id sig_id order_ids idx =
     [del_position pos_id, del_status pos_id, del_signal sig_id] @
     concat (map (\<lambda>oid. if oid = [] then [] else [del_order oid, del_broker_pos oid, srem_open_order oid]) order_ids) @
     [srem_open pos_id, srem_open_by_index idx pos_id, sadd_closed pos_id, clear_current_position idx]"

text \<open>\<open>fault\<close>: \<open>pipe.execute()\<close> raised before any command was applied.\<close>

definition cleanup :: "bool \<Rightarrow> world \<Rightarrow> string \<Rightarrow> string \<Rightarrow> string list \<Rightarrow> index_name \<Rightarrow> nat \<times> world" where
  "cleanup fault w pos_id sig_id order_ids idx =
     (if fault then (0, w) else run_pipeline (cleanup_commands pos_id sig_id order_ids idx) w)"

section \<open>Lemmas\<close>

lemmas command_defs = del_position_def del_status_def del_signal_def del_order_def del_broker_pos_def
  srem_open_order_def srem_open_def srem_open_by_index_def sadd_closed_def clear_current_position_def

lemma snd_run_pipeline [simp]:
  "snd (run_pipeline [] w) = w"
  "snd (run_pipeline (c # cs) w) = snd (run_pipeline cs (snd (c w)))"
  by (simp_all split: prod.splits)

declare run_pipeline.simps [simp del]

lemma run_pipeline_append:
  "snd (run_pipeline (cs @ ds) w) = snd (run_pipeline ds (snd (run_pipeline cs w)))"
  by (induction cs arbitrary: w) simp_all

lemma run_order_commands:
  "snd (run_pipeline (concat (map (\<lambda>oid. if oid = [] then [] else
       [del_order oid, del_broker_pos oid, srem_open_order oid]) oids)) w) =
     w\<lparr>w_orders := w_orders w - (set oids - {[]}), w_broker_pos := w_broker_pos w - (set oids - {[]}),
       w_broker_open_orders := w_broker_open_orders w - (set oids - {[]})\<rparr>"
proof (induction oids arbitrary: w)
  case (Cons o_id oids)
  have "A - {o_id} - (set oids - {[]}) = A - (set (o_id # oids) - {[]})" if "o_id \<noteq> []" for A
    using that by auto
  with Cons show ?case
    by (cases "o_id = []") (simp_all add: command_defs)
qed simp

text \<open>What the whole pipeline does, in closed form.\<close>

definition torn_down :: "world \<Rightarrow> string \<Rightarrow> string \<Rightarrow> string list \<Rightarrow> index_name \<Rightarrow> world" where
  "torn_down w pos_id sig_id order_ids idx =
     upd_vessel idx (\<lambda>v. v\<lparr>v_current_position_id := Some []\<rparr>)
       (w\<lparr>w_positions := (w_positions w)(pos_id := None), w_status := (w_status w)(pos_id := None),
          w_signals := (w_signals w)(sig_id := None), w_orders := w_orders w - (set order_ids - {[]}),
          w_broker_pos := w_broker_pos w - (set order_ids - {[]}),
          w_broker_open_orders := w_broker_open_orders w - (set order_ids - {[]}),
          w_open := w_open w - {pos_id},
          w_open_by_index := (w_open_by_index w)(idx := w_open_by_index w idx - {pos_id}),
          w_closed_today := insert pos_id (w_closed_today w)\<rparr>)"

lemma cleanup_state: "snd (cleanup False w pid sid oids idx) = torn_down w pid sid oids idx"
  by (simp add: cleanup_def cleanup_commands_def run_pipeline_append run_order_commands torn_down_def)
     (simp add: command_defs upd_vessel_def)

lemma torn_down_frame [simp]:
  "w_alloc (torn_down w pid sid oids idx) = w_alloc w"
  "w_reports_pending (torn_down w pid sid oids idx) = w_reports_pending w"
  "w_exit_pull (torn_down w pid sid oids idx) = w_exit_pull w"
  "w_now_ms (torn_down w pid sid oids idx) = w_now_ms w"
  "w_open (torn_down w pid sid oids idx) = w_open w - {pid}"
  "w_open_by_index (torn_down w pid sid oids idx) i =
     (if i = idx then w_open_by_index w idx - {pid} else w_open_by_index w i)"
  "w_positions (torn_down w pid sid oids idx) = (w_positions w)(pid := None)"
  "w_status (torn_down w pid sid oids idx) = (w_status w)(pid := None)"
  "w_closed_today (torn_down w pid sid oids idx) = insert pid (w_closed_today w)"
  "w_rejected (torn_down w pid sid oids idx) = w_rejected w"
  "v_state (w_vessel (torn_down w pid sid oids idx) i) = v_state (w_vessel w i)"
  "v_current_position_id (w_vessel (torn_down w pid sid oids idx) i) =
     (if i = idx then Some [] else v_current_position_id (w_vessel w i))"
  by (simp_all add: torn_down_def upd_vessel_def)

lemma torn_down_twice: "torn_down (torn_down w pid sid oids idx) pid sid oids idx = torn_down w pid sid oids idx"
  by (simp add: torn_down_def upd_vessel_def insert_absorb Diff_idemp)

lemma build_report_Inr:
  assumes "build_report now p en ex reason s1 s2 sg ms evs trs = Inr r"
  shows "report_valid r" and "r_pnl r = py_round 4 ((xr_avg_fill_price ex - er_avg_fill_price en) * of_int (er_filled_qty en))"
    and "r_qty r = er_filled_qty en" and "r_exit_reason r = reason" and "r_index r = p_index p"
    and "r_sig_id r = p_sig_id p" and "r_order_events r = to_event_entries now (er_order_events en @ xr_order_events ex)"
    and "pb_net (r_pnl_breakdown r) = r_pnl r" and "pb_gross (r_pnl_breakdown r) = r_pnl r"
    and "r_exit_eval_history r = evs"
  using assms by (auto simp: build_report_def validate_report_def Let_def split: if_splits)

lemma build_report_exists:
  assumes "position_valid p" and "0 < er_filled_qty en"
  shows "\<exists>r. build_report now p en ex reason s1 s2 sg ms evs trs = Inr r"
  using assms by (auto simp: build_report_def validate_report_def report_valid_def position_valid_def
      holding_seconds_def Let_def)

section \<open>Properties\<close>

text \<open>Cleanup removes every trace of a closed position and nothing else: afterwards the
  state is the old one without the position, its status, its signal, its (non-empty) order ids
  and its memberships in the open sets, with the position recorded as closed and the vessel's
  current position cleared.  Running it again changes nothing.\<close>

theorem cleanup_complete:
  "snd (cleanup False w pos_id sig_id order_ids idx) = torn_down w pos_id sig_id order_ids idx \<and>
   snd (cleanup False (snd (cleanup False w pos_id sig_id order_ids idx)) pos_id sig_id order_ids idx) =
     snd (cleanup False w pos_id sig_id order_ids idx)"
  by (simp only: cleanup_state torn_down_twice simp_thms)

text \<open>The report of a closed position is right and can always be built: for a valid
  position and a positive filled quantity \<open>build_report\<close> does not raise, the reported profit is
  within half of the fourth decimal of \<open>(exit - entry) * qty\<close> and is not negative when the exit
  price is not below the entry price, gross and net agree with it, and the trail holds every
  entry and exit event, each with a time.\<close>

theorem build_report_correct:
  assumes "position_valid p" and "0 < er_filled_qty en"
  shows "\<exists>r. build_report now p en ex reason s1 s2 sg ms evs trs = Inr r \<and> report_valid r \<and>
    \<bar>r_pnl r - (xr_avg_fill_price ex - er_avg_fill_price en) * of_int (er_filled_qty en)\<bar> \<le> 1 / 20000 \<and>
    (er_avg_fill_price en \<le> xr_avg_fill_price ex \<longrightarrow> 0 \<le> r_pnl r) \<and>
    pb_gross (r_pnl_breakdown r) = r_pnl r \<and> pb_net (r_pnl_breakdown r) = r_pnl r \<and>
    length (r_order_events r) = length (er_order_events en) + length (xr_order_events ex) \<and>
    (\<forall>e \<in> set (r_order_events r). oe_ts e \<noteq> None)"
proof -
  let ?g = "(xr_avg_fill_price ex - er_avg_fill_price en) * of_int (er_filled_qty en)"
  obtain r where r: "build_report now p en ex reason s1 s2 sg ms evs trs = Inr r"
    using build_report_exists [OF assms] by blast
  note rr = build_report_Inr [OF r]
  have "\<bar>r_pnl r - ?g\<bar> \<le> 1 / 20000" using py_round_error [of 4 ?g] by (simp add: rr(2))
  moreover have "er_avg_fill_price en \<le> xr_avg_fill_price ex \<Longrightarrow> 0 \<le> r_pnl r"
    unfolding rr(2) using assms(2) by (intro py_round_nonneg mult_nonneg_nonneg) simp_all
  moreover have "length (r_order_events r) = length (er_order_events en) + length (xr_order_events ex)"
    "\<forall>e \<in> set (r_order_events r). oe_ts e \<noteq> None"
    by (auto simp: rr(7) to_event_entries_def to_event_entry_def)
  ultimately show ?thesis using r rr(1,8,9) by blast
qed

definition sample_entry_result :: entry_result where
  "sample_entry_result = submit_and_monitor_paper ''u1'' sample_world sample_signal 75"

definition sample_exit_result :: exit_result where
  "sample_exit_result = submit_and_complete_paper ''u2'' sample_world sample_position ''HARD_SL'' ''10:00''"

definition sample_snapshot :: market_snapshot where
  "sample_snapshot = \<lparr>ms_ts = 0, ms_spot = 24000, ms_sum_ce = 0, ms_sum_pe = 0, ms_delta = 0,
     ms_delta_pcr_cumulative = None\<rparr>"

theorem build_report_correct_witness:
  "\<exists>r. build_report 5 sample_position sample_entry_result sample_exit_result ER_HARD_SL sample_snapshot
      sample_snapshot None 0 None None = Inr r \<and> length (r_order_events r) = 4"
proof -
  have "position_valid sample_position" by (simp add: sample_position_def position_valid_def)
  moreover have "0 < er_filled_qty sample_entry_result" "length (er_order_events sample_entry_result) = 2"
    by (simp_all add: sample_entry_result_def submit_and_monitor_paper_def sample_defs read_leaf_def
        token_matches_def Let_def)
  moreover have "length (xr_order_events sample_exit_result) = 2"
    by (simp add: sample_exit_result_def submit_and_complete_paper_def Let_def)
  ultimately show ?thesis
    using build_report_correct [of sample_position sample_entry_result 5 sample_exit_result ER_HARD_SL
        sample_snapshot sample_snapshot None 0 None None]
    by auto
qed

end
