(* ===== verification/PositionHash.thy ===== *)
theory PositionHash
  imports ExitEval
begin

text \<open>
  The Redis hash \<open>orders:positions:{pos_id}\<close> of \<open>backend/engines/order_exec/worker.py\<close>: the
  write at entry (\<open>None\<close> fields left out), the per-tick refresh of the mutable fields (\<open>None\<close>
  written as the empty text) and the re-hydration \<open>load_position_from_hash\<close> that the flip path
  uses.  Loading inverts both writes.
\<close>

section \<open>Model\<close>

text \<open>\<open>position.model_dump(mode="json")\<close>, in field order.\<close>

definition position_dump :: "position \<Rightarrow> (string \<times> hval option) list" where
  "position_dump p =
     [(''pos_id'', Some (HText (p_pos_id p))),
      (''sig_id'', Some (HText (p_sig_id p))),
      (''index'', Some (HText (p_index p))),
      (''side'', Some (HText (side_value (p_side p)))),
      (''strike'', Some (HInt (p_strike p))),
      (''instrument_token'', Some (HText (p_instrument_token p))),
      (''qty'', Some (HInt (p_qty p))),
      (''entry_order_id'', Some (HText (p_entry_order_id p))),
      (''exit_order_id'', map_option HText (p_exit_order_id p)),
      (''entry_price'', Some (HFloat (p_entry_price p))),
      (''entry_ts'', Some (HTime (p_entry_ts p))),
      (''exit_price'', map_option HFloat (p_exit_price p)),
      (''exit_ts'', map_option HTime (p_exit_ts p)),
      (''mode'', Some (HText (p_mode p))),
      (''intent'', Some (HText (intent_value (p_intent p)))),
      (''sl_level'', Some (HFloat (p_sl_level p))),
      (''target_level'', Some (HFloat (p_target_level p))),
      (''tsl_armed'', Some (HBool (p_tsl_armed p))),
      (''tsl_arm_pct'', Some (HFloat (p_tsl_arm_pct p))),
      (''tsl_trail_pct'', Some (HFloat (p_tsl_trail_pct p))),
      (''tsl_level'', map_option HFloat (p_tsl_level p)),
      (''peak_premium'', Some (HFloat (p_peak_premium p))),
      (''current_premium'', Some (HFloat (p_current_premium p))),
      (''pnl'', Some (HFloat (p_pnl p))),
      (''pnl_pct'', Some (HFloat (p_pnl_pct p))),
      (''holding_seconds'', Some (HInt (p_holding_seconds p))),
      (''exit_profile'', Some (HProfile (p_exit_profile p))),
      (''sum_ce_at_entry'', Some (HFloat (p_sum_ce_at_entry p))),
      (''sum_pe_at_entry'', Some (HFloat (p_sum_pe_at_entry p))),
      (''delta_pcr_at_entry'', map_option HFloat (p_delta_pcr_at_entry p)),
      (''strategy_version'', Some (HText (p_strategy_version p)))]"

definition dump_lookup :: "position \<Rightarrow> string \<Rightarrow> hval option" where
  "dump_lookup p k = (case map_of (position_dump p) k of None \<Rightarrow> None | Some v \<Rightarrow> v)"

text \<open>\<open>HSET\<close> of every field that is not \<open>None\<close>.\<close>

definition store_position :: "position \<Rightarrow> hash \<Rightarrow> hash" where
  "store_position p h = (\<lambda>k. case dump_lookup p k of None \<Rightarrow> h k | Some v \<Rightarrow> Some v)"

definition empty_hash :: hash where
  "empty_hash = (\<lambda>_. None)"

definition HASH_REFRESH_FIELDS :: "string list" where
  "HASH_REFRESH_FIELDS =
     [''peak_premium'', ''tsl_armed'', ''tsl_level'', ''current_premium'', ''pnl'', ''pnl_pct'', ''holding_seconds'']"

definition serialize_position_field :: "hval option \<Rightarrow> hval" where
  "serialize_position_field v = (case v of None \<Rightarrow> HText [] | Some x \<Rightarrow> x)"

definition refresh_position_hash :: "position \<Rightarrow> string list \<Rightarrow> hash \<Rightarrow> hash" where
  "refresh_position_hash p fs h =
     (\<lambda>k. if k \<in> set fs \<and> map_of (position_dump p) k \<noteq> None
          then Some (serialize_position_field (dump_lookup p k)) else h k)"

text \<open>Re-hydration: empty values are skipped, each field is converted by its kind, and
  \<open>Position.model_validate\<close> needs every field without a default.\<close>

definition present :: "hash \<Rightarrow> hash" where
  "present h k = (case h k of None \<Rightarrow> None | Some v \<Rightarrow> if hval_empty v then None else Some v)"

definition get_text :: "hash \<Rightarrow> string \<Rightarrow> string option" where
  "get_text h k = Option.bind (present h k) hval_text"

definition get_int :: "hash \<Rightarrow> string \<Rightarrow> int option" where
  "get_int h k = Option.bind (present h k) hval_int"

definition get_float :: "hash \<Rightarrow> string \<Rightarrow> rat option" where
  "get_float h k = Option.bind (present h k) hval_float"

definition get_time :: "hash \<Rightarrow> string \<Rightarrow> int option" where
  "get_time h k = Option.bind (present h k) (\<lambda>v. case v of HTime t \<Rightarrow> Some t | _ \<Rightarrow> None)"

definition get_exit_profile :: "hash \<Rightarrow> string \<Rightarrow> exit_profile option" where
  "get_exit_profile h k = Option.bind (present h k) (\<lambda>v. case v of HProfile x \<Rightarrow> Some x | _ \<Rightarrow> None)"

definition get_flag :: "hash \<Rightarrow> string \<Rightarrow> bool" where
  "get_flag h k =
     (case present h k of
        None \<Rightarrow> False
      | Some (HBool b) \<Rightarrow> b
      | Some (HText s) \<Rightarrow> py_lower s = ''true''
      | Some _ \<Rightarrow> False)"

definition validate_position :: "position \<Rightarrow> position option" where
  "validate_position p = (if position_valid p then Some p else None)"

definition load_position_from_hash :: "hash \<Rightarrow> position option" where
  "load_position_from_hash h =
     Option.bind (get_text h ''pos_id'') (\<lambda>pos_id.
     Option.bind (get_text h ''sig_id'') (\<lambda>sig_id.
     Option.bind (get_text h ''index'') (\<lambda>index.
     Option.bind (Option.bind (get_text h ''side'') side_of_text) (\<lambda>sd.
     Option.bind (get_int h ''strike'') (\<lambda>strike.
     Option.bind (get_text h ''instrument_token'') (\<lambda>tok.
     Option.bind (get_int h ''qty'') (\<lambda>qty.
     Option.bind (get_text h ''entry_order_id'') (\<lambda>eoid.
     Option.bind (get_float h ''entry_price'') (\<lambda>entry_price.
     Option.bind (get_time h ''entry_ts'') (\<lambda>entry_ts.
     Option.bind (get_text h ''mode'') (\<lambda>mode.
     Option.bind (Option.bind (get_text h ''intent'') intent_of_text) (\<lambda>intent.
     Option.bind (get_float h ''sl_level'') (\<lambda>sl.
     Option.bind (get_float h ''target_level'') (\<lambda>target.
     Option.bind (get_float h ''tsl_arm_pct'') (\<lambda>arm.
     Option.bind (get_float h ''tsl_trail_pct'') (\<lambda>trail.
     Option.bind (get_float h ''peak_premium'') (\<lambda>peak.
     Option.bind (get_float h ''current_premium'') (\<lambda>current.
     Option.bind (get_exit_profile h ''exit_profile'') (\<lambda>profile.
     Option.bind (get_float h ''sum_ce_at_entry'') (\<lambda>sum_ce.
     Option.bind (get_float h ''sum_pe_at_entry'') (\<lambda>sum_pe.
     Option.bind (get_text h ''strategy_version'') (\<lambda>version.
       validate_position
         \<lparr>p_pos_id = pos_id, p_sig_id = sig_id, p_index = index, p_side = sd, p_strike = strike,
          p_instrument_token = tok, p_qty = qty, p_entry_order_id = eoid,
          p_exit_order_id = get_text h ''exit_order_id'', p_entry_price = entry_price,
          p_entry_ts = entry_ts, p_exit_price = get_float h ''exit_price'',
          p_exit_ts = get_time h ''exit_ts'', p_mode = mode, p_intent = intent, p_sl_level = sl,
          p_target_level = target, p_tsl_armed = get_flag h ''tsl_armed'', p_tsl_arm_pct = arm,
          p_tsl_trail_pct = trail, p_tsl_level = get_float h ''tsl_level'', p_peak_premium = peak,
          p_current_premium = current, p_pnl = get_or (get_float h ''pnl'') 0,
          p_pnl_pct = get_or (get_float h ''pnl_pct'') 0,
          p_holding_seconds = get_or (get_int h ''holding_seconds'') 0, p_exit_profile = profile,
          p_sum_ce_at_entry = sum_ce, p_sum_pe_at_entry = sum_pe,
          p_delta_pcr_at_entry = get_float h ''delta_pcr_at_entry'',
          p_strategy_version = version\<rparr>))))))))))))))))))))))"

text \<open>A position whose required texts survive the ``skip empty'' rule.\<close>

definition texts_present :: "position \<Rightarrow> bool" where
  "texts_present p \<longleftrightarrow>
     p_pos_id p \<noteq> [] \<and> p_sig_id p \<noteq> [] \<and> p_instrument_token p \<noteq> [] \<and> p_entry_order_id p \<noteq> [] \<and>
     p_strategy_version p \<noteq> []"

section \<open>Lemmas\<close>

lemma side_value_nonempty [simp]: "side_value s \<noteq> []"
  by (cases s) simp_all

lemma intent_value_nonempty [simp]: "intent_value i \<noteq> []"
  by (cases i) simp_all

text \<open>Loading only looks at the values that are present.\<close>

lemma load_cong:
  assumes "present h = present h'"
  shows "load_position_from_hash h = load_position_from_hash h'"
proof -
  have "get_text h = get_text h'" "get_int h = get_int h'" "get_float h = get_float h'"
    "get_time h = get_time h'" "get_exit_profile h = get_exit_profile h'" "get_flag h = get_flag h'"
    by (simp_all add: fun_eq_iff get_text_def get_int_def get_float_def get_time_def get_exit_profile_def
        get_flag_def assms)
  then show ?thesis by (simp add: load_position_from_hash_def)
qed

lemma present_store_empty: "present (store_position p empty_hash) k =
    (case dump_lookup p k of None \<Rightarrow> None | Some v \<Rightarrow> if hval_empty v then None else Some v)"
  by (simp add: present_def store_position_def empty_hash_def split: option.split)

lemma present_refresh:
  "present (refresh_position_hash p' fs (store_position p empty_hash)) k =
     (if k \<in> set fs \<and> map_of (position_dump p') k \<noteq> None
      then present (store_position p' empty_hash) k else present (store_position p empty_hash) k)"
  by (auto simp: present_def refresh_position_hash_def store_position_def empty_hash_def
      serialize_position_field_def split: option.splits)

lemma dump_lookup_simps [simp]:
  "dump_lookup p ''pos_id'' = Some (HText (p_pos_id p))"
  "dump_lookup p ''sig_id'' = Some (HText (p_sig_id p))"
  "dump_lookup p ''index'' = Some (HText (p_index p))"
  "dump_lookup p ''side'' = Some (HText (side_value (p_side p)))"
  "dump_lookup p ''strike'' = Some (HInt (p_strike p))"
  "dump_lookup p ''instrument_token'' = Some (HText (p_instrument_token p))"
  "dump_lookup p ''qty'' = Some (HInt (p_qty p))"
  "dump_lookup p ''entry_order_id'' = Some (HText (p_entry_order_id p))"
  "dump_lookup p ''exit_order_id'' = map_option HText (p_exit_order_id p)"
  "dump_lookup p ''entry_price'' = Some (HFloat (p_entry_price p))"
  "dump_lookup p ''entry_ts'' = Some (HTime (p_entry_ts p))"
  "dump_lookup p ''exit_price'' = map_option HFloat (p_exit_price p)"
  "dump_lookup p ''exit_ts'' = map_option HTime (p_exit_ts p)"
  "dump_lookup p ''mode'' = Some (HText (p_mode p))"
  "dump_lookup p ''intent'' = Some (HText (intent_value (p_intent p)))"
  "dump_lookup p ''sl_level'' = Some (HFloat (p_sl_level p))"
  "dump_lookup p ''target_level'' = Some (HFloat (p_target_level p))"
  "dump_lookup p ''tsl_armed'' = Some (HBool (p_tsl_armed p))"
  "dump_lookup p ''tsl_arm_pct'' = Some (HFloat (p_tsl_arm_pct p))"
  "dump_lookup p ''tsl_trail_pct'' = Some (HFloat (p_tsl_trail_pct p))"
  "dump_lookup p ''tsl_level'' = map_option HFloat (p_tsl_level p)"
  "dump_lookup p ''peak_premium'' = Some (HFloat (p_peak_premium p))"
  "dump_lookup p ''current_premium'' = Some (HFloat (p_current_premium p))"
  "dump_lookup p ''pnl'' = Some (HFloat (p_pnl p))"
  "dump_lookup p ''pnl_pct'' = Some (HFloat (p_pnl_pct p))"
  "dump_lookup p ''holding_seconds'' = Some (HInt (p_holding_seconds p))"
  "dump_lookup p ''exit_profile'' = Some (HProfile (p_exit_profile p))"
  "dump_lookup p ''sum_ce_at_entry'' = Some (HFloat (p_sum_ce_at_entry p))"
  "dump_lookup p ''sum_pe_at_entry'' = Some (HFloat (p_sum_pe_at_entry p))"
  "dump_lookup p ''delta_pcr_at_entry'' = map_option HFloat (p_delta_pcr_at_entry p)"
  "dump_lookup p ''strategy_version'' = Some (HText (p_strategy_version p))"
  by (simp_all add: dump_lookup_def position_dump_def)

lemmas hash_readers = get_text_def get_int_def get_float_def get_time_def get_exit_profile_def get_flag_def
  present_store_empty

text \<open>Empty required texts make validation fail, everything else is read back exactly.\<close>

lemma load_store:
  assumes "position_valid p" and "p_exit_order_id p \<noteq> Some []"
  shows "load_position_from_hash (store_position p empty_hash) = (if texts_present p then Some p else None)"
proof -
  have t: "get_text (store_position p empty_hash) ''pos_id'' = (if p_pos_id p = [] then None else Some (p_pos_id p))"
    "get_text (store_position p empty_hash) ''sig_id'' = (if p_sig_id p = [] then None else Some (p_sig_id p))"
    "get_text (store_position p empty_hash) ''instrument_token'' =
       (if p_instrument_token p = [] then None else Some (p_instrument_token p))"
    "get_text (store_position p empty_hash) ''entry_order_id'' =
       (if p_entry_order_id p = [] then None else Some (p_entry_order_id p))"
    "get_text (store_position p empty_hash) ''strategy_version'' =
       (if p_strategy_version p = [] then None else Some (p_strategy_version p))"
    by (simp_all add: hash_readers)
  have v: "get_text (store_position p empty_hash) ''index'' = Some (p_index p)"
    "get_text (store_position p empty_hash) ''mode'' = Some (p_mode p)"
    using assms(1) by (auto simp: hash_readers position_valid_def)
  have o: "get_text (store_position p empty_hash) ''exit_order_id'' = p_exit_order_id p"
    "get_float (store_position p empty_hash) ''exit_price'' = p_exit_price p"
    "get_time (store_position p empty_hash) ''exit_ts'' = p_exit_ts p"
    "get_float (store_position p empty_hash) ''tsl_level'' = p_tsl_level p"
    "get_float (store_position p empty_hash) ''delta_pcr_at_entry'' = p_delta_pcr_at_entry p"
    using assms(2)
    by (cases "p_exit_order_id p"; cases "p_exit_price p"; cases "p_exit_ts p"; cases "p_tsl_level p";
        cases "p_delta_pcr_at_entry p"; simp add: hash_readers)+
  have r: "get_text (store_position p empty_hash) ''side'' = Some (side_value (p_side p))"
    "get_text (store_position p empty_hash) ''intent'' = Some (intent_value (p_intent p))"
    "get_int (store_position p empty_hash) ''strike'' = Some (p_strike p)"
    "get_int (store_position p empty_hash) ''qty'' = Some (p_qty p)"
    "get_int (store_position p empty_hash) ''holding_seconds'' = Some (p_holding_seconds p)"
    "get_time (store_position p empty_hash) ''entry_ts'' = Some (p_entry_ts p)"
    "get_exit_profile (store_position p empty_hash) ''exit_profile'' = Some (p_exit_profile p)"
    "get_flag (store_position p empty_hash) ''tsl_armed'' = p_tsl_armed p"
    by (simp_all add: hash_readers)
  have f: "get_float (store_position p empty_hash) ''entry_price'' = Some (p_entry_price p)"
    "get_float (store_position p empty_hash) ''sl_level'' = Some (p_sl_level p)"
    "get_float (store_position p empty_hash) ''target_level'' = Some (p_target_level p)"
    "get_float (store_position p empty_hash) ''tsl_arm_pct'' = Some (p_tsl_arm_pct p)"
    "get_float (store_position p empty_hash) ''tsl_trail_pct'' = Some (p_tsl_trail_pct p)"
    "get_float (store_position p empty_hash) ''peak_premium'' = Some (p_peak_premium p)"
    "get_float (store_position p empty_hash) ''current_premium'' = Some (p_current_premium p)"
    "get_float (store_position p empty_hash) ''pnl'' = Some (p_pnl p)"
    "get_float (store_position p empty_hash) ''pnl_pct'' = Some (p_pnl_pct p)"
    "get_float (store_position p empty_hash) ''sum_ce_at_entry'' = Some (p_sum_ce_at_entry p)"
    "get_float (store_position p empty_hash) ''sum_pe_at_entry'' = Some (p_sum_pe_at_entry p)"
    by (simp_all add: hash_readers)
  show ?thesis
    using assms(1) by (simp add: load_position_from_hash_def t v o r f texts_present_def validate_position_def position_valid_def)
qed

text \<open>The position that only ticks changed.\<close>

definition same_but_ticks :: "position \<Rightarrow> position \<Rightarrow> bool" where
  "same_but_ticks p p' \<longleftrightarrow>
     p' = p\<lparr>p_peak_premium := p_peak_premium p', p_tsl_armed := p_tsl_armed p', p_tsl_level := p_tsl_level p',
           p_current_premium := p_current_premium p', p_pnl := p_pnl p', p_pnl_pct := p_pnl_pct p',
           p_holding_seconds := p_holding_seconds p'\<rparr>"

lemma map_of_dump: "map_of (position_dump p) k \<noteq> None \<longleftrightarrow> k \<in> set (map fst (position_dump p))"
  by (simp only: map_of_eq_None_iff set_map not_not)

lemma dump_keys: "map fst (position_dump p) = map fst (position_dump p')"
  by (simp add: position_dump_def)

lemma dump_lookup_outside: "k \<notin> set (map fst (position_dump p)) \<Longrightarrow> dump_lookup p k = None"
  unfolding dump_lookup_def by (simp add: map_of_eq_None_iff [THEN iffD2])

lemma same_but_ticks_update:
  assumes "same_but_ticks p p'"
  obtains a b c d e f g where "p' = p\<lparr>p_peak_premium := a, p_tsl_armed := b, p_tsl_level := c,
      p_current_premium := d, p_pnl := e, p_pnl_pct := f, p_holding_seconds := g\<rparr>"
  using assms unfolding same_but_ticks_def by (rule that)

lemma same_but_ticks_lookup:
  assumes "same_but_ticks p p'" and "k \<notin> set HASH_REFRESH_FIELDS"
  shows "dump_lookup p' k = dump_lookup p k"
proof (cases "k \<in> set (map fst (position_dump p))")
  case True
  obtain a b c d e f g where p': "p' = p\<lparr>p_peak_premium := a, p_tsl_armed := b, p_tsl_level := c,
      p_current_premium := d, p_pnl := e, p_pnl_pct := f, p_holding_seconds := g\<rparr>"
    using assms(1) by (rule same_but_ticks_update)
  show ?thesis
    using True assms(2)
    unfolding p' position_dump_def HASH_REFRESH_FIELDS_def list.map fst_conv list.set insert_iff empty_iff simp_thms de_Morgan_disj
    by (elim disjE; simp)
next
  case False
  moreover from False have "k \<notin> set (map fst (position_dump p'))" by (simp only: dump_keys [of p' p] not_False_eq_True)
  ultimately show ?thesis by (simp only: dump_lookup_outside not_False_eq_True)
qed

lemma refresh_is_store:
  assumes "same_but_ticks p p'"
  shows "present (refresh_position_hash p' HASH_REFRESH_FIELDS (store_position p empty_hash)) =
    present (store_position p' empty_hash)"
proof
  fix k
  show "present (refresh_position_hash p' HASH_REFRESH_FIELDS (store_position p empty_hash)) k =
    present (store_position p' empty_hash) k"
  proof (cases "k \<in> set HASH_REFRESH_FIELDS")
    case True
    then have "map_of (position_dump p') k \<noteq> None"
      by (auto simp: HASH_REFRESH_FIELDS_def position_dump_def)
    with True show ?thesis by (simp only: present_refresh simp_thms if_True)
  next
    case False
    then show ?thesis
      using same_but_ticks_lookup [OF assms False] unfolding present_refresh by (simp add: present_store_empty)
  qed
qed

section \<open>Properties\<close>



end
