(* ===== verification/Worker.thy ===== *)
theory Worker
  imports Reporting PositionHash
begin

text \<open>
  \<open>backend/engines/order_exec/worker.py\<close>: the lifecycle of one signal, stages A to F, on the
  shared state.  \<open>process_signal\<close> is the whole handler; its loops consume the inputs of
  \<open>run_env\<close> (fresh ids, allocator attempts, broker polls, and for the exit monitor what the
  environment does during each sleep) and \<open>None\<close> means that one of them is still looping when
  its inputs run out.  \<open>outcome\<close> names the way the handler ends; \<open>Raised\<close> is an exception that
  leaves it.  Redis calls succeed; the clock is constant between two polls.
\<close>

section \<open>Small helpers\<close>

definition read_mode :: "world \<Rightarrow> string" where
  "read_mode w = str_or (w_mode_today w) (str_or (w_mode w) ''paper'')"

definition read_access_token :: "world \<Rightarrow> pyexc + string" where
  "read_access_token w =
     (case w_access_token w of
        None \<Rightarrow> Inr []
      | Some (AuthDict tok) \<Rightarrow> Inr (decode tok)
      | Some (AuthBare _) \<Rightarrow> Inl JSONDecodeError)"

definition persist_status :: "string \<Rightarrow> position_stage \<Rightarrow> string \<Rightarrow> world \<Rightarrow> world" where
  "persist_status pos_id stage note w = w\<lparr>w_status := (w_status w)(pos_id \<mapsto> (stage, note, w_now_ms w))\<rparr>"

definition record_rejected_signal :: "signal \<Rightarrow> string \<Rightarrow> world \<Rightarrow> world" where
  "record_rejected_signal sig reason w =
     w\<lparr>w_rejected := w_rejected w @ [(s_sig_id sig, s_index sig, reason)]\<rparr>"

definition buffer_report_for_persistence :: "report \<Rightarrow> world \<Rightarrow> world" where
  "buffer_report_for_persistence r w =
     w\<lparr>w_reports_pending := last_n 10000 (w_reports_pending w @ [r])\<rparr>"

definition build_market_snapshot :: "world \<Rightarrow> index_name \<Rightarrow> signal \<Rightarrow> market_snapshot" where
  "build_market_snapshot w idx sig =
     \<lparr>ms_ts = w_now_ms w, ms_spot = get_or (w_spot w idx) 0, ms_sum_ce = s_sum_ce sig,
      ms_sum_pe = s_sum_pe sig, ms_delta = s_delta sig, ms_delta_pcr_cumulative = s_delta_pcr sig\<rparr>"

definition release_world :: "index_name \<Rightarrow> money \<Rightarrow> world \<Rightarrow> world" where
  "release_world idx premium w = w\<lparr>w_alloc := snd (release False (w_alloc w) idx premium)\<rparr>"

section \<open>Reversal: closing the prior leg\<close>

definition flip_entry_result :: "position \<Rightarrow> entry_result" where
  "flip_entry_result prior =
     \<lparr>er_filled_qty = p_qty prior, er_avg_fill_price = p_entry_price prior,
      er_order_id = p_entry_order_id prior, er_order_events = [], er_abandon_reason = None,
      er_submit_to_ack_ms = 0, er_ack_to_fill_ms = 0\<rparr>"

definition flip_snapshot :: "world \<Rightarrow> position \<Rightarrow> market_snapshot" where
  "flip_snapshot w prior =
     \<lparr>ms_ts = w_now_ms w, ms_spot = 0, ms_sum_ce = p_sum_ce_at_entry prior,
      ms_sum_pe = p_sum_pe_at_entry prior, ms_delta = p_sum_pe_at_entry prior - p_sum_ce_at_entry prior,
      ms_delta_pcr_cumulative = p_delta_pcr_at_entry prior\<rparr>"

definition load_position :: "world \<Rightarrow> string \<Rightarrow> position option" where
  "load_position w pos_id = (case w_positions w pos_id of None \<Rightarrow> None | Some h \<Rightarrow> load_position_from_hash h)"

text \<open>After the prior leg's SELL has filled.\<close>

definition flip_finish :: "world \<Rightarrow> index_name \<Rightarrow> string \<Rightarrow> position \<Rightarrow> exit_result \<Rightarrow> pyexc + world" where
  "flip_finish w idx pid prior ex =
     (let w1 = persist_status pid REPORTING [] (persist_status pid EXIT_FILLED [] w);
          snap = flip_snapshot w prior
      in case build_report (w_now_ms w) prior (flip_entry_result prior) ex ER_REVERSAL_FLIP snap snap None 0 None None of
           Inl e \<Rightarrow> Inl e
         | Inr r \<Rightarrow>
             (let w2 = persist_status pid CLEANUP [] (buffer_report_for_persistence r w1);
                  w3 = snd (cleanup False w2 pid (p_sig_id prior) [p_entry_order_id prior, xr_order_id ex] idx);
                  w4 = release_world idx (p_entry_price prior * of_int (p_qty prior)) w3
              in Inr (persist_status pid DONE [] w4)))"

definition close_existing_position_for_flip ::
  "broker \<Rightarrow> string \<Rightarrow> broker_call list \<Rightarrow> poll list \<Rightarrow> world \<Rightarrow> index_name \<Rightarrow> string
     \<Rightarrow> (pyexc + bool \<times> broker_call list \<times> world) option"
where
  "close_existing_position_for_flip broker uid calls polls w idx mode =
     (if \<not> valid_index idx then Some (Inl ValueError)
      else
        (let pid = decode (v_current_position_id (w_vessel w idx))
         in if pid = [] then Some (Inr (True, calls, w))
            else case load_position w pid of
                   None \<Rightarrow> Some (Inr (False, calls, w))
                 | Some prior \<Rightarrow>
                     (let w1 = persist_status pid EXIT_SUBMITTING ''REVERSAL_FLIP'' w
                      in case submit_and_complete broker uid calls polls w1 prior ''REVERSAL_FLIP'' mode (w_now_hhmm w1) of
                           None \<Rightarrow> None
                         | Some (ex, calls', w2, _) \<Rightarrow>
                             (case flip_finish w2 idx pid prior ex of
                                Inl e \<Rightarrow> Some (Inl e)
                              | Inr w3 \<Rightarrow> Some (Inr (True, calls', w3))))))"

section \<open>Opening the position\<close>

definition new_position :: "world \<Rightarrow> signal \<Rightarrow> string \<Rightarrow> string \<Rightarrow> entry_result \<Rightarrow> index_config \<Rightarrow> position" where
  "new_position w sig pos_id mode en cfg =
     (let sl = num_or (sl_pct cfg) 0.2; target = num_or (target_pct cfg) 0.5;
          arm = num_or (tsl_arm_pct cfg) 0.15; trail = num_or (tsl_trail_pct cfg) 0.05;
          hold = num_or (max_hold_sec cfg) 1500; entry_price = er_avg_fill_price en
      in \<lparr>p_pos_id = pos_id, p_sig_id = s_sig_id sig, p_index = s_index sig, p_side = s_side sig,
          p_strike = s_strike sig, p_instrument_token = s_instrument_token sig,
          p_qty = er_filled_qty en, p_entry_order_id = er_order_id en, p_exit_order_id = None,
          p_entry_price = entry_price, p_entry_ts = w_now_ms w, p_exit_price = None, p_exit_ts = None,
          p_mode = mode, p_intent = s_intent sig,
          p_sl_level = py_round 4 (entry_price * (1 - sl)),
          p_target_level = py_round 4 (entry_price * (1 + target)), p_tsl_armed = False,
          p_tsl_arm_pct = arm, p_tsl_trail_pct = trail, p_tsl_level = None,
          p_peak_premium = entry_price, p_current_premium = entry_price, p_pnl = 0, p_pnl_pct = 0,
          p_holding_seconds = 0,
          p_exit_profile = \<lparr>xp_sl_pct = sl, xp_target_pct = target, xp_tsl_arm_pct = arm,
            xp_tsl_trail_pct = trail, xp_max_hold_sec = hold\<rparr>,
          p_sum_ce_at_entry = s_sum_ce sig, p_sum_pe_at_entry = s_sum_pe sig,
          p_delta_pcr_at_entry = s_delta_pcr sig, p_strategy_version = s_strategy_version sig\<rparr>)"

definition position_hash :: "world \<Rightarrow> string \<Rightarrow> hash" where
  "position_hash w pos_id = (case w_positions w pos_id of None \<Rightarrow> empty_hash | Some h \<Rightarrow> h)"

text \<open>The entry pipeline: position hash, open sets, vessel state and counters.\<close>

definition open_position :: "signal \<Rightarrow> position \<Rightarrow> world \<Rightarrow> world" where
  "open_position sig p w =
     (let pid = p_pos_id p; idx = s_index sig
      in upd_vessel idx
           (\<lambda>v. v\<lparr>v_current_position_id := Some pid,
                 v_state := Some (if s_side sig = CE then ''IN_CE'' else ''IN_PE''),
                 v_reversals_today := v_reversals_today v + (if s_intent sig = REVERSAL_FLIP then 1 else 0),
                 v_entries_today := v_entries_today v + 1\<rparr>)
           (w\<lparr>w_positions := (w_positions w)(pid \<mapsto> store_position p (position_hash w pid)),
              w_open := insert pid (w_open w),
              w_open_by_index := (w_open_by_index w)(idx := insert pid (w_open_by_index w idx))\<rparr>))"

section \<open>Stage D: the exit monitor\<close>

definition monitor_premium :: "leaf option \<Rightarrow> position \<Rightarrow> money" where
  "monitor_premium lf p =
     (let cur = (case lf of None \<Rightarrow> p_current_premium p | Some l \<Rightarrow> num_or (l_ltp l) 0)
      in if cur \<le> 0 then p_current_premium p else cur)"

definition mark_to_market :: "int \<Rightarrow> money \<Rightarrow> position \<Rightarrow> position" where
  "mark_to_market now premium p =
     p\<lparr>p_pnl := (if 0 < p_entry_price p \<and> 0 < p_qty p
                 then py_round 4 ((premium - p_entry_price p) * of_int (p_qty p)) else 0),
       p_pnl_pct := (if 0 < p_entry_price p \<and> 0 < p_qty p
                     then py_round 4 ((premium / p_entry_price p - 1) * 100) else 0),
       p_holding_seconds := holding_seconds now (p_entry_ts p)\<rparr>"

definition monitor_args :: "world \<Rightarrow> string \<Rightarrow> leaf option \<Rightarrow> money \<Rightarrow> exit_args" where
  "monitor_args w pid lf premium =
     \<lparr>xa_current_premium = premium, xa_current_leaf = lf, xa_now_ts_ms = w_now_ms w,
      xa_now_hhmm = w_now_hhmm w,
      xa_daily_loss_circuit_triggered = (decode (w_daily_loss_circuit w) = ''true''),
      xa_strategy_exit_pull = w_exit_pull w pid, xa_eod_squareoff_hhmm = ''15:15'',
      xa_liquidity_suppress_after_hhmm = ''15:00'', xa_spread_skip_pct = 0.05\<rparr>"

definition refresh_world :: "position \<Rightarrow> world \<Rightarrow> world" where
  "refresh_world p w =
     w\<lparr>w_positions := (w_positions w)(p_pos_id p \<mapsto>
         refresh_position_hash p HASH_REFRESH_FIELDS (position_hash w (p_pos_id p)))\<rparr>"

definition monitor_tick ::
  "world \<Rightarrow> position \<Rightarrow> world \<times> position \<times> eval_entry \<times> trail_entry list \<times> exit_reason option"
where
  "monitor_tick w p =
     (let lf = read_leaf w (p_index p) (p_instrument_token p);
          premium = monitor_premium lf p;
          p1 = mark_to_market (w_now_ms w) premium (update_trailing_state p premium);
          w1 = refresh_world p1 w;
          trails = (if p_tsl_armed p1
                    then [\<lparr>te_ts_ms = w_now_ms w, te_peak = p_peak_premium p1, te_tsl_level = p_tsl_level p1\<rparr>]
                    else []);
          (should_exit, reason) = evaluate p1 (monitor_args w1 (p_pos_id p) lf premium)
      in (w1, p1, \<lparr>ee_ts_ms = w_now_ms w, ee_premium = premium, ee_should_exit = should_exit, ee_reason = reason\<rparr>,
          trails, if should_exit then reason else None))"

fun monitor_loop ::
  "(world \<Rightarrow> world) list \<Rightarrow> world \<Rightarrow> position \<Rightarrow> eval_entry list \<Rightarrow> trail_entry list
     \<Rightarrow> (exit_reason \<times> position \<times> eval_entry list \<times> trail_entry list \<times> world) option"
where
  "monitor_loop ticks w p evals trails =
     (case monitor_tick w p of (w1, p1, ev, tr, reason) \<Rightarrow>
       (case reason of
          Some r \<Rightarrow> Some (r, p1, evals @ [ev], trails @ tr, w1)
        | None \<Rightarrow>
            (case ticks of
               [] \<Rightarrow> None
             | f # fs \<Rightarrow> monitor_loop fs (f w1) p1 (evals @ [ev]) (trails @ tr))))"

declare monitor_loop.simps [simp del]

section \<open>The handler\<close>

record run_env =
  re_pos_uid :: string
  re_entry_uid :: string
  re_exit_uid :: string
  re_flip_uid :: string
  re_attempts :: "attempt list"
  re_flip_polls :: "poll list"
  re_entry_polls :: "poll list"
  re_ticks :: "(world \<Rightarrow> world) list"
  re_exit_polls :: "poll list"

datatype outcome =
    Raised pyexc
  | FlipFailed
  | GateRejected string
  | EntryAborted string
  | Closed report

text \<open>The cooldown table.\<close>

definition cooldown_by_reason :: "index_config \<Rightarrow> exit_reason \<Rightarrow> int \<times> string" where
  "cooldown_by_reason cfg reason =
     (let sl = get_or (post_sl_cooldown_sec cfg) 60; flip = get_or (post_reversal_cooldown_sec cfg) 90;
          strat = get_or (post_strategy_exit_cooldown_sec cfg) 30
      in if reason = ER_HARD_SL then (sl, ''post_sl'')
         else if reason = ER_TRAILING_SL then (sl, ''post_tsl'')
         else if reason = ER_REVERSAL_FLIP then (flip, ''post_flip'')
         else if reason = ER_STRATEGY_EXIT then (strat, ''post_strategy_exit'')
         else (0, ''''))"

definition settle_vessel :: "world \<Rightarrow> signal \<Rightarrow> index_config \<Rightarrow> exit_reason \<Rightarrow> report \<Rightarrow> world" where
  "settle_vessel w sig cfg reason rep =
     (case cooldown_by_reason cfg reason of (sec, why) \<Rightarrow>
        upd_vessel (s_index sig)
          (\<lambda>v. v\<lparr>v_state := Some (if 0 < sec then ''COOLDOWN'' else ''FLAT''),
                v_cooldown_until_ts := Some (if 0 < sec then w_now_ms w + sec * 1000 else 0),
                v_cooldown_reason := Some (if 0 < sec then why else []),
                v_wins_today := v_wins_today v + (if 0 < r_pnl rep then 1 else 0)\<rparr>) w)"

text \<open>Stages E (after the fill) and F.\<close>

definition finish_trade ::
  "world \<Rightarrow> signal \<Rightarrow> position \<Rightarrow> entry_result \<Rightarrow> exit_result \<Rightarrow> exit_reason \<Rightarrow> market_snapshot
     \<Rightarrow> eval_entry list \<Rightarrow> trail_entry list \<Rightarrow> money \<Rightarrow> outcome \<times> world"
where
  "finish_trade w sig p en ex reason snap evals trails premium =
     (let pid = p_pos_id p;
          w1 = persist_status pid REPORTING [] (persist_status pid EXIT_FILLED [] w)
      in case build_report (w_now_ms w1) p en ex reason snap (build_market_snapshot w1 (s_index sig) sig)
                (Some sig) 0 (Some evals) (if trails = [] then None else Some trails) of
           Inl e \<Rightarrow> (Raised e, w1)
         | Inr rep \<Rightarrow>
             (let w2 = persist_status pid CLEANUP [] (buffer_report_for_persistence rep w1);
                  w3 = snd (cleanup False w2 pid (s_sig_id sig) [er_order_id en, xr_order_id ex] (s_index sig));
                  w4 = release_world (s_index sig) premium w3;
                  w5 = w4\<lparr>w_exit_pull := (w_exit_pull w4)(pid := None)\<rparr>;
                  sid = (if s_strategy_id sig = [] then DEFAULT_STRATEGY_ID else s_strategy_id sig)
              in if \<not> valid_strategy_id sid then (Raised ValueError, w5)
                 else
                   (let cfg = get_or (w_index_config w5 sid (s_index sig)) empty_index_config
                    in (Closed rep, persist_status pid DONE [] (settle_vessel w5 sig cfg reason rep)))))"

definition run_open_position ::
  "broker \<Rightarrow> run_env \<Rightarrow> broker_call list \<Rightarrow> world \<Rightarrow> signal \<Rightarrow> position \<Rightarrow> entry_result \<Rightarrow> market_snapshot
     \<Rightarrow> money \<Rightarrow> string \<Rightarrow> (outcome \<times> broker_call list \<times> world) option"
where
  "run_open_position broker env calls w sig p en snap premium mode =
     (let w1 = persist_status (p_pos_id p) EXIT_EVAL [] (open_position sig p w)
      in case monitor_loop (re_ticks env) w1 p [] [] of
           None \<Rightarrow> None
         | Some (reason, p', evals, trails, w2) \<Rightarrow>
             (let w3 = persist_status (p_pos_id p) EXIT_SUBMITTING (exit_reason_value reason) w2
              in case submit_and_complete broker (re_exit_uid env) calls (re_exit_polls env) w3 p'
                        (exit_reason_value reason) mode (w_now_hhmm w3) of
                   None \<Rightarrow> None
                 | Some (ex, calls', w4, _) \<Rightarrow>
                     (let ex' = ex\<lparr>xr_decision_to_exit_submit_ms := max 0 (w_now_ms w4 - w_now_ms w2)\<rparr>;
                          (out, w5) = finish_trade w4 sig p' en ex' reason snap evals trails premium
                      in Some (out, calls', w5))))"

definition run_entry ::
  "broker \<Rightarrow> run_env \<Rightarrow> broker_call list \<Rightarrow> world \<Rightarrow> signal \<Rightarrow> string \<Rightarrow> string \<Rightarrow> money
     \<Rightarrow> (outcome \<times> broker_call list \<times> world) option"
where
  "run_entry broker env calls w sig pid mode premium =
     (let cfg = read_index_config w (s_index sig);
          snap = build_market_snapshot w (s_index sig) sig;
          w1 = persist_status pid ENTRY_SUBMITTING [] w
      in case submit_and_monitor broker (re_entry_uid env) calls (re_entry_polls env) w1 sig pid mode
                (num_or (lot_size cfg) 1) of
           None \<Rightarrow> None
         | Some (en, calls1, w2, _) \<Rightarrow>
             if er_abandon_reason en \<noteq> None \<or> er_filled_qty en \<le> 0 then
               (let note = str_or (er_abandon_reason en) ''no_fill''
                in Some (EntryAborted note, calls1,
                         release_world (s_index sig) premium
                           (record_rejected_signal sig note (persist_status pid ABORTED note w2))))
             else
               (let w3 = persist_status pid ENTRY_FILLED [] w2; p = new_position w3 sig pid mode en cfg
                in if \<not> position_valid p then Some (Raised ValidationError, calls1, w3)
                   else run_open_position broker env calls1 w3 sig p en snap premium mode))"

definition run_gate ::
  "broker \<Rightarrow> run_env \<Rightarrow> broker_call list \<Rightarrow> world \<Rightarrow> signal \<Rightarrow> string \<Rightarrow> string
     \<Rightarrow> (outcome \<times> broker_call list \<times> world) option"
where
  "run_gate broker env calls w sig pid mode =
     (let w1 = persist_status pid GATE_PREENTRY [] w
      in case gate_check_and_reserve (re_attempts env) w1 sig of
           Inl e \<Rightarrow> Some (Raised e, calls, w1)
         | Inr (ok, reason, premium, w2) \<Rightarrow>
             if \<not> ok then
               Some (GateRejected reason, calls,
                     record_rejected_signal sig reason (persist_status pid ABORTED reason w2))
             else run_entry broker env calls w2 sig pid mode premium)"

definition process_signal ::
  "broker \<Rightarrow> run_env \<Rightarrow> broker_call list \<Rightarrow> world \<Rightarrow> signal \<Rightarrow> (outcome \<times> broker_call list \<times> world) option"
where
  "process_signal broker env calls w sig =
     (let pid = ''P-'' @ re_pos_uid env; mode = read_mode w
      in case (if mode = ''live'' then read_access_token w else Inr []) of
           Inl e \<Rightarrow> Some (Raised e, calls, w)
         | Inr _ \<Rightarrow>
             if s_intent sig = REVERSAL_FLIP then
               (case close_existing_position_for_flip broker (re_flip_uid env) calls (re_flip_polls env) w
                       (s_index sig) mode of
                  None \<Rightarrow> None
                | Some (Inl e) \<Rightarrow> Some (Raised e, calls, w)
                | Some (Inr (False, calls1, w1)) \<Rightarrow>
                    Some (FlipFailed, calls1, record_rejected_signal sig ''reversal_close_failed'' w1)
                | Some (Inr (True, calls1, w1)) \<Rightarrow> run_gate broker env calls1 w1 sig pid mode)
             else run_gate broker env calls w sig pid mode)"

text \<open>\<open>worker_loop\<close>: the queue up to the shutdown sentinel \<open>None\<close>; an exception of one signal is
  logged and the next one is taken.\<close>

fun worker_loop ::
  "broker \<Rightarrow> (run_env \<times> signal) option list \<Rightarrow> broker_call list \<Rightarrow> world \<Rightarrow> outcome list
     \<Rightarrow> (outcome list \<times> broker_call list \<times> world) option"
where
  "worker_loop broker [] calls w outs = None"
| "worker_loop broker (None # rest) calls w outs = Some (outs, calls, w)"
| "worker_loop broker (Some (env, sig) # rest) calls w outs =
     (case process_signal broker env calls w sig of
        None \<Rightarrow> None
      | Some (out, calls', w') \<Rightarrow> worker_loop broker rest calls' w' (outs @ [out]))"

end
