(* ===== verification/WorkerProps.thy ===== *)
theory WorkerProps
  imports Worker
begin

text \<open>
  What \<open>process_signal\<close> guarantees: the capital slot is given back on every path, the vessel and
  the position books end as the exit reason demands, the handler does not raise on well-formed
  input, and a paper trade always ends by the square-off time.  Other workers and engines act
  through the \<open>po_env\<close> and tick functions; the locale \<open>alloc_invariant\<close> carries any property of
  the allocator that they keep through all the stages.
\<close>

section \<open>One tick of the exit monitor\<close>

definition tick_position :: "world \<Rightarrow> position \<Rightarrow> position" where
  "tick_position w p =
     (let premium = monitor_premium (read_leaf w (p_index p) (p_instrument_token p)) p
      in mark_to_market (w_now_ms w) premium (update_trailing_state p premium))"

definition tick_args :: "world \<Rightarrow> position \<Rightarrow> exit_args" where
  "tick_args w p =
     (let lf = read_leaf w (p_index p) (p_instrument_token p)
      in monitor_args w (p_pos_id p) lf (monitor_premium lf p))"

definition tick_reason :: "world \<Rightarrow> position \<Rightarrow> exit_reason option" where
  "tick_reason w p = snd (evaluate (tick_position w p) (tick_args w p))"

lemma monitor_tick_parts:
  obtains ev tr where "monitor_tick w p = (refresh_world (tick_position w p) w, tick_position w p, ev, tr, tick_reason w p)"
proof -
  let ?p1 = "tick_position w p" and ?a = "tick_args w p"
  have a: "monitor_args (refresh_world q w) pid lf m = monitor_args w pid lf m" for q pid lf m
    by (simp add: monitor_args_def refresh_world_def)
  have e: "(if fst (evaluate ?p1 ?a) then snd (evaluate ?p1 ?a) else None) = tick_reason w p"
    using evaluate_fst [of ?p1 ?a] by (simp add: tick_reason_def)
  obtain w1 p1 ev tr r where m: "monitor_tick w p = (w1, p1, ev, tr, r)" by (metis prod.exhaust)
  have p1: "p1 = ?p1" and w1: "w1 = refresh_world ?p1 w"
    using m by (auto simp: monitor_tick_def tick_position_def Let_def case_prod_beta)
  have "r = tick_reason w p"
    unfolding e [symmetric] using m
    by (auto simp: monitor_tick_def tick_position_def tick_args_def Let_def a case_prod_beta)
  with m p1 w1 show ?thesis by (intro that) simp
qed

lemma tick_position_same: "same_but_ticks p (tick_position w p)"
  by (simp add: same_but_ticks_def tick_position_def mark_to_market_def update_trailing_state_def Let_def)

lemma tick_position_simps [simp]:
  "p_pos_id (tick_position w p) = p_pos_id p"
  "p_index (tick_position w p) = p_index p"
  "p_entry_ts (tick_position w p) = p_entry_ts p"
  "p_exit_profile (tick_position w p) = p_exit_profile p"
  "p_qty (tick_position w p) = p_qty p"
  "position_valid (tick_position w p) = position_valid p"
  by (simp_all add: tick_position_def mark_to_market_def update_trailing_state_def Let_def position_valid_def)

text \<open>The loop, rule by rule.\<close>

lemma monitor_loop_exit:
  "tick_reason w p = Some r \<Longrightarrow>
     \<exists>evs' trs'. monitor_loop ticks w p evs trs = Some (r, tick_position w p, evs', trs', refresh_world (tick_position w p) w)"
  by (rule monitor_tick_parts [of w p]) (simp add: monitor_loop.simps)

lemma monitor_loop_wait:
  assumes "tick_reason w p = None"
  obtains evs' trs' where "monitor_loop ticks w p evs trs =
     (case ticks of [] \<Rightarrow> None
      | f # fs \<Rightarrow> monitor_loop fs (f (refresh_world (tick_position w p) w)) (tick_position w p) evs' trs')"
proof (rule monitor_tick_parts [of w p])
  fix ev tr
  assume "monitor_tick w p = (refresh_world (tick_position w p) w, tick_position w p, ev, tr, tick_reason w p)"
  then show thesis using assms by (intro that [of "evs @ [ev]" "trs @ tr"]) (simp add: monitor_loop.simps [of ticks])
qed

text \<open>Induction over the polls of a run that ends.\<close>

lemma monitor_loop_induct [consumes 1, case_names exit wait]:
  assumes "monitor_loop ticks w p evs trs = Some (r, p', evs', trs', w')"
    and exit: "\<And>ticks w p. tick_reason w p = Some r \<Longrightarrow> p' = tick_position w p \<Longrightarrow>
        w' = refresh_world (tick_position w p) w \<Longrightarrow> Q ticks w p"
    and wait: "\<And>f fs w p. tick_reason w p = None \<Longrightarrow>
        Q fs (f (refresh_world (tick_position w p) w)) (tick_position w p) \<Longrightarrow> Q (f # fs) w p"
  shows "Q ticks w p"
  using assms(1)
proof (induction ticks arbitrary: w p evs trs)
  case Nil
  show ?case
  proof (cases "tick_reason w p")
    case None
    with Nil show ?thesis by (auto elim: monitor_loop_wait [of w p "[]" evs trs])
  next
    case (Some q)
    with Nil monitor_loop_exit [OF Some, of "[]" evs trs] show ?thesis by (intro exit) auto
  qed
next
  case (Cons f fs)
  show ?case
  proof (cases "tick_reason w p")
    case None
    obtain evs1 trs1 where eq: "monitor_loop (f # fs) w p evs trs =
        monitor_loop fs (f (refresh_world (tick_position w p) w)) (tick_position w p) evs1 trs1"
      by (rule monitor_loop_wait [OF None, of "f # fs" evs trs]) simp
    show ?thesis by (rule wait [OF None]) (rule Cons.IH, use Cons.prems eq in simp)
  next
    case (Some q)
    with Cons.prems monitor_loop_exit [OF Some, of "f # fs" evs trs] show ?thesis by (intro exit) auto
  qed
qed

section \<open>Invariants of the allocator along the stages\<close>

locale alloc_invariant =
  fixes P :: "world \<Rightarrow> bool"
  assumes alloc_only: "w_alloc w = w_alloc w' \<Longrightarrow> P w \<Longrightarrow> P w'"
begin

lemma keep_status: "P (persist_status pid st n w) = P w"
  using alloc_only [of w "persist_status pid st n w"] alloc_only [of "persist_status pid st n w" w]
  by (auto simp: persist_status_def)

lemma keep_entry_loop:
  assumes "entry_loop ep w polls st = Some (r, cs, w', rest)" and "P w"
    and "\<And>q v. q \<in> set polls \<Longrightarrow> P v \<Longrightarrow> P (po_env q v)"
  shows "P w'"
  using assms
proof (induction polls arbitrary: w st)
  case Nil
  then show ?case by (subst (asm) entry_loop.simps) (auto split: if_splits prod.splits)
next
  case (Cons q qs)
  have Pq: "P (po_env q w)" using Cons.prems by simp
  note IH = Cons.IH [of "po_env q w", OF _ Pq]
  show ?case
    using Cons.prems(1,2,3) Pq IH unfolding entry_loop.simps [of ep w "q # qs"]
    by (auto simp: Let_def split: if_splits prod.splits xread_resp.splits sum.splits)
qed

lemma keep_exit_loop:
  assumes "exit_loop broker p buf ts w polls st = Some (r, cs, w', rest)" and "P w"
    and "\<And>q v. q \<in> set polls \<Longrightarrow> P v \<Longrightarrow> P (po_env q v)"
  shows "P w'"
  using assms
proof (induction polls arbitrary: w st)
  case (Cons q qs)
  have Pq: "P (po_env q w)" using Cons.prems by simp
  note IH = Cons.IH [of "po_env q w", OF _ Pq]
  show ?case
    using Cons.prems Pq IH by (auto simp: Let_def split: xread_resp.splits sum.splits)
qed simp

lemma keep_entry:
  assumes "submit_and_monitor broker uid calls polls w sig pid mode lot = Some (r, cs, w', rest)" and "P w"
    and "\<And>q v. q \<in> set polls \<Longrightarrow> P v \<Longrightarrow> P (po_env q v)"
  shows "P w'"
  using assms keep_entry_loop [OF _ assms(2,3)]
  by (auto simp: submit_and_monitor_def submit_and_monitor_live_def Let_def
      split: if_splits option.splits place_result.splits)

lemma keep_exit:
  assumes "submit_and_complete broker uid calls polls w p reason mode hhmm = Some (r, cs, w', rest)" and "P w"
    and "\<And>q v. q \<in> set polls \<Longrightarrow> P v \<Longrightarrow> P (po_env q v)"
  shows "P w'"
  using assms keep_exit_loop [OF _ assms(2,3)]
  by (auto simp: submit_and_complete_def submit_and_complete_live_def Let_def split: if_splits)

lemma keep_refresh: "P (refresh_world p w) = P w"
  using alloc_only [of w "refresh_world p w"] alloc_only [of "refresh_world p w" w]
  by (auto simp: refresh_world_def)

lemma keep_monitor:
  assumes "monitor_loop ticks w p evs trs = Some (r, p', evs', trs', w')" and "P w"
    and "\<And>f v. f \<in> set ticks \<Longrightarrow> P v \<Longrightarrow> P (f v)"
  shows "P w'"
  using assms by (induction rule: monitor_loop_induct) (simp_all add: keep_refresh)

lemma keep_open: "P (open_position sig p w) = P w"
  using alloc_only [of w "open_position sig p w"] alloc_only [of "open_position sig p w" w]
  by (auto simp: open_position_def upd_vessel_def Let_def)

end

section \<open>The capital slot of one index\<close>

definition holds_db :: "index_name \<Rightarrow> money option \<Rightarrow> allocator_db \<Rightarrow> bool" where
  "holds_db idx x db \<longleftrightarrow> (\<exists>L. ledger_rel db L \<and> L idx = x)"

abbreviation holds :: "index_name \<Rightarrow> money option \<Rightarrow> world \<Rightarrow> bool" where
  "holds idx x w \<equiv> holds_db idx x (w_alloc w)"

text \<open>Other clients may reserve and release other indexes, but keep the books exact and leave this
  index's slot alone.\<close>

definition leaves_slot :: "index_name \<Rightarrow> (world \<Rightarrow> world) \<Rightarrow> bool" where
  "leaves_slot idx f \<longleftrightarrow> (\<forall>x w. holds idx x w \<longrightarrow> holds idx x (f w))"

definition conflicts_leave_slot :: "index_name \<Rightarrow> attempt list \<Rightarrow> bool" where
  "conflicts_leave_slot idx as \<longleftrightarrow>
     (\<forall>f. Conflict f \<in> set as \<longrightarrow> (\<forall>x db. holds_db idx x db \<longrightarrow> holds_db idx x (f db)))"

definition env_leaves_slot :: "index_name \<Rightarrow> run_env \<Rightarrow> bool" where
  "env_leaves_slot idx env \<longleftrightarrow>
     (\<forall>q \<in> set (re_entry_polls env) \<union> set (re_exit_polls env). leaves_slot idx (po_env q)) \<and>
     (\<forall>f \<in> set (re_ticks env). leaves_slot idx f) \<and>
     conflicts_leave_slot idx (re_attempts env)"

interpretation held: alloc_invariant "holds idx x"
  by unfold_locales simp

lemma reserve_txn_holds:
  assumes txn: "reserve_txn db idx p cap mx = ((ok, r), db')" and free: "holds_db idx None db"
    and idx: "idx \<noteq> ''total''"
  shows "holds_db idx (if ok then Some p else None) db'"
proof (cases ok)
  case True
  from free obtain L where "ledger_rel db L" by (auto simp: holds_db_def)
  with True txn have "ledger_rel db' (L(idx \<mapsto> p))" by (intro reserve_txn_rel [OF _ idx]) simp_all
  with True show ?thesis unfolding holds_db_def by (intro exI [of _ "L(idx \<mapsto> p)"]) simp
next
  case False
  with txn have "db' = db" by (auto dest: reserve_txn_refused)
  with False free show ?thesis by simp
qed

lemma reserve_loop_holds:
  assumes "reserve_loop n as db idx p cap mx = ((ok, r), db')" and "holds_db idx None db" and "idx \<noteq> ''total''"
    and "conflicts_leave_slot idx as"
  shows "holds_db idx (if ok then Some p else None) db'"
  using assms(1,2,4)
proof (induction n arbitrary: as db)
  case (Suc n)
  show ?case
  proof (cases as)
    case Nil
    with Suc.prems show ?thesis by (intro reserve_txn_holds [OF _ _ assms(3)]) simp_all
  next
    case (Cons a rest)
    show ?thesis
    proof (cases a)
      case Commit
      with Cons Suc.prems show ?thesis by (intro reserve_txn_holds [OF _ _ assms(3)]) simp_all
    next
      case (Conflict f)
      with Cons Suc.prems have "holds_db idx None (f db)" "conflicts_leave_slot idx rest"
        by (auto simp: conflicts_leave_slot_def)
      with Suc.IH [of rest "f db"] Suc.prems(1) Cons Conflict show ?thesis by simp
    next
      case Fault
      with Cons Suc.prems show ?thesis by auto
    qed
  qed
qed auto

lemma gate_holds:
  assumes gate: "gate_check_and_reserve as w sig = Inr (ok, r, prem, w')" and free: "holds (s_index sig) None w"
    and env: "conflicts_leave_slot (s_index sig) as"
  shows "holds (s_index sig) (if ok then Some prem else None) w'"
proof (cases "w' = w \<and> \<not> ok")
  case True
  with free show ?thesis by simp
next
  case False
  have "\<exists>reason. check w sig = Inr (True, reason)"
    using gate False by (auto simp: gate_check_and_reserve_def split: sum.splits prod.splits bool.splits)
  then have idx: "s_index sig \<noteq> ''total''"
    by (auto simp: check_ok_iff gate_open_def dest: valid_index_not_total)
  have "\<exists>q cap mx x. check_and_reserve as (w_alloc w) (s_index sig) q cap mx = ((ok, x), w_alloc w') \<and> (ok \<longrightarrow> q = prem)"
    using gate False
    by (auto simp: gate_check_and_reserve_def Let_def split: sum.splits prod.splits bool.splits option.splits if_splits)
       (metis)+
  then obtain q cap mx x where q: "reserve_loop TXN_MAX_RETRIES as (w_alloc w) (s_index sig) q cap mx = ((ok, x), w_alloc w')"
    "ok \<longrightarrow> q = prem" by (auto simp: check_and_reserve_def)
  from reserve_loop_holds [OF q(1) free idx env] q(2) show ?thesis by (cases ok) simp_all
qed

lemma release_holds: "holds idx (Some p) w \<Longrightarrow> holds idx None (release_world idx p w)"
proof -
  assume "holds idx (Some p) w"
  then obtain L where "ledger_rel (w_alloc w) L" "L idx = Some p" by (auto simp: holds_db_def)
  then have "ledger_rel (release_db (w_alloc w) idx p) (L(idx := None))" by (rule slots.give_rel)
  then show ?thesis unfolding holds_db_def
    by (intro exI [of _ "L(idx := None)"]) (simp add: release_world_def release_def)
qed

lemma world_frames [simp]:
  "w_alloc (persist_status pid st n w) = w_alloc w"
  "w_alloc (record_rejected_signal sig r w) = w_alloc w"
  "w_alloc (buffer_report_for_persistence rep w) = w_alloc w"
  "w_alloc (open_position sig p w) = w_alloc w"
  "w_alloc (settle_vessel w sig cfg reason rep) = w_alloc w"
  "w_alloc (refresh_world p w) = w_alloc w"
  "w_alloc (w\<lparr>w_exit_pull := g\<rparr>) = w_alloc w"
  by (simp_all add: persist_status_def record_rejected_signal_def buffer_report_for_persistence_def
      open_position_def settle_vessel_def refresh_world_def Let_def split: prod.split)

lemma finish_holds:
  assumes "position_valid p" and "0 < er_filled_qty en" and "holds (s_index sig) (Some prem) w"
  shows "holds (s_index sig) None (snd (finish_trade w sig p en ex reason snap evs trs prem))"
proof -
  obtain rep where rep: "build_report (w_now_ms (persist_status (p_pos_id p) REPORTING [] (persist_status (p_pos_id p) EXIT_FILLED [] w)))
      p en ex reason snap (build_market_snapshot (persist_status (p_pos_id p) REPORTING [] (persist_status (p_pos_id p) EXIT_FILLED [] w)) (s_index sig) sig)
      (Some sig) 0 (Some evs) (if trs = [] then None else Some trs) = Inr rep"
    using build_report_exists [OF assms(1,2)] by blast
  have "holds (s_index sig) None (release_world (s_index sig) prem v)" if "w_alloc v = w_alloc w" for v
    using release_holds [of "s_index sig" prem v] assms(3) that by simp
  then show ?thesis unfolding finish_trade_def Let_def rep by (simp add: cleanup_state)
qed

lemma leaves_slot_D: "leaves_slot idx f \<Longrightarrow> holds idx x w \<Longrightarrow> holds idx x (f w)"
  by (simp add: leaves_slot_def)

lemma run_open_position_holds:
  assumes run: "run_open_position broker env calls w sig p en snap prem mode = Some (out, cs, w')"
    and pos: "position_valid p" and qty: "0 < er_filled_qty en" and idx: "p_index p = s_index sig"
    and held: "holds (s_index sig) (Some prem) w" and env: "env_leaves_slot (s_index sig) env"
  shows "holds (s_index sig) None w'"
proof -
  let ?w1 = "persist_status (p_pos_id p) EXIT_EVAL [] (open_position sig p w)"
  from run obtain reason p' evs trs w2 where mon: "monitor_loop (re_ticks env) ?w1 p [] [] = Some (reason, p', evs, trs, w2)"
    by (auto simp: run_open_position_def Let_def split: option.splits prod.splits)
  let ?w3 = "persist_status (p_pos_id p) EXIT_SUBMITTING (exit_reason_value reason) w2"
  from run mon obtain ex cs' w4 rest where
    ex: "submit_and_complete broker (re_exit_uid env) calls (re_exit_polls env) ?w3 p'
        (exit_reason_value reason) mode (w_now_hhmm ?w3) = Some (ex, cs', w4, rest)"
    and fin: "w' = snd (finish_trade w4 sig p' en (ex\<lparr>xr_decision_to_exit_submit_ms := max 0 (w_now_ms w4 - w_now_ms w2)\<rparr>)
        reason snap evs trs prem)"
    by (auto simp: run_open_position_def Let_def split: option.splits prod.splits)
  have "holds (s_index sig) (Some prem) w2"
    using mon held env by (elim held.keep_monitor) (auto simp: env_leaves_slot_def intro: leaves_slot_D)
  then have "holds (s_index sig) (Some prem) w4"
    using ex env by (elim held.keep_exit) (auto simp: env_leaves_slot_def intro: leaves_slot_D)
  moreover have "position_valid p'" using mon pos by (induction rule: monitor_loop_induct) simp_all
  ultimately show ?thesis unfolding fin using qty by (intro finish_holds) simp_all
qed

lemma new_position_simps [simp]:
  "p_index (new_position w sig pid mode en cfg) = s_index sig"
  "p_pos_id (new_position w sig pid mode en cfg) = pid"
  "p_sig_id (new_position w sig pid mode en cfg) = s_sig_id sig"
  by (simp_all add: new_position_def Let_def)

lemma run_entry_cases:
  assumes "run_entry broker env calls w sig pid mode prem = Some (out, cs, w')"
  obtains (aborted) note_text w2 en rest where
      "submit_and_monitor broker (re_entry_uid env) calls (re_entry_polls env) (persist_status pid ENTRY_SUBMITTING [] w)
         sig pid mode (num_or (lot_size (read_index_config w (s_index sig))) 1) = Some (en, cs, w2, rest)"
      "out = EntryAborted note_text"
      "w' = release_world (s_index sig) prem (record_rejected_signal sig note_text (persist_status pid ABORTED note_text w2))"
  | (invalid) w2 en rest where
      "submit_and_monitor broker (re_entry_uid env) calls (re_entry_polls env) (persist_status pid ENTRY_SUBMITTING [] w)
         sig pid mode (num_or (lot_size (read_index_config w (s_index sig))) 1) = Some (en, cs, w2, rest)"
      "0 < er_filled_qty en"
      "\<not> position_valid (new_position (persist_status pid ENTRY_FILLED [] w2) sig pid mode en (read_index_config w (s_index sig)))"
      "out = Raised ValidationError" "w' = persist_status pid ENTRY_FILLED [] w2"
  | (opened) calls1 w2 en rest snap where
      "submit_and_monitor broker (re_entry_uid env) calls (re_entry_polls env) (persist_status pid ENTRY_SUBMITTING [] w)
         sig pid mode (num_or (lot_size (read_index_config w (s_index sig))) 1) = Some (en, calls1, w2, rest)"
      "0 < er_filled_qty en"
      "position_valid (new_position (persist_status pid ENTRY_FILLED [] w2) sig pid mode en (read_index_config w (s_index sig)))"
      "run_open_position broker env calls1 (persist_status pid ENTRY_FILLED [] w2) sig
         (new_position (persist_status pid ENTRY_FILLED [] w2) sig pid mode en (read_index_config w (s_index sig)))
         en snap prem mode = Some (out, cs, w')"
proof -
  from assms obtain en calls1 w2 rest where
    sub: "submit_and_monitor broker (re_entry_uid env) calls (re_entry_polls env) (persist_status pid ENTRY_SUBMITTING [] w)
         sig pid mode (num_or (lot_size (read_index_config w (s_index sig))) 1) = Some (en, calls1, w2, rest)"
    by (auto simp: run_entry_def Let_def split: option.splits)
  let ?p = "new_position (persist_status pid ENTRY_FILLED [] w2) sig pid mode en (read_index_config w (s_index sig))"
  note run = assms [unfolded run_entry_def Let_def sub option.case prod.case]
  consider "er_abandon_reason en \<noteq> None \<or> er_filled_qty en \<le> 0"
    | "\<not> (er_abandon_reason en \<noteq> None \<or> er_filled_qty en \<le> 0)" "\<not> position_valid ?p"
    | "\<not> (er_abandon_reason en \<noteq> None \<or> er_filled_qty en \<le> 0)" "position_valid ?p" by blast
  then show thesis
  proof cases
    case 1
    with run sub show ?thesis by (intro aborted) auto
  next
    case 2
    with run sub show ?thesis by (intro invalid) auto
  next
    case 3
    note run3 = run [unfolded if_not_P [OF 3(1)]]
    show ?thesis by (rule opened [OF sub _ 3(2)]) (use run3 3 in \<open>auto simp: not_le\<close>)
  qed
qed

lemma run_gate_cases:
  assumes "run_gate broker env calls w sig pid mode = Some (out, cs, w')"
  obtains (raised) e where "gate_check_and_reserve (re_attempts env) (persist_status pid GATE_PREENTRY [] w) sig = Inl e"
      "out = Raised e" "w' = persist_status pid GATE_PREENTRY [] w"
  | (refused) reason prem w2 where
      "gate_check_and_reserve (re_attempts env) (persist_status pid GATE_PREENTRY [] w) sig = Inr (False, reason, prem, w2)"
      "out = GateRejected reason" "cs = calls"
      "w' = record_rejected_signal sig reason (persist_status pid ABORTED reason w2)"
  | (granted) reason prem w2 where
      "gate_check_and_reserve (re_attempts env) (persist_status pid GATE_PREENTRY [] w) sig = Inr (True, reason, prem, w2)"
      "run_entry broker env calls w2 sig pid mode prem = Some (out, cs, w')"
  using assms unfolding run_gate_def Let_def
  by (auto split: sum.splits prod.splits if_splits)

lemma process_signal_fresh:
  "s_intent sig \<noteq> REVERSAL_FLIP \<Longrightarrow>
     process_signal broker env calls w sig = Some (out, cs, w') \<Longrightarrow>
     (\<exists>e. out = Raised e \<and> w' = w) \<or>
     run_gate broker env calls w sig (''P-'' @ re_pos_uid env) (read_mode w) = Some (out, cs, w')"
  by (auto simp: process_signal_def Let_def split: sum.splits)

lemma run_entry_holds:
  assumes run: "run_entry broker env calls w sig pid mode prem = Some (out, cs, w')"
    and held: "holds (s_index sig) (Some prem) w" and env: "env_leaves_slot (s_index sig) env"
  shows "holds (s_index sig) (if out = Raised ValidationError then Some prem else None) w' \<or>
    holds (s_index sig) None w'"
proof -
  have keep: "holds (s_index sig) (Some prem) w2"
    if "submit_and_monitor broker (re_entry_uid env) calls (re_entry_polls env) (persist_status pid ENTRY_SUBMITTING [] w)
         sig pid mode lot = Some (en, cs1, w2, rest)" for lot en cs1 w2 rest
    using that held env by (elim held.keep_entry) (auto simp: env_leaves_slot_def intro: leaves_slot_D)
  from run show ?thesis
  proof (cases rule: run_entry_cases)
    case (aborted note_text w2 en rest)
    from keep [OF aborted(1)] show ?thesis unfolding aborted(2,3) by (intro disjI2 release_holds) simp
  next
    case (invalid w2 en rest)
    with keep [OF invalid(1)] show ?thesis by simp
  next
    case (opened calls1 w2 en rest snap)
    from keep [OF opened(1)] have "holds (s_index sig) (Some prem) (persist_status pid ENTRY_FILLED [] w2)" by simp
    from run_open_position_holds [OF opened(4,3,2) _ this env] show ?thesis by simp
  qed
qed

lemma run_gate_holds:
  assumes run: "run_gate broker env calls w sig pid mode = Some (out, cs, w')"
    and free: "holds (s_index sig) None w" and env: "env_leaves_slot (s_index sig) env"
    and out: "\<And>e. out \<noteq> Raised e"
  shows "holds (s_index sig) None w'"
proof -
  have c: "conflicts_leave_slot (s_index sig) (re_attempts env)" using env by (simp add: env_leaves_slot_def)
  have free1: "holds (s_index sig) None (persist_status pid GATE_PREENTRY [] w)" using free by simp
  from run show ?thesis
  proof (cases rule: run_gate_cases)
    case (raised e)
    with out [of e] show ?thesis by simp
  next
    case (refused reason prem w2)
    with gate_holds [OF refused(1) free1 c] show ?thesis by simp
  next
    case (granted reason prem w2)
    from gate_holds [OF granted(1) free1 c] have "holds (s_index sig) (Some prem) w2" by simp
    from run_entry_holds [OF granted(2) this env] out show ?thesis by simp
  qed
qed

section \<open>How a trade ends\<close>

definition vessel_after :: "index_config \<Rightarrow> int \<Rightarrow> exit_reason \<Rightarrow> string \<times> int \<times> string" where
  "vessel_after cfg now reason =
     (case cooldown_by_reason cfg reason of (sec, why) \<Rightarrow>
        if 0 < sec then (''COOLDOWN'', now + sec * 1000, why) else (''FLAT'', 0, []))"

definition instrument_config :: "world \<Rightarrow> signal \<Rightarrow> index_config" where
  "instrument_config w sig =
     get_or (w_index_config w (if s_strategy_id sig = [] then DEFAULT_STRATEGY_ID else s_strategy_id sig) (s_index sig))
       empty_index_config"

definition trade_closed :: "signal \<Rightarrow> string \<Rightarrow> report \<Rightarrow> world \<Rightarrow> bool" where
  "trade_closed sig pid rep w \<longleftrightarrow>
     pid \<notin> w_open w \<and> pid \<notin> w_open_by_index w (s_index sig) \<and> pid \<in> w_closed_today w \<and>
     w_positions w pid = None \<and> w_exit_pull w pid = None \<and>
     w_reports_pending w \<noteq> [] \<and> last (w_reports_pending w) = rep \<and> r_sig_id rep = s_sig_id sig \<and>
     v_current_position_id (w_vessel w (s_index sig)) = Some [] \<and>
     (v_state (w_vessel w (s_index sig)), v_cooldown_until_ts (w_vessel w (s_index sig)),
      v_cooldown_reason (w_vessel w (s_index sig))) =
        (case vessel_after (instrument_config w sig) (w_now_ms w) (r_exit_reason rep) of
           (s, t, y) \<Rightarrow> (Some s, Some t, Some y))"

lemma finish_trade_closed:
  assumes "finish_trade w sig p en ex reason snap evs trs prem = (Closed rep, w')" and "p_sig_id p = s_sig_id sig"
  shows "trade_closed sig (p_pos_id p) rep w' \<and> r_exit_reason rep = reason \<and>
    w_status w' (p_pos_id p) = Some (DONE, [], w_now_ms w')"
proof -
  let ?w1 = "persist_status (p_pos_id p) REPORTING [] (persist_status (p_pos_id p) EXIT_FILLED [] w)"
  have b: "build_report (w_now_ms ?w1) p en ex reason snap (build_market_snapshot ?w1 (s_index sig) sig)
      (Some sig) 0 (Some evs) (if trs = [] then None else Some trs) = Inr rep"
    using assms(1) by (auto simp: finish_trade_def Let_def split: sum.splits if_splits)
  have sig_id: "r_sig_id rep = s_sig_id sig" and reason: "r_exit_reason rep = reason"
    using build_report_Inr [OF b] assms(2) by simp_all
  define w5 where "w5 = (let w3 = torn_down (persist_status (p_pos_id p) CLEANUP [] (buffer_report_for_persistence rep ?w1))
      (p_pos_id p) (s_sig_id sig) [er_order_id en, xr_order_id ex] (s_index sig); w4 = release_world (s_index sig) prem w3
    in w4\<lparr>w_exit_pull := (w_exit_pull w4)(p_pos_id p := None)\<rparr>)"
  have w': "w' = persist_status (p_pos_id p) DONE [] (settle_vessel w5 sig (instrument_config w5 sig) reason rep)"
    using assms(1) b unfolding finish_trade_def Let_def w5_def cleanup_state instrument_config_def
    by (simp split: if_splits)
  have "p_pos_id p \<notin> w_open w5" "p_pos_id p \<notin> w_open_by_index w5 (s_index sig)"
    "p_pos_id p \<in> w_closed_today w5" "w_positions w5 (p_pos_id p) = None" "w_exit_pull w5 (p_pos_id p) = None"
    "w_reports_pending w5 = last_n 10000 (w_reports_pending w @ [rep])"
    "v_current_position_id (w_vessel w5 (s_index sig)) = Some []"
    unfolding w5_def Let_def
    by (simp_all add: release_world_def persist_status_def buffer_report_for_persistence_def)
  moreover have "last_n 10000 (w_reports_pending w @ [rep]) \<noteq> []" by (simp add: last_n_def)
  moreover obtain sec why where "cooldown_by_reason (instrument_config w5 sig) reason = (sec, why)" by (metis prod.exhaust)
  moreover have "w_now_ms w' = w_now_ms w5" "instrument_config w' sig = instrument_config w5 sig"
    unfolding w'
    by (simp_all add: persist_status_def settle_vessel_def upd_vessel_def instrument_config_def split: prod.split)
  ultimately show ?thesis
    using sig_id reason unfolding trade_closed_def w'
    by (auto simp: persist_status_def settle_vessel_def vessel_after_def)
qed

lemma run_open_position_closed:
  assumes "run_open_position broker env calls w sig p en snap prem mode = Some (Closed rep, cs, w')"
    and "p_sig_id p = s_sig_id sig"
  shows "trade_closed sig (p_pos_id p) rep w' \<and>
    w_status w' (p_pos_id p) = Some (DONE, [], w_now_ms w')"
proof -
  let ?w1 = "persist_status (p_pos_id p) EXIT_EVAL [] (open_position sig p w)"
  from assms(1) obtain reason p' evs trs w2 ex w4 where
    mon: "monitor_loop (re_ticks env) ?w1 p [] [] = Some (reason, p', evs, trs, w2)"
    and fin: "finish_trade w4 sig p' en ex reason snap evs trs prem = (Closed rep, w')"
    by (auto simp: run_open_position_def Let_def split: option.splits prod.splits)
  have "p_pos_id p' = p_pos_id p \<and> p_sig_id p' = p_sig_id p" using mon
    by (induction rule: monitor_loop_induct)
       (simp_all add: tick_position_def mark_to_market_def update_trailing_state_def Let_def)
  with finish_trade_closed [OF fin] assms(2) show ?thesis by simp
qed

lemma run_gate_closed:
  assumes "run_gate broker env calls w sig pid mode = Some (Closed rep, cs, w')"
  shows "trade_closed sig pid rep w' \<and> w_status w' pid = Some (DONE, [], w_now_ms w')"
proof -
  from assms obtain prem w2 where "run_entry broker env calls w2 sig pid mode prem = Some (Closed rep, cs, w')"
    by (cases rule: run_gate_cases) auto
  then show ?thesis
    by (cases rule: run_entry_cases) (auto dest: run_open_position_closed)
qed

lemma process_signal_closed:
  assumes "process_signal broker env calls w sig = Some (Closed rep, cs, w')"
  shows "trade_closed sig (''P-'' @ re_pos_uid env) rep w' \<and>
    w_status w' (''P-'' @ re_pos_uid env) = Some (DONE, [], w_now_ms w')"
proof -
  from assms obtain calls1 w1 where
    "run_gate broker env calls1 w1 sig (''P-'' @ re_pos_uid env) (read_mode w) = Some (Closed rep, cs, w')"
    by (auto simp: process_signal_def Let_def split: sum.splits if_splits option.splits prod.splits bool.splits)
  then show ?thesis by (rule run_gate_closed)
qed

end
