(* ===== verification/WorkerLiveness.thy ===== *)
theory WorkerLiveness
  imports WorkerProps
begin

text \<open>
  The end-to-end properties of \<open>process_signal\<close>: no exception on well-formed input, the capital
  slot given back, the books of a closed trade, and that a granted paper trade is always closed
  by the square-off time.
\<close>

section \<open>Where the handler can raise\<close>

definition well_configured :: "world \<Rightarrow> signal \<Rightarrow> bool" where
  "well_configured w sig \<longleftrightarrow>
     valid_index (s_index sig) \<and> s_intent sig = FRESH_ENTRY \<and> read_mode w \<in> {''paper'', ''live''} \<and>
     (read_mode w = ''live'' \<longrightarrow> (\<forall>t. w_access_token w \<noteq> Some (AuthBare t))) \<and>
     valid_strategy_id (if s_strategy_id sig = [] then DEFAULT_STRATEGY_ID else s_strategy_id sig) \<and>
     0 < num_or (max_hold_sec (read_index_config w (s_index sig))) 1500"

lemma gate_no_raise: "valid_index (s_index sig) \<Longrightarrow> gate_check_and_reserve as w sig \<noteq> Inl e"
  by (auto simp: gate_check_and_reserve_def check_def Let_def
      split: sum.splits prod.splits bool.splits option.splits if_splits)

lemma new_position_valid:
  assumes "valid_index (s_index sig)" and "s_intent sig = FRESH_ENTRY" and "mode \<in> {''paper'', ''live''}"
    and "0 < num_or (max_hold_sec cfg) 1500" and "0 < er_filled_qty en"
  shows "position_valid (new_position w sig pid mode en cfg)"
  using assms by (simp add: position_valid_def new_position_def valid_index_def Let_def)

lemma finish_no_raise:
  assumes "position_valid p" and "0 < er_filled_qty en"
    and "valid_strategy_id (if s_strategy_id sig = [] then DEFAULT_STRATEGY_ID else s_strategy_id sig)"
  shows "\<exists>rep w'. finish_trade w sig p en ex reason snap evs trs prem = (Closed rep, w')"
proof -
  let ?w1 = "persist_status (p_pos_id p) REPORTING [] (persist_status (p_pos_id p) EXIT_FILLED [] w)"
  obtain rep where rep: "build_report (w_now_ms ?w1) p en ex reason snap (build_market_snapshot ?w1 (s_index sig) sig)
      (Some sig) 0 (Some evs) (if trs = [] then None else Some trs) = Inr rep"
    using build_report_exists [OF assms(1,2)] by blast
  show ?thesis unfolding finish_trade_def Let_def rep using assms(3) by simp
qed

lemma monitor_position_valid:
  "monitor_loop ticks w p evs trs = Some (r, p', evs', trs', w') \<Longrightarrow> position_valid p \<Longrightarrow> position_valid p'"
  by (induction rule: monitor_loop_induct) simp_all

lemma run_open_no_raise:
  assumes "run_open_position broker env calls w sig p en snap prem mode = Some (out, cs, w')"
    and "position_valid p" and "0 < er_filled_qty en"
    and "valid_strategy_id (if s_strategy_id sig = [] then DEFAULT_STRATEGY_ID else s_strategy_id sig)"
  shows "\<exists>rep. out = Closed rep"
proof -
  let ?w1 = "persist_status (p_pos_id p) EXIT_EVAL [] (open_position sig p w)"
  from assms(1) obtain reason p' evs trs w2 ex w4 where
    mon: "monitor_loop (re_ticks env) ?w1 p [] [] = Some (reason, p', evs, trs, w2)"
    and fin: "finish_trade w4 sig p' en ex reason snap evs trs prem = (out, w')"
    by (auto simp: run_open_position_def Let_def split: option.splits prod.splits)
  from finish_no_raise [OF monitor_position_valid [OF mon assms(2)] assms(3,4)] fin show ?thesis
    by (metis prod.inject)
qed

lemma persist_reads [simp]:
  "read_index_config (persist_status pid st n w) idx = read_index_config w idx"
  "read_mode (persist_status pid st n w) = read_mode w"
  "w_now_hhmm (persist_status pid st n w) = w_now_hhmm w"
  "w_now_ms (persist_status pid st n w) = w_now_ms w"
  by (simp_all add: persist_status_def read_index_config_def read_mode_def)

lemma gate_world:
  assumes "gate_check_and_reserve as w sig = Inr (ok, r, prem, w2)"
  obtains db where "w2 = w\<lparr>w_alloc := db\<rparr>"
  using gate_frame [OF assms] by (rule that)

lemma alloc_reads [simp]:
  "read_index_config (w\<lparr>w_alloc := db\<rparr>) idx = read_index_config w idx"
  "read_execution_config (w\<lparr>w_alloc := db\<rparr>) = read_execution_config w"
  "read_risk_config (w\<lparr>w_alloc := db\<rparr>) = read_risk_config w"
  "read_leaf (w\<lparr>w_alloc := db\<rparr>) idx tok = read_leaf w idx tok"
  "kill_switch_engaged (w\<lparr>w_alloc := db\<rparr>) seg = kill_switch_engaged w seg"
  by (simp_all add: read_index_config_def read_execution_config_def read_risk_config_def read_leaf_def
      kill_switch_engaged_def)

lemma gate_reads:
  "gate_check_and_reserve as w sig = Inr (ok, r, prem, w2) \<Longrightarrow> read_index_config w2 idx = read_index_config w idx"
  by (erule gate_world) simp

lemma run_gate_no_raise:
  assumes run: "run_gate broker env calls w sig pid mode = Some (out, cs, w')"
    and idx: "valid_index (s_index sig)" and intent: "s_intent sig = FRESH_ENTRY" and mode: "mode \<in> {''paper'', ''live''}"
    and sid: "valid_strategy_id (if s_strategy_id sig = [] then DEFAULT_STRATEGY_ID else s_strategy_id sig)"
    and hold: "0 < num_or (max_hold_sec (read_index_config w (s_index sig))) 1500"
  shows "out \<noteq> Raised e"
  using run
proof (cases rule: run_gate_cases)
  case (raised e)
  with gate_no_raise [OF idx] show ?thesis by blast
next
  case (granted reason prem w2)
  have hold2: "0 < num_or (max_hold_sec (read_index_config w2 (s_index sig))) 1500"
    using gate_reads [OF granted(1)] hold by simp
  from granted(2) show ?thesis
  proof (cases rule: run_entry_cases)
    case (invalid w3 en rest)
    with new_position_valid [OF idx intent mode hold2 invalid(2)] show ?thesis by simp
  next
    case (opened calls1 w3 en rest snap)
    from run_open_no_raise [OF opened(4,3,2) sid] show ?thesis by blast
  qed simp
qed simp

lemma well_configured_no_raise:
  assumes "well_configured w sig" and run: "process_signal broker env calls w sig = Some (out, cs, w')"
  shows "out \<noteq> Raised e"
proof -
  have "run_gate broker env calls w sig (''P-'' @ re_pos_uid env) (read_mode w) = Some (out, cs, w')"
    using assms
    by (auto simp: process_signal_def well_configured_def read_access_token_def Let_def
        split: sum.splits if_splits option.splits auth_blob.splits)
  then show ?thesis
    using assms(1) by (intro run_gate_no_raise) (auto simp: well_configured_def)
qed

section \<open>A granted paper trade completes\<close>

lemma persist_reads2 [simp]:
  "read_execution_config (persist_status pid st n w) = read_execution_config w"
  "read_risk_config (persist_status pid st n w) = read_risk_config w"
  "read_leaf (persist_status pid st n w) idx tok = read_leaf w idx tok"
  "kill_switch_engaged (persist_status pid st n w) seg = kill_switch_engaged w seg"
  "w_trading_active (persist_status pid st n w) = w_trading_active w"
  "w_daily_loss_circuit (persist_status pid st n w) = w_daily_loss_circuit w"
  "w_order_exec_up (persist_status pid st n w) = w_order_exec_up w"
  by (simp_all add: persist_status_def read_execution_config_def read_risk_config_def read_leaf_def
      kill_switch_engaged_def)

lemma check_persist [simp]: "check (persist_status pid st n w) sig = check w sig"
  by (simp add: check_def split: option.split)

lemma gate_open_persist [simp]: "gate_open (persist_status pid st n w) sig = gate_open w sig"
  by (simp add: gate_open_def)

lemma persist_alloc_commute:
  "(persist_status pid st n w)\<lparr>w_alloc := db\<rparr> = persist_status pid st n (w\<lparr>w_alloc := db\<rparr>)"
  by (simp add: persist_status_def)

lemma gate_persist:
  assumes "gate_check_and_reserve as w sig = Inr (True, r, prem, w2)"
  shows "gate_check_and_reserve as (persist_status pid st n w) sig = Inr (True, r, prem, persist_status pid st n w2)"
  using assms
  by (auto simp: gate_check_and_reserve_def persist_alloc_commute Let_def
      split: sum.splits prod.splits bool.splits option.splits if_splits)

lemma gate_ok_qty:
  assumes "gate_check_and_reserve as w sig = Inr (True, r, prem, w2)"
  shows "0 < s_qty_lots sig * num_or (lot_size (read_index_config w (s_index sig))) 1"
proof -
  let ?lot = "num_or (lot_size (read_index_config w (s_index sig))) 1"
  have open_w: "gate_open w sig" and pos: "0 < prem" using gate_ok_D [OF assms] by simp_all
  then obtain lf where lf: "read_leaf w (s_index sig) (s_instrument_token sig) = Some lf"
    and tq: "tradeable_quotes (read_execution_config w) lf" by (auto simp: gate_open_def)
  from tq obtain ask where ask: "l_ask lf = Some ask" "0 < ask" by (force simp: tradeable_quotes_def)
  from assms lf have "prem = compute_premium_required lf (s_qty_lots sig) ?lot"
    by (auto simp: gate_check_and_reserve_def Let_def split: sum.splits prod.splits bool.splits if_splits)
  with ask have "prem = of_int (s_qty_lots sig) * of_int ?lot * ask"
    by (simp add: compute_premium_required_def Let_def)
  with pos ask(2) have "0 < (of_int (s_qty_lots sig * ?lot) :: rat)" by (simp add: zero_less_mult_iff)
  then show ?thesis by (simp only: of_int_0_less_iff)
qed

lemma eod_triggers: "''15:15'' \<le> w_now_hhmm w \<Longrightarrow> tick_reason w p \<noteq> None"
  unfolding tick_reason_def evaluate_None
  by (intro notI) (auto simp: tick_args_def monitor_args_def Let_def dest!: spec [of _ ER_EOD])

lemma monitor_returns:
  "\<exists>f \<in> set ticks. \<forall>v. ''15:15'' \<le> w_now_hhmm (f v) \<Longrightarrow> \<exists>res. monitor_loop ticks w p evs trs = Some res"
proof (induction ticks arbitrary: w p evs trs)
  case (Cons f fs)
  show ?case
  proof (cases "tick_reason w p")
    case (Some r)
    then show ?thesis using monitor_loop_exit [OF Some, of "f # fs" evs trs] by blast
  next
    case None
    let ?w = "f (refresh_world (tick_position w p) w)" and ?p = "tick_position w p"
    obtain evs1 trs1 where eq: "monitor_loop (f # fs) w p evs trs = monitor_loop fs ?w ?p evs1 trs1"
      by (rule monitor_loop_wait [OF None, of "f # fs" evs trs]) simp
    show ?thesis
    proof (cases "\<forall>v. ''15:15'' \<le> w_now_hhmm (f v)")
      case True
      then obtain r where "tick_reason ?w ?p = Some r" using eod_triggers [of ?w ?p] by auto
      from monitor_loop_exit [OF this, of fs evs1 trs1] show ?thesis unfolding eq by blast
    next
      case False
      with Cons show ?thesis unfolding eq by auto
    qed
  qed
qed simp

lemma run_open_paper_returns:
  assumes "\<exists>f \<in> set (re_ticks env). \<forall>v. ''15:15'' \<le> w_now_hhmm (f v)"
  shows "\<exists>out w'. run_open_position broker env calls w sig p en snap prem ''paper'' = Some (out, calls, w')"
proof -
  let ?w1 = "persist_status (p_pos_id p) EXIT_EVAL [] (open_position sig p w)"
  obtain reason p' evs trs w2 where "monitor_loop (re_ticks env) ?w1 p [] [] = Some (reason, p', evs, trs, w2)"
    using monitor_returns [OF assms, of ?w1 p "[]" "[]"] by (metis prod.exhaust)
  then show ?thesis
    by (simp add: run_open_position_def submit_and_complete_def Let_def split: prod.split)
qed

lemma paper_completes:
  assumes cfg: "well_configured w sig" and paper: "read_mode w = ''paper''"
    and gate: "gate_check_and_reserve (re_attempts env) w sig = Inr (True, r, prem, w2)"
    and eod: "\<exists>f \<in> set (re_ticks env). \<forall>v. ''15:15'' \<le> w_now_hhmm (f v)"
  shows "\<exists>rep w'. process_signal broker env calls w sig = Some (Closed rep, calls, w')"
proof -
  let ?pid = "''P-'' @ re_pos_uid env"
  let ?w2 = "persist_status ?pid GATE_PREENTRY [] w2"
  let ?w3 = "persist_status ?pid ENTRY_SUBMITTING [] ?w2"
  let ?lot = "num_or (lot_size (read_index_config w (s_index sig))) 1"
  let ?en = "submit_and_monitor_paper (re_entry_uid env) ?w3 sig ?lot"
  obtain db where w2: "w2 = w\<lparr>w_alloc := db\<rparr>" using gate by (rule gate_world)
  have "gate_open w sig" using gate_ok_D [OF gate] by simp
  then have "gate_open ?w3 sig" by (simp add: w2 gate_open_def)
  then obtain lf where "gate_open ?w3 sig" "read_leaf ?w3 (s_index sig) (s_instrument_token sig) = Some lf"
    by (auto simp: gate_open_def)
  from paper_entry_fill [OF this, of "re_entry_uid env" ?lot]
  have en: "er_filled_qty ?en = s_qty_lots sig * ?lot" "er_abandon_reason ?en = None" by simp_all
  have qty: "0 < er_filled_qty ?en" using en gate_ok_qty [OF gate] by simp
  let ?p = "new_position (persist_status ?pid ENTRY_FILLED [] ?w3) sig ?pid ''paper'' ?en (read_index_config w (s_index sig))"
  have valid: "position_valid ?p"
    using cfg qty by (intro new_position_valid) (auto simp: well_configured_def)
  obtain out w' where run: "run_open_position broker env calls (persist_status ?pid ENTRY_FILLED [] ?w3) sig ?p ?en
      (build_market_snapshot ?w2 (s_index sig) sig) prem ''paper'' = Some (out, calls, w')"
    using run_open_paper_returns [OF eod] by blast
  have "run_entry broker env calls ?w2 sig ?pid ''paper'' prem = Some (out, calls, w')"
    using run valid qty en
    unfolding run_entry_def Let_def submit_and_monitor_def
    by (simp add: gate_reads [OF gate])
  then have "run_gate broker env calls w sig ?pid ''paper'' = Some (out, calls, w')"
    using gate_persist [OF gate, of ?pid GATE_PREENTRY "[]"] by (simp add: run_gate_def Let_def)
  then have "process_signal broker env calls w sig = Some (out, calls, w')"
    using cfg paper by (simp add: process_signal_def well_configured_def Let_def)
  moreover have "\<exists>rep. out = Closed rep"
    using run_open_no_raise [OF run valid qty] cfg by (simp add: well_configured_def)
  ultimately show ?thesis by blast
qed

section \<open>A concrete run\<close>

definition sample_env :: run_env where
  "sample_env = \<lparr>re_pos_uid = ''a1'', re_entry_uid = ''b2'', re_exit_uid = ''c3'', re_flip_uid = ''d4'',
     re_attempts = [], re_flip_polls = [], re_entry_polls = [],
     re_ticks = [\<lambda>w. w\<lparr>w_now_ms := 500\<rparr>, \<lambda>w. w\<lparr>w_now_hhmm := ''15:20''\<rparr>], re_exit_polls = []\<rparr>"

lemma sample_configured: "well_configured sample_world sample_signal" "read_mode sample_world = ''paper''"
  by (simp_all add: well_configured_def sample_defs valid_index_def read_mode_def valid_strategy_id_def
      is_alnum_def read_index_config_def)

lemma sample_completes:
  "\<exists>rep w'. process_signal (\<lambda>_ _. PlaceRejected []) sample_env [] sample_world sample_signal = Some (Closed rep, [], w')"
  using sample_gate
  by (intro paper_completes [OF sample_configured]) (auto simp: sample_env_def less_eq_char_def)

lemma sample_env_slot: "env_leaves_slot idx sample_env"
  by (auto simp: env_leaves_slot_def sample_env_def leaves_slot_def conflicts_leave_slot_def)

section \<open>Properties\<close>

text \<open>Claim C1.  The capital slot is given back on every path.  Start from exact books in which the
  signal's index is free, and let other clients act on other indexes at every poll, tick and
  transaction conflict.  Whenever \<open>process_signal\<close> finishes a fresh entry without raising
  (rejected by the gate, entry abandoned, or trade closed; paper or live), the books are exact
  again and the index's slot is free.\<close>

theorem slot_given_back:
  assumes "process_signal broker env calls w sig = Some (out, cs, w')" and "s_intent sig \<noteq> REVERSAL_FLIP"
    and "holds (s_index sig) None w" and "env_leaves_slot (s_index sig) env" and "\<forall>e. out \<noteq> Raised e"
  shows "holds (s_index sig) None w'"
  using process_signal_fresh [OF assms(2,1)] assms(3-)
  by (auto intro: run_gate_holds)

theorem slot_given_back_witness:
  "\<exists>rep cs w'. process_signal (\<lambda>_ _. PlaceRejected []) sample_env [] sample_world sample_signal = Some (Closed rep, cs, w') \<and>
     holds ''nifty50'' None w'"
proof -
  obtain rep w' where run: "process_signal (\<lambda>_ _. PlaceRejected []) sample_env [] sample_world sample_signal =
      Some (Closed rep, [], w')" using sample_completes by blast
  have "holds (s_index sample_signal) None sample_world"
    unfolding holds_db_def using ledger_rel_empty
    by (intro exI [of _ Map.empty]) (simp add: sample_defs empty_db_def)
  from slot_given_back [OF run _ this sample_env_slot] have "holds (s_index sample_signal) None w'"
    by (simp add: sample_signal_def)
  with run show ?thesis by (auto simp: sample_signal_def)
qed



text \<open>The status hash outlives its position: \<open>process_signal\<close> writes \<open>DONE\<close> after
  cleanup has deleted \<open>orders:status:{pos_id}\<close>, so every closed trade leaves that key behind.\<close>

theorem status_key_leaks:
  assumes "process_signal broker env calls w sig = Some (Closed rep, cs, w')"
  shows "w_status w' (''P-'' @ re_pos_uid env) = Some (DONE, [], w_now_ms w')"
  using process_signal_closed [OF assms] by simp

theorem status_key_leaks_witness:
  "\<exists>rep cs w'. process_signal (\<lambda>_ _. PlaceRejected []) sample_env [] sample_world sample_signal = Some (Closed rep, cs, w') \<and>
     w_status w' ''P-a1'' \<noteq> None"
proof -
  obtain rep w' where run: "process_signal (\<lambda>_ _. PlaceRejected []) sample_env [] sample_world sample_signal =
      Some (Closed rep, [], w')" using sample_completes by blast
  from status_key_leaks [OF run] run show ?thesis by (auto simp: sample_env_def)
qed

text \<open>Claim C30.  \<open>process_signal\<close> does not raise on well-formed input: with a known index, a
  fresh-entry signal, mode \<open>paper\<close> or \<open>live\<close>, a JSON auth blob in live mode, a valid strategy id
  and a positive holding limit, no run of the handler ends with an exception.\<close>

theorem process_signal_no_raise:
  assumes "well_configured w sig" and "process_signal broker env calls w sig = Some (out, cs, w')"
  shows "out \<noteq> Raised e"
  using assms by (rule well_configured_no_raise)

theorem process_signal_no_raise_witness:
  "\<exists>out cs w'. process_signal (\<lambda>_ _. PlaceRejected []) sample_env [] sample_world sample_signal = Some (out, cs, w') \<and>
     out \<noteq> Raised ValueError \<and> out \<noteq> Raised ValidationError"
proof -
  obtain rep w' where run: "process_signal (\<lambda>_ _. PlaceRejected []) sample_env [] sample_world sample_signal =
      Some (Closed rep, [], w')" using sample_completes by blast
  from process_signal_no_raise [OF sample_configured(1) run] run show ?thesis by blast
qed

text \<open>Claim C2.  A granted paper trade is always closed.  On well-formed input, if the gate grants
  the reservation and the clock shows \<open>15:15\<close> or later at some poll of the exit monitor, then
  \<open>process_signal\<close> returns with the trade closed, whatever quotes, flags and other engines do,
  and without a single broker call.\<close>

theorem paper_trade_always_closes:
  assumes "well_configured w sig" and "read_mode w = ''paper''"
    and "gate_check_and_reserve (re_attempts env) w sig = Inr (True, r, prem, w2)"
    and "\<exists>f \<in> set (re_ticks env). \<forall>v. ''15:15'' \<le> w_now_hhmm (f v)"
  shows "\<exists>rep w'. process_signal broker env calls w sig = Some (Closed rep, calls, w')"
  using assms by (rule paper_completes)

theorem paper_trade_always_closes_witness:
  "\<exists>rep w'. process_signal (\<lambda>_ _. PlaceRejected []) sample_env [] sample_world sample_signal = Some (Closed rep, [], w')"
  using sample_gate
  by (intro paper_trade_always_closes [OF sample_configured]) (auto simp: sample_env_def less_eq_char_def)

text \<open>Closing the prior leg of a reversal gives back the wrong amount: it releases entry
  price times quantity, while the gate reserved ask times quantity.  The books are exact
  afterwards only if the two are equal; otherwise the deployed total is off by their
  difference.\<close>

theorem flip_release_drift:
  assumes "flip_finish w idx pid prior ex = Inr w'" and "ledger_rel (w_alloc w) L" and "L idx = Some q"
  shows "(ledger_rel (w_alloc w') (L(idx := None)) \<longleftrightarrow> q = p_entry_price prior * of_int (p_qty prior)) \<and>
    deployed (w_alloc w') ''total'' = committed (L(idx := None)) + (q - p_entry_price prior * of_int (p_qty prior))"
proof -
  let ?v = "p_entry_price prior * of_int (p_qty prior)"
  have alloc: "w_alloc w' = release_db (w_alloc w) idx ?v"
    using assms(1) by (auto simp: flip_finish_def release_world_def release_def cleanup_state Let_def split: sum.splits)
  have idx: "idx \<noteq> ''total''" and fin: "finite (dom L)" and tot: "deployed (w_alloc w) ''total'' = committed L"
    using assms(2,3) by (auto simp: ledger_rel_def)
  have dep: "deployed (w_alloc w') ''total'' = committed (L(idx := None)) + (q - ?v)"
    using committed_delete [OF fin assms(3)] tot by (simp add: alloc release_db_sel [OF idx])
  moreover have "ledger_rel (w_alloc w') (L(idx := None)) \<longleftrightarrow> q = ?v"
  proof
    assume "ledger_rel (w_alloc w') (L(idx := None))"
    then have "deployed (w_alloc w') ''total'' = committed (L(idx := None))" by (simp only: ledger_rel_def)
    with dep show "q = ?v" by simp
  next
    assume "q = ?v"
    with release_db_rel [OF assms(2,3)] show "ledger_rel (w_alloc w') (L(idx := None))" by (simp only: alloc)
  qed
  ultimately show ?thesis by blast
qed

theorem flip_release_drift_witness:
  "\<exists>w'. flip_finish (boot_world\<lparr>w_alloc := snd (reserve_txn empty_db ''nifty50'' 7575 20000 2)\<rparr>) ''nifty50'' ''pos''
      sample_position sample_exit_result = Inr w' \<and> deployed (w_alloc w') ''total'' = 75"
proof -
  let ?w = "boot_world\<lparr>w_alloc := snd (reserve_txn empty_db ''nifty50'' 7575 20000 2)\<rparr>"
  have rel: "ledger_rel (w_alloc ?w) [''nifty50'' \<mapsto> 7575]"
    by (simp add: ledger_rel_def reserve_txn_def empty_db_def Let_def committed_def)
  have "position_valid sample_position" "0 < er_filled_qty (flip_entry_result sample_position)"
    by (simp_all add: sample_position_def position_valid_def flip_entry_result_def)
  then obtain rp where "build_report (w_now_ms ?w) sample_position (flip_entry_result sample_position) sample_exit_result
      ER_REVERSAL_FLIP (flip_snapshot ?w sample_position) (flip_snapshot ?w sample_position) None 0 None None = Inr rp"
    using build_report_exists by blast
  then obtain w' where run: "flip_finish ?w ''nifty50'' ''pos'' sample_position sample_exit_result = Inr w'"
    by (simp add: flip_finish_def Let_def)
  from flip_release_drift [OF run rel, of 7575] have "deployed (w_alloc w') ''total'' = 75"
    by (simp add: committed_def sample_position_def)
  with run show ?thesis by blast
qed

end
