(* ===== verification/StrategyMetrics.thy ===== *)
theory StrategyMetrics
  imports Schemas
begin

text \<open>
  The inputs and the eight metrics of the bid/ask-imbalance strategy
  (\<open>backend/engines/strategy/strategies/bid_ask_imbalance\<close>): \<open>snapshot.py\<close>, \<open>buffer.py\<close> and the
  modules of \<open>metrics/\<close>.  All of them are pure.  A rolling buffer is its capacity and its
  observations, oldest first.  The numbers of a cached leg are already typed, so the
  \<open>_coerce_*\<close> helpers are the identity on them.
\<close>

section \<open>Snapshot\<close>

record strike_leg =
  sl_token :: token
  sl_strike :: int
  sl_side :: side
  sl_ltp :: "money option"
  sl_best_bid :: "money option"
  sl_best_ask :: "money option"
  sl_best_bid_qty :: "int option"
  sl_best_ask_qty :: "int option"
  sl_bid_qtys :: "int option list"
  sl_ask_qtys :: "int option list"
  sl_total_bid_qty :: "int option"
  sl_total_ask_qty :: "int option"
  sl_vol :: "int option"
  sl_oi :: "int option"
  sl_ts :: int

record snapshot =
  sn_instrument_id :: index_name
  sn_atm :: int
  sn_spot :: "money option"
  sn_spot_ts :: int
  sn_ce_legs :: "strike_leg list"
  sn_pe_legs :: "strike_leg list"
  sn_snapshot_ts :: int

definition all_legs :: "snapshot \<Rightarrow> strike_leg list" where
  "all_legs s = sn_ce_legs s @ sn_pe_legs s"

definition depth5 :: "int option list option \<Rightarrow> int option list" where
  "depth5 q =
     (let raw = (case q of None \<Rightarrow> replicate 5 None | Some xs \<Rightarrow> if xs = [] then replicate 5 None else xs);
          five = take 5 raw
      in five @ replicate (5 - length five) None)"

definition build_leg :: "token \<Rightarrow> int \<Rightarrow> side \<Rightarrow> leaf option \<Rightarrow> strike_leg" where
  "build_leg tok strike sd lf =
     (case lf of
        None \<Rightarrow> \<lparr>sl_token = tok, sl_strike = strike, sl_side = sd, sl_ltp = None, sl_best_bid = None,
          sl_best_ask = None, sl_best_bid_qty = None, sl_best_ask_qty = None,
          sl_bid_qtys = replicate 5 None, sl_ask_qtys = replicate 5 None, sl_total_bid_qty = None,
          sl_total_ask_qty = None, sl_vol = None, sl_oi = None, sl_ts = 0\<rparr>
      | Some l \<Rightarrow> \<lparr>sl_token = str_or (l_token l) tok, sl_strike = strike, sl_side = sd,
          sl_ltp = l_ltp l, sl_best_bid = l_bid l, sl_best_ask = l_ask l,
          sl_best_bid_qty = l_bid_qty l, sl_best_ask_qty = l_ask_qty l,
          sl_bid_qtys = depth5 (l_bid_qtys l), sl_ask_qtys = depth5 (l_ask_qtys l),
          sl_total_bid_qty = l_total_bid_qty l, sl_total_ask_qty = l_total_ask_qty l,
          sl_vol = l_vol l, sl_oi = l_oi l, sl_ts = num_or (l_ts l) 0\<rparr>)"

definition chain_leaf :: "chain \<Rightarrow> int \<Rightarrow> side \<Rightarrow> leaf option" where
  "chain_leaf ch strike sd =
     (case map_of ch (str_int strike) of
        None \<Rightarrow> None
      | Some (ce, pe) \<Rightarrow> (case sd of CE \<Rightarrow> ce | PE \<Rightarrow> pe))"

definition build_snapshot ::
  "index_name \<Rightarrow> int \<Rightarrow> (int \<times> token) list \<Rightarrow> (int \<times> token) list \<Rightarrow> chain \<Rightarrow> money option \<Rightarrow> int \<Rightarrow> int
     \<Rightarrow> token option \<Rightarrow> side option \<Rightarrow> int option \<Rightarrow> snapshot"
where
  "build_snapshot idx atm basket_ce basket_pe ch spot spot_ts now ptok pside pstrike =
     (let ce = map (\<lambda>(k, t). build_leg t k CE (chain_leaf ch k CE)) basket_ce;
          pe = map (\<lambda>(k, t). build_leg t k PE (chain_leaf ch k PE)) basket_pe;
          (ce', pe') =
            (case (ptok, pside, pstrike) of
               (Some t, Some sd, Some k) \<Rightarrow>
                 if t = [] then (ce, pe)
                 else if \<exists>l \<in> set (case sd of CE \<Rightarrow> ce | PE \<Rightarrow> pe). sl_token l = t then (ce, pe)
                 else (case sd of
                         CE \<Rightarrow> (ce @ [build_leg t k CE (chain_leaf ch k CE)], pe)
                       | PE \<Rightarrow> (ce, pe @ [build_leg t k PE (chain_leaf ch k PE)]))
             | _ \<Rightarrow> (ce, pe))
      in \<lparr>sn_instrument_id = idx, sn_atm = atm, sn_spot = spot, sn_spot_ts = spot_ts,
          sn_ce_legs = ce', sn_pe_legs = pe', sn_snapshot_ts = now\<rparr>)"

section \<open>Rolling buffers\<close>

datatype aggressor = AG_BUY | AG_SELL | AG_MID | AG_UNKNOWN

record tick_obs =
  ob_ts :: int
  ob_ltp :: "money option"
  ob_best_bid :: "money option"
  ob_best_ask :: "money option"
  ob_best_bid_qty :: "int option"
  ob_best_ask_qty :: "int option"
  ob_total_bid_qty :: "int option"
  ob_total_ask_qty :: "int option"
  ob_imbalance :: "rat option"
  ob_spread :: "money option"
  ob_ask_wall_present :: "bool option"
  ob_aggressor :: "aggressor option"

record strike_buffer =
  sb_capacity :: nat
  sb_obs :: "tick_obs list"

definition new_buffer :: "nat \<Rightarrow> strike_buffer" where
  "new_buffer cap = \<lparr>sb_capacity = cap, sb_obs = []\<rparr>"

definition push :: "strike_buffer \<Rightarrow> tick_obs \<Rightarrow> strike_buffer" where
  "push b ob =
     (if sb_obs b \<noteq> [] \<and> ob_ts ob = ob_ts (last (sb_obs b)) then b
      else b\<lparr>sb_obs := last_n (sb_capacity b) (sb_obs b @ [ob])\<rparr>)"

definition latest :: "strike_buffer \<Rightarrow> tick_obs option" where
  "latest b = (if sb_obs b = [] then None else Some (last (sb_obs b)))"

definition buffer_last_n :: "int \<Rightarrow> strike_buffer \<Rightarrow> tick_obs list" where
  "buffer_last_n n b = (if n \<le> 0 then [] else last_n (nat n) (sb_obs b))"

record buffer_store =
  bs_capacity :: nat
  bs_buffers :: "token \<Rightarrow> strike_buffer option"

definition buffer_for :: "token \<Rightarrow> buffer_store \<Rightarrow> strike_buffer \<times> buffer_store" where
  "buffer_for t bs =
     (case bs_buffers bs t of
        Some b \<Rightarrow> (b, bs)
      | None \<Rightarrow> (new_buffer (bs_capacity bs),
                 bs\<lparr>bs_buffers := (bs_buffers bs)(t \<mapsto> new_buffer (bs_capacity bs))\<rparr>))"

definition set_buffer :: "token \<Rightarrow> strike_buffer \<Rightarrow> buffer_store \<Rightarrow> buffer_store" where
  "set_buffer t b bs = bs\<lparr>bs_buffers := (bs_buffers bs)(t \<mapsto> b)\<rparr>"

definition discard :: "token list \<Rightarrow> buffer_store \<Rightarrow> buffer_store" where
  "discard ts bs = bs\<lparr>bs_buffers := (\<lambda>t. if t \<in> set ts then None else bs_buffers bs t)\<rparr>"

section \<open>Metrics\<close>

definition compute_imbalance :: "strike_leg \<Rightarrow> rat option" where
  "compute_imbalance l =
     (case (sl_total_bid_qty l, sl_total_ask_qty l) of
        (Some b, Some a) \<Rightarrow> if a \<le> 0 then None else if b < 0 then None else Some (of_int b / of_int a)
      | _ \<Rightarrow> None)"

datatype imbalance_class =
  STRONG_BUYERS | MODERATE_BUYERS | IMB_NEUTRAL | MODERATE_SELLERS | STRONG_SELLERS | IMB_UNKNOWN

definition classify_imbalance :: "rat \<Rightarrow> rat option \<Rightarrow> imbalance_class" where
  "classify_imbalance strong_buy ratio =
     (case ratio of
        None \<Rightarrow> IMB_UNKNOWN
      | Some r \<Rightarrow>
          if strong_buy < r then STRONG_BUYERS
          else if 1.1 < r then MODERATE_BUYERS
          else if 0.9 \<le> r then IMB_NEUTRAL
          else if 0.7 \<le> r then MODERATE_SELLERS
          else STRONG_SELLERS)"

definition compute_spread :: "strike_leg \<Rightarrow> money option" where
  "compute_spread l =
     (case (sl_best_bid l, sl_best_ask l) of
        (Some b, Some a) \<Rightarrow> if a - b < 0 then None else Some (a - b)
      | _ \<Rightarrow> None)"

datatype spread_status = SP_GOOD | SP_MODERATE | SP_AVOID | SP_UNKNOWN

definition classify_spread :: "money \<Rightarrow> money \<Rightarrow> money option \<Rightarrow> spread_status" where
  "classify_spread good moderate sp =
     (case sp of
        None \<Rightarrow> SP_UNKNOWN
      | Some s \<Rightarrow> if s \<le> good then SP_GOOD else if s \<le> moderate then SP_MODERATE else SP_AVOID)"

definition detect_aggressor :: "money \<Rightarrow> strike_leg \<Rightarrow> aggressor" where
  "detect_aggressor tol l =
     (case (sl_ltp l, sl_best_bid l, sl_best_ask l) of
        (Some p, Some b, Some a) \<Rightarrow>
          if a - tol \<le> p then AG_BUY else if p \<le> b + tol then AG_SELL else AG_MID
      | _ \<Rightarrow> AG_UNKNOWN)"

datatype wall_state = W_NONE | W_HOLDING | W_ABSORBING | W_REFRESHING | W_UNKNOWN

definition is_wall_present :: "rat \<Rightarrow> strike_leg \<Rightarrow> bool option" where
  "is_wall_present mult l =
     (case (sl_best_ask_qty l, sl_best_bid_qty l) of
        (Some a, Some b) \<Rightarrow> if b \<le> 0 then Some (0 < a) else Some (mult * of_int b < of_int a)
      | _ \<Rightarrow> None)"

fun nonincreasing :: "int list \<Rightarrow> bool" where
  "nonincreasing (x # y # zs) = (y \<le> x \<and> nonincreasing (y # zs))"
| "nonincreasing _ = True"

definition HISTORY_WINDOW :: int where
  "HISTORY_WINDOW = 5"

definition classify_wall_state :: "rat \<Rightarrow> money \<Rightarrow> strike_leg \<Rightarrow> strike_buffer \<Rightarrow> wall_state" where
  "classify_wall_state mult tol l b =
     (case is_wall_present mult l of
        None \<Rightarrow> W_UNKNOWN
      | Some False \<Rightarrow> W_NONE
      | Some True \<Rightarrow>
          (let history = buffer_last_n HISTORY_WINDOW b; qs = somes (map ob_best_ask_qty history)
           in if length history < 2 then W_HOLDING
              else if length qs < 2 then W_HOLDING
              else
                (let peak = Max (set qs); current = num_or (sl_best_ask_qty l) 0;
                     dipped = (of_int (Min (set qs)) < (of_int peak * 0.7 :: rat));
                     restored = (of_int peak * 0.85 \<le> (of_int current :: rat))
                 in if dipped \<and> restored then W_REFRESHING
                    else if nonincreasing qs \<and>
                            (case (sl_best_ask l, sl_ltp l) of
                               (Some a, Some p) \<Rightarrow>
                                 a - tol \<le> p \<and>
                                 (case (sl_best_bid_qty l, ob_best_bid_qty (hd history)) of
                                    (Some q, Some q0) \<Rightarrow> q0 < q | _ \<Rightarrow> False)
                             | _ \<Rightarrow> False)
                      then W_ABSORBING
                    else W_HOLDING)))"

definition cache_observation_imbalance ::
  "strike_leg \<Rightarrow> rat option \<Rightarrow> money option \<Rightarrow> bool option \<Rightarrow> aggressor option \<Rightarrow> int \<Rightarrow> tick_obs"
where
  "cache_observation_imbalance l imb sp wall ag ts_fallback =
     \<lparr>ob_ts = (if sl_ts l = 0 then ts_fallback else sl_ts l), ob_ltp = sl_ltp l,
      ob_best_bid = sl_best_bid l, ob_best_ask = sl_best_ask l, ob_best_bid_qty = sl_best_bid_qty l,
      ob_best_ask_qty = sl_best_ask_qty l, ob_total_bid_qty = sl_total_bid_qty l,
      ob_total_ask_qty = sl_total_ask_qty l, ob_imbalance = imb, ob_spread = sp,
      ob_ask_wall_present = wall, ob_aggressor = ag\<rparr>"

text \<open>Tick speed: the walk from the newest observation into the past.\<close>

fun walk_run :: "(rat \<Rightarrow> rat \<Rightarrow> bool) \<Rightarrow> int \<Rightarrow> rat \<Rightarrow> tick_obs list \<Rightarrow> nat" where
  "walk_run older cutoff last_ltp [] = 0"
| "walk_run older cutoff last_ltp (ob # obs) =
     (case ob_ltp ob of
        None \<Rightarrow> 0
      | Some p \<Rightarrow>
          if ob_ts ob < cutoff then 0
          else if older p last_ltp then Suc (walk_run older cutoff p obs) else 0)"

definition consecutive_run :: "(rat \<Rightarrow> rat \<Rightarrow> bool) \<Rightarrow> int \<Rightarrow> tick_obs list \<Rightarrow> nat" where
  "consecutive_run older window newest_first =
     (case newest_first of
        [] \<Rightarrow> 0
      | h # rest \<Rightarrow>
          (case ob_ltp h of None \<Rightarrow> 0 | Some p \<Rightarrow> Suc (walk_run older (ob_ts h - window) p rest)))"

definition consecutive_upticks :: "int \<Rightarrow> strike_buffer \<Rightarrow> nat" where
  "consecutive_upticks window b = consecutive_run (<) window (rev (buffer_last_n 50 b))"

definition consecutive_downticks :: "int \<Rightarrow> strike_buffer \<Rightarrow> nat" where
  "consecutive_downticks window b =
     consecutive_run (>) window
       (rev (buffer_last_n (if sb_capacity b = 0 then 50 else int (sb_capacity b)) b))"

definition sum_or_none :: "int option list \<Rightarrow> int option" where
  "sum_or_none vs = (if somes vs = [] then None else Some (sum_list (somes vs)))"

definition cumulative_imbalance :: "strike_leg list \<Rightarrow> int option \<times> int option \<times> rat option" where
  "cumulative_imbalance legs =
     (let sb = sum_or_none (map sl_total_bid_qty legs); sa = sum_or_none (map sl_total_ask_qty legs)
      in (sb, sa,
          case (sb, sa) of
            (Some b, Some a) \<Rightarrow> if a \<le> 0 then None else Some (of_int b / of_int a)
          | _ \<Rightarrow> None))"

definition net_pressure :: "rat option \<Rightarrow> rat option \<Rightarrow> rat option" where
  "net_pressure ce pe = (case (ce, pe) of (Some c, Some p) \<Rightarrow> Some (c - p) | _ \<Rightarrow> None)"

datatype pressure_label =
  BULLISH | DEVELOPING_BULL | PR_NEUTRAL | DEVELOPING_BEAR | BEARISH | PR_UNKNOWN

definition classify_pressure :: "rat \<Rightarrow> rat \<Rightarrow> rat option \<Rightarrow> pressure_label" where
  "classify_pressure entry band pr =
     (case pr of
        None \<Rightarrow> PR_UNKNOWN
      | Some x \<Rightarrow>
          if entry < x then BULLISH
          else if band < x then DEVELOPING_BULL
          else if - band \<le> x then PR_NEUTRAL
          else if - entry \<le> x then DEVELOPING_BEAR
          else BEARISH)"

section \<open>Quality score\<close>

record thresholds =
  th_imbalance_strong_buy :: rat
  th_imbalance_neutral_low :: rat
  th_imbalance_continuation :: rat
  th_net_pressure_entry :: rat
  th_net_pressure_neutral_band :: rat
  th_imbalance_drop_pct :: rat
  th_ask_wall_qty_multiple :: rat
  th_aggressor_tolerance_inr :: money
  th_tick_min_consecutive :: int
  th_tick_window_ms :: int
  th_spread_good_inr :: money
  th_spread_moderate_inr :: money
  th_reversal_lookback_ticks :: int
  th_reversal_suppress_sec :: int

record quality_result =
  qr_score :: int
  qr_breakdown :: "(string \<times> int) list"
  qr_entry_size_factor :: rat

definition two_if :: "bool \<Rightarrow> int" where
  "two_if c = (if c then 2 else 0)"

definition imbalance_point :: "side \<Rightarrow> rat \<Rightarrow> rat option \<Rightarrow> bool" where
  "imbalance_point sd strong imb =
     (case imb of
        None \<Rightarrow> False
      | Some r \<Rightarrow>
          (case sd of
             CE \<Rightarrow> strong < r
           | PE \<Rightarrow> r < (if 0 < strong then 1 / strong else 0.7) \<or> strong < r))"

definition compute_quality_score :: "side \<Rightarrow> strike_leg \<Rightarrow> strike_buffer \<Rightarrow> thresholds \<Rightarrow> quality_result" where
  "compute_quality_score sd l b th =
     (let spread = two_if (classify_spread (th_spread_good_inr th) (th_spread_moderate_inr th) (compute_spread l) = SP_GOOD);
          imb = two_if (imbalance_point sd (th_imbalance_strong_buy th) (compute_imbalance l));
          wall = two_if (classify_wall_state (th_ask_wall_qty_multiple th) (th_aggressor_tolerance_inr th) l b
                           \<in> {W_NONE, W_ABSORBING});
          streak = (case sd of CE \<Rightarrow> consecutive_upticks (th_tick_window_ms th) b
                             | PE \<Rightarrow> consecutive_downticks (th_tick_window_ms th) b);
          speed = two_if (th_tick_min_consecutive th \<le> int streak);
          ag = detect_aggressor (th_aggressor_tolerance_inr th) l;
          ltp = two_if (sd = CE \<and> ag = AG_BUY \<or> sd = PE \<and> ag = AG_SELL);
          score = spread + imb + wall + speed + ltp
      in \<lparr>qr_score = score,
          qr_breakdown = [(''spread'', spread), (''imbalance'', imb), (''ask_wall'', wall),
                          (''tick_speed'', speed), (''ltp_position'', ltp)],
          qr_entry_size_factor = (if 8 \<le> score then 1 else if 5 \<le> score then 0.5 else 0)\<rparr>)"

section \<open>Contracts\<close>

text \<open>The unbounded history a buffer sees: repeated timestamps of the same tick dropped.\<close>

definition record_tick :: "tick_obs list \<Rightarrow> tick_obs \<Rightarrow> tick_obs list" where
  "record_tick h ob = (if h \<noteq> [] \<and> ob_ts ob = ob_ts (last h) then h else h @ [ob])"

definition tick_history :: "tick_obs list \<Rightarrow> tick_obs list" where
  "tick_history obs = foldl record_tick [] obs"

definition push_all :: "nat \<Rightarrow> tick_obs list \<Rightarrow> strike_buffer" where
  "push_all cap obs = foldl push (new_buffer cap) obs"

fun ts_changes :: "tick_obs list \<Rightarrow> bool" where
  "ts_changes (x # y # zs) = (ob_ts x \<noteq> ob_ts y \<and> ts_changes (y # zs))"
| "ts_changes _ = True"

text \<open>\<open>k\<close> newest observations form a directional run inside the window.\<close>

definition directional_run :: "(rat \<Rightarrow> rat \<Rightarrow> bool) \<Rightarrow> int \<Rightarrow> tick_obs list \<Rightarrow> nat \<Rightarrow> bool" where
  "directional_run older window obs k \<longleftrightarrow>
     k \<le> length obs \<and> (\<forall>i < k. ob_ltp (obs ! i) \<noteq> None) \<and>
     (\<forall>i. 0 < i \<and> i < k \<longrightarrow> ob_ts (obs ! 0) - window \<le> ob_ts (obs ! i)) \<and>
     (\<forall>i. Suc i < k \<longrightarrow> older (the (ob_ltp (obs ! Suc i))) (the (ob_ltp (obs ! i))))"

definition score_conditions :: "side \<Rightarrow> strike_leg \<Rightarrow> strike_buffer \<Rightarrow> thresholds \<Rightarrow> bool list" where
  "score_conditions sd l b th =
     [classify_spread (th_spread_good_inr th) (th_spread_moderate_inr th) (compute_spread l) = SP_GOOD,
      imbalance_point sd (th_imbalance_strong_buy th) (compute_imbalance l),
      classify_wall_state (th_ask_wall_qty_multiple th) (th_aggressor_tolerance_inr th) l b \<in> {W_NONE, W_ABSORBING},
      th_tick_min_consecutive th \<le>
        int (case sd of CE \<Rightarrow> consecutive_upticks (th_tick_window_ms th) b
                      | PE \<Rightarrow> consecutive_downticks (th_tick_window_ms th) b),
      detect_aggressor (th_aggressor_tolerance_inr th) l = (case sd of CE \<Rightarrow> AG_BUY | PE \<Rightarrow> AG_SELL)]"

section \<open>Lemmas\<close>

lemma push_capacity [simp]: "sb_capacity (push b ob) = sb_capacity b"
  by (simp add: push_def)

lemma push_all_simps [simp]:
  "push_all cap [] = new_buffer cap"
  "push_all cap (obs @ [ob]) = push (push_all cap obs) ob"
  by (simp_all add: push_all_def)

lemma tick_history_simps [simp]:
  "tick_history [] = []"
  "tick_history (obs @ [ob]) = record_tick (tick_history obs) ob"
  by (simp_all add: tick_history_def)

lemma push_all_capacity [simp]: "sb_capacity (push_all cap obs) = cap"
  by (induction obs rule: rev_induct) (simp_all add: new_buffer_def)

lemma last_n_snoc: "last_n n (last_n n xs @ [x]) = last_n n (xs @ [x])"
  by (cases "n \<le> length xs") (auto simp: last_n_def Suc_diff_le)

lemma last_n_eq_Nil: "0 < n \<Longrightarrow> last_n n xs = [] \<longleftrightarrow> xs = []"
  by (cases xs) (auto simp: last_n_def)

lemma push_all_last_n:
  assumes "0 < cap"
  shows "sb_obs (push_all cap obs) = last_n cap (tick_history obs)"
proof (induction obs rule: rev_induct)
  case Nil
  then show ?case by (simp add: new_buffer_def last_n_def)
next
  case (snoc ob obs)
  show ?case
  proof (cases "tick_history obs = []")
    case True
    with snoc show ?thesis by (simp add: push_def record_tick_def last_n_eq_Nil [OF assms])
  next
    case False
    then have "last (last_n cap (tick_history obs)) = last (tick_history obs)" using assms by simp
    with False snoc show ?thesis
      by (simp add: push_def record_tick_def last_n_eq_Nil [OF assms] last_n_snoc)
  qed
qed

lemma ts_changes_snoc: "ts_changes (xs @ [x]) \<longleftrightarrow> ts_changes xs \<and> (xs \<noteq> [] \<longrightarrow> ob_ts (last xs) \<noteq> ob_ts x)"
  by (induction xs rule: ts_changes.induct) auto

lemma ts_changes_history: "ts_changes (tick_history obs)"
  by (induction obs rule: rev_induct) (auto simp: record_tick_def ts_changes_snoc)

lemma walk_run_spec:
  "k \<le> walk_run older cutoff p obs \<longleftrightarrow>
     k \<le> length obs \<and> (\<forall>i < k. ob_ltp (obs ! i) \<noteq> None) \<and> (\<forall>i < k. cutoff \<le> ob_ts (obs ! i)) \<and>
     (\<forall>i < k. older (the (ob_ltp (obs ! i))) (case i of 0 \<Rightarrow> p | Suc j \<Rightarrow> the (ob_ltp (obs ! j))))"
proof (induction obs arbitrary: p k)
  case (Cons ob obs)
  show ?case
  proof (cases k)
    case (Suc m)
    show ?thesis
    proof (cases "ob_ltp ob")
      case None
      then show ?thesis unfolding Suc by (auto intro!: exI [of _ 0])
    next
      case (Some q)
      have all: "(\<forall>i < Suc m. P i) \<longleftrightarrow> P 0 \<and> (\<forall>i < m. P (Suc i))" for P
        by (metis Suc_less_eq gr0_conv_Suc not_gr_zero zero_less_Suc)
      have cases_eq: "(case i of 0 \<Rightarrow> q | Suc j \<Rightarrow> the (ob_ltp (obs ! j))) =
          the (ob_ltp ((ob # obs) ! i))" for i
        by (cases i) (simp_all add: Some)
      show ?thesis
        unfolding Suc all using Cons.IH [of m q]
        by (auto simp: Some not_less cases_eq [symmetric])
    qed
  qed simp
qed auto

lemma consecutive_run_spec:
  assumes "0 < k"
  shows "k \<le> consecutive_run older window obs \<longleftrightarrow> directional_run older window obs k"
proof (cases obs)
  case Nil
  with assms show ?thesis by (simp add: consecutive_run_def directional_run_def)
next
  case (Cons h rest)
  obtain m where k: "k = Suc m" using assms by (cases k) auto
  show ?thesis
  proof (cases "ob_ltp h")
    case None
    with Cons assms show ?thesis by (auto simp: consecutive_run_def directional_run_def)
  next
    case (Some p)
    have prev: "(case i of 0 \<Rightarrow> p | Suc j \<Rightarrow> the (ob_ltp (rest ! j))) = the (ob_ltp (obs ! i))" for i
      by (cases i) (simp_all add: Cons Some)
    have all: "(\<forall>i < Suc m. P i) \<longleftrightarrow> P 0 \<and> (\<forall>i < m. P (Suc i))" for P
      by (metis Suc_less_eq gr0_conv_Suc not_gr_zero zero_less_Suc)
    have pos: "(\<forall>i. 0 < i \<and> i < Suc m \<longrightarrow> P i) \<longleftrightarrow> (\<forall>i < m. P (Suc i))" for P
      by (metis Suc_less_eq gr0_conv_Suc zero_less_Suc)
    show ?thesis
      unfolding consecutive_run_def directional_run_def k all pos
      using walk_run_spec [of m older "ob_ts h - window" p rest]
      by (simp add: Cons Some prev [unfolded Cons])
  qed
qed

lemma quality_score_sum:
  "qr_score (compute_quality_score sd l b th) = 2 * int (length (filter id (score_conditions sd l b th)))"
  by (cases sd) (simp_all add: compute_quality_score_def score_conditions_def two_if_def Let_def)

lemma quality_size_factor:
  "qr_entry_size_factor (compute_quality_score sd l b th) =
     (let s = qr_score (compute_quality_score sd l b th) in if 8 \<le> s then 1 else if 5 \<le> s then 0.5 else 0)"
  by (simp add: compute_quality_score_def Let_def)

section \<open>Properties\<close>

text \<open>Claim C37.  A strike buffer is exactly the last \<open>cap\<close> ticks: after any sequence of pushes it
  holds the newest \<open>cap\<close> entries of the history in which re-evaluations of the same tick are
  dropped, so it never exceeds its capacity and neighbouring entries are different ticks.\<close>

theorem buffer_is_recent_history:
  assumes "0 < cap"
  shows "sb_obs (push_all cap obs) = last_n cap (tick_history obs) \<and>
    length (sb_obs (push_all cap obs)) \<le> cap \<and> ts_changes (tick_history obs)"
  using push_all_last_n [OF assms, of obs] ts_changes_history [of obs] by simp

definition sample_obs :: "int \<Rightarrow> rat \<Rightarrow> tick_obs" where
  "sample_obs ts p = \<lparr>ob_ts = ts, ob_ltp = Some p, ob_best_bid = None, ob_best_ask = None,
     ob_best_bid_qty = None, ob_best_ask_qty = None, ob_total_bid_qty = None, ob_total_ask_qty = None,
     ob_imbalance = None, ob_spread = None, ob_ask_wall_present = None, ob_aggressor = None\<rparr>"

theorem buffer_is_recent_history_witness:
  "sb_obs (push_all 2 [sample_obs 1 10, sample_obs 1 11, sample_obs 2 12, sample_obs 3 13]) =
     [sample_obs 2 12, sample_obs 3 13]"
  using buffer_is_recent_history [of 2 "[sample_obs 1 10, sample_obs 1 11, sample_obs 2 12, sample_obs 3 13]"]
  by (simp add: tick_history_def record_tick_def sample_obs_def last_n_def)

text \<open>Tick speed means what it says: \<open>consecutive_upticks\<close> (\<open>consecutive_downticks\<close>) is
  at least \<open>k\<close> exactly when the \<open>k\<close> newest of the observations it looks at all have a price,
  lie within the window before the newest one, and rise (fall) strictly from the oldest to the
  newest.\<close>

theorem tick_speed_spec:
  assumes "0 < k"
  shows "(k \<le> consecutive_upticks window b \<longleftrightarrow>
      directional_run (<) window (rev (buffer_last_n 50 b)) k) \<and>
    (k \<le> consecutive_downticks window b \<longleftrightarrow>
      directional_run (>) window (rev (buffer_last_n (if sb_capacity b = 0 then 50 else int (sb_capacity b)) b)) k)"
  unfolding consecutive_upticks_def consecutive_downticks_def
  by (intro conjI consecutive_run_spec [OF assms])

theorem tick_speed_spec_witness:
  "2 \<le> consecutive_upticks 1000 (push_all 50 [sample_obs 100 10, sample_obs 5000 11, sample_obs 5500 12])"
proof -
  have "sb_obs (push_all 50 [sample_obs 100 10, sample_obs 5000 11, sample_obs 5500 12]) =
      [sample_obs 100 10, sample_obs 5000 11, sample_obs 5500 12]"
    by (simp add: push_all_def push_def new_buffer_def sample_obs_def)
  then have "directional_run (<) 1000
      (rev (buffer_last_n 50 (push_all 50 [sample_obs 100 10, sample_obs 5000 11, sample_obs 5500 12]))) 2"
    by (auto simp: directional_run_def buffer_last_n_def sample_obs_def less_Suc_eq numeral_2_eq_2)
  then show ?thesis using tick_speed_spec [of 2 1000] by simp
qed

text \<open>The quality score is two points for each of its five conditions that holds, so it
  is one of 0, 2, 4, 6, 8, 10, and the entry size is full for at least four conditions, half for
  exactly three, and zero below.\<close>

theorem quality_score_spec:
  "qr_score (compute_quality_score sd l b th) = 2 * int (length (filter id (score_conditions sd l b th))) \<and>
   0 \<le> qr_score (compute_quality_score sd l b th) \<and> qr_score (compute_quality_score sd l b th) \<le> 10 \<and>
   qr_entry_size_factor (compute_quality_score sd l b th) =
     (let n = length (filter id (score_conditions sd l b th)) in if 4 \<le> n then 1 else if n = 3 then 0.5 else 0)"
proof -
  let ?n = "length (filter id (score_conditions sd l b th))"
  have "?n \<le> 5" using length_filter_le [of id "score_conditions sd l b th"] by (simp add: score_conditions_def)
  moreover have "5 \<le> 2 * int ?n \<and> \<not> 8 \<le> 2 * int ?n \<longleftrightarrow> ?n = 3" by linarith
  ultimately show ?thesis unfolding quality_size_factor quality_score_sum Let_def by auto
qed

end
