(* ===== verification/StrategyDecisions.thy ===== *)
theory StrategyDecisions
  imports StrategyMetrics
begin

text \<open>
  The decision rules of \<open>bid_ask_imbalance/decisions\<close>: the entry gates, the in-trade
  continuation check, the four-of-four reversal check and the time-of-day windows, with the
  threshold reader of \<open>strategy.py\<close>.  A time of day is its seconds since midnight.
\<close>

section \<open>Configuration\<close>

record window_cfg =
  wc_start :: "string option"
  wc_end :: "string option"
  wc_phase :: "string option"
  wc_min_score :: "int option"

text \<open>\<open>strategy:configs:strategies:{sid}\<close>, flattened; \<open>None\<close> is a missing key.\<close>

record strategy_config =
  sc_imbalance_strong_buy :: "rat option"
  sc_imbalance_neutral_low :: "rat option"
  sc_imbalance_continuation :: "rat option"
  sc_net_pressure_entry_threshold :: "rat option"
  sc_net_pressure_neutral_band :: "rat option"
  sc_imbalance_drop_pct_for_reversal :: "rat option"
  sc_ask_wall_qty_multiple :: "rat option"
  sc_ltp_aggressor_tolerance_inr :: "money option"
  sc_min_consecutive :: "int option"
  sc_window_ms :: "int option"
  sc_lookback_ticks :: "int option"
  sc_suppress_sec :: "int option"
  sc_time_windows :: "window_cfg list option"
  sc_hysteresis_sec :: "int option"
  sc_ring_size :: "int option"

definition empty_strategy_config :: strategy_config where
  "empty_strategy_config = \<lparr>sc_imbalance_strong_buy = None, sc_imbalance_neutral_low = None,
     sc_imbalance_continuation = None, sc_net_pressure_entry_threshold = None,
     sc_net_pressure_neutral_band = None, sc_imbalance_drop_pct_for_reversal = None,
     sc_ask_wall_qty_multiple = None, sc_ltp_aggressor_tolerance_inr = None, sc_min_consecutive = None,
     sc_window_ms = None, sc_lookback_ticks = None, sc_suppress_sec = None, sc_time_windows = None,
     sc_hysteresis_sec = None, sc_ring_size = None\<rparr>"

definition read_thresholds :: "strategy_config \<Rightarrow> index_config \<Rightarrow> thresholds" where
  "read_thresholds s i =
     \<lparr>th_imbalance_strong_buy = get_or (sc_imbalance_strong_buy s) 1.3,
      th_imbalance_neutral_low = get_or (sc_imbalance_neutral_low s) 0.9,
      th_imbalance_continuation = get_or (sc_imbalance_continuation s) 1.2,
      th_net_pressure_entry = get_or (sc_net_pressure_entry_threshold s) 0.5,
      th_net_pressure_neutral_band = get_or (sc_net_pressure_neutral_band s) 0.2,
      th_imbalance_drop_pct = get_or (sc_imbalance_drop_pct_for_reversal s) 30,
      th_ask_wall_qty_multiple = get_or (sc_ask_wall_qty_multiple s) 5,
      th_aggressor_tolerance_inr = get_or (sc_ltp_aggressor_tolerance_inr s) 0.1,
      th_tick_min_consecutive = get_or (sc_min_consecutive s) 3,
      th_tick_window_ms = get_or (sc_window_ms s) 1000,
      th_spread_good_inr = get_or (spread_good_inr i) 1,
      th_spread_moderate_inr = get_or (spread_moderate_inr i) 2,
      th_reversal_lookback_ticks = get_or (sc_lookback_ticks s) 3,
      th_reversal_suppress_sec = get_or (sc_suppress_sec s) 30\<rparr>"

section \<open>Entry gates\<close>

record gate_result =
  gr_passed :: bool
  gr_reason :: string
  gr_side :: "side option"
  gr_size_factor :: rat

definition gate_pass :: gate_result where
  "gate_pass = \<lparr>gr_passed = True, gr_reason = [], gr_side = None, gr_size_factor = 1\<rparr>"

definition gate_fail :: "string \<Rightarrow> gate_result" where
  "gate_fail r = \<lparr>gr_passed = False, gr_reason = r, gr_side = None, gr_size_factor = 1\<rparr>"

definition gate1_direction :: "rat \<Rightarrow> rat option \<Rightarrow> gate_result" where
  "gate1_direction thr pr =
     (case pr of
        None \<Rightarrow> gate_fail ''net_pressure_unknown''
      | Some x \<Rightarrow>
          if thr < x then gate_pass\<lparr>gr_side := Some CE\<rparr>
          else if x < - thr then gate_pass\<lparr>gr_side := Some PE\<rparr>
          else gate_fail (''net_pressure_'' @ fmt_fixed 2 x @ ''_below_threshold_'' @ fmt_fixed 2 thr))"

fun wall_text :: "wall_state \<Rightarrow> string" where
  "wall_text W_NONE = ''none''"
| "wall_text W_HOLDING = ''holding''"
| "wall_text W_ABSORBING = ''absorbing''"
| "wall_text W_REFRESHING = ''refreshing''"
| "wall_text W_UNKNOWN = ''unknown''"

definition gate2_ask_wall :: "wall_state \<Rightarrow> gate_result" where
  "gate2_ask_wall ws =
     (if ws = W_UNKNOWN then gate_fail ''ask_wall_unknown''
      else if ws \<in> {W_HOLDING, W_REFRESHING} then gate_fail (''ask_wall_'' @ wall_text ws @ ''_blocks_entry'')
      else gate_pass)"

definition gate3_spread :: "spread_status \<Rightarrow> gate_result" where
  "gate3_spread sp =
     (case sp of
        SP_UNKNOWN \<Rightarrow> gate_fail ''spread_unknown''
      | SP_AVOID \<Rightarrow> gate_fail ''spread_too_wide''
      | SP_MODERATE \<Rightarrow> gate_pass\<lparr>gr_reason := ''spread_moderate_half_size'', gr_size_factor := 0.5\<rparr>
      | SP_GOOD \<Rightarrow> gate_pass)"

definition gate4_quality_score :: "int \<Rightarrow> int \<Rightarrow> gate_result" where
  "gate4_quality_score score min_score =
     (if score < min_score then gate_fail (''score_'' @ str_int score @ ''_below_min_'' @ str_int min_score)
      else gate_pass)"

section \<open>Continuation\<close>

fun aggressor_text :: "aggressor \<Rightarrow> string" where
  "aggressor_text AG_BUY = ''buy''"
| "aggressor_text AG_SELL = ''sell''"
| "aggressor_text AG_MID = ''mid''"
| "aggressor_text AG_UNKNOWN = ''unknown''"

definition continuation_failures :: "side \<Rightarrow> strike_leg \<Rightarrow> strike_buffer \<Rightarrow> thresholds \<Rightarrow> string list" where
  "continuation_failures sd l b th =
     (case compute_imbalance l of
        None \<Rightarrow> [''imbalance_unknown'']
      | Some r \<Rightarrow> if r < th_imbalance_continuation th
                   then [''imbalance_'' @ fmt_fixed 2 r @ ''_below_'' @ fmt_fixed 2 (th_imbalance_continuation th)]
                   else []) @
     (let bids = somes (map ob_best_bid_qty (buffer_last_n HISTORY_WINDOW b))
      in if 2 \<le> length bids \<and> last bids < hd bids \<and> nonincreasing bids then [''bid_qty_decreasing''] else []) @
     (let ws = classify_wall_state (th_ask_wall_qty_multiple th) (th_aggressor_tolerance_inr th) l b
      in if ws \<in> {W_HOLDING, W_REFRESHING} then [''wall_'' @ wall_text ws] else []) @
     (case classify_spread (th_spread_good_inr th) (th_spread_moderate_inr th) (compute_spread l) of
        SP_AVOID \<Rightarrow> [''spread_too_wide''] | SP_UNKNOWN \<Rightarrow> [''spread_unknown''] | _ \<Rightarrow> []) @
     (let ag = detect_aggressor (th_aggressor_tolerance_inr th) l; expected = (case sd of CE \<Rightarrow> AG_BUY | PE \<Rightarrow> AG_SELL)
      in if ag \<noteq> expected \<and> ag \<noteq> AG_MID
         then [''aggressor_'' @ aggressor_text ag @ ''_wrong_for_'' @ side_value sd] else [])"

record continuation_verdict =
  cv_hold :: bool
  cv_reason :: string
  cv_failures :: "string list"

definition evaluate_continuation :: "side \<Rightarrow> strike_leg \<Rightarrow> strike_buffer \<Rightarrow> thresholds \<Rightarrow> continuation_verdict" where
  "evaluate_continuation sd l b th =
     (let fs = continuation_failures sd l b th
      in if fs = [] then \<lparr>cv_hold = True, cv_reason = ''all_conditions_met'', cv_failures = []\<rparr>
         else \<lparr>cv_hold = False, cv_reason = ''continuation_failed'', cv_failures = fs\<rparr>)"

section \<open>Reversal\<close>

definition imbalance_drop_pct :: "int \<Rightarrow> strike_buffer \<Rightarrow> rat option" where
  "imbalance_drop_pct lookback b =
     (let history = buffer_last_n (lookback + 1) b
      in if int (length history) < lookback + 1 then None
         else if history = [] then None
         else (case (ob_imbalance (hd history), ob_imbalance (last history)) of
                 (Some e, Some c) \<Rightarrow> if e \<le> 0 then None else Some ((e - c) / e * 100)
               | _ \<Rightarrow> None))"

record reversal_verdict =
  rv_triggered :: bool
  rv_triggers :: "string list"
  rv_imbalance_drop_pct :: "rat option"
  rv_new_wall_state :: wall_state
  rv_spread_widened :: bool
  rv_ltp_flipped :: bool
  rv_reason :: string

definition imbalance_collapsed :: "thresholds \<Rightarrow> strike_buffer \<Rightarrow> bool" where
  "imbalance_collapsed th b =
     (case imbalance_drop_pct (th_reversal_lookback_ticks th) b of
        None \<Rightarrow> False | Some d \<Rightarrow> th_imbalance_drop_pct th < d)"

text \<open>\<open>history[: max(1, lookback)]\<close>, the ticks before the newest.\<close>

definition reversal_past :: "thresholds \<Rightarrow> strike_buffer \<Rightarrow> tick_obs list" where
  "reversal_past th b =
     take (nat (max 1 (th_reversal_lookback_ticks th))) (buffer_last_n (th_reversal_lookback_ticks th + 1) b)"

definition wall_just_formed :: "thresholds \<Rightarrow> strike_leg \<Rightarrow> strike_buffer \<Rightarrow> bool" where
  "wall_just_formed th l b \<longleftrightarrow>
     classify_wall_state (th_ask_wall_qty_multiple th) (th_aggressor_tolerance_inr th) l b \<in> {W_HOLDING, W_REFRESHING} \<and>
     (\<exists>h \<in> set (reversal_past th b). ob_ask_wall_present h \<noteq> Some True)"

definition spread_avoid :: "thresholds \<Rightarrow> strike_leg \<Rightarrow> bool" where
  "spread_avoid th l \<longleftrightarrow>
     classify_spread (th_spread_good_inr th) (th_spread_moderate_inr th) (compute_spread l) = SP_AVOID"

definition was_tight :: "thresholds \<Rightarrow> strike_buffer \<Rightarrow> bool" where
  "was_tight th b \<longleftrightarrow>
     (\<exists>s \<in> set (somes (map ob_spread (reversal_past th b))). s \<le> th_spread_moderate_inr th)"

definition spread_widened :: "thresholds \<Rightarrow> strike_leg \<Rightarrow> strike_buffer \<Rightarrow> bool" where
  "spread_widened th l b \<longleftrightarrow>
     spread_avoid th l \<and>
     (buffer_last_n (th_reversal_lookback_ticks th + 1) b = [] \<or> was_tight th b)"

definition ltp_flipped :: "thresholds \<Rightarrow> side \<Rightarrow> strike_leg \<Rightarrow> bool" where
  "ltp_flipped th sd l =
     (case (sl_ltp l, sl_best_bid l, sl_best_ask l) of
        (Some p, Some b, Some a) \<Rightarrow>
          (case sd of CE \<Rightarrow> p \<le> b + th_aggressor_tolerance_inr th
                    | PE \<Rightarrow> a - th_aggressor_tolerance_inr th \<le> p)
      | _ \<Rightarrow> False)"

definition evaluate_reversal :: "side option \<Rightarrow> strike_leg \<Rightarrow> strike_buffer \<Rightarrow> thresholds \<Rightarrow> reversal_verdict" where
  "evaluate_reversal held l b th =
     (let drop_pct = imbalance_drop_pct (th_reversal_lookback_ticks th) b;
          collapsed = imbalance_collapsed th b;
          ws = classify_wall_state (th_ask_wall_qty_multiple th) (th_aggressor_tolerance_inr th) l b;
          formed = wall_just_formed th l b;
          widened = spread_widened th l b;
          sd = get_or held (sl_side l);
          flipped = ltp_flipped th sd l;
          trig = (collapsed \<and> formed \<and> widened \<and> flipped)
      in \<lparr>rv_triggered = trig,
          rv_triggers =
            (case drop_pct of None \<Rightarrow> [] | Some d \<Rightarrow> if collapsed then [''imbalance_drop_'' @ fmt_fixed 1 d @ ''%''] else []) @
            (if formed then [''wall_'' @ wall_text ws @ ''_formed''] else []) @
            (if spread_avoid th l \<and> buffer_last_n (th_reversal_lookback_ticks th + 1) b \<noteq> [] \<and> was_tight th b
             then [''spread_widened''] else []) @
            (if flipped then [''ltp_flipped_to_'' @ (case sd of CE \<Rightarrow> ''sell'' | PE \<Rightarrow> ''buy'')] else []),
          rv_imbalance_drop_pct = drop_pct, rv_new_wall_state = ws, rv_spread_widened = widened,
          rv_ltp_flipped = flipped,
          rv_reason = (if trig then ''four_of_four_satisfied'' else ''missing_conditions'')\<rparr>)"

section \<open>Time windows\<close>

record timing_window =
  tw_start :: int
  tw_end :: int
  tw_phase :: string
  tw_min_score :: "int option"

definition parse_hhmm :: "string \<Rightarrow> int option" where
  "parse_hhmm s =
     (case split_on CHR '':'' s of
        [a, b] \<Rightarrow>
          (case (int_of_str a, int_of_str b) of
             (Some h, Some m) \<Rightarrow>
               if 0 \<le> h \<and> h < 24 \<and> 0 \<le> m \<and> m < 60 then Some (h * 3600 + m * 60) else None
           | _ \<Rightarrow> None)
      | _ \<Rightarrow> None)"

definition parse_window :: "window_cfg \<Rightarrow> timing_window option" where
  "parse_window c =
     (case (Option.bind (wc_start c) parse_hhmm, Option.bind (wc_end c) parse_hhmm) of
        (Some s, Some e) \<Rightarrow>
          Some \<lparr>tw_start = s, tw_end = e, tw_phase = get_or (wc_phase c) ''UNKNOWN'', tw_min_score = wc_min_score c\<rparr>
      | _ \<Rightarrow> None)"

definition parse_windows :: "window_cfg list option \<Rightarrow> timing_window list" where
  "parse_windows cs = (case cs of None \<Rightarrow> [] | Some ws \<Rightarrow> somes (map parse_window ws))"

fun current_window :: "int \<Rightarrow> timing_window list \<Rightarrow> timing_window option" where
  "current_window now [] = None"
| "current_window now (w # ws) =
     (if tw_start w \<le> now \<and> now < tw_end w then Some w else current_window now ws)"

definition entry_allowed :: "int \<Rightarrow> timing_window list \<Rightarrow> int \<Rightarrow> bool \<times> string" where
  "entry_allowed now ws score =
     (case current_window now ws of
        None \<Rightarrow> (False, ''outside_trading_window'')
      | Some w \<Rightarrow>
          (case tw_min_score w of
             None \<Rightarrow> (False, ''phase_'' @ tw_phase w @ ''_blocks_entries'')
           | Some m \<Rightarrow>
               if score < m then (False, ''score_'' @ str_int score @ ''_below_phase_'' @ tw_phase w @ ''_min_'' @ str_int m)
               else (True, [])))"

definition is_continuation_phase :: "int \<Rightarrow> timing_window list \<Rightarrow> bool" where
  "is_continuation_phase now ws =
     (case current_window now ws of None \<Rightarrow> False | Some w \<Rightarrow> tw_phase w = ''CONTINUATION_ONLY'')"

definition is_exit_only_phase :: "int \<Rightarrow> timing_window list \<Rightarrow> bool" where
  "is_exit_only_phase now ws =
     (case current_window now ws of None \<Rightarrow> False | Some w \<Rightarrow> tw_phase w = ''EXIT_ONLY'')"

section \<open>Lemmas\<close>

lemma gate1_passed:
  "gr_passed (gate1_direction thr pr) \<longleftrightarrow> (\<exists>x. pr = Some x \<and> (thr < x \<or> x < - thr))"
  "gr_passed (gate1_direction thr pr) \<Longrightarrow>
     gr_side (gate1_direction thr pr) = Some (if thr < the pr then CE else PE)"
  by (auto simp: gate1_direction_def gate_pass_def gate_fail_def split: option.splits if_splits)

lemma gate2_passed: "gr_passed (gate2_ask_wall ws) \<longleftrightarrow> ws \<in> {W_NONE, W_ABSORBING}"
  by (cases ws) (simp_all add: gate2_ask_wall_def gate_pass_def gate_fail_def)

lemma gate3_passed:
  "gr_passed (gate3_spread sp) \<longleftrightarrow> sp \<in> {SP_GOOD, SP_MODERATE}"
  "gr_size_factor (gate3_spread sp) = (if sp = SP_MODERATE then 0.5 else 1)"
  by (cases sp; simp add: gate3_spread_def gate_pass_def gate_fail_def)+

lemma current_window_Some:
  "current_window now ws = Some w \<Longrightarrow> w \<in> set ws \<and> tw_start w \<le> now \<and> now < tw_end w"
  by (induction ws) (auto split: if_splits)

lemma current_window_find: "current_window now ws = List.find (\<lambda>w. tw_start w \<le> now \<and> now < tw_end w) ws"
  by (induction ws) simp_all

lemma current_window_index:
  "current_window now ws = Some w \<longleftrightarrow>
     (\<exists>i < length ws. (tw_start (ws ! i) \<le> now \<and> now < tw_end (ws ! i)) \<and> w = ws ! i \<and>
        (\<forall>j < i. \<not> (tw_start (ws ! j) \<le> now \<and> now < tw_end (ws ! j))))"
  unfolding current_window_find by (rule find_Some_iff)

lemma entry_allowed_fst:
  "fst (entry_allowed now ws score) \<longleftrightarrow>
     (\<exists>w m. current_window now ws = Some w \<and> tw_min_score w = Some m \<and> m \<le> score)"
  by (auto simp: entry_allowed_def split: option.splits)

lemma split_on_hhmm: "h < 100 \<Longrightarrow> m < 100 \<Longrightarrow> split_on CHR '':'' (hhmm_text h m) = [two_digits h, two_digits m]"
  by (simp add: hhmm_text_def two_digits_def)

lemma parse_hhmm_text: "h < 24 \<Longrightarrow> m < 60 \<Longrightarrow> parse_hhmm (hhmm_text h m) = Some (int (h * 3600 + m * 60))"
  by (simp add: parse_hhmm_def split_on_hhmm int_of_str_two_digits)

lemma evaluate_reversal_triggered:
  "rv_triggered (evaluate_reversal held l b th) \<longleftrightarrow>
     imbalance_collapsed th b \<and> wall_just_formed th l b \<and> spread_widened th l b \<and>
     ltp_flipped th (get_or held (sl_side l)) l"
  by (simp add: evaluate_reversal_def Let_def)

text \<open>The five hold conditions of the in-trade check.\<close>

definition hold_conditions :: "side \<Rightarrow> strike_leg \<Rightarrow> strike_buffer \<Rightarrow> thresholds \<Rightarrow> bool" where
  "hold_conditions sd l b th \<longleftrightarrow>
     (\<exists>r. compute_imbalance l = Some r \<and> th_imbalance_continuation th \<le> r) \<and>
     \<not> (let bids = somes (map ob_best_bid_qty (buffer_last_n HISTORY_WINDOW b))
        in 2 \<le> length bids \<and> last bids < hd bids \<and> nonincreasing bids) \<and>
     classify_wall_state (th_ask_wall_qty_multiple th) (th_aggressor_tolerance_inr th) l b
       \<in> {W_NONE, W_ABSORBING, W_UNKNOWN} \<and>
     (\<exists>s. compute_spread l = Some s \<and> s \<le> max (th_spread_good_inr th) (th_spread_moderate_inr th)) \<and>
     detect_aggressor (th_aggressor_tolerance_inr th) l \<in> {AG_MID, case sd of CE \<Rightarrow> AG_BUY | PE \<Rightarrow> AG_SELL}"

lemma spread_ok_iff:
  "classify_spread g m sp \<in> {SP_GOOD, SP_MODERATE} \<longleftrightarrow> (\<exists>s. sp = Some s \<and> s \<le> max g m)"
  by (auto simp: classify_spread_def split: option.splits)

lemma continuation_failures_Nil: "continuation_failures sd l b th = [] \<longleftrightarrow> hold_conditions sd l b th"
proof -
  have sp: "(case classify_spread (th_spread_good_inr th) (th_spread_moderate_inr th) (compute_spread l) of
        SP_AVOID \<Rightarrow> [''spread_too_wide''] | SP_UNKNOWN \<Rightarrow> [''spread_unknown''] | _ \<Rightarrow> []) = [] \<longleftrightarrow>
      (\<exists>s. compute_spread l = Some s \<and> s \<le> max (th_spread_good_inr th) (th_spread_moderate_inr th))"
    unfolding spread_ok_iff [symmetric] by (simp split: spread_status.split)
  have wl: "ws \<notin> {W_HOLDING, W_REFRESHING} \<longleftrightarrow> ws \<in> {W_NONE, W_ABSORBING, W_UNKNOWN}" for ws
    by (cases ws) simp_all
  have im: "(case compute_imbalance l of None \<Rightarrow> [''imbalance_unknown'']
      | Some r \<Rightarrow> if r < th_imbalance_continuation th
                   then [''imbalance_'' @ fmt_fixed 2 r @ ''_below_'' @ fmt_fixed 2 (th_imbalance_continuation th)]
                   else []) = [] \<longleftrightarrow> (\<exists>r. compute_imbalance l = Some r \<and> th_imbalance_continuation th \<le> r)"
    by (simp add: not_less split: option.split)
  show ?thesis
    unfolding continuation_failures_def hold_conditions_def append_is_Nil_conv im sp Let_def wl [symmetric]
    by auto
qed

section \<open>Properties\<close>

text \<open>The in-trade check holds a position exactly when all five conditions hold:
  imbalance at least the continuation threshold, best-bid quantity not falling, no blocking ask
  wall, a known spread within the limits, and the last price not on the wrong side.  There is
  no second chance: one failing tick ends the hold.\<close>

theorem continuation_holds_iff:
  "cv_hold (evaluate_continuation sd l b th) \<longleftrightarrow> hold_conditions sd l b th"
  by (simp add: evaluate_continuation_def Let_def continuation_failures_Nil)

text \<open>A fresh entry is allowed at a time exactly when the first configured window that
  contains it sets a minimum score and the score reaches it; windows are half open, and with no
  valid window no entry is allowed at any time.\<close>

theorem entry_allowed_iff:
  "(fst (entry_allowed now ws score) \<longleftrightarrow>
      (\<exists>i < length ws. tw_start (ws ! i) \<le> now \<and> now < tw_end (ws ! i) \<and>
         (\<forall>j < i. \<not> (tw_start (ws ! j) \<le> now \<and> now < tw_end (ws ! j))) \<and>
         (\<exists>m. tw_min_score (ws ! i) = Some m \<and> m \<le> score))) \<and>
   \<not> fst (entry_allowed now (parse_windows None) score)"
proof -
  have "\<not> fst (entry_allowed now (parse_windows None) score)" by (simp add: entry_allowed_def parse_windows_def)
  then show ?thesis unfolding entry_allowed_fst current_window_index by blast
qed

definition sample_windows :: "timing_window list" where
  "sample_windows = parse_windows (Some
     [\<lparr>wc_start = Some (hhmm_text 9 15), wc_end = Some (hhmm_text 9 30), wc_phase = Some ''OPENING'', wc_min_score = Some 8\<rparr>,
      \<lparr>wc_start = Some (hhmm_text 9 30), wc_end = Some (hhmm_text 11 30), wc_phase = Some ''PRIMARY'', wc_min_score = Some 6\<rparr>,
      \<lparr>wc_start = Some ''late'', wc_end = Some (hhmm_text 15 0), wc_phase = None, wc_min_score = Some 0\<rparr>,
      \<lparr>wc_start = Some (hhmm_text 15 0), wc_end = Some (hhmm_text 15 30), wc_phase = Some ''EXIT_ONLY'', wc_min_score = None\<rparr>])"

lemma sample_windows_eq:
  "sample_windows = [\<lparr>tw_start = 33300, tw_end = 34200, tw_phase = ''OPENING'', tw_min_score = Some 8\<rparr>,
     \<lparr>tw_start = 34200, tw_end = 41400, tw_phase = ''PRIMARY'', tw_min_score = Some 6\<rparr>,
     \<lparr>tw_start = 54000, tw_end = 55800, tw_phase = ''EXIT_ONLY'', tw_min_score = None\<rparr>]"
proof -
  have "parse_hhmm ''late'' = None" by (simp add: parse_hhmm_def)
  then show ?thesis by (simp add: sample_windows_def parse_windows_def parse_window_def parse_hhmm_text)
qed

theorem entry_allowed_iff_witness:
  "fst (entry_allowed 34200 sample_windows 6)"
proof -
  have "1 < length sample_windows \<and> tw_start (sample_windows ! 1) \<le> 34200 \<and> 34200 < tw_end (sample_windows ! 1) \<and>
      (\<forall>j < 1. \<not> (tw_start (sample_windows ! j) \<le> 34200 \<and> 34200 < tw_end (sample_windows ! j))) \<and>
      (\<exists>m. tw_min_score (sample_windows ! 1) = Some m \<and> m \<le> 6)"
    by (simp add: sample_windows_eq)
  then show ?thesis using entry_allowed_iff [of 34200 sample_windows 6] by blast
qed

end
