(* ===== verification/Basket.thy ===== *)
theory Basket
  imports Schemas
begin

text \<open>
  \<open>bid_ask_imbalance/basket.py\<close>: the basket of strikes around the money and its shift.  The
  token dictionaries are association lists in insertion order; \<open>token_lookup\<close> is the callable
  the runner passes in.
\<close>

section \<open>Model\<close>

record basket =
  ba_atm :: int
  ba_ce_strikes :: "int list"
  ba_pe_strikes :: "int list"
  ba_ce_tokens :: "(int \<times> token) list"
  ba_pe_tokens :: "(int \<times> token) list"
  ba_last_shift_ts :: int

definition empty_basket :: basket where
  "empty_basket = \<lparr>ba_atm = 0, ba_ce_strikes = [], ba_pe_strikes = [], ba_ce_tokens = [], ba_pe_tokens = [],
     ba_last_shift_ts = 0\<rparr>"

definition all_tokens :: "basket \<Rightarrow> token list" where
  "all_tokens b = map snd (ba_ce_tokens b) @ map snd (ba_pe_tokens b)"

definition token_pairs :: "int list \<Rightarrow> (int \<times> token) list \<Rightarrow> (int \<times> token) list" where
  "token_pairs strikes toks = somes (map (\<lambda>s. map_option (Pair s) (map_of toks s)) strikes)"

definition ce_pairs :: "basket \<Rightarrow> (int \<times> token) list" where
  "ce_pairs b = token_pairs (ba_ce_strikes b) (ba_ce_tokens b)"

definition pe_pairs :: "basket \<Rightarrow> (int \<times> token) list" where
  "pe_pairs b = token_pairs (ba_pe_strikes b) (ba_pe_tokens b)"

record basket_transition =
  bt_new_basket :: basket
  bt_added_tokens :: "token list"
  bt_dropped_tokens :: "token list"
  bt_reason :: string

definition compute_atm :: "money \<Rightarrow> int \<Rightarrow> int" where
  "compute_atm spot step = round_half_even (spot / of_int step) * step"

definition compute_strike_set :: "int \<Rightarrow> int \<Rightarrow> int \<Rightarrow> int list \<times> int list" where
  "compute_strike_set atm step half =
     (let strikes = map (\<lambda>i. atm + i * step) [- half..half] in (sort strikes, sort strikes))"

definition lookup_tokens :: "(int \<Rightarrow> side \<Rightarrow> token option) \<Rightarrow> side \<Rightarrow> int list \<Rightarrow> (int \<times> token) list" where
  "lookup_tokens lookup sd strikes =
     somes (map (\<lambda>s. case lookup s sd of None \<Rightarrow> None | Some t \<Rightarrow> if t = [] then None else Some (s, t)) strikes)"

definition token_diff :: "token list \<Rightarrow> token list \<Rightarrow> token list" where
  "token_diff xs ys = sort (remdups (filter (\<lambda>t. t \<notin> set ys) xs))"

definition maybe_shift_basket ::
  "basket \<Rightarrow> money option \<Rightarrow> int \<Rightarrow> int \<Rightarrow> int \<Rightarrow> int \<Rightarrow> (int \<Rightarrow> side \<Rightarrow> token option) \<Rightarrow> basket_transition option"
where
  "maybe_shift_basket cur spot step half now_ms hysteresis_sec lookup =
     (case spot of
        None \<Rightarrow> None
      | Some sp \<Rightarrow>
          (let new_atm = compute_atm sp step
           in if new_atm = ba_atm cur \<and> ba_ce_tokens cur \<noteq> [] then None
              else if ba_last_shift_ts cur \<noteq> 0 \<and> now_ms - ba_last_shift_ts cur < hysteresis_sec * 1000 then None
              else
                (let (ce, pe) = compute_strike_set new_atm step half;
                     nb = \<lparr>ba_atm = new_atm, ba_ce_strikes = ce, ba_pe_strikes = pe,
                           ba_ce_tokens = lookup_tokens lookup CE ce, ba_pe_tokens = lookup_tokens lookup PE pe,
                           ba_last_shift_ts = now_ms\<rparr>
                 in Some \<lparr>bt_new_basket = nb,
                          bt_added_tokens = token_diff (all_tokens nb) (all_tokens cur),
                          bt_dropped_tokens = token_diff (all_tokens cur) (all_tokens nb),
                          bt_reason = (if ba_ce_tokens cur = [] then ''initial_build''
                                       else ''atm_shift_'' @ str_int (ba_atm cur) @ ''->'' @ str_int new_atm)\<rparr>)))"

section \<open>Lemmas\<close>

lemma set_token_diff [simp]: "set (token_diff xs ys) = set xs - set ys"
  by (auto simp: token_diff_def)

lemma sorted_strikes:
  assumes "0 < step"
  shows "sort (map (\<lambda>i. atm + i * step) [- half..half]) = map (\<lambda>i. atm + i * step) [- half..half]"
proof -
  have "sorted (map (\<lambda>i. atm + i * step) xs)" if "sorted xs" for xs
    using that assms by (auto simp: sorted_map intro: sorted_wrt_mono_rel)
  then show ?thesis by (intro sort_key_id_if_sorted) (simp add: sorted_upto)
qed

lemma strike_set_eq:
  "0 < step \<Longrightarrow> compute_strike_set atm step half =
     (map (\<lambda>i. atm + i * step) [- half..half], map (\<lambda>i. atm + i * step) [- half..half])"
  by (simp add: compute_strike_set_def Let_def sorted_strikes)

lemma strikes_distinct: "0 < step \<Longrightarrow> distinct (map (\<lambda>i. atm + i * step) [- half..half])"
  by (auto simp: distinct_map inj_on_def)

lemma atm_near_spot:
  assumes "0 < step"
  shows "\<bar>of_int (compute_atm spot step) - spot\<bar> \<le> of_int step / 2"
proof -
  let ?x = "spot / of_int step"
  have s: "(0::rat) < of_int step" using assms by simp
  have "of_int (compute_atm spot step) - spot = (of_int (round_half_even ?x) - ?x) * of_int step"
    using s by (simp add: compute_atm_def algebra_simps)
  also have "\<bar>\<dots>\<bar> = \<bar>of_int (round_half_even ?x) - ?x\<bar> * of_int step" using s by (simp add: abs_mult)
  also have "\<dots> \<le> 1 / 2 * of_int step" using s round_half_even_error [of ?x] by (intro mult_right_mono) simp_all
  finally show ?thesis by simp
qed

lemma maybe_shift_Some:
  assumes "maybe_shift_basket cur (Some sp) step half now hyst lookup = Some t"
  shows "ba_atm (bt_new_basket t) = compute_atm sp step"
    and "ba_ce_strikes (bt_new_basket t) = fst (compute_strike_set (compute_atm sp step) step half)"
    and "ba_pe_strikes (bt_new_basket t) = snd (compute_strike_set (compute_atm sp step) step half)"
    and "ba_last_shift_ts (bt_new_basket t) = now"
    and "bt_added_tokens t = token_diff (all_tokens (bt_new_basket t)) (all_tokens cur)"
    and "bt_dropped_tokens t = token_diff (all_tokens cur) (all_tokens (bt_new_basket t))"
    and "ba_last_shift_ts cur = 0 \<or> hyst * 1000 \<le> now - ba_last_shift_ts cur"
    and "compute_atm sp step \<noteq> ba_atm cur \<or> ba_ce_tokens cur = []"
  using assms by (auto simp: maybe_shift_basket_def Let_def split: if_splits prod.splits)

section \<open>Properties\<close>

text \<open>A basket shift is exact.  It happens only when the money has moved (or the basket
  is empty) and the hysteresis has passed; the new at-the-money strike is the multiple of the
  step within half a step of spot, the strikes are the \<open>2 * half + 1\<close> distinct ones around it in
  ascending order, and the added and dropped tokens turn the old token set into the new one.\<close>

theorem basket_shift_exact:
  assumes "maybe_shift_basket cur (Some sp) step half now hyst lookup = Some t" and "0 < step" and "0 \<le> half"
  shows "(ba_last_shift_ts cur = 0 \<or> hyst * 1000 \<le> now - ba_last_shift_ts cur) \<and>
    \<bar>of_int (ba_atm (bt_new_basket t)) - sp\<bar> \<le> of_int step / 2 \<and> step dvd ba_atm (bt_new_basket t) \<and>
    ba_ce_strikes (bt_new_basket t) = map (\<lambda>i. ba_atm (bt_new_basket t) + i * step) [- half..half] \<and>
    distinct (ba_ce_strikes (bt_new_basket t)) \<and> length (ba_ce_strikes (bt_new_basket t)) = nat (2 * half + 1) \<and>
    set (all_tokens (bt_new_basket t)) =
      (set (all_tokens cur) - set (bt_dropped_tokens t)) \<union> set (bt_added_tokens t) \<and>
    set (bt_added_tokens t) \<inter> set (all_tokens cur) = {} \<and> set (bt_dropped_tokens t) \<subseteq> set (all_tokens cur)"
proof -
  note s = maybe_shift_Some [OF assms(1)]
  have atm: "step dvd ba_atm (bt_new_basket t)" unfolding s(1) by (simp add: compute_atm_def)
  have len: "length [- half..half] = nat (2 * half + 1)" using assms(3) by (simp add: nat_eq_iff)
  have "set (all_tokens (bt_new_basket t)) =
      (set (all_tokens cur) - set (bt_dropped_tokens t)) \<union> set (bt_added_tokens t) \<and>
    set (bt_added_tokens t) \<inter> set (all_tokens cur) = {} \<and> set (bt_dropped_tokens t) \<subseteq> set (all_tokens cur)"
    unfolding s(5,6) by auto
  with atm len show ?thesis
    using s(7) atm_near_spot [OF assms(2), of sp]
    unfolding s(2) s(1) by (auto simp: strike_set_eq [OF assms(2)] strikes_distinct [OF assms(2)])
qed

theorem basket_shift_exact_witness:
  "\<exists>t. maybe_shift_basket empty_basket (Some 24030) 50 2 1000 5 (\<lambda>s sd. Some (str_int s)) = Some t \<and>
     ba_ce_strikes (bt_new_basket t) = [23950, 24000, 24050, 24100, 24150]"
proof -
  obtain t where t: "maybe_shift_basket empty_basket (Some 24030) 50 2 1000 5 (\<lambda>s sd. Some (str_int s)) = Some t"
    by (simp add: maybe_shift_basket_def empty_basket_def Let_def compute_strike_set_def)
  have r: "\<lfloor>(2403::rat) / 5\<rfloor> = 480" by (rule floor_unique) simp_all
  have "ba_atm (bt_new_basket t) = 24050"
    unfolding maybe_shift_Some(1) [OF t] by (simp add: compute_atm_def round_half_even_def Let_def r)
  with basket_shift_exact [OF t] t show ?thesis by (simp add: upto.simps)
qed

end
