(* ===== verification/StrategyTick.thy ===== *)
theory StrategyTick
  imports StrategyDecisions Basket
begin

text \<open>
  \<open>bid_ask_imbalance/strategy.py\<close>: \<open>on_tick\<close>, the orchestrator that turns a snapshot and the
  vessel's memory into one action.  It pushes every leg into its buffer first, then decides:
  with a held position reversal before continuation, without one the four gates.
\<close>

section \<open>Model\<close>

datatype action_kind = NO_OP | ENTER | HOLD | EXIT | FLIP | REVERSAL_WARN

record strike_metric =
  sm_imbalance :: "rat option"
  sm_imbalance_class :: imbalance_class
  sm_spread :: "money option"
  sm_spread_class :: spread_status
  sm_wall_state :: wall_state
  sm_aggressor :: aggressor
  sm_leg :: strike_leg

record tick_metrics =
  tm_snapshot_ts :: int
  tm_atm :: int
  tm_spot :: "money option"
  tm_cum_ce_imbalance :: "rat option"
  tm_cum_pe_imbalance :: "rat option"
  tm_ce_sums :: "int option \<times> int option"
  tm_pe_sums :: "int option \<times> int option"
  tm_net_pressure :: "rat option"
  tm_net_pressure_label :: pressure_label
  tm_per_strike :: "(token \<times> strike_metric) list"
  tm_reversal_triggers :: "string list option"
  tm_continuation_failures :: "string list option"
  tm_score :: "int option"
  tm_score_breakdown :: "(string \<times> int) list option"

record action =
  ac_kind :: action_kind
  ac_side :: "side option"
  ac_strike :: "int option"
  ac_instrument_token :: "token option"
  ac_qty_lots :: "int option"
  ac_score :: "int option"
  ac_reason :: string
  ac_metrics :: "tick_metrics option"
  ac_score_breakdown :: "(string \<times> int) list"

definition plain_action :: "action_kind \<Rightarrow> string \<Rightarrow> tick_metrics \<Rightarrow> action" where
  "plain_action k reason m =
     \<lparr>ac_kind = k, ac_side = None, ac_strike = None, ac_instrument_token = None, ac_qty_lots = None,
      ac_score = None, ac_reason = reason, ac_metrics = Some m, ac_score_breakdown = []\<rparr>"

record memory_store =
  me_buffers :: buffer_store
  me_basket :: basket
  me_timing_windows :: "timing_window list"
  me_last_action_kind :: "action_kind option"
  me_held_token :: "token option"
  me_held_strike :: "int option"
  me_held_side :: "side option"
  me_suppress_until_ts :: int

definition per_strike_metric :: "thresholds \<Rightarrow> strike_leg \<Rightarrow> wall_state \<Rightarrow> aggressor \<Rightarrow> strike_metric" where
  "per_strike_metric th l ws ag =
     \<lparr>sm_imbalance = map_option (py_round 4) (compute_imbalance l),
      sm_imbalance_class = classify_imbalance (th_imbalance_strong_buy th) (compute_imbalance l),
      sm_spread = map_option (py_round 4) (compute_spread l),
      sm_spread_class = classify_spread (th_spread_good_inr th) (th_spread_moderate_inr th) (compute_spread l),
      sm_wall_state = ws, sm_aggressor = ag, sm_leg = l\<rparr>"

text \<open>Phase 1 for one leg: classify against the buffer as it was, then push.\<close>

definition observe_leg ::
  "thresholds \<Rightarrow> int \<Rightarrow> strike_leg \<Rightarrow> buffer_store \<times> (token \<times> strike_metric) list
     \<Rightarrow> buffer_store \<times> (token \<times> strike_metric) list"
where
  "observe_leg th ts l st =
     (let (buf, bs) = buffer_for (sl_token l) (fst st);
          ws = classify_wall_state (th_ask_wall_qty_multiple th) (th_aggressor_tolerance_inr th) l buf;
          ag = detect_aggressor (th_aggressor_tolerance_inr th) l;
          present = (if ws = W_UNKNOWN then None else Some (ws \<in> {W_HOLDING, W_ABSORBING, W_REFRESHING}));
          ob = cache_observation_imbalance l (compute_imbalance l) (compute_spread l) present (Some ag) ts
      in (set_buffer (sl_token l) (push buf ob) bs, dict_set (sl_token l) (per_strike_metric th l ws ag) (snd st)))"

definition observe_all ::
  "thresholds \<Rightarrow> int \<Rightarrow> strike_leg list \<Rightarrow> buffer_store \<Rightarrow> buffer_store \<times> (token \<times> strike_metric) list"
where
  "observe_all th ts legs bs = fold (observe_leg th ts) legs (bs, [])"

fun pick_best :: "(rat \<times> strike_leg) option \<Rightarrow> strike_leg list \<Rightarrow> (rat \<times> strike_leg) option" where
  "pick_best best [] = best"
| "pick_best best (l # ls) =
     (case compute_imbalance l of
        None \<Rightarrow> pick_best best ls
      | Some r \<Rightarrow>
          (case best of
             None \<Rightarrow> pick_best (Some (r, l)) ls
           | Some (r0, _) \<Rightarrow> if r0 < r then pick_best (Some (r, l)) ls else pick_best best ls))"

definition pick_dominant_strike :: "strike_leg list \<Rightarrow> strike_leg option" where
  "pick_dominant_strike legs = map_option snd (pick_best None legs)"

fun other_side :: "side \<Rightarrow> side" where
  "other_side CE = PE"
| "other_side PE = CE"

definition legs_of :: "side \<Rightarrow> snapshot \<Rightarrow> strike_leg list" where
  "legs_of sd s = (case sd of CE \<Rightarrow> sn_ce_legs s | PE \<Rightarrow> sn_pe_legs s)"

fun join_commas :: "string list \<Rightarrow> string" where
  "join_commas [] = []"
| "join_commas [s] = s"
| "join_commas (s # ss) = s @ CHR '','' # join_commas ss"

definition held_action ::
  "thresholds \<Rightarrow> index_config \<Rightarrow> snapshot \<Rightarrow> memory_store \<Rightarrow> side \<Rightarrow> token \<Rightarrow> strike_leg \<Rightarrow> strike_buffer \<Rightarrow> tick_metrics \<Rightarrow> action"
where
  "held_action th icfg s mem sd tok l buf m =
     (let rev_v = evaluate_reversal (Some sd) l buf th; qty = get_or (qty_lots icfg) 1;
          mr = m\<lparr>tm_reversal_triggers := Some (rv_triggers rev_v)\<rparr>
      in if rv_triggered rev_v then
           (case pick_dominant_strike (legs_of (other_side sd) s) of
              None \<Rightarrow> \<lparr>ac_kind = EXIT, ac_side = Some sd, ac_strike = me_held_strike mem,
                ac_instrument_token = Some tok, ac_qty_lots = Some qty, ac_score = None,
                ac_reason = ''reversal_triggered_no_flip_target'', ac_metrics = Some mr, ac_score_breakdown = []\<rparr>
            | Some target \<Rightarrow> \<lparr>ac_kind = FLIP, ac_side = Some (other_side sd), ac_strike = Some (sl_strike target),
                ac_instrument_token = Some (sl_token target), ac_qty_lots = Some qty, ac_score = None,
                ac_reason = ''reversal_triggered'', ac_metrics = Some mr, ac_score_breakdown = []\<rparr>)
         else
           (let cont = evaluate_continuation sd l buf th
            in if \<not> cv_hold cont then
                 \<lparr>ac_kind = EXIT, ac_side = Some sd, ac_strike = me_held_strike mem,
                  ac_instrument_token = Some tok, ac_qty_lots = Some qty, ac_score = None,
                  ac_reason = ''continuation_failed:'' @ join_commas (take 3 (cv_failures cont)),
                  ac_metrics = Some (m\<lparr>tm_continuation_failures := Some (cv_failures cont)\<rparr>), ac_score_breakdown = []\<rparr>
               else (plain_action HOLD ''continuation_ok'' m)\<lparr>ac_side := Some sd\<rparr>))"

definition entry_action ::
  "thresholds \<Rightarrow> index_config \<Rightarrow> int \<Rightarrow> timing_window list \<Rightarrow> side \<Rightarrow> strike_leg \<Rightarrow> strike_buffer \<Rightarrow> tick_metrics \<Rightarrow> action"
where
  "entry_action th icfg now_sod windows sd dl buf m =
     (let g2 = gate2_ask_wall (classify_wall_state (th_ask_wall_qty_multiple th) (th_aggressor_tolerance_inr th) dl buf);
          g3 = gate3_spread (classify_spread (th_spread_good_inr th) (th_spread_moderate_inr th) (compute_spread dl));
          q = compute_quality_score sd dl buf th;
          (allowed, why) = entry_allowed now_sod windows (qr_score q);
          factor = min (qr_entry_size_factor q) (gr_size_factor g3);
          ms = m\<lparr>tm_score := Some (qr_score q)\<rparr>;
          mb = ms\<lparr>tm_score_breakdown := Some (qr_breakdown q)\<rparr>
      in if \<not> gr_passed g2 then plain_action NO_OP (gr_reason g2) m
         else if \<not> gr_passed g3 then plain_action NO_OP (gr_reason g3) m
         else if \<not> allowed then
           (plain_action NO_OP why mb)\<lparr>ac_score := Some (qr_score q), ac_score_breakdown := qr_breakdown q\<rparr>
         else if factor \<le> 0 then
           (plain_action NO_OP (''size_factor_zero_score_'' @ str_int (qr_score q)) ms)
             \<lparr>ac_score := Some (qr_score q), ac_score_breakdown := qr_breakdown q\<rparr>
         else
           \<lparr>ac_kind = ENTER, ac_side = Some sd, ac_strike = Some (sl_strike dl),
            ac_instrument_token = Some (sl_token dl),
            ac_qty_lots = Some (max 1 (round_half_even (of_int (get_or (qty_lots icfg) 1) * factor))),
            ac_score = Some (qr_score q), ac_reason = ''all_gates_passed'', ac_metrics = Some mb,
            ac_score_breakdown = qr_breakdown q\<rparr>)"

definition flat_action ::
  "thresholds \<Rightarrow> index_config \<Rightarrow> int \<Rightarrow> snapshot \<Rightarrow> memory_store \<Rightarrow> buffer_store \<Rightarrow> rat option \<Rightarrow> tick_metrics
     \<Rightarrow> action \<times> buffer_store"
where
  "flat_action th icfg now_sod s mem bs np m =
     (let g1 = gate1_direction (th_net_pressure_entry th) np
      in case gr_side g1 of
           None \<Rightarrow> (plain_action NO_OP (gr_reason g1) m, bs)
         | Some sd \<Rightarrow>
             (case pick_dominant_strike (legs_of sd s) of
                None \<Rightarrow> (plain_action NO_OP ''no_dominant_strike'' m, bs)
              | Some dl \<Rightarrow>
                  (let (buf, bs') = buffer_for (sl_token dl) bs
                   in (entry_action th icfg now_sod (me_timing_windows mem) sd dl buf m, bs'))))"

definition tick_metrics_of ::
  "thresholds \<Rightarrow> int \<Rightarrow> snapshot \<Rightarrow> (token \<times> strike_metric) list \<Rightarrow> rat option \<times> tick_metrics"
where
  "tick_metrics_of th ts s per_strike =
     (let (ceb, cea, cum_ce) = cumulative_imbalance (sn_ce_legs s);
          (peb, pea, cum_pe) = cumulative_imbalance (sn_pe_legs s);
          np = net_pressure cum_ce cum_pe
      in (np, \<lparr>tm_snapshot_ts = ts, tm_atm = sn_atm s, tm_spot = sn_spot s,
               tm_cum_ce_imbalance = map_option (py_round 4) cum_ce,
               tm_cum_pe_imbalance = map_option (py_round 4) cum_pe,
               tm_ce_sums = (ceb, cea), tm_pe_sums = (peb, pea),
               tm_net_pressure = map_option (py_round 4) np,
               tm_net_pressure_label =
                 classify_pressure (th_net_pressure_entry th) (th_net_pressure_neutral_band th) np,
               tm_per_strike = per_strike, tm_reversal_triggers = None,
               tm_continuation_failures = None, tm_score = None, tm_score_breakdown = None\<rparr>))"

definition is_held :: "memory_store \<Rightarrow> (side \<times> token) option" where
  "is_held mem =
     (case (me_held_side mem, me_held_token mem) of
        (Some sd, Some tok) \<Rightarrow> if tok = [] then None else Some (sd, tok)
      | _ \<Rightarrow> None)"

text \<open>\<open>now_ms\<close> and \<open>now_sod\<close> are the wall clock; the result carries the memory with its buffers.\<close>

definition on_tick ::
  "strategy_config \<Rightarrow> index_config \<Rightarrow> int \<Rightarrow> int \<Rightarrow> snapshot \<Rightarrow> memory_store \<Rightarrow> action \<times> memory_store"
where
  "on_tick scfg icfg now_ms now_sod s mem =
     (let th = read_thresholds scfg icfg;
          ts = (if sn_snapshot_ts s = 0 then now_ms else sn_snapshot_ts s);
          (bs, per_strike) = observe_all th ts (all_legs s) (me_buffers mem);
          (np, m) = tick_metrics_of th ts s per_strike
      in case is_held mem of
           Some (sd, tok) \<Rightarrow>
             (case List.find (\<lambda>l. sl_token l = tok) (all_legs s) of
                None \<Rightarrow> (plain_action NO_OP ''held_token_not_in_basket'' m, mem\<lparr>me_buffers := bs\<rparr>)
              | Some l \<Rightarrow>
                  (let (buf, bs') = buffer_for tok bs
                   in (held_action th icfg s mem sd tok l buf m, mem\<lparr>me_buffers := bs'\<rparr>)))
         | None \<Rightarrow>
             if ts < me_suppress_until_ts mem then
               (plain_action NO_OP (''reversal_suppression_until_'' @ str_int (me_suppress_until_ts mem)) m,
                mem\<lparr>me_buffers := bs\<rparr>)
             else (case flat_action th icfg now_sod s mem bs np m of (a, bs') \<Rightarrow> (a, mem\<lparr>me_buffers := bs'\<rparr>)))"

section \<open>Lemmas\<close>

lemma other_side_neq [simp]: "other_side sd \<noteq> sd"
  by (cases sd) simp_all

definition best_of :: "strike_leg set \<Rightarrow> (rat \<times> strike_leg) option \<Rightarrow> bool" where
  "best_of S best =
     (case best of
        None \<Rightarrow> \<forall>l \<in> S. compute_imbalance l = None
      | Some (r, l) \<Rightarrow> l \<in> S \<and> compute_imbalance l = Some r \<and>
          (\<forall>l' \<in> S. \<forall>r'. compute_imbalance l' = Some r' \<longrightarrow> r' \<le> r))"

lemma best_of_skip: "best_of S best \<Longrightarrow> compute_imbalance a = None \<Longrightarrow> best_of (insert a S) best"
  by (auto simp: best_of_def split: option.splits)

lemma best_of_keep:
  "best_of S (Some (r0, l0)) \<Longrightarrow> compute_imbalance a = Some r \<Longrightarrow> r \<le> r0 \<Longrightarrow> best_of (insert a S) (Some (r0, l0))"
  by (simp add: best_of_def)

lemma best_of_first: "best_of S None \<Longrightarrow> compute_imbalance a = Some r \<Longrightarrow> best_of (insert a S) (Some (r, a))"
  by (simp add: best_of_def)

lemma best_of_better:
  "best_of S (Some (r0, l0)) \<Longrightarrow> compute_imbalance a = Some r \<Longrightarrow> r0 < r \<Longrightarrow> best_of (insert a S) (Some (r, a))"
  by (auto simp: best_of_def intro: order_trans [OF _ less_imp_le])

lemma pick_best_best_of: "best_of S best \<Longrightarrow> best_of (S \<union> set ls) (pick_best best ls)"
proof (induction ls arbitrary: S best)
  case (Cons a ls)
  have step: "best_of (S \<union> set (a # ls)) (pick_best b ls)" if "best_of (insert a S) b" for b
    using Cons.IH [OF that] by simp
  show ?case
    using Cons.prems
    by (auto simp del: list.set intro!: step intro: best_of_skip best_of_keep best_of_first best_of_better
        split: option.split)
qed simp

lemma pick_best_of_list: "best_of (set ls) (pick_best None ls)"
  using pick_best_best_of [of "{}" None ls] by (simp add: best_of_def)

lemma pick_dominant_None: "pick_dominant_strike ls = None \<longleftrightarrow> (\<forall>l \<in> set ls. compute_imbalance l = None)"
  using pick_best_of_list [of ls] by (auto simp: pick_dominant_strike_def best_of_def split: option.splits)

lemma pick_dominant_Some:
  assumes "pick_dominant_strike ls = Some d"
  shows "d \<in> set ls \<and> (\<exists>r. compute_imbalance d = Some r \<and>
           (\<forall>l \<in> set ls. \<forall>r'. compute_imbalance l = Some r' \<longrightarrow> r' \<le> r))"
proof -
  from assms obtain r where "pick_best None ls = Some (r, d)" by (auto simp: pick_dominant_strike_def)
  with pick_best_of_list [of ls] show ?thesis by (simp add: best_of_def)
qed

lemma is_held_Some: "is_held mem = Some (sd, tok) \<longleftrightarrow>
    me_held_side mem = Some sd \<and> me_held_token mem = Some tok \<and> tok \<noteq> []"
  by (auto simp: is_held_def split: option.splits)

lemma plain_action_sel [simp]:
  "ac_kind (plain_action k r m) = k" "ac_side (plain_action k r m) = None"
  "ac_instrument_token (plain_action k r m) = None" "ac_qty_lots (plain_action k r m) = None"
  "ac_reason (plain_action k r m) = r" "ac_strike (plain_action k r m) = None"
  by (simp_all add: plain_action_def)

text \<open>What the strategy reads at decision time: the buffers after this tick's observations.\<close>

definition tick_ts :: "int \<Rightarrow> snapshot \<Rightarrow> int" where
  "tick_ts now_ms s = (if sn_snapshot_ts s = 0 then now_ms else sn_snapshot_ts s)"

definition observed_buffer ::
  "strategy_config \<Rightarrow> index_config \<Rightarrow> int \<Rightarrow> snapshot \<Rightarrow> memory_store \<Rightarrow> token \<Rightarrow> strike_buffer"
where
  "observed_buffer scfg icfg now_ms s mem tok =
     fst (buffer_for tok (fst (observe_all (read_thresholds scfg icfg) (tick_ts now_ms s) (all_legs s) (me_buffers mem))))"

definition snapshot_pressure :: "snapshot \<Rightarrow> rat option" where
  "snapshot_pressure s = net_pressure (snd (snd (cumulative_imbalance (sn_ce_legs s))))
     (snd (snd (cumulative_imbalance (sn_pe_legs s))))"

lemma tick_metrics_pressure [simp]: "fst (tick_metrics_of th ts s ps) = snapshot_pressure s"
  by (simp add: tick_metrics_of_def snapshot_pressure_def Let_def split: prod.splits)

text \<open>The conditions on the dominant leg under which a flat vessel enters.\<close>

definition entry_conditions ::
  "thresholds \<Rightarrow> int \<Rightarrow> timing_window list \<Rightarrow> side \<Rightarrow> strike_leg \<Rightarrow> strike_buffer \<Rightarrow> bool"
where
  "entry_conditions th now_sod ws sd d b \<longleftrightarrow>
     classify_wall_state (th_ask_wall_qty_multiple th) (th_aggressor_tolerance_inr th) d b \<in> {W_NONE, W_ABSORBING} \<and>
     (\<exists>sp. compute_spread d = Some sp \<and> sp \<le> max (th_spread_good_inr th) (th_spread_moderate_inr th)) \<and>
     (\<exists>w m. current_window now_sod ws = Some w \<and> tw_min_score w = Some m \<and>
        m \<le> qr_score (compute_quality_score sd d b th)) \<and>
     5 \<le> qr_score (compute_quality_score sd d b th)"

lemma entry_action_kind:
  "ac_kind (entry_action th icfg now ws sd d b m) = (if entry_conditions th now ws sd d b then ENTER else NO_OP)"
proof -
  let ?sp = "classify_spread (th_spread_good_inr th) (th_spread_moderate_inr th) (compute_spread d)"
  have f: "min (qr_entry_size_factor (compute_quality_score sd d b th)) (gr_size_factor (gate3_spread ?sp)) \<le> 0
      \<longleftrightarrow> \<not> 5 \<le> qr_score (compute_quality_score sd d b th)"
    by (simp add: quality_size_factor gate3_passed Let_def min_def)
  show ?thesis
    unfolding entry_action_def entry_conditions_def Let_def f gate2_passed gate3_passed(1)
      spread_ok_iff entry_allowed_fst [symmetric]
    by (simp add: case_prod_unfold)
qed

lemma entry_action_enter:
  assumes "ac_kind (entry_action th icfg now ws sd d b m) = ENTER"
  shows "ac_side (entry_action th icfg now ws sd d b m) = Some sd"
    and "ac_instrument_token (entry_action th icfg now ws sd d b m) = Some (sl_token d)"
    and "ac_strike (entry_action th icfg now ws sd d b m) = Some (sl_strike d)"
    and "\<exists>q. ac_qty_lots (entry_action th icfg now ws sd d b m) = Some q \<and> 1 \<le> q \<and> q \<le> max 1 (get_or (qty_lots icfg) 1)"
proof -
  let ?sp = "classify_spread (th_spread_good_inr th) (th_spread_moderate_inr th) (compute_spread d)"
  let ?f = "min (qr_entry_size_factor (compute_quality_score sd d b th)) (gr_size_factor (gate3_spread ?sp))"
  let ?n = "get_or (qty_lots icfg) 1"
  let ?q = "max 1 (round_half_even (of_int ?n * ?f))"
  have a: "ac_side (entry_action th icfg now ws sd d b m) = Some sd \<and>
      ac_instrument_token (entry_action th icfg now ws sd d b m) = Some (sl_token d) \<and>
      ac_strike (entry_action th icfg now ws sd d b m) = Some (sl_strike d) \<and>
      ac_qty_lots (entry_action th icfg now ws sd d b m) = Some ?q \<and> 0 < ?f"
    using assms unfolding entry_action_def Let_def case_prod_unfold
    by (simp del: min_less_iff_conj split: if_splits)
  have "?f \<le> 1" by (simp add: quality_size_factor gate3_passed Let_def min_def)
  have "round_half_even (of_int ?n * ?f) \<le> max 1 ?n"
  proof -
    have "of_int ?n * ?f \<le> of_int (max 1 ?n)"
    proof (cases "0 \<le> ?n")
      case True
      then have "of_int ?n * ?f \<le> of_int ?n * 1" using \<open>?f \<le> 1\<close> by (intro mult_left_mono) simp_all
      then show ?thesis by simp
    next
      case False
      then have "of_int ?n * ?f \<le> 0" using a by (simp add: mult_nonpos_nonneg)
      then show ?thesis by (simp add: order_trans)
    qed
    then show ?thesis using round_half_even_mono [of "of_int ?n * ?f" "of_int (max 1 ?n)"] by simp
  qed
  with a show "ac_side (entry_action th icfg now ws sd d b m) = Some sd"
    "ac_instrument_token (entry_action th icfg now ws sd d b m) = Some (sl_token d)"
    "ac_strike (entry_action th icfg now ws sd d b m) = Some (sl_strike d)"
    "\<exists>q. ac_qty_lots (entry_action th icfg now ws sd d b m) = Some q \<and> 1 \<le> q \<and> q \<le> max 1 ?n"
    by simp_all
qed

lemma flat_action_enter:
  "ac_kind (fst (flat_action th icfg now s mem bs np m)) = ENTER \<longleftrightarrow>
     (\<exists>sd d. gr_side (gate1_direction (th_net_pressure_entry th) np) = Some sd \<and>
        pick_dominant_strike (legs_of sd s) = Some d \<and>
        entry_conditions th now (me_timing_windows mem) sd d (fst (buffer_for (sl_token d) bs)))"
  by (auto simp: flat_action_def Let_def entry_action_kind split: option.split prod.split)

lemma gate1_side:
  "gr_side (gate1_direction thr pr) = Some sd \<longleftrightarrow>
     (\<exists>x. pr = Some x \<and> (if sd = CE then thr < x else x \<le> thr \<and> x < - thr))"
  by (cases sd) (auto simp: gate1_direction_def gate_pass_def gate_fail_def split: option.splits)

lemma on_tick_flat:
  assumes "is_held mem = None"
  shows "fst (on_tick scfg icfg now_ms now_sod s mem) =
    (let th = read_thresholds scfg icfg;
         obs = observe_all th (tick_ts now_ms s) (all_legs s) (me_buffers mem);
         m = snd (tick_metrics_of th (tick_ts now_ms s) s (snd obs))
     in if tick_ts now_ms s < me_suppress_until_ts mem
        then plain_action NO_OP (''reversal_suppression_until_'' @ str_int (me_suppress_until_ts mem)) m
        else fst (flat_action th icfg now_sod s mem (fst obs) (snapshot_pressure s) m))"
  using assms unfolding on_tick_def Let_def tick_ts_def [symmetric] tick_metrics_pressure [symmetric]
  by (simp only: case_prod_unfold option.case fst_conv if_distrib [of fst] tick_metrics_pressure)

lemma on_tick_held:
  assumes "is_held mem = Some (sd, tok)" and "List.find (\<lambda>l. sl_token l = tok) (all_legs s) = Some l"
  shows "\<exists>m. fst (on_tick scfg icfg now_ms now_sod s mem) =
    held_action (read_thresholds scfg icfg) icfg s mem sd tok l (observed_buffer scfg icfg now_ms s mem tok) m"
  using assms unfolding on_tick_def Let_def tick_ts_def [symmetric] observed_buffer_def
  by (auto simp add: case_prod_unfold)

lemma on_tick_held_missing:
  assumes "is_held mem = Some (sd, tok)" and "List.find (\<lambda>l. sl_token l = tok) (all_legs s) = None"
  shows "ac_kind (fst (on_tick scfg icfg now_ms now_sod s mem)) = NO_OP"
  using assms unfolding on_tick_def Let_def by (simp add: case_prod_unfold)

lemma held_action_not_enter: "ac_kind (held_action th icfg s mem sd tok l b m) \<noteq> ENTER"
  by (simp add: held_action_def Let_def split: option.split)

lemma on_tick_held_not_enter:
  assumes "is_held mem = Some (sd, tok)"
  shows "ac_kind (fst (on_tick scfg icfg now_ms now_sod s mem)) \<noteq> ENTER"
proof (cases "List.find (\<lambda>l. sl_token l = tok) (all_legs s)")
  case None
  then show ?thesis using on_tick_held_missing [OF assms] by simp
next
  case (Some l)
  then show ?thesis
    using on_tick_held [OF assms Some, of scfg icfg now_ms now_sod] by (auto simp: held_action_not_enter)
qed

lemma flat_action_names:
  assumes "ac_kind (fst (flat_action th icfg now s mem bs np m)) = ENTER"
  shows "\<exists>sd d r q. ac_side (fst (flat_action th icfg now s mem bs np m)) = Some sd \<and> d \<in> set (legs_of sd s) \<and>
    ac_strike (fst (flat_action th icfg now s mem bs np m)) = Some (sl_strike d) \<and>
    ac_instrument_token (fst (flat_action th icfg now s mem bs np m)) = Some (sl_token d) \<and>
    compute_imbalance d = Some r \<and>
    (\<forall>l \<in> set (legs_of sd s). \<forall>r'. compute_imbalance l = Some r' \<longrightarrow> r' \<le> r) \<and>
    ac_qty_lots (fst (flat_action th icfg now s mem bs np m)) = Some q \<and> 1 \<le> q \<and> q \<le> max 1 (get_or (qty_lots icfg) 1)"
proof -
  from assms obtain sd d where p: "pick_dominant_strike (legs_of sd s) = Some d"
    and ae: "fst (flat_action th icfg now s mem bs np m) =
      entry_action th icfg now (me_timing_windows mem) sd d (fst (buffer_for (sl_token d) bs)) m"
    by (auto simp: flat_action_def Let_def split: option.splits prod.splits)
  show ?thesis
    using pick_dominant_Some [OF p] entry_action_enter [OF assms [unfolded ae]] unfolding ae by blast
qed

section \<open>Properties\<close>


definition sample_leg :: "token \<Rightarrow> side \<Rightarrow> int \<Rightarrow> strike_leg" where
  "sample_leg tok sd bids =
     \<lparr>sl_token = tok, sl_strike = 24000, sl_side = sd, sl_ltp = Some 100, sl_best_bid = Some 99,
      sl_best_ask = Some 100, sl_best_bid_qty = Some 300, sl_best_ask_qty = Some 150,
      sl_bid_qtys = replicate 5 None, sl_ask_qtys = replicate 5 None, sl_total_bid_qty = Some bids,
      sl_total_ask_qty = Some 1000, sl_vol = None, sl_oi = None, sl_ts = 700\<rparr>"

definition sample_snapshot :: snapshot where
  "sample_snapshot = \<lparr>sn_instrument_id = ''nifty50'', sn_atm = 24000, sn_spot = Some 24010, sn_spot_ts = 690,
     sn_ce_legs = [sample_leg ''c'' CE 2000], sn_pe_legs = [sample_leg ''p'' PE 1000], sn_snapshot_ts = 710\<rparr>"

definition sample_memory :: memory_store where
  "sample_memory = \<lparr>me_buffers = \<lparr>bs_capacity = 50, bs_buffers = (\<lambda>_. None)\<rparr>, me_basket = empty_basket,
     me_timing_windows = sample_windows, me_last_action_kind = None, me_held_token = None,
     me_held_strike = None, me_held_side = None, me_suppress_until_ts = 0\<rparr>"

lemmas sample_tick_defs = sample_leg_def sample_snapshot_def empty_strategy_config_def sample_memory_def
  empty_index_config_def read_thresholds_def

lemma sample_score: "8 \<le> qr_score (compute_quality_score CE (sample_leg ''c'' CE 2000) b
    (read_thresholds empty_strategy_config empty_index_config))"
  by (simp add: compute_quality_score_def Let_def sample_tick_defs two_if_def classify_spread_def compute_spread_def
      imbalance_point_def compute_imbalance_def classify_wall_state_def is_wall_present_def detect_aggressor_def)




end
