(* ===== verification/Vessel.thy ===== *)
theory Vessel
  imports StrategyTick Store
begin

text \<open>
  The strategy engine around \<open>on_tick\<close>: the vessel state of \<open>bid_ask_imbalance/state.py\<close>, the
  tick router of \<open>ingestion.py\<close>, the registry, the signal publisher and the vessel task of
  \<open>runner.py\<close>.  \<open>engine\<close> extends the shared store with the keys only the strategy engine and
  its readers use.  A vessel's identity is its index: \<open>_STRATEGY_CLASSES\<close> has one row,
  \<open>DEFAULT_STRATEGY_ID\<close>, and \<open>discover_vessels\<close> admits only indexes the key helpers accept.
  \<open>sha16\<close> stands for the first sixteen hex digits of SHA-256.  The loops run over the list of
  what other processes (and the clock) do to the store before each wake-up.
\<close>

section \<open>State\<close>

record tick_router =
  ro_routes :: "token \<Rightarrow> index_name list"
  ro_subscribed :: "token set"
  ro_pubsub :: bool

record last_decision =
  ld_action :: action_kind
  ld_side :: "side option"
  ld_strike :: "int option"
  ld_score :: "int option"
  ld_score_breakdown :: "(string \<times> int) list"
  ld_reason :: string
  ld_ts_ms :: int

record vessel_metrics =
  vm_last_decision :: "last_decision option"
  vm_last_decision_ts :: "int option"
  vm_net_pressure :: "rat option"
  vm_cum_ce :: "rat option"
  vm_cum_pe :: "rat option"
  vm_per_strike :: "(token \<times> strike_metric) list option"

type_synonym stream_entry = "(string \<times> hval) list"

record engine =
  en_world :: world
  en_now_sod :: int
  en_system_ready :: "string option"
  en_registry :: "string list"
  en_strategy_config :: "string \<Rightarrow> strategy_config option"
  en_spot_ts :: "index_name \<Rightarrow> int option"
  en_phase :: "index_name \<Rightarrow> string option"
  en_phase_entered_ts :: "index_name \<Rightarrow> int option"
  en_basket :: "index_name \<Rightarrow> (int \<times> token option list \<times> token option list) option"
  en_metrics :: "index_name \<Rightarrow> vessel_metrics"
  en_subscriptions_desired :: "token set"
  en_signals_active :: "string set"
  en_stream :: "stream_entry list"
  en_signals_counter :: int
  en_router :: tick_router

section \<open>Vessel state machine\<close>

definition VALID_STATES :: "string list" where
  "VALID_STATES = [''FLAT'', ''IN_CE'', ''IN_PE'', ''COOLDOWN'', ''HALTED'']"

definition read_state :: "world \<Rightarrow> index_name \<Rightarrow> string" where
  "read_state w idx =
     (case v_state (w_vessel w idx) of
        None \<Rightarrow> ''FLAT'' | Some s \<Rightarrow> if s \<in> set VALID_STATES then s else ''FLAT'')"

definition set_state :: "index_name \<Rightarrow> string \<Rightarrow> world \<Rightarrow> pyexc + world" where
  "set_state idx s w =
     (if s \<notin> set VALID_STATES then Inl ValueError else Inr (upd_vessel idx (\<lambda>v. v\<lparr>v_state := Some s\<rparr>) w))"

definition enter_cooldown :: "index_name \<Rightarrow> string \<Rightarrow> int \<Rightarrow> world \<Rightarrow> world" where
  "enter_cooldown idx reason duration_sec w =
     upd_vessel idx (\<lambda>v. v\<lparr>v_state := Some ''COOLDOWN'', v_cooldown_until_ts := Some (w_now_ms w + duration_sec * 1000),
       v_cooldown_reason := Some reason\<rparr>) w"

definition maybe_exit_cooldown :: "index_name \<Rightarrow> world \<Rightarrow> bool \<times> world" where
  "maybe_exit_cooldown idx w =
     (if read_state w idx \<noteq> ''COOLDOWN'' then (False, w)
      else
        (let until = get_or (v_cooldown_until_ts (w_vessel w idx)) 0
         in if until \<le> 0 \<or> until \<le> w_now_ms w
            then (True, upd_vessel idx (\<lambda>v. v\<lparr>v_state := Some ''FLAT''\<rparr>) w)
            else (False, w)))"

definition halt :: "index_name \<Rightarrow> string \<Rightarrow> world \<Rightarrow> world" where
  "halt idx reason w =
     upd_vessel idx (\<lambda>v. v\<lparr>v_state := Some ''HALTED'', v_cooldown_reason := Some reason\<rparr>) w"

definition is_enabled :: "world \<Rightarrow> index_name \<Rightarrow> bool" where
  "is_enabled w idx = (py_lower (decode (v_enabled (w_vessel w idx))) = ''true'')"

section \<open>Tick router\<close>

text \<open>\<open>defaultdict(list)\<close>: a token without an entry has the empty list.\<close>

definition register :: "token \<Rightarrow> index_name \<Rightarrow> tick_router \<Rightarrow> tick_router" where
  "register tok v r =
     (if v \<in> set (ro_routes r tok) then r
      else r\<lparr>ro_routes := (ro_routes r)(tok := ro_routes r tok @ [v])\<rparr>)"

definition unregister :: "token \<Rightarrow> index_name \<Rightarrow> tick_router \<Rightarrow> tick_router" where
  "unregister tok v r = r\<lparr>ro_routes := (ro_routes r)(tok := remove1 v (ro_routes r tok))\<rparr>"

text \<open>Channels are named by their token: \<open>market_data_pub_tick\<close> is a fixed prefix.\<close>

definition desired_channels :: "tick_router \<Rightarrow> token set" where
  "desired_channels r = {t. ro_routes r t \<noteq> []}"

definition reconcile :: "tick_router \<Rightarrow> tick_router" where
  "reconcile r =
     (if \<not> ro_pubsub r then r
      else
        (let desired = desired_channels r; to_add = desired - ro_subscribed r; to_drop = ro_subscribed r - desired
         in r\<lparr>ro_subscribed := (ro_subscribed r \<union> to_add) - to_drop\<rparr>))"

text \<open>The vessels whose dirty event a notification sets.\<close>

definition route_message :: "tick_router \<Rightarrow> token \<Rightarrow> index_name list" where
  "route_message r tok = (if tok \<in> ro_subscribed r then ro_routes r tok else [])"

section \<open>Registry\<close>

record vessel_context =
  vc_instrument_id :: index_name
  vc_strategy_config :: strategy_config
  vc_instrument_config :: index_config

fun partition_colon :: "string \<Rightarrow> (string \<times> string) option" where
  "partition_colon [] = None"
| "partition_colon (c # cs) =
     (if c = CHR '':'' then Some ([], cs)
      else map_option (\<lambda>(a, b). (c # a, b)) (partition_colon cs))"

definition load_context :: "engine \<Rightarrow> index_name \<Rightarrow> vessel_context" where
  "load_context en idx =
     \<lparr>vc_instrument_id = idx,
      vc_strategy_config = get_or (en_strategy_config en DEFAULT_STRATEGY_ID) empty_strategy_config,
      vc_instrument_config = get_or (w_index_config (en_world en) DEFAULT_STRATEGY_ID idx) empty_index_config\<rparr>"

fun discover_entries :: "engine \<Rightarrow> string option \<Rightarrow> string list \<Rightarrow> pyexc + vessel_context list" where
  "discover_entries en filt [] = Inr []"
| "discover_entries en filt (entry # rest) =
     (case partition_colon entry of
        None \<Rightarrow> discover_entries en filt rest
      | Some (sid, idx) \<Rightarrow>
          if (case filt of None \<Rightarrow> False | Some f \<Rightarrow> sid \<noteq> f) then discover_entries en filt rest
          else if sid \<noteq> DEFAULT_STRATEGY_ID then discover_entries en filt rest
          else if \<not> valid_index idx then Inl ValueError
          else map_sum id ((#) (load_context en idx)) (discover_entries en filt rest))"

definition discover_vessels :: "string option \<Rightarrow> engine \<Rightarrow> pyexc + vessel_context list" where
  "discover_vessels filt en = discover_entries en filt (en_registry en)"

definition reload_vessel_config :: "engine \<Rightarrow> vessel_context \<Rightarrow> vessel_context" where
  "reload_vessel_config en ctx = load_context en (vc_instrument_id ctx)"

section \<open>Publisher\<close>

definition kind_to_intent :: "action_kind \<Rightarrow> signal_intent option" where
  "kind_to_intent k =
     (case k of ENTER \<Rightarrow> Some FRESH_ENTRY | FLIP \<Rightarrow> Some REVERSAL_FLIP | EXIT \<Rightarrow> Some MANUAL_EXIT | _ \<Rightarrow> None)"

fun kind_text :: "action_kind \<Rightarrow> string" where
  "kind_text NO_OP = ''NO_OP''"
| "kind_text ENTER = ''ENTER''"
| "kind_text HOLD = ''HOLD''"
| "kind_text EXIT = ''EXIT''"
| "kind_text FLIP = ''FLIP''"
| "kind_text REVERSAL_WARN = ''REVERSAL_WARN''"

definition mint_sig_id :: "(string \<Rightarrow> string) \<Rightarrow> index_name \<Rightarrow> action_kind \<Rightarrow> side \<Rightarrow> int \<Rightarrow> int \<Rightarrow> string" where
  "mint_sig_id sha16 idx k sd strike ts =
     sha16 (DEFAULT_STRATEGY_ID @ ''|'' @ idx @ ''|'' @ kind_text k @ ''|'' @ side_value sd @ ''|'' @ str_int strike
            @ ''|'' @ str_int ts)"

definition build_signal ::
  "(string \<Rightarrow> string) \<Rightarrow> index_name \<Rightarrow> action \<Rightarrow> signal_intent \<Rightarrow> side \<Rightarrow> int \<Rightarrow> token \<Rightarrow> int \<Rightarrow> signal"
where
  "build_signal sha16 idx a intent sd strike tok ts =
     (let np = Option.bind (ac_metrics a) tm_net_pressure
      in \<lparr>s_sig_id = mint_sig_id sha16 idx (ac_kind a) sd strike ts, s_strategy_id = DEFAULT_STRATEGY_ID,
          s_instrument_id = idx, s_index = idx, s_side = sd, s_strike = strike, s_instrument_token = tok,
          s_intent = intent, s_qty_lots = num_or (ac_qty_lots a) 1, s_score = map_option of_int (ac_score a),
          s_score_breakdown = ac_score_breakdown a, s_net_pressure = np, s_decision_ts = ts, s_diff = 0,
          s_sum_ce = get_or (Option.bind (ac_metrics a) tm_cum_ce_imbalance) 0,
          s_sum_pe = get_or (Option.bind (ac_metrics a) tm_cum_pe_imbalance) 0,
          s_delta = get_or np 0, s_delta_pcr = None, s_strategy_version = DEFAULT_STRATEGY_ID, s_ts = ts\<rparr>)"

text \<open>\<open>sig.model_dump(mode="json")\<close> without its nulls, in field order.\<close>

definition stream_fields :: "signal \<Rightarrow> stream_entry" where
  "stream_fields s =
     somes [Some (''sig_id'', HText (s_sig_id s)), Some (''strategy_id'', HText (s_strategy_id s)),
       Some (''instrument_id'', HText (s_instrument_id s)), Some (''index'', HText (s_index s)),
       Some (''side'', HText (side_value (s_side s))), Some (''strike'', HInt (s_strike s)),
       Some (''instrument_token'', HText (s_instrument_token s)), Some (''intent'', HText (intent_value (s_intent s))),
       Some (''qty_lots'', HInt (s_qty_lots s)), map_option (\<lambda>x. (''score'', HFloat x)) (s_score s),
       Some (''score_breakdown'', HMap (s_score_breakdown s)),
       map_option (\<lambda>x. (''net_pressure_at_signal'', HFloat x)) (s_net_pressure s),
       Some (''decision_ts'', HInt (s_decision_ts s)), Some (''diff_at_signal'', HFloat (s_diff s)),
       Some (''sum_ce_at_signal'', HFloat (s_sum_ce s)), Some (''sum_pe_at_signal'', HFloat (s_sum_pe s)),
       Some (''delta_at_signal'', HFloat (s_delta s)),
       map_option (\<lambda>x. (''delta_pcr_at_signal'', HFloat x)) (s_delta_pcr s),
       Some (''strategy_version'', HText (s_strategy_version s)), Some (''ts'', HTime (s_ts s))]"

definition publish_signal :: "signal \<Rightarrow> engine \<Rightarrow> engine" where
  "publish_signal s en =
     (case w_signals (en_world en) (s_sig_id s) of
        Some _ \<Rightarrow> en
      | None \<Rightarrow>
          en\<lparr>en_world := (en_world en)\<lparr>w_signals := (w_signals (en_world en))(s_sig_id s \<mapsto> s)\<rparr>,
             en_signals_active := insert (s_sig_id s) (en_signals_active en),
             en_stream := en_stream en @ [stream_fields s],
             en_signals_counter := en_signals_counter en + 1\<rparr>)"

definition emit_signal ::
  "(string \<Rightarrow> string) \<Rightarrow> index_name \<Rightarrow> action \<Rightarrow> engine \<Rightarrow> pyexc + string option \<times> engine"
where
  "emit_signal sha16 idx a en =
     (case kind_to_intent (ac_kind a) of
        None \<Rightarrow> Inr (None, en)
      | Some intent \<Rightarrow>
          (case (ac_side a, ac_strike a, ac_instrument_token a) of
             (Some sd, Some strike, Some tok) \<Rightarrow>
               if strike = 0 \<or> tok = [] then Inr (None, en)
               else
                 (let s = build_signal sha16 idx a intent sd strike tok (w_now_ms (en_world en))
                  in if \<not> signal_valid s then Inl ValidationError
                     else Inr (Some (s_sig_id s), publish_signal s en))
           | _ \<Rightarrow> Inr (None, en)))"

section \<open>Vessel task\<close>

record vessel_task =
  vt_context :: vessel_context
  vt_memory :: memory_store
  vt_strike_step :: int
  vt_basket_size :: int
  vt_hysteresis_sec :: int
  vt_last_basket_check_ms :: int
  vt_config_reload_at :: int

definition build_token_lookup :: "chain \<Rightarrow> int \<Rightarrow> side \<Rightarrow> token option" where
  "build_token_lookup ch strike sd = Option.bind (chain_leaf ch strike sd) l_token"

text \<open>\<open>action.metrics or {}\<close>: the pipeline writes only what the decision carries.\<close>

definition persist_metrics_and_decision :: "index_name \<Rightarrow> action \<Rightarrow> engine \<Rightarrow> engine" where
  "persist_metrics_and_decision idx a en =
     (let ts = w_now_ms (en_world en); m = ac_metrics a; old = en_metrics en idx;
          keep = (\<lambda>new prev. case new of None \<Rightarrow> prev | Some x \<Rightarrow> Some x);
          ps = (case Option.bind m (\<lambda>x. Some (tm_per_strike x)) of
                  None \<Rightarrow> vm_per_strike old | Some [] \<Rightarrow> vm_per_strike old | Some xs \<Rightarrow> Some xs)
      in en\<lparr>en_metrics := (en_metrics en)(idx :=
           \<lparr>vm_last_decision = Some \<lparr>ld_action = ac_kind a, ld_side = ac_side a, ld_strike = ac_strike a,
              ld_score = ac_score a, ld_score_breakdown = ac_score_breakdown a, ld_reason = ac_reason a, ld_ts_ms = ts\<rparr>,
            vm_last_decision_ts = Some ts,
            vm_net_pressure = keep (Option.bind m tm_net_pressure) (vm_net_pressure old),
            vm_cum_ce = keep (Option.bind m tm_cum_ce_imbalance) (vm_cum_ce old),
            vm_cum_pe = keep (Option.bind m tm_cum_pe_imbalance) (vm_cum_pe old),
            vm_per_strike = ps\<rparr>)\<rparr>)"

definition apply_action ::
  "(string \<Rightarrow> string) \<Rightarrow> vessel_context \<Rightarrow> action \<Rightarrow> memory_store \<Rightarrow> engine \<Rightarrow> pyexc + memory_store \<times> engine"
where
  "apply_action sha16 ctx a mem en =
     (let suppress_sec = get_or (sc_suppress_sec (vc_strategy_config ctx)) 30
      in case ac_kind a of
           REVERSAL_WARN \<Rightarrow>
             Inr (mem\<lparr>me_suppress_until_ts := w_now_ms (en_world en) + suppress_sec * 1000,
                      me_last_action_kind := Some REVERSAL_WARN\<rparr>, en)
         | _ \<Rightarrow>
             (case (if ac_kind a \<in> {ENTER, FLIP, EXIT} then emit_signal sha16 (vc_instrument_id ctx) a en
                    else Inr (None, en)) of
                Inl e \<Rightarrow> Inl e
              | Inr (_, en') \<Rightarrow> Inr (mem\<lparr>me_last_action_kind := Some (ac_kind a)\<rparr>, en')))"

definition ensure_basket :: "vessel_task \<Rightarrow> engine \<Rightarrow> vessel_task \<times> engine" where
  "ensure_basket vt en =
     (let w = en_world en; idx = vc_instrument_id (vt_context vt); now = w_now_ms w;
          ch = get_or (w_chain w idx) []; mem = vt_memory vt
      in case maybe_shift_basket (me_basket mem) (w_spot w idx) (vt_strike_step vt) (vt_basket_size vt) now
                (vt_hysteresis_sec vt) (build_token_lookup ch) of
           None \<Rightarrow> (vt, en)
         | Some tr \<Rightarrow>
             (let nb = bt_new_basket tr;
                  r = fold (\<lambda>t. unregister t idx) (bt_dropped_tokens tr)
                        (fold (\<lambda>t. register t idx) (bt_added_tokens tr) (en_router en))
              in (vt\<lparr>vt_memory := mem\<lparr>me_basket := nb, me_buffers := discard (bt_dropped_tokens tr) (me_buffers mem)\<rparr>,
                     vt_last_basket_check_ms := now\<rparr>,
                  en\<lparr>en_basket := (en_basket en)(idx \<mapsto>
                       (ba_atm nb, map (map_of (ba_ce_tokens nb)) (ba_ce_strikes nb),
                        map (map_of (ba_pe_tokens nb)) (ba_pe_strikes nb))),
                     en_subscriptions_desired := en_subscriptions_desired en \<union> set (bt_added_tokens tr),
                     en_router := reconcile r\<rparr>)))"

text \<open>The state/memory sync: Redis is the source of truth.\<close>

definition clear_held :: "memory_store \<Rightarrow> memory_store" where
  "clear_held mem = mem\<lparr>me_held_side := None, me_held_token := None, me_held_strike := None\<rparr>"

definition load_held :: "side \<Rightarrow> hash \<Rightarrow> memory_store \<Rightarrow> pyexc + memory_store" where
  "load_held sd h mem =
     (let tok = (case Option.bind (h ''instrument_token'') hval_text of None \<Rightarrow> None | Some t \<Rightarrow> if t = [] then None else Some t);
          mem' = mem\<lparr>me_held_side := Some sd, me_held_token := tok\<rparr>
      in case h ''strike'' of
           None \<Rightarrow> Inr (mem'\<lparr>me_held_strike := None\<rparr>)
         | Some v \<Rightarrow>
             if hval_empty v then Inr (mem'\<lparr>me_held_strike := None\<rparr>)
             else (case hval_int v of None \<Rightarrow> Inl ValueError | Some k \<Rightarrow> Inr (mem'\<lparr>me_held_strike := Some k\<rparr>)))"

definition sync_memory :: "world \<Rightarrow> index_name \<Rightarrow> string \<Rightarrow> memory_store \<Rightarrow> pyexc + memory_store" where
  "sync_memory w idx st mem =
     (if st \<in> {''FLAT'', ''COOLDOWN''} then
        Inr (if me_held_side mem \<noteq> None \<or> decode (me_held_token mem) \<noteq> [] then clear_held mem else mem)
      else if st \<in> {''IN_CE'', ''IN_PE''} then
        (let target = (if st = ''IN_CE'' then CE else PE)
         in if me_held_side mem \<noteq> Some target \<or> decode (me_held_token mem) = [] then
              (let pid = decode (v_current_position_id (w_vessel w idx))
               in if pid = [] then Inr mem
                  else load_held target (get_or (w_positions w pid) (\<lambda>_. None)) mem)
            else Inr mem)
      else Inr mem)"

definition reload_config :: "vessel_task \<Rightarrow> engine \<Rightarrow> vessel_task" where
  "reload_config vt en =
     (if vt_config_reload_at vt \<le> w_now_ms (en_world en) then
        (let ctx = reload_vessel_config en (vt_context vt)
         in vt\<lparr>vt_context := ctx,
               vt_memory := (vt_memory vt)\<lparr>me_timing_windows := parse_windows (sc_time_windows (vc_strategy_config ctx))\<rparr>,
               vt_config_reload_at := w_now_ms (en_world en) + 60000\<rparr>)
      else vt)"

definition recheck_basket :: "vessel_task \<Rightarrow> engine \<Rightarrow> vessel_task \<times> engine" where
  "recheck_basket vt en =
     (if 1000 < w_now_ms (en_world en) - vt_last_basket_check_ms vt then ensure_basket vt en else (vt, en))"

definition vessel_snapshot :: "vessel_task \<Rightarrow> engine \<Rightarrow> snapshot" where
  "vessel_snapshot vt en =
     (let w = en_world en; idx = vc_instrument_id (vt_context vt); mem = vt_memory vt
      in build_snapshot idx (ba_atm (me_basket mem)) (ce_pairs (me_basket mem)) (pe_pairs (me_basket mem))
           (get_or (w_chain w idx) []) (w_spot w idx) (get_or (en_spot_ts en idx) 0) (w_now_ms w)
           (me_held_token mem) (me_held_side mem) (me_held_strike mem))"

text \<open>From the snapshot to the applied action; \<open>st\<close> is the state read at the state gate.\<close>

definition decide_and_apply ::
  "(string \<Rightarrow> string) \<Rightarrow> string \<Rightarrow> vessel_task \<Rightarrow> engine \<Rightarrow> pyexc + vessel_task \<times> engine"
where
  "decide_and_apply sha16 st vt en =
     (let ctx = vt_context vt;
          (a, mem) = on_tick (vc_strategy_config ctx) (vc_instrument_config ctx) (w_now_ms (en_world en))
                       (en_now_sod en) (vessel_snapshot vt en) (vt_memory vt);
          en1 = persist_metrics_and_decision (vc_instrument_id ctx) a en
      in if st \<in> {''FLAT'', ''IN_CE'', ''IN_PE''} then
           (case apply_action sha16 ctx a mem en1 of
              Inl e \<Rightarrow> Inl e
            | Inr (mem', en2) \<Rightarrow> Inr (vt\<lparr>vt_memory := mem'\<rparr>, en2))
         else Inr (vt\<lparr>vt_memory := mem\<rparr>, en1))"

text \<open>One pass of the LIVE loop; the boolean says that the session close was reached.\<close>

definition vessel_iter ::
  "(string \<Rightarrow> string) \<Rightarrow> vessel_task \<Rightarrow> engine \<Rightarrow> pyexc + bool \<times> vessel_task \<times> engine"
where
  "vessel_iter sha16 vt en =
     (let idx = vc_instrument_id (vt_context vt)
      in if ''15:30'' \<le> w_now_hhmm (en_world en)
         then Inr (True, vt, en\<lparr>en_phase := (en_phase en)(idx \<mapsto> ''DRAIN'')\<rparr>)
         else if \<not> is_enabled (en_world en) idx then Inr (False, vt, en)
         else
           (let en1 = en\<lparr>en_world := snd (maybe_exit_cooldown idx (en_world en))\<rparr>;
                st = read_state (en_world en1) idx
            in if st = ''HALTED'' then Inr (False, vt, en1)
               else
                 (case sync_memory (en_world en1) idx st (vt_memory vt) of
                    Inl e \<Rightarrow> Inl e
                  | Inr mem \<Rightarrow>
                      (case recheck_basket (reload_config (vt\<lparr>vt_memory := mem\<rparr>) en1) en1 of
                         (vt2, en2) \<Rightarrow>
                           (case decide_and_apply sha16 st vt2 en2 of
                              Inl e \<Rightarrow> Inl e
                            | Inr (vt3, en3) \<Rightarrow> Inr (False, vt3, en3))))))"

fun live_loop ::
  "(string \<Rightarrow> string) \<Rightarrow> (engine \<Rightarrow> engine) list \<Rightarrow> vessel_task \<Rightarrow> engine \<Rightarrow> pyexc + bool \<times> vessel_task \<times> engine"
where
  "live_loop sha16 [] vt en = Inr (False, vt, en)"
| "live_loop sha16 (f # fs) vt en =
     (case vessel_iter sha16 vt (f en) of
        Inl e \<Rightarrow> Inl e
      | Inr (True, r) \<Rightarrow> Inr (True, r)
      | Inr (False, vt', en') \<Rightarrow> live_loop sha16 fs vt' en')"

definition prepare_task :: "vessel_context \<Rightarrow> vessel_task" where
  "prepare_task ctx =
     (let scfg = vc_strategy_config ctx; icfg = vc_instrument_config ctx
      in \<lparr>vt_context = ctx,
          vt_memory = \<lparr>me_buffers = \<lparr>bs_capacity = nat (num_or (sc_ring_size scfg) 50), bs_buffers = (\<lambda>_. None)\<rparr>,
            me_basket = empty_basket, me_timing_windows = parse_windows (sc_time_windows scfg),
            me_last_action_kind = None, me_held_token = None, me_held_strike = None, me_held_side = None,
            me_suppress_until_ts = 0\<rparr>,
          vt_strike_step = get_or (strike_step icfg) 50, vt_basket_size = get_or (basket_size icfg) 5,
          vt_hysteresis_sec = num_or (sc_hysteresis_sec scfg) 5, vt_last_basket_check_ms = 0,
          vt_config_reload_at = 0\<rparr>)"

definition set_phase :: "index_name \<Rightarrow> string \<Rightarrow> engine \<Rightarrow> engine" where
  "set_phase idx ph en = en\<lparr>en_phase := (en_phase en)(idx \<mapsto> ph)\<rparr>"

definition stamp_phase :: "index_name \<Rightarrow> engine \<Rightarrow> engine" where
  "stamp_phase idx en = en\<lparr>en_phase_entered_ts := (en_phase_entered_ts en)(idx \<mapsto> w_now_ms (en_world en))\<rparr>"

text \<open>The wait for \<open>system:flags:ready\<close> and the enable flag; \<open>None\<close> is still waiting, with the
  inputs left over otherwise.\<close>

fun await_ready :: "index_name \<Rightarrow> (engine \<Rightarrow> engine) list \<Rightarrow> engine \<Rightarrow> ((engine \<Rightarrow> engine) list \<times> engine) option" where
  "await_ready idx fs en =
     (if decode (en_system_ready en) = ''true'' \<and> is_enabled (en_world en) idx then Some (fs, en)
      else (case fs of [] \<Rightarrow> None | f # fs' \<Rightarrow> await_ready idx fs' (f en)))"

definition boot_vessel :: "index_name \<Rightarrow> engine \<Rightarrow> engine" where
  "boot_vessel idx en =
     stamp_phase idx (set_phase idx ''BOOT''
       (en\<lparr>en_world := (case set_state idx (read_state (en_world en) idx) (en_world en) of
                          Inl _ \<Rightarrow> en_world en | Inr w \<Rightarrow> w)\<rparr>))"

definition vessel_loop ::
  "(string \<Rightarrow> string) \<Rightarrow> (engine \<Rightarrow> engine) list \<Rightarrow> vessel_context \<Rightarrow> engine \<Rightarrow> pyexc + bool \<times> engine"
where
  "vessel_loop sha16 fs ctx en =
     (let idx = vc_instrument_id ctx; en0 = boot_vessel idx en
      in case await_ready idx fs en0 of
           None \<Rightarrow> Inr (False, foldl (\<lambda>e f. f e) en0 fs)
         | Some (rest, en1) \<Rightarrow>
             (let en2 = stamp_phase idx (set_phase idx ''LIVE'' (set_phase idx ''PRE_OPEN'' en1));
                  (vt, en3) = ensure_basket (prepare_task ctx) en2
              in case live_loop sha16 rest (vt\<lparr>vt_config_reload_at := w_now_ms (en_world en3) + 60000\<rparr>) en3 of
                   Inl e \<Rightarrow> Inl e
                 | Inr (finished, _, en4) \<Rightarrow> Inr (finished, en4)))"

section \<open>Lemmas\<close>

subsection \<open>What a tick may answer\<close>

lemma entry_action_kinds: "ac_kind (entry_action th icfg now ws sd d b m) \<in> {NO_OP, ENTER}"
  by (simp add: entry_action_kind)

lemma on_tick_flat_kinds:
  "is_held mem = None \<Longrightarrow> ac_kind (fst (on_tick scfg icfg now sod s mem)) \<in> {NO_OP, ENTER}"
  using entry_action_kinds
  by (auto simp: on_tick_flat Let_def flat_action_def split: option.split prod.split)

lemma held_action_kinds: "ac_kind (held_action th icfg s mem sd tok l b m) \<in> {HOLD, EXIT, FLIP}"
  by (simp add: held_action_def Let_def split: option.split)

lemma on_tick_held_kinds:
  assumes "is_held mem = Some h"
  shows "ac_kind (fst (on_tick scfg icfg now sod s mem)) \<in> {NO_OP, HOLD, EXIT, FLIP}"
proof -
  obtain sd tok where h: "is_held mem = Some (sd, tok)" using assms by (cases h) simp
  show ?thesis
  proof (cases "List.find (\<lambda>l. sl_token l = tok) (all_legs s)")
    case None
    then show ?thesis using on_tick_held_missing [OF h] by simp
  next
    case (Some l)
    show ?thesis using on_tick_held [OF h Some, of scfg icfg now sod] held_action_kinds by force
  qed
qed

lemma on_tick_memory: "snd (on_tick scfg icfg now sod s mem) = mem\<lparr>me_buffers := me_buffers (snd (on_tick scfg icfg now sod s mem))\<rparr>"
  unfolding on_tick_def Let_def case_prod_unfold by (simp split: option.split)

subsection \<open>Publishing\<close>

text \<open>At most one stream entry, of a valid signal of the vessel that was not published before.\<close>

definition published :: "index_name \<Rightarrow> signal_intent set \<Rightarrow> engine \<Rightarrow> engine \<Rightarrow> bool" where
  "published idx intents en en' \<longleftrightarrow>
     (en_stream en' = en_stream en \<and> en_world en' = en_world en \<or>
      (\<exists>s. en_stream en' = en_stream en @ [stream_fields s] \<and> s_index s = idx \<and> s_intent s \<in> intents \<and>
         signal_valid s \<and> w_signals (en_world en) (s_sig_id s) = None \<and>
         en_world en' = (en_world en)\<lparr>w_signals := (w_signals (en_world en))(s_sig_id s \<mapsto> s)\<rparr>)) \<and>
     en_router en' = en_router en"

lemma published_refl [simp]: "published idx I en en"
  by (simp add: published_def)

lemma publish_signal_published:
  "signal_valid s \<Longrightarrow> s_index s = idx \<Longrightarrow> s_intent s \<in> I \<Longrightarrow> published idx I en (publish_signal s en)"
  by (auto simp: publish_signal_def published_def split: option.split)

lemma build_signal_sel [simp]:
  "s_index (build_signal sha16 idx a intent sd k tok ts) = idx"
  "s_intent (build_signal sha16 idx a intent sd k tok ts) = intent"
  by (simp_all add: build_signal_def Let_def)

lemma emit_signal_published:
  assumes "emit_signal sha16 idx a en = Inr (r, en')" and "\<And>i. kind_to_intent (ac_kind a) = Some i \<Longrightarrow> i \<in> I"
  shows "published idx I en en'"
  using assms unfolding emit_signal_def
  by (auto simp: Let_def intro: publish_signal_published split: option.splits if_splits)

definition intents_of :: "action_kind set \<Rightarrow> signal_intent set" where
  "intents_of ks = {i. \<exists>k \<in> ks. kind_to_intent k = Some i}"

lemma apply_action_published:
  assumes "apply_action sha16 ctx a mem en = Inr (mem', en')" and "ac_kind a \<in> ks"
  shows "published (vc_instrument_id ctx) (intents_of ks) en en'"
proof -
  have i: "i \<in> intents_of ks" if "kind_to_intent (ac_kind a) = Some i" for i
    using that assms(2) by (auto simp: intents_of_def)
  show ?thesis
    using assms(1) unfolding apply_action_def Let_def
    by (cases "ac_kind a") (auto split: sum.splits dest!: emit_signal_published [OF _ i])
qed

lemma persist_metrics_sel [simp]:
  "en_world (persist_metrics_and_decision idx a en) = en_world en"
  "en_stream (persist_metrics_and_decision idx a en) = en_stream en"
  "en_router (persist_metrics_and_decision idx a en) = en_router en"
  by (simp_all add: persist_metrics_and_decision_def Let_def)

lemma published_persist [simp]:
  "published idx I (persist_metrics_and_decision i a en) en' \<longleftrightarrow> published idx I en en'"
  by (simp add: published_def)

lemma decide_and_apply_published:
  assumes "decide_and_apply sha16 st vt en = Inr (vt', en')"
  shows "published (vc_instrument_id (vt_context vt))
     (if st \<notin> {''FLAT'', ''IN_CE'', ''IN_PE''} then {}
      else if is_held (vt_memory vt) = None then {FRESH_ENTRY} else {MANUAL_EXIT, REVERSAL_FLIP}) en en'"
proof -
  let ?mem = "vt_memory vt"
  define a where "a = fst (on_tick (vc_strategy_config (vt_context vt)) (vc_instrument_config (vt_context vt))
    (w_now_ms (en_world en)) (en_now_sod en) (vessel_snapshot vt en) ?mem)"
  define ks where "ks = (if is_held ?mem = None then {NO_OP, ENTER} else {NO_OP, HOLD, EXIT, FLIP})"
  have "ac_kind a \<in> ks"
    unfolding a_def ks_def using on_tick_flat_kinds on_tick_held_kinds by (cases "is_held ?mem") simp_all
  have I: "intents_of ks = (if is_held ?mem = None then {FRESH_ENTRY} else {MANUAL_EXIT, REVERSAL_FLIP})"
    by (auto simp: intents_of_def ks_def kind_to_intent_def)
  note unf = assms [unfolded decide_and_apply_def Let_def case_prod_unfold, folded a_def]
  show ?thesis
  proof (cases "st \<in> {''FLAT'', ''IN_CE'', ''IN_PE''}")
    case True
    then obtain mem' where "apply_action sha16 (vt_context vt) a (snd (on_tick (vc_strategy_config (vt_context vt))
        (vc_instrument_config (vt_context vt)) (w_now_ms (en_world en)) (en_now_sod en) (vessel_snapshot vt en) ?mem))
        (persist_metrics_and_decision (vc_instrument_id (vt_context vt)) a en) = Inr (mem', en')"
      using unf by (simp only: if_True) (auto split: sum.splits)
    from apply_action_published [OF this \<open>ac_kind a \<in> ks\<close>] show ?thesis using True by (simp add: I)
  next
    case False
    then show ?thesis using unf by (auto simp: published_def)
  qed
qed

subsection \<open>State and memory\<close>

lemma read_state_valid: "read_state w idx \<in> {''FLAT'', ''IN_CE'', ''IN_PE'', ''COOLDOWN'', ''HALTED''}"
  by (auto simp: read_state_def VALID_STATES_def split: option.split)

text \<open>The vessel's open position can be read back: its id, its hash and its token.\<close>

definition position_known :: "world \<Rightarrow> index_name \<Rightarrow> bool" where
  "position_known w idx \<longleftrightarrow>
     (let pid = decode (v_current_position_id (w_vessel w idx))
      in pid \<noteq> [] \<and> (\<exists>h tok. w_positions w pid = Some h \<and>
           Option.bind (h ''instrument_token'') hval_text = Some tok \<and> tok \<noteq> []))"

lemma is_held_None: "is_held mem = None \<longleftrightarrow> me_held_side mem = None \<or> decode (me_held_token mem) = []"
  by (simp add: is_held_def decode_def split: option.split)

lemma sync_memory_flat: "sync_memory w idx ''FLAT'' mem = Inr mem' \<Longrightarrow> is_held mem' = None"
  by (auto simp: sync_memory_def is_held_None clear_held_def split: if_splits)

lemma load_held_known:
  "load_held sd h mem = Inr mem' \<Longrightarrow> Option.bind (h ''instrument_token'') hval_text = Some tok \<Longrightarrow> tok \<noteq> []
   \<Longrightarrow> is_held mem' = Some (sd, tok)"
  by (auto simp: load_held_def Let_def is_held_def split: option.splits if_splits)

lemma sync_memory_in:
  assumes "sync_memory w idx st mem = Inr mem'" and "st \<in> {''IN_CE'', ''IN_PE''}" and "position_known w idx"
  shows "\<exists>tok. is_held mem' = Some (if st = ''IN_CE'' then CE else PE, tok)"
proof -
  let ?sd = "if st = ''IN_CE'' then CE else PE" and ?pid = "decode (v_current_position_id (w_vessel w idx))"
  obtain h tok where k: "?pid \<noteq> []" "w_positions w ?pid = Some h"
    "Option.bind (h ''instrument_token'') hval_text = Some tok" "tok \<noteq> []"
    using assms(3) by (auto simp: position_known_def Let_def)
  show ?thesis
  proof (cases "me_held_side mem \<noteq> Some ?sd \<or> decode (me_held_token mem) = []")
    case True
    then have "load_held ?sd h mem = Inr mem'"
      using assms(1,2) k by (auto simp: sync_memory_def Let_def get_or_def)
    from load_held_known [OF this k(3,4)] show ?thesis by blast
  next
    case False
    then have "mem' = mem" using assms(1,2) by (auto simp: sync_memory_def Let_def)
    with False show ?thesis by (auto simp: is_held_def decode_def split: option.splits)
  qed
qed

lemma maybe_exit_cooldown_snd:
  "snd (maybe_exit_cooldown idx w) =
     (if read_state w idx = ''COOLDOWN'' \<and> get_or (v_cooldown_until_ts (w_vessel w idx)) 0 \<le> max 0 (w_now_ms w)
      then upd_vessel idx (\<lambda>v. v\<lparr>v_state := Some ''FLAT''\<rparr>) w else w)"
  by (auto simp: maybe_exit_cooldown_def Let_def)

lemma maybe_exit_cooldown_signals [simp]: "w_signals (snd (maybe_exit_cooldown idx w)) = w_signals w"
  by (simp add: maybe_exit_cooldown_def Let_def upd_vessel_def)

lemma ensure_basket_sel [simp]:
  "en_world (snd (ensure_basket vt en)) = en_world en" "en_stream (snd (ensure_basket vt en)) = en_stream en"
  "vt_context (fst (ensure_basket vt en)) = vt_context vt"
  "is_held (vt_memory (fst (ensure_basket vt en))) = is_held (vt_memory vt)"
  by (auto simp: ensure_basket_def Let_def is_held_def split: option.split)

lemma recheck_basket_sel [simp]:
  "en_world (snd (recheck_basket vt en)) = en_world en" "en_stream (snd (recheck_basket vt en)) = en_stream en"
  "vt_context (fst (recheck_basket vt en)) = vt_context vt"
  "is_held (vt_memory (fst (recheck_basket vt en))) = is_held (vt_memory vt)"
  by (simp_all add: recheck_basket_def)

lemma is_held_timing [simp]: "is_held (mem\<lparr>me_timing_windows := ws\<rparr>) = is_held mem"
  by (simp add: is_held_def)

lemma reload_config_sel [simp]:
  "vc_instrument_id (vt_context (reload_config vt en)) = vc_instrument_id (vt_context vt)"
  "is_held (vt_memory (reload_config vt en)) = is_held (vt_memory vt)"
  "me_basket (vt_memory (reload_config vt en)) = me_basket (vt_memory vt)"
  unfolding reload_config_def Let_def by (simp_all add: reload_vessel_config_def load_context_def)

text \<open>A pass that gets as far as the decision.\<close>

lemma vessel_iter_active:
  assumes "vessel_iter sha16 vt en = Inr (fin, vt', en')"
  obtains (close) "fin" "vt' = vt" "en' = en\<lparr>en_phase := (en_phase en)(vc_instrument_id (vt_context vt) \<mapsto> ''DRAIN'')\<rparr>"
    "''15:30'' \<le> w_now_hhmm (en_world en)"
  | (idle) "\<not> fin" "vt' = vt" "en' = en"
  | (halted) "\<not> fin" "vt' = vt"
      "en' = en\<lparr>en_world := snd (maybe_exit_cooldown (vc_instrument_id (vt_context vt)) (en_world en))\<rparr>"
  | (tick) mem vt2 en2 where "\<not> fin" "w_now_hhmm (en_world en) < ''15:30''"
      "is_enabled (en_world en) (vc_instrument_id (vt_context vt))"
      "sync_memory (snd (maybe_exit_cooldown (vc_instrument_id (vt_context vt)) (en_world en)))
         (vc_instrument_id (vt_context vt))
         (read_state (snd (maybe_exit_cooldown (vc_instrument_id (vt_context vt)) (en_world en)))
            (vc_instrument_id (vt_context vt))) (vt_memory vt) = Inr mem"
      "recheck_basket (reload_config (vt\<lparr>vt_memory := mem\<rparr>)
          (en\<lparr>en_world := snd (maybe_exit_cooldown (vc_instrument_id (vt_context vt)) (en_world en))\<rparr>))
          (en\<lparr>en_world := snd (maybe_exit_cooldown (vc_instrument_id (vt_context vt)) (en_world en))\<rparr>) = (vt2, en2)"
      "decide_and_apply sha16 (read_state (snd (maybe_exit_cooldown (vc_instrument_id (vt_context vt)) (en_world en)))
            (vc_instrument_id (vt_context vt))) vt2 en2 = Inr (vt', en')"
  using assms unfolding vessel_iter_def Let_def
  by (fastforce split: if_splits sum.splits prod.splits simp: not_le)

subsection \<open>Routing\<close>

lemma register_routes: "v \<in> set (ro_routes (register t u r) x) \<longleftrightarrow> v \<in> set (ro_routes r x) \<or> (x = t \<and> v = u)"
  by (auto simp: register_def)

lemma register_distinct: "distinct (ro_routes r x) \<Longrightarrow> distinct (ro_routes (register t u r) x)"
  by (auto simp add: register_def)

lemma unregister_routes:
  "distinct (ro_routes r t) \<Longrightarrow>
   v \<in> set (ro_routes (unregister t u r) x) \<longleftrightarrow> v \<in> set (ro_routes r x) \<and> \<not> (x = t \<and> v = u)"
  by (auto simp: unregister_def set_remove1_eq)

lemma unregister_distinct: "distinct (ro_routes r x) \<Longrightarrow> distinct (ro_routes (unregister t u r) x)"
  by (auto simp add: unregister_def)

lemma fold_register:
  "\<forall>x. distinct (ro_routes r x) \<Longrightarrow>
   (\<forall>x. distinct (ro_routes (fold (\<lambda>t. register t u) ts r) x)) \<and>
   (v \<in> set (ro_routes (fold (\<lambda>t. register t u) ts r) x) \<longleftrightarrow> v \<in> set (ro_routes r x) \<or> x \<in> set ts \<and> v = u)"
  by (induction ts arbitrary: r) (auto simp: register_routes register_distinct)

lemma fold_unregister:
  "\<forall>x. distinct (ro_routes r x) \<Longrightarrow>
   (\<forall>x. distinct (ro_routes (fold (\<lambda>t. unregister t u) ts r) x)) \<and>
   (v \<in> set (ro_routes (fold (\<lambda>t. unregister t u) ts r) x) \<longleftrightarrow> v \<in> set (ro_routes r x) \<and> \<not> (x \<in> set ts \<and> v = u))"
  by (induction ts arbitrary: r) (auto simp: unregister_routes unregister_distinct)

lemma fold_routes_pubsub [simp]:
  "ro_pubsub (fold (\<lambda>t. register t u) ts r) = ro_pubsub r" "ro_pubsub (fold (\<lambda>t. unregister t u) ts r) = ro_pubsub r"
  by (induction ts arbitrary: r) (simp_all add: register_def unregister_def)

lemma reconcile_sel [simp]:
  "ro_routes (reconcile r) = ro_routes r" "ro_pubsub (reconcile r) = ro_pubsub r"
  "ro_pubsub r \<Longrightarrow> ro_subscribed (reconcile r) = desired_channels r"
  by (auto simp: reconcile_def Let_def)

text \<open>The router invariant of a vessel: it listens to exactly its basket's tokens, once each.\<close>

definition routes_ok :: "vessel_task \<Rightarrow> engine \<Rightarrow> bool" where
  "routes_ok vt en \<longleftrightarrow>
     ro_pubsub (en_router en) \<and> ro_subscribed (en_router en) = desired_channels (en_router en) \<and>
     (\<forall>t. distinct (ro_routes (en_router en) t) \<and>
        (vc_instrument_id (vt_context vt) \<in> set (ro_routes (en_router en) t) \<longleftrightarrow>
         t \<in> set (all_tokens (me_basket (vt_memory vt)))))"

lemma maybe_shift_tokens:
  assumes "maybe_shift_basket cur sp step half now hyst lookup = Some tr"
  shows "x \<in> set (all_tokens (bt_new_basket tr)) \<longleftrightarrow>
    (x \<in> set (all_tokens cur) \<or> x \<in> set (bt_added_tokens tr)) \<and> x \<notin> set (bt_dropped_tokens tr)"
proof -
  obtain s where "sp = Some s" using assms by (cases sp) (simp_all add: maybe_shift_basket_def)
  from maybe_shift_Some(5,6) [OF assms [unfolded this]] show ?thesis by auto
qed

lemma ensure_basket_routes:
  assumes "routes_ok vt en"
  shows "routes_ok (fst (ensure_basket vt en)) (snd (ensure_basket vt en))"
proof -
  let ?w = "en_world en" and ?idx = "vc_instrument_id (vt_context vt)"
  show ?thesis
  proof (cases "maybe_shift_basket (me_basket (vt_memory vt)) (w_spot ?w ?idx) (vt_strike_step vt) (vt_basket_size vt)
      (w_now_ms ?w) (vt_hysteresis_sec vt) (build_token_lookup (get_or (w_chain ?w ?idx) []))")
    case None
    then show ?thesis using assms by (simp add: ensure_basket_def Let_def)
  next
    case (Some tr)
    let ?r1 = "fold (\<lambda>t. register t ?idx) (bt_added_tokens tr) (en_router en)"
    let ?r2 = "fold (\<lambda>t. unregister t ?idx) (bt_dropped_tokens tr) ?r1"
    have d: "\<forall>x. distinct (ro_routes (en_router en) x)" using assms by (simp add: routes_ok_def)
    have r: "(\<forall>x. distinct (ro_routes ?r2 x)) \<and> (?idx \<in> set (ro_routes ?r2 x) \<longleftrightarrow>
        (?idx \<in> set (ro_routes (en_router en) x) \<or> x \<in> set (bt_added_tokens tr)) \<and> x \<notin> set (bt_dropped_tokens tr))" for x
      using fold_register [OF d, of ?idx "bt_added_tokens tr" ?idx x]
        fold_unregister [of ?r1 ?idx "bt_dropped_tokens tr" ?idx x] by auto
    show ?thesis
      using assms r maybe_shift_tokens [OF Some]
      by (simp add: ensure_basket_def Let_def Some routes_ok_def desired_channels_def)
  qed
qed

text \<open>An invariant of the LIVE loop, under whatever the other processes do between two passes.\<close>

locale live_invariant =
  fixes inv :: "vessel_task \<Rightarrow> engine \<Rightarrow> bool"
    and env :: "index_name \<Rightarrow> (engine \<Rightarrow> engine) \<Rightarrow> bool"
    and sha16 :: "string \<Rightarrow> string"
  assumes env_step: "inv vt en \<Longrightarrow> env (vc_instrument_id (vt_context vt)) f \<Longrightarrow> inv vt (f en)"
    and iter_step: "inv vt en \<Longrightarrow> vessel_iter sha16 vt en = Inr (fin, vt', en') \<Longrightarrow>
      inv vt' en' \<and> vc_instrument_id (vt_context vt') = vc_instrument_id (vt_context vt)"
begin

lemma live_loop_inv:
  "inv vt en \<Longrightarrow> \<forall>f \<in> set fs. env (vc_instrument_id (vt_context vt)) f \<Longrightarrow>
   live_loop sha16 fs vt en = Inr (fin, vt', en') \<Longrightarrow>
   inv vt' en' \<and> vc_instrument_id (vt_context vt') = vc_instrument_id (vt_context vt)"
proof (induction fs arbitrary: vt en)
  case (Cons f fs)
  have i: "inv vt (f en)" using Cons.prems(1,2) env_step by simp
  from Cons.prems(3) obtain b vt1 en1 where v: "vessel_iter sha16 vt (f en) = Inr (b, vt1, en1)"
    by (auto split: sum.splits)
  note s = iter_step [OF i v]
  show ?case
    using Cons.IH [of vt1 en1] Cons.prems(2,3) v s by (cases b) auto
qed simp

end

lemma apply_action_memory:
  "apply_action sha16 ctx a mem en = Inr (mem', en') \<Longrightarrow> me_basket mem' = me_basket mem"
  by (auto simp: apply_action_def Let_def split: action_kind.splits sum.splits if_splits)

lemma decide_and_apply_routes:
  assumes "decide_and_apply sha16 st vt en = Inr (vt', en')"
  shows "me_basket (vt_memory vt') = me_basket (vt_memory vt) \<and> vt_context vt' = vt_context vt \<and>
    en_router en' = en_router en"
proof -
  have b: "me_basket (snd (on_tick sc ic n sod s m)) = me_basket m" for sc ic n sod s m
    by (subst on_tick_memory) simp
  have r: "en_router en' = en_router en"
    using decide_and_apply_published [OF assms] unfolding published_def by blast
  show ?thesis
    using assms unfolding decide_and_apply_def Let_def case_prod_unfold
    by (auto simp: b r split: if_splits sum.splits dest!: apply_action_memory)
qed

lemma sync_memory_basket: "sync_memory w idx st mem = Inr mem' \<Longrightarrow> me_basket mem' = me_basket mem"
  by (auto simp: sync_memory_def load_held_def clear_held_def Let_def split: if_splits option.splits)

lemma routes_ok_cong:
  "routes_ok vt en \<Longrightarrow> me_basket (vt_memory vt') = me_basket (vt_memory vt) \<Longrightarrow>
   vc_instrument_id (vt_context vt') = vc_instrument_id (vt_context vt) \<Longrightarrow> en_router en' = en_router en \<Longrightarrow>
   routes_ok vt' en'"
  by (simp add: routes_ok_def)

lemma vessel_iter_routes:
  assumes "routes_ok vt en" and "vessel_iter sha16 vt en = Inr (fin, vt', en')"
  shows "routes_ok vt' en' \<and> vc_instrument_id (vt_context vt') = vc_instrument_id (vt_context vt)"
  using assms(2)
proof (cases rule: vessel_iter_active)
  case (tick mem vt2 en2)
  let ?en1 = "en\<lparr>en_world := snd (maybe_exit_cooldown (vc_instrument_id (vt_context vt)) (en_world en))\<rparr>"
  let ?vt1 = "reload_config (vt\<lparr>vt_memory := mem\<rparr>) ?en1"
  have ok1: "routes_ok ?vt1 ?en1" by (rule routes_ok_cong [OF assms(1)]) (simp_all add: sync_memory_basket [OF tick(4)])
  have "routes_ok vt2 en2"
    using ensure_basket_routes [OF ok1] ok1 tick(5) by (auto simp: recheck_basket_def split: if_splits)
  moreover have "vc_instrument_id (vt_context vt2) = vc_instrument_id (vt_context vt)"
    using recheck_basket_sel(3) [of ?vt1 ?en1] unfolding tick(5) by simp
  ultimately show ?thesis
    using decide_and_apply_routes [OF tick(6)] routes_ok_cong [of vt2 en2 vt' en'] by simp
qed (use assms(1) in \<open>auto intro: routes_ok_cong\<close>)

text \<open>What another process may do to the router: register or unregister its own vessels.\<close>

definition leaves_routes :: "index_name \<Rightarrow> (engine \<Rightarrow> engine) \<Rightarrow> bool" where
  "leaves_routes idx f \<longleftrightarrow>
     (\<forall>en. ro_pubsub (en_router en) \<longrightarrow> (\<forall>t. distinct (ro_routes (en_router en) t)) \<longrightarrow>
        ro_subscribed (en_router en) = desired_channels (en_router en) \<longrightarrow>
        ro_pubsub (en_router (f en)) \<and> (\<forall>t. distinct (ro_routes (en_router (f en)) t)) \<and>
        ro_subscribed (en_router (f en)) = desired_channels (en_router (f en)) \<and>
        (\<forall>t. idx \<in> set (ro_routes (en_router (f en)) t) \<longleftrightarrow> idx \<in> set (ro_routes (en_router en) t)))"

lemma routes_ok_env: "routes_ok vt en \<Longrightarrow> leaves_routes (vc_instrument_id (vt_context vt)) f \<Longrightarrow> routes_ok vt (f en)"
  by (auto simp: routes_ok_def leaves_routes_def)

interpretation routing: live_invariant routes_ok leaves_routes sha16 for sha16
  by unfold_locales (fact routes_ok_env, fact vessel_iter_routes)

section \<open>Properties\<close>

text \<open>Claim C34.  The state discipline of a vessel.  One pass of the LIVE loop publishes at most one
  signal, for its own index, valid and never published before, only before the session close
  and while the operator has the vessel enabled.  A fresh entry goes out only in state FLAT (or
  when the store says a position is open but its record cannot be read), an exit or a flip only
  in IN_CE or IN_PE, and nothing in COOLDOWN or HALTED.  The pass writes no vessel state except
  the step from COOLDOWN to FLAT once the timer has run out.\<close>

theorem vessel_iter_discipline:
  assumes "vessel_iter sha16 vt en = Inr (fin, vt', en')" and "idx = vc_instrument_id (vt_context vt)"
    and "w1 = (if read_state (en_world en) idx = ''COOLDOWN'' \<and>
                  get_or (v_cooldown_until_ts (w_vessel (en_world en) idx)) 0 \<le> max 0 (w_now_ms (en_world en))
               then upd_vessel idx (\<lambda>v. v\<lparr>v_state := Some ''FLAT''\<rparr>) (en_world en) else en_world en)"
  shows "(w_vessel (en_world en') = w_vessel (en_world en) \<or> w_vessel (en_world en') = w_vessel w1) \<and>
    (en_stream en' = en_stream en \<or>
     (\<exists>s. en_stream en' = en_stream en @ [stream_fields s] \<and> s_index s = idx \<and> signal_valid s \<and>
        w_signals (en_world en) (s_sig_id s) = None \<and> w_signals (en_world en') (s_sig_id s) = Some s \<and>
        is_enabled (en_world en) idx \<and> w_now_hhmm (en_world en) < ''15:30'' \<and>
        (case s_intent s of
           FRESH_ENTRY \<Rightarrow> read_state w1 idx = ''FLAT'' \<or>
             read_state w1 idx \<in> {''IN_CE'', ''IN_PE''} \<and> \<not> position_known w1 idx
         | _ \<Rightarrow> read_state w1 idx \<in> {''IN_CE'', ''IN_PE''})))"
proof -
  have w1: "snd (maybe_exit_cooldown idx (en_world en)) = w1" by (simp add: maybe_exit_cooldown_snd assms(3))
  have sig: "w_signals w1 = w_signals (en_world en)" unfolding w1 [symmetric] by simp
  from assms(1) show ?thesis
  proof (cases rule: vessel_iter_active)
    case (tick mem vt2 en2)
    note t = tick [folded assms(2), unfolded w1]
    let ?st = "read_state w1 idx"
    have e2: "en_world en2 = w1" "en_stream en2 = en_stream en" "is_held (vt_memory vt2) = is_held mem"
      "vc_instrument_id (vt_context vt2) = idx"
      using recheck_basket_sel [of "reload_config (vt\<lparr>vt_memory := mem\<rparr>) (en\<lparr>en_world := w1\<rparr>)" "en\<lparr>en_world := w1\<rparr>"]
      unfolding t(5) by (simp_all add: assms(2))
    define I where "I = (if ?st \<notin> {''FLAT'', ''IN_CE'', ''IN_PE''} then {}
      else if is_held mem = None then {FRESH_ENTRY} else {MANUAL_EXIT, REVERSAL_FLIP})"
    have p: "published idx I en2 en'" using decide_and_apply_published [OF t(6)] unfolding e2 I_def .
    have fresh: "?st = ''FLAT'' \<or> ?st \<in> {''IN_CE'', ''IN_PE''} \<and> \<not> position_known w1 idx" if "FRESH_ENTRY \<in> I"
      using that sync_memory_in [OF t(4)] unfolding I_def by (auto split: if_splits)
    have other: "?st \<in> {''IN_CE'', ''IN_PE''}" if "i \<in> I" "i \<noteq> FRESH_ENTRY" for i
      using that sync_memory_flat [of w1 idx "vt_memory vt" mem] t(4) unfolding I_def by (auto split: if_splits)
    have st: "(case s_intent s of
           FRESH_ENTRY \<Rightarrow> ?st = ''FLAT'' \<or> ?st \<in> {''IN_CE'', ''IN_PE''} \<and> \<not> position_known w1 idx
         | _ \<Rightarrow> ?st \<in> {''IN_CE'', ''IN_PE''})" if "s_intent s \<in> I" for s
      using that fresh other by (cases "s_intent s") auto
    from p consider "en_stream en' = en_stream en" "en_world en' = w1"
      | s where "en_stream en' = en_stream en @ [stream_fields s]" "s_index s = idx" "s_intent s \<in> I" "signal_valid s"
          "w_signals (en_world en) (s_sig_id s) = None"
          "en_world en' = w1\<lparr>w_signals := (w_signals (en_world en))(s_sig_id s \<mapsto> s)\<rparr>"
      unfolding published_def e2 sig by blast
    then show ?thesis
    proof cases
      case (2 s)
      with st [of s] t(2,3) show ?thesis by (intro conjI disjI2 exI [of _ s]) simp_all
    qed simp
  qed (simp_all add: assms(2) w1 [unfolded assms(2)])
qed

definition sample_engine :: engine where
  "sample_engine =
     \<lparr>en_world = upd_vessel ''nifty50'' (\<lambda>v. v\<lparr>v_state := Some ''COOLDOWN'', v_cooldown_until_ts := Some 900\<rparr>)
        (boot_world\<lparr>w_now_ms := 1000\<rparr>),
      en_now_sod = 36000, en_system_ready = Some ''true'', en_registry = [], en_strategy_config = (\<lambda>_. None),
      en_spot_ts = (\<lambda>_. None), en_phase = (\<lambda>_. None), en_phase_entered_ts = (\<lambda>_. None), en_basket = (\<lambda>_. None),
      en_metrics = (\<lambda>_. \<lparr>vm_last_decision = None, vm_last_decision_ts = None, vm_net_pressure = None,
        vm_cum_ce = None, vm_cum_pe = None, vm_per_strike = None\<rparr>),
      en_subscriptions_desired = {}, en_signals_active = {}, en_stream = [], en_signals_counter = 0,
      en_router = \<lparr>ro_routes = (\<lambda>_. []), ro_subscribed = {}, ro_pubsub = True\<rparr>\<rparr>"

definition sample_task :: vessel_task where
  "sample_task = (prepare_task (load_context sample_engine ''nifty50''))\<lparr>vt_config_reload_at := 60000\<rparr>"

lemmas sample_vessel_defs = sample_engine_def sample_task_def prepare_task_def load_context_def boot_world_def
  upd_vessel_def empty_strategy_config_def empty_index_config_def empty_basket_def parse_windows_def

lemma sample_iter: "\<exists>vt' en'. vessel_iter id sample_task sample_engine = Inr (False, vt', en')"
proof -
  let ?w = "snd (maybe_exit_cooldown ''nifty50'' (en_world sample_engine))"
  let ?en = "sample_engine\<lparr>en_world := ?w\<rparr>"
  have en: "is_enabled (en_world sample_engine) ''nifty50''" "\<not> ''15:30'' \<le> w_now_hhmm (en_world sample_engine)"
    by (simp_all add: is_enabled_def py_lower_def lower_char_def decode_def sample_vessel_defs less_eq_char_def)
  have st: "read_state ?w ''nifty50'' = ''FLAT''"
    by (simp add: maybe_exit_cooldown_snd read_state_def VALID_STATES_def sample_engine_def boot_world_def get_or_def)
  have now: "w_now_ms ?w = 1000"
    by (simp add: maybe_exit_cooldown_snd sample_engine_def boot_world_def)
  have mem: "is_held (vt_memory sample_task) = None" "sync_memory ?w ''nifty50'' ''FLAT'' (vt_memory sample_task) = Inr (vt_memory sample_task)"
    by (simp_all add: is_held_def sync_memory_def decode_def sample_task_def prepare_task_def Let_def)
  have task: "recheck_basket (reload_config sample_task ?en) ?en = (sample_task, ?en)"
    "vc_instrument_id (vt_context sample_task) = ''nifty50''"
    by (simp_all add: recheck_basket_def reload_config_def now) (simp_all add: sample_task_def prepare_task_def load_context_def Let_def)
  have legs: "snapshot_pressure (vessel_snapshot sample_task ?en) = None"
    by (simp add: snapshot_pressure_def vessel_snapshot_def build_snapshot_def ce_pairs_def pe_pairs_def token_pairs_def
        cumulative_imbalance_def sum_or_none_def net_pressure_def sample_task_def prepare_task_def empty_basket_def Let_def)
  define a where "a = fst (on_tick (vc_strategy_config (vt_context sample_task)) (vc_instrument_config (vt_context sample_task))
      (w_now_ms (en_world ?en)) (en_now_sod ?en) (vessel_snapshot sample_task ?en) (vt_memory sample_task))"
  have "ac_kind a = NO_OP"
    unfolding a_def on_tick_flat [OF mem(1)] Let_def flat_action_def legs by (simp add: gate1_direction_def gate_fail_def)
  then have "\<exists>vt' en'. decide_and_apply id ''FLAT'' sample_task ?en = Inr (vt', en')"
    unfolding decide_and_apply_def Let_def case_prod_unfold a_def [symmetric] by (simp add: apply_action_def)
  then show ?thesis
    using en unfolding vessel_iter_def Let_def task(2) by (auto simp: st mem(2) task(1))
qed

theorem vessel_iter_discipline_witness:
  "\<exists>vt' en'. vessel_iter id sample_task sample_engine = Inr (False, vt', en') \<and>
     (en_stream en' = [] \<or> (\<exists>s. en_stream en' = [stream_fields s] \<and> s_intent s = FRESH_ENTRY))"
proof -
  obtain vt' en' where v: "vessel_iter id sample_task sample_engine = Inr (False, vt', en')" using sample_iter by blast
  have idx: "''nifty50'' = vc_instrument_id (vt_context sample_task)"
    by (simp add: sample_task_def prepare_task_def load_context_def Let_def)
  have cool: "read_state (en_world sample_engine) ''nifty50'' = ''COOLDOWN'' \<and>
      get_or (v_cooldown_until_ts (w_vessel (en_world sample_engine) ''nifty50'')) 0 \<le> max 0 (w_now_ms (en_world sample_engine))"
    "en_stream sample_engine = []"
    by (simp_all add: read_state_def VALID_STATES_def sample_engine_def boot_world_def get_or_def)
  have st: "read_state (upd_vessel ''nifty50'' (\<lambda>v. v\<lparr>v_state := Some ''FLAT''\<rparr>) (en_world sample_engine)) ''nifty50'' = ''FLAT''"
    by (simp add: read_state_def VALID_STATES_def)
  have "en_stream en' = [] \<or> (\<exists>s. en_stream en' = [stream_fields s] \<and> s_intent s = FRESH_ENTRY)"
  proof -
    have "s_intent s = FRESH_ENTRY" if "case s_intent s of FRESH_ENTRY \<Rightarrow> P | _ \<Rightarrow> ''FLAT'' \<in> {''IN_CE'', ''IN_PE''}" for s P
      using that by (cases "s_intent s") simp_all
    with vessel_iter_discipline [OF v idx refl] show ?thesis unfolding cool(2) if_P [OF cool(1)] st by auto
  qed
  with v show ?thesis by blast
qed

text \<open>Claim C35.  A vessel is woken by exactly the ticks of its basket.  Whatever the other
  processes do between the passes, as long as they touch only their own routes, after any run of
  the LIVE loop a notification for a token reaches the vessel if and only if the token is in its
  current basket, and it is woken once.\<close>

theorem vessel_woken_by_basket:
  assumes "routes_ok vt en" and "idx = vc_instrument_id (vt_context vt)" and "\<forall>f \<in> set fs. leaves_routes idx f"
    and "live_loop sha16 fs vt en = Inr (fin, vt', en')"
  shows "count_list (route_message (en_router en') tok) idx =
    (if tok \<in> set (all_tokens (me_basket (vt_memory vt'))) then 1 else 0)"
proof -
  have ok: "routes_ok vt' en'" "vc_instrument_id (vt_context vt') = idx"
    using routing.live_loop_inv [OF assms(1) _ assms(4)] assms(2,3) by simp_all
  have "route_message (en_router en') tok = ro_routes (en_router en') tok"
    using ok by (simp add: route_message_def routes_ok_def desired_channels_def)
  with ok show ?thesis by (simp add: routes_ok_def distinct_count_list)
qed

lemma sample_routes_ok: "routes_ok sample_task sample_engine"
  by (simp add: routes_ok_def desired_channels_def sample_task_def prepare_task_def sample_engine_def empty_basket_def
      all_tokens_def Let_def)

theorem vessel_woken_by_basket_witness:
  "\<exists>vt' en'. live_loop id [id] sample_task sample_engine = Inr (False, vt', en') \<and>
     count_list (route_message (en_router en') ''t'') ''nifty50'' =
       (if ''t'' \<in> set (all_tokens (me_basket (vt_memory vt'))) then 1 else 0)"
proof -
  obtain vt' en' where "vessel_iter id sample_task sample_engine = Inr (False, vt', en')" using sample_iter by blast
  then have l: "live_loop id [id] sample_task sample_engine = Inr (False, vt', en')" by simp
  have idx: "''nifty50'' = vc_instrument_id (vt_context sample_task)"
    by (simp add: sample_task_def prepare_task_def load_context_def Let_def)
  have "\<forall>f \<in> set [id]. leaves_routes ''nifty50'' f" by (simp add: leaves_routes_def)
  from vessel_woken_by_basket [OF sample_routes_ok idx this l] l show ?thesis by blast
qed

text \<open>A vessel always reaches the drain.  Once the clock shows the session close at some
  wake-up, the LIVE loop does not keep running: it ends, in phase DRAIN unless an exception
  ended the task before.\<close>

theorem vessel_drains_at_close:
  assumes "f \<in> set fs" and "\<And>en. ''15:30'' \<le> w_now_hhmm (en_world (f en))"
  shows "(\<exists>e. live_loop sha16 fs vt en = Inl e) \<or>
    (\<exists>vt' en'. live_loop sha16 fs vt en = Inr (True, vt', en') \<and>
       en_phase en' (vc_instrument_id (vt_context vt')) = Some ''DRAIN'')"
  using assms(1)
proof (induction fs arbitrary: vt en)
  case (Cons g fs)
  show ?case
  proof (cases "vessel_iter sha16 vt (g en)")
    case (Inr r)
    obtain b vt1 en1 where r: "r = (b, vt1, en1)" by (cases r)
    show ?thesis
    proof (cases b)
      case True
      from Inr r have v: "vessel_iter sha16 vt (g en) = Inr (b, vt1, en1)" by simp
      then have "en_phase en1 (vc_instrument_id (vt_context vt1)) = Some ''DRAIN''"
        by (cases rule: vessel_iter_active) (use True in simp_all)
      then show ?thesis using v True by simp
    next
      case False
      then have "g \<noteq> f" using assms(2) Inr r by (auto simp: vessel_iter_def Let_def)
      then show ?thesis using Cons False Inr r by simp
    qed
  qed simp
qed simp

theorem vessel_drains_at_close_witness:
  "(\<exists>e. live_loop id [\<lambda>en. en\<lparr>en_world := (en_world en)\<lparr>w_now_hhmm := ''15:31''\<rparr>\<rparr>] sample_task sample_engine = Inl e) \<or>
   (\<exists>vt' en'. live_loop id [\<lambda>en. en\<lparr>en_world := (en_world en)\<lparr>w_now_hhmm := ''15:31''\<rparr>\<rparr>] sample_task sample_engine
      = Inr (True, vt', en') \<and> en_phase en' (vc_instrument_id (vt_context vt')) = Some ''DRAIN'')"
  by (rule vessel_drains_at_close [of "\<lambda>en. en\<lparr>en_world := (en_world en)\<lparr>w_now_hhmm := ''15:31''\<rparr>\<rparr>"])
     (simp_all add: less_eq_char_def)

end
