(* ===== verification/Dispatcher.thy ===== *)
theory Dispatcher
  imports Vessel Worker
begin

text \<open>
  \<open>order_exec/dispatcher.py\<close>: from the signal stream to the worker queue.  A stream entry is the
  field list the publisher wrote; \<open>parse_dt\<close> stands for pydantic's datetime parser.  The loop runs
  over the batches XREADGROUP delivers, \<open>None\<close> being a failed or empty read; an exception inside
  the batch ends the loop (\<open>Inl\<close>).
\<close>

section \<open>Model\<close>

type_synonym payload = "string \<Rightarrow> hval option"

definition none_text :: "hval \<Rightarrow> bool" where
  "none_text v = (case v of HText s \<Rightarrow> py_lower s \<in> {''none'', ''null'', []} | _ \<Rightarrow> False)"

definition opt_float :: "payload \<Rightarrow> string \<Rightarrow> rat option" where
  "opt_float p k =
     (case p k of None \<Rightarrow> None | Some v \<Rightarrow> if hval_empty v \<or> none_text v then None else hval_float v)"

definition opt_int :: "payload \<Rightarrow> string \<Rightarrow> int option" where
  "opt_int p k =
     (case p k of None \<Rightarrow> None | Some v \<Rightarrow> if hval_empty v \<or> none_text v then None else map_option py_trunc (hval_float v))"

definition opt_dict :: "payload \<Rightarrow> string \<Rightarrow> (string \<times> int) list" where
  "opt_dict p k = (case p k of Some (HMap m) \<Rightarrow> m | _ \<Rightarrow> [])"

definition text_field :: "payload \<Rightarrow> string \<Rightarrow> string option" where
  "text_field p k = Option.bind (p k) hval_text"

definition payload_instrument :: "payload \<Rightarrow> index_name" where
  "payload_instrument p = str_or (text_field p ''instrument_id'') (get_or (text_field p ''index'') ''nifty50'')"

text \<open>\<open>None\<close> is the warning branch: a missing key, a ValueError or a validation error.\<close>

definition signal_from_payload :: "(hval \<Rightarrow> int option) \<Rightarrow> int \<Rightarrow> payload \<Rightarrow> signal option" where
  "signal_from_payload parse_dt now p =
     Option.bind (text_field p ''sig_id'') (\<lambda>sid.
     Option.bind (Option.bind (text_field p ''side'') side_of_text) (\<lambda>sd.
     Option.bind (Option.bind (p ''strike'') hval_int) (\<lambda>strike.
     Option.bind (text_field p ''instrument_token'') (\<lambda>tok.
     Option.bind (Option.bind (text_field p ''intent'') intent_of_text) (\<lambda>intent.
     Option.bind (Option.bind (p ''qty_lots'') hval_int) (\<lambda>qty.
     Option.bind (Option.bind (p ''ts'') parse_dt) (\<lambda>ts.
       let s = \<lparr>s_sig_id = sid, s_strategy_id = get_or (text_field p ''strategy_id'') ''bid_ask_imbalance_v1'',
            s_instrument_id = payload_instrument p,
            s_index = str_or (text_field p ''index'') (payload_instrument p), s_side = sd, s_strike = strike,
            s_instrument_token = tok, s_intent = intent, s_qty_lots = qty, s_score = opt_float p ''score'',
            s_score_breakdown = opt_dict p ''score_breakdown'',
            s_net_pressure = opt_float p ''net_pressure_at_signal'',
            s_decision_ts = num_or (opt_int p ''decision_ts'') now,
            s_diff = num_or (opt_float p ''diff_at_signal'') 0,
            s_sum_ce = num_or (opt_float p ''sum_ce_at_signal'') 0,
            s_sum_pe = num_or (opt_float p ''sum_pe_at_signal'') 0,
            s_delta = num_or (opt_float p ''delta_at_signal'') 0,
            s_delta_pcr = opt_float p ''delta_pcr_at_signal'',
            s_strategy_version = get_or (text_field p ''strategy_version'') [], s_ts = ts\<rparr>
       in if signal_valid s then Some s else None)))))))"

record dispatcher =
  di_world :: world
  di_queue :: "signal list"
  di_acked :: "string list"

definition ack :: "string \<Rightarrow> dispatcher \<Rightarrow> dispatcher" where
  "ack eid d = d\<lparr>di_acked := di_acked d @ [eid]\<rparr>"

definition exit_flag :: "payload \<Rightarrow> string" where
  "exit_flag p = ''STRATEGY_EXIT:'' @ take 120 (str_or (text_field p ''reason'') ''strategy_request'')"

definition dispatch_entry :: "(hval \<Rightarrow> int option) \<Rightarrow> string \<times> stream_entry \<Rightarrow> dispatcher \<Rightarrow> pyexc + dispatcher" where
  "dispatch_entry parse_dt entry d =
     (let (eid, flds) = entry; p = map_of flds; w = di_world d
      in case signal_from_payload parse_dt (w_now_ms w) p of
           None \<Rightarrow> Inr (ack eid d)
         | Some sig \<Rightarrow>
             if s_intent sig = MANUAL_EXIT then
               (if \<not> valid_index (s_index sig) then Inl ValueError
                else
                  (let pid = decode (v_current_position_id (w_vessel w (s_index sig)))
                   in Inr (ack eid
                        (if pid = [] then d
                         else d\<lparr>di_world := w\<lparr>w_exit_pull := (w_exit_pull w)(pid \<mapsto> exit_flag p)\<rparr>\<rparr>))))
             else Inr (ack eid (d\<lparr>di_queue := di_queue d @ [sig]\<rparr>)))"

fun dispatch_batch :: "(hval \<Rightarrow> int option) \<Rightarrow> (string \<times> stream_entry) list \<Rightarrow> dispatcher \<Rightarrow> pyexc + dispatcher" where
  "dispatch_batch parse_dt [] d = Inr d"
| "dispatch_batch parse_dt (e # es) d =
     (case dispatch_entry parse_dt e d of Inl x \<Rightarrow> Inl x | Inr d' \<Rightarrow> dispatch_batch parse_dt es d')"

fun dispatcher_loop ::
  "(hval \<Rightarrow> int option) \<Rightarrow> ((world \<Rightarrow> world) \<times> (string \<times> stream_entry) list option) list \<Rightarrow> dispatcher \<Rightarrow> pyexc + dispatcher"
where
  "dispatcher_loop parse_dt [] d = Inr d"
| "dispatcher_loop parse_dt ((f, resp) # rs) d =
     (let d1 = d\<lparr>di_world := f (di_world d)\<rparr>
      in case resp of
           None \<Rightarrow> dispatcher_loop parse_dt rs d1
         | Some es \<Rightarrow>
             (case dispatch_batch parse_dt es d1 of Inl x \<Rightarrow> Inl x | Inr d2 \<Rightarrow> dispatcher_loop parse_dt rs d2))"

section \<open>Lemmas\<close>

lemma py_trunc_of_int [simp]: "py_trunc (of_int i) = i"
  by (simp add: py_trunc_def)

lemma num_or_self [simp]: "num_or (Some x) (0::'a::zero) = x"
  by (simp add: num_or_def)

lemma valid_index_nonempty: "i \<in> set schema_indexes \<Longrightarrow> i \<noteq> []"
  by (auto simp: schema_indexes_def)

text \<open>The published entry as a dictionary.\<close>

lemma stream_payload:
  "map_of (stream_fields s) ''sig_id'' = Some (HText (s_sig_id s))"
  "map_of (stream_fields s) ''strategy_id'' = Some (HText (s_strategy_id s))"
  "map_of (stream_fields s) ''instrument_id'' = Some (HText (s_instrument_id s))"
  "map_of (stream_fields s) ''index'' = Some (HText (s_index s))"
  "map_of (stream_fields s) ''side'' = Some (HText (side_value (s_side s)))"
  "map_of (stream_fields s) ''strike'' = Some (HInt (s_strike s))"
  "map_of (stream_fields s) ''instrument_token'' = Some (HText (s_instrument_token s))"
  "map_of (stream_fields s) ''intent'' = Some (HText (intent_value (s_intent s)))"
  "map_of (stream_fields s) ''qty_lots'' = Some (HInt (s_qty_lots s))"
  "map_of (stream_fields s) ''score'' = map_option HFloat (s_score s)"
  "map_of (stream_fields s) ''score_breakdown'' = Some (HMap (s_score_breakdown s))"
  "map_of (stream_fields s) ''net_pressure_at_signal'' = map_option HFloat (s_net_pressure s)"
  "map_of (stream_fields s) ''decision_ts'' = Some (HInt (s_decision_ts s))"
  "map_of (stream_fields s) ''diff_at_signal'' = Some (HFloat (s_diff s))"
  "map_of (stream_fields s) ''sum_ce_at_signal'' = Some (HFloat (s_sum_ce s))"
  "map_of (stream_fields s) ''sum_pe_at_signal'' = Some (HFloat (s_sum_pe s))"
  "map_of (stream_fields s) ''delta_at_signal'' = Some (HFloat (s_delta s))"
  "map_of (stream_fields s) ''delta_pcr_at_signal'' = map_option HFloat (s_delta_pcr s)"
  "map_of (stream_fields s) ''strategy_version'' = Some (HText (s_strategy_version s))"
  "map_of (stream_fields s) ''ts'' = Some (HTime (s_ts s))"
  "map_of (stream_fields s) ''reason'' = None"
  by (cases "s_score s"; cases "s_net_pressure s"; cases "s_delta_pcr s"; simp add: stream_fields_def)+

text \<open>The law of the datetime parser the dispatcher relies on: it reads back an ISO-8601 text.\<close>

definition reads_iso :: "(hval \<Rightarrow> int option) \<Rightarrow> bool" where
  "reads_iso parse_dt \<longleftrightarrow> (\<forall>t. parse_dt (HTime t) = Some t)"

lemma signal_roundtrip:
  assumes "reads_iso parse_dt" and "signal_valid s" and "s_decision_ts s \<noteq> 0"
  shows "signal_from_payload parse_dt now (map_of (stream_fields s)) = Some s"
proof -
  let ?p = "map_of (stream_fields s)"
  have ne: "s_instrument_id s \<noteq> []" "s_index s \<noteq> []"
    using assms(2) valid_index_nonempty by (auto simp: signal_valid_def)
  have tx: "text_field ?p ''sig_id'' = Some (s_sig_id s)" "text_field ?p ''strategy_id'' = Some (s_strategy_id s)"
    "text_field ?p ''instrument_id'' = Some (s_instrument_id s)" "text_field ?p ''index'' = Some (s_index s)"
    "text_field ?p ''side'' = Some (side_value (s_side s))"
    "text_field ?p ''instrument_token'' = Some (s_instrument_token s)"
    "text_field ?p ''intent'' = Some (intent_value (s_intent s))"
    "text_field ?p ''strategy_version'' = Some (s_strategy_version s)"
    by (simp_all add: text_field_def stream_payload)
  have inst: "payload_instrument ?p = s_instrument_id s"
    using ne by (simp add: payload_instrument_def tx str_or_def)
  have flt: "opt_float ?p ''score'' = s_score s" "opt_float ?p ''net_pressure_at_signal'' = s_net_pressure s"
    "opt_float ?p ''diff_at_signal'' = Some (s_diff s)" "opt_float ?p ''sum_ce_at_signal'' = Some (s_sum_ce s)"
    "opt_float ?p ''sum_pe_at_signal'' = Some (s_sum_pe s)" "opt_float ?p ''delta_at_signal'' = Some (s_delta s)"
    "opt_float ?p ''delta_pcr_at_signal'' = s_delta_pcr s"
    by (simp_all add: opt_float_def stream_payload none_text_def option.map_comp option.case_eq_if map_option_case)
  have dts: "opt_int ?p ''decision_ts'' = Some (s_decision_ts s)"
    by (simp add: opt_int_def stream_payload none_text_def)
  show ?thesis
    using assms(3) ne assms(2) [unfolded signal_valid_def]
    by (simp add: signal_valid_def signal_from_payload_def tx inst flt dts stream_payload opt_dict_def assms(1) [unfolded reads_iso_def] Let_def
        str_or_def num_or_def get_or_def)
qed

text \<open>One delivered entry: a published signal, or one that does not parse.\<close>

definition delivers :: "(hval \<Rightarrow> int option) \<Rightarrow> string \<times> stream_entry \<Rightarrow> signal option \<Rightarrow> bool" where
  "delivers parse_dt e so \<longleftrightarrow>
     (case so of
        Some s \<Rightarrow> snd e = stream_fields s \<and> signal_valid s \<and> s_decision_ts s \<noteq> 0 \<and>
          (s_intent s = MANUAL_EXIT \<longrightarrow> valid_index (s_index s))
      | None \<Rightarrow> \<forall>now. signal_from_payload parse_dt now (map_of (snd e)) = None)"

lemma dispatch_entry_delivered:
  assumes "reads_iso parse_dt" and "delivers parse_dt e so"
  shows "\<exists>d'. dispatch_entry parse_dt e d = Inr d' \<and> di_acked d' = di_acked d @ [fst e] \<and>
    di_queue d' = di_queue d @ filter (\<lambda>s. s_intent s \<noteq> MANUAL_EXIT) (case so of None \<Rightarrow> [] | Some s \<Rightarrow> [s])"
  using assms(2) signal_roundtrip [OF assms(1)]
  by (cases e) (auto simp: dispatch_entry_def delivers_def ack_def Let_def split: option.splits)

lemma dispatch_batch_delivered:
  "reads_iso parse_dt \<Longrightarrow> list_all2 (delivers parse_dt) es sos \<Longrightarrow>
   \<exists>d'. dispatch_batch parse_dt es d = Inr d' \<and> di_acked d' = di_acked d @ map fst es \<and>
     di_queue d' = di_queue d @ filter (\<lambda>s. s_intent s \<noteq> MANUAL_EXIT) (somes sos)"
proof (induction es arbitrary: d sos)
  case (Cons e es)
  then obtain so sos' where s: "sos = so # sos'" "delivers parse_dt e so" "list_all2 (delivers parse_dt) es sos'"
    by (auto simp: list_all2_Cons1)
  from dispatch_entry_delivered [OF Cons.prems(1) s(2)] obtain d1 where d1: "dispatch_entry parse_dt e d = Inr d1"
    "di_acked d1 = di_acked d @ [fst e]"
    "di_queue d1 = di_queue d @ filter (\<lambda>s. s_intent s \<noteq> MANUAL_EXIT) (case so of None \<Rightarrow> [] | Some s \<Rightarrow> [s])"
    by blast
  from Cons.IH [OF Cons.prems(1) s(3), of d1] show ?case using d1 s(1) by (cases so) auto
qed simp

lemma dispatcher_loop_delivered:
  "reads_iso parse_dt \<Longrightarrow> list_all2 (delivers parse_dt) (concat (map (\<lambda>r. get_or (snd r) []) rs)) sos \<Longrightarrow>
   \<exists>d'. dispatcher_loop parse_dt rs d = Inr d' \<and>
     di_acked d' = di_acked d @ map fst (concat (map (\<lambda>r. get_or (snd r) []) rs)) \<and>
     di_queue d' = di_queue d @ filter (\<lambda>s. s_intent s \<noteq> MANUAL_EXIT) (somes sos)"
proof (induction rs arbitrary: d sos)
  case (Cons r rs)
  obtain f resp where r: "r = (f, resp)" by (cases r)
  let ?d1 = "d\<lparr>di_world := f (di_world d)\<rparr>"
  from Cons.prems obtain s1 s2 where s: "sos = s1 @ s2" "list_all2 (delivers parse_dt) (get_or resp []) s1"
    "list_all2 (delivers parse_dt) (concat (map (\<lambda>r. get_or (snd r) []) rs)) s2"
    by (auto simp: r list_all2_append1)
  from dispatch_batch_delivered [OF Cons.prems(1) s(2), of ?d1] obtain d2 where d2: "dispatch_batch parse_dt (get_or resp []) ?d1 = Inr d2"
    "di_acked d2 = di_acked d @ map fst (get_or resp [])"
    "di_queue d2 = di_queue d @ filter (\<lambda>s. s_intent s \<noteq> MANUAL_EXIT) (somes s1)" by auto
  from Cons.IH [OF Cons.prems(1) s(3), of d2] show ?case
    using d2 s(1) by (cases resp) (auto simp: r Let_def get_or_def somes_def)
qed (simp add: somes_def)

definition iso_only :: "hval \<Rightarrow> int option" where
  "iso_only v = (case v of HTime t \<Rightarrow> Some t | _ \<Rightarrow> None)"

lemma iso_only_reads [simp]: "reads_iso iso_only"
  by (simp add: reads_iso_def iso_only_def)

section \<open>Properties\<close>

text \<open>What the strategy publishes is what order execution receives.  A signal emitted
  under a fresh id is stored, appended to the stream as one entry, and the dispatcher parses that
  entry back to exactly the stored signal.\<close>

theorem published_signal_received:
  assumes "emit_signal sha16 idx a en = Inr (Some sid, en')" and "w_signals (en_world en) sid = None"
    and "w_now_ms (en_world en) \<noteq> 0" and "reads_iso parse_dt"
  shows "\<exists>s. w_signals (en_world en') sid = Some s \<and> s_sig_id s = sid \<and> en_stream en' = en_stream en @ [stream_fields s] \<and>
    s_index s = idx \<and> kind_to_intent (ac_kind a) = Some (s_intent s) \<and>
    signal_from_payload parse_dt now (map_of (stream_fields s)) = Some s"
proof -
  from assms(1) obtain intent sd k tok where k: "kind_to_intent (ac_kind a) = Some intent"
    and v: "signal_valid (build_signal sha16 idx a intent sd k tok (w_now_ms (en_world en)))"
    and sid: "sid = s_sig_id (build_signal sha16 idx a intent sd k tok (w_now_ms (en_world en)))"
    and en': "en' = publish_signal (build_signal sha16 idx a intent sd k tok (w_now_ms (en_world en))) en"
    by (auto simp: emit_signal_def Let_def split: option.splits if_splits)
  let ?s = "build_signal sha16 idx a intent sd k tok (w_now_ms (en_world en))"
  have "s_decision_ts ?s \<noteq> 0" using assms(3) by (simp add: build_signal_def Let_def)
  from signal_roundtrip [OF assms(4) v this, of now] show ?thesis
    using assms(2) k by (intro exI [of _ ?s]) (simp add: en' sid publish_signal_def)
qed

definition sample_enter :: action where
  "sample_enter = \<lparr>ac_kind = ENTER, ac_side = Some CE, ac_strike = Some 24000, ac_instrument_token = Some ''c'',
     ac_qty_lots = Some 2, ac_score = Some 8, ac_reason = ''all_gates_passed'', ac_metrics = None, ac_score_breakdown = []\<rparr>"

theorem published_signal_received_witness:
  "\<exists>sid en' s. emit_signal id ''nifty50'' sample_enter sample_engine = Inr (Some sid, en') \<and>
     signal_from_payload iso_only 0 (map_of (stream_fields s)) = Some s \<and> s_intent s = FRESH_ENTRY"
proof -
  obtain sid en' where e: "emit_signal id ''nifty50'' sample_enter sample_engine = Inr (Some sid, en')"
    by (auto simp: emit_signal_def kind_to_intent_def sample_enter_def build_signal_def Let_def signal_valid_def
        schema_indexes_def num_or_def)
  have "w_signals (en_world sample_engine) sid = None" "w_now_ms (en_world sample_engine) \<noteq> 0"
    by (simp_all add: sample_engine_def boot_world_def upd_vessel_def)
  from published_signal_received [OF e this, of iso_only 0] e show ?thesis
    by (auto simp: kind_to_intent_def sample_enter_def)
qed

text \<open>Claim C36.  The dispatcher loses nothing and reorders nothing.  On any sequence of batches of
  published signals and unparseable entries (with exit requests for known indexes) it does not
  raise, acknowledges every entry exactly once in stream order, and appends exactly the entry and
  flip signals to the work queue, in order.\<close>

theorem dispatcher_delivers_in_order:
  assumes "reads_iso parse_dt"
    and "list_all2 (delivers parse_dt) (concat (map (\<lambda>r. get_or (snd r) []) rs)) sos"
  shows "\<exists>d'. dispatcher_loop parse_dt rs d = Inr d' \<and>
     di_acked d' = di_acked d @ map fst (concat (map (\<lambda>r. get_or (snd r) []) rs)) \<and>
     di_queue d' = di_queue d @ filter (\<lambda>s. s_intent s \<noteq> MANUAL_EXIT) (somes sos)"
  using dispatcher_loop_delivered [OF assms] .

text \<open>An exit request reaches the trade.  When the dispatcher handles the exit signal of a
  vessel with an open position, the next tick of that position's monitor, however prices and the
  clock have moved, ends the trade with reason STRATEGY_EXIT.\<close>

theorem exit_request_honoured:
  assumes "reads_iso parse_dt" and "signal_valid s" and "s_decision_ts s \<noteq> 0" and "s_intent s = MANUAL_EXIT"
    and "valid_index (s_index s)" and "v_current_position_id (w_vessel (di_world d) (s_index s)) = Some pid" and "pid \<noteq> []"
  shows "\<exists>d'. dispatch_entry parse_dt (eid, stream_fields s) d = Inr d' \<and> di_queue d' = di_queue d \<and>
    (\<forall>w p ticks evals trails. w_exit_pull w pid = w_exit_pull (di_world d') pid \<longrightarrow> p_pos_id p = pid \<longrightarrow>
       (\<exists>p' evals' trails' w'. monitor_loop ticks w p evals trails = Some (ER_STRATEGY_EXIT, p', evals', trails', w')))"
proof -
  let ?d' = "ack eid (d\<lparr>di_world := (di_world d)\<lparr>w_exit_pull := (w_exit_pull (di_world d))(pid \<mapsto> exit_flag (map_of (stream_fields s)))\<rparr>\<rparr>)"
  have "dispatch_entry parse_dt (eid, stream_fields s) d = Inr ?d'"
    using assms(4-7) by (simp add: dispatch_entry_def Let_def signal_roundtrip [OF assms(1-3)] decode_def)
  moreover have "\<exists>p' evals' trails' w'. monitor_loop ticks w p evals trails = Some (ER_STRATEGY_EXIT, p', evals', trails', w')"
    if "w_exit_pull w pid = w_exit_pull (di_world ?d') pid" and "p_pos_id p = pid" for w p ticks evals trails
  proof -
    have "\<exists>w1 p1 ev tr. monitor_tick w p = (w1, p1, ev, tr, Some ER_STRATEGY_EXIT)"
      using that by (simp add: monitor_tick_def Let_def evaluate_def monitor_args_def refresh_world_def ack_def exit_flag_def)
    then show ?thesis by (subst monitor_loop.simps) auto
  qed
  ultimately show ?thesis by (intro exI [of _ ?d']) (simp add: ack_def)
qed

text \<open>A validated exit signal can stop the dispatcher.  The signal schema admits the
  index \<open>sensex\<close>, the key helpers do not, and the lookup stands outside every exception handler: the
  batch is abandoned with a ValueError whatever follows the entry.\<close>

theorem sensex_exit_stops_dispatcher:
  assumes "reads_iso parse_dt" and "signal_valid s" and "s_decision_ts s \<noteq> 0" and "s_intent s = MANUAL_EXIT"
    and "s_index s = ''sensex''"
  shows "dispatch_batch parse_dt ((eid, stream_fields s) # es) d = Inl ValueError"
  using assms(4,5) by (simp add: dispatch_entry_def Let_def signal_roundtrip [OF assms(1-3)] valid_index_def)

definition sample_exit_signal :: "index_name \<Rightarrow> signal" where
  "sample_exit_signal idx = build_signal id idx (sample_enter\<lparr>ac_kind := EXIT\<rparr>) MANUAL_EXIT CE 24000 ''c'' 1000"

lemma sample_exit_signal_ok:
  "idx \<in> set schema_indexes \<Longrightarrow> signal_valid (sample_exit_signal idx)" "s_decision_ts (sample_exit_signal idx) \<noteq> 0"
  "s_intent (sample_exit_signal idx) = MANUAL_EXIT" "s_index (sample_exit_signal idx) = idx"
  by (simp_all add: sample_exit_signal_def build_signal_def Let_def signal_valid_def num_or_def sample_enter_def)

definition sample_dispatcher :: dispatcher where
  "sample_dispatcher = \<lparr>di_world = upd_vessel ''nifty50'' (\<lambda>v. v\<lparr>v_current_position_id := Some ''P-1''\<rparr>) boot_world,
     di_queue = [], di_acked = []\<rparr>"

theorem dispatcher_delivers_in_order_witness:
  "\<exists>d'. dispatcher_loop iso_only [(id, None), (id, Some [(''1-0'', stream_fields (sample_exit_signal ''nifty50'')), (''1-1'', [])])]
     sample_dispatcher = Inr d' \<and> di_acked d' = [''1-0'', ''1-1''] \<and> di_queue d' = []"
proof -
  have m: "list_all2 (delivers iso_only) [(''1-0'', stream_fields (sample_exit_signal ''nifty50'')), (''1-1'', [])]
      [Some (sample_exit_signal ''nifty50''), None]"
    by (simp add: delivers_def sample_exit_signal_ok schema_indexes_def valid_index_def signal_from_payload_def text_field_def)
  show ?thesis
    using dispatcher_delivers_in_order [OF iso_only_reads, of "[(id, None), (id, Some [(''1-0'',
      stream_fields (sample_exit_signal ''nifty50'')), (''1-1'', [])])]" "[Some (sample_exit_signal ''nifty50''), None]"
      sample_dispatcher] m
    by (simp add: get_or_def sample_exit_signal_ok sample_dispatcher_def)
qed

theorem exit_request_honoured_witness:
  "\<exists>d'. dispatch_entry iso_only (''1-0'', stream_fields (sample_exit_signal ''nifty50'')) sample_dispatcher = Inr d' \<and> di_queue d' = []"
  using exit_request_honoured [OF iso_only_reads sample_exit_signal_ok(1-3) [of "''nifty50''"], of sample_dispatcher "''P-1''" "''1-0''"]
  by (auto simp: sample_exit_signal_ok schema_indexes_def valid_index_def sample_dispatcher_def)

theorem sensex_exit_stops_dispatcher_witness:
  "dispatch_batch iso_only [(''1-0'', stream_fields (sample_exit_signal ''sensex''))] sample_dispatcher = Inl ValueError"
  by (rule sensex_exit_stops_dispatcher) (simp_all add: sample_exit_signal_ok schema_indexes_def)

end
