(* ===== verification/Json.thy ===== *)
theory Json
  imports Store
begin

text \<open>
  Decoded JSON (and protobuf dictionaries) as Python values, with the operations the engines
  apply to them: truthiness, \<open>or\<close>, \<open>.get\<close>, \<open>float\<close> and \<open>int(float(...))\<close>.  An operation that
  raises returns \<open>Inl\<close>.  A float is an exact rational, an infinity or a NaN; the text of a number
  is read with an optional sign, fraction and exponent (surrounding blanks and digit-group
  underscores, which Python also accepts, are not read).
\<close>

section \<open>Values\<close>

datatype pyfloat = Fin rat | Infinity bool | NaN

datatype json =
    JNull
  | JBool bool
  | JInt int
  | JFloat pyfloat
  | JStr string
  | JList "json list"
  | JObj "(string \<times> json) list"

fun truthy :: "json \<Rightarrow> bool" where
  "truthy JNull = False"
| "truthy (JBool b) = b"
| "truthy (JInt i) = (i \<noteq> 0)"
| "truthy (JFloat (Fin r)) = (r \<noteq> 0)"
| "truthy (JFloat _) = True"
| "truthy (JStr s) = (s \<noteq> [])"
| "truthy (JList xs) = (xs \<noteq> [])"
| "truthy (JObj kvs) = (kvs \<noteq> [])"

fun is_dict :: "json \<Rightarrow> bool" where
  "is_dict (JObj _) = True"
| "is_dict _ = False"

section \<open>Operations\<close>

text \<open>Sequencing of computations that may raise, and \<open>a or b\<close>.\<close>

definition and_then :: "'e + 'a \<Rightarrow> ('a \<Rightarrow> 'e + 'b) \<Rightarrow> 'e + 'b" where
  "and_then m f = (case m of Inl e \<Rightarrow> Inl e | Inr x \<Rightarrow> f x)"

definition py_or :: "pyexc + json \<Rightarrow> pyexc + json \<Rightarrow> pyexc + json" where
  "py_or a b = and_then a (\<lambda>x. if truthy x then Inr x else b)"

definition jget_default :: "json \<Rightarrow> string \<Rightarrow> json \<Rightarrow> pyexc + json" where
  "jget_default j k d =
     (case j of JObj kvs \<Rightarrow> Inr (case map_of kvs k of None \<Rightarrow> d | Some v \<Rightarrow> v) | _ \<Rightarrow> Inl AttributeError)"

definition jget :: "json \<Rightarrow> string \<Rightarrow> pyexc + json" where
  "jget j k = jget_default j k JNull"

definition is_digit :: "char \<Rightarrow> bool" where
  "is_digit c \<longleftrightarrow> char_digit c \<noteq> None"

definition digits_value :: "string \<Rightarrow> nat" where
  "digits_value s = (case parse_digits 0 s of None \<Rightarrow> 0 | Some n \<Rightarrow> n)"

definition signed_int_text :: "string \<Rightarrow> int option" where
  "signed_int_text s =
     (case s of
        [] \<Rightarrow> None
      | c # cs \<Rightarrow> if c = CHR ''+'' then (if cs \<noteq> [] \<and> hd cs = CHR ''-'' then None else int_of_str cs) else int_of_str s)"

definition unsigned_decimal :: "string \<Rightarrow> rat option" where
  "unsigned_decimal s =
     (let whole = takeWhile is_digit s; r = dropWhile is_digit s;
          (frac, r2) = (case r of
                          [] \<Rightarrow> ([], [])
                        | c # t \<Rightarrow> if c = CHR ''.'' then (takeWhile is_digit t, dropWhile is_digit t) else ([], r));
          m = of_nat (digits_value (whole @ frac)) / 10 ^ length frac
      in if whole = [] \<and> frac = [] then None
         else (case r2 of
                 [] \<Rightarrow> Some m
               | c # t \<Rightarrow>
                   if c = CHR ''e'' \<or> c = CHR ''E'' then
                     map_option (\<lambda>k. if 0 \<le> k then m * 10 ^ nat k else m / 10 ^ nat (- k)) (signed_int_text t)
                   else None))"

definition unsigned_float_text :: "string \<Rightarrow> pyfloat option" where
  "unsigned_float_text s =
     (let l = py_lower s
      in if l = ''inf'' \<or> l = ''infinity'' then Some (Infinity True)
         else if l = ''nan'' then Some NaN
         else map_option Fin (unsigned_decimal s))"

definition neg_float :: "pyfloat \<Rightarrow> pyfloat" where
  "neg_float x = (case x of Fin r \<Rightarrow> Fin (- r) | Infinity b \<Rightarrow> Infinity (\<not> b) | NaN \<Rightarrow> NaN)"

text \<open>\<open>float(text)\<close>; \<open>None\<close> is the ValueError.\<close>

definition float_of_text :: "string \<Rightarrow> pyfloat option" where
  "float_of_text s =
     (case s of
        [] \<Rightarrow> None
      | c # cs \<Rightarrow> if c = CHR ''-'' then map_option neg_float (unsigned_float_text cs)
                   else if c = CHR ''+'' then unsigned_float_text cs else unsigned_float_text s)"

text \<open>\<open>float(v)\<close>; \<open>None\<close> is the ValueError or TypeError, which every caller catches together.\<close>

definition py_float :: "json \<Rightarrow> pyfloat option" where
  "py_float v =
     (case v of
        JBool b \<Rightarrow> Some (Fin (if b then 1 else 0))
      | JInt i \<Rightarrow> Some (Fin (of_int i))
      | JFloat x \<Rightarrow> Some x
      | JStr s \<Rightarrow> float_of_text s
      | _ \<Rightarrow> None)"

text \<open>\<open>parser._f\<close> and \<open>parser._i\<close>: \<open>int\<close> of an infinity is an OverflowError, which \<open>_i\<close> does not
  catch; \<open>int\<close> of a NaN is a ValueError, which it does.\<close>

definition f_num :: "json \<Rightarrow> money option" where
  "f_num v =
     (if v = JNull \<or> v = JStr [] then None
      else (case py_float v of Some (Fin r) \<Rightarrow> Some r | _ \<Rightarrow> None))"

definition i_num :: "json \<Rightarrow> pyexc + int option" where
  "i_num v =
     (if v = JNull \<or> v = JStr [] then Inr None
      else (case py_float v of
              None \<Rightarrow> Inr None
            | Some (Fin r) \<Rightarrow> Inr (Some (py_trunc r))
            | Some (Infinity _) \<Rightarrow> Inl OverflowError
            | Some NaN \<Rightarrow> Inr None))"

section \<open>Lemmas\<close>

lemma and_then_simps [simp]: "and_then (Inl e) f = Inl e" "and_then (Inr x) f = f x"
  by (simp_all add: and_then_def)

lemma and_then_Inr: "and_then m f = Inr y \<longleftrightarrow> (\<exists>x. m = Inr x \<and> f x = Inr y)"
  by (cases m) simp_all

lemma and_thenE: "and_then m f = Inr y \<Longrightarrow> (\<And>x. m = Inr x \<Longrightarrow> f x = Inr y \<Longrightarrow> P) \<Longrightarrow> P"
  by (cases m) simp_all

lemma and_then_Inl: "and_then m f = Inl e \<longleftrightarrow> m = Inl e \<or> (\<exists>x. m = Inr x \<and> f x = Inl e)"
  by (cases m) auto

lemma jget_obj [simp]: "jget (JObj kvs) k = Inr (case map_of kvs k of None \<Rightarrow> JNull | Some v \<Rightarrow> v)"
  "jget_default (JObj kvs) k d = Inr (case map_of kvs k of None \<Rightarrow> d | Some v \<Rightarrow> v)"
  by (simp_all add: jget_def jget_default_def)

lemma py_or_simps [simp]:
  "py_or (Inl e) b = Inl e" "truthy x \<Longrightarrow> py_or (Inr x) b = Inr x" "\<not> truthy x \<Longrightarrow> py_or (Inr x) b = b"
  by (simp_all add: py_or_def)

end
