(* ===== verification/TickParser.thy ===== *)
theory TickParser
  imports Json StrategyMetrics
begin

text \<open>
  \<open>data_pipeline/parser.py\<close>: from a decoded broker frame to normalised ticks.  The order of the
  \<open>.get\<close> calls is the source's, so a frame raises exactly where the code raises; \<open>now\<close> is the
  wall clock used as the default timestamp.
\<close>

section \<open>Model\<close>

definition DEPTH_LEVELS :: nat where
  "DEPTH_LEVELS = 5"

record parsed_tick =
  pt_token :: token
  pt_ltp :: "money option"
  pt_bid :: "money option"
  pt_ask :: "money option"
  pt_bid_qty :: "int option"
  pt_ask_qty :: "int option"
  pt_bid_prices :: "money option list"
  pt_ask_prices :: "money option list"
  pt_bid_qtys :: "int option list"
  pt_ask_qtys :: "int option list"
  pt_total_bid_qty :: "int option"
  pt_total_ask_qty :: "int option"
  pt_vol :: "int option"
  pt_oi :: "int option"
  pt_ts :: int

definition pad :: "'a option list \<Rightarrow> nat \<Rightarrow> 'a option list" where
  "pad xs n = (if n \<le> length xs then take n xs else xs @ replicate (n - length xs) None)"

record depth_level =
  dl_bid_price :: "money option"
  dl_ask_price :: "money option"
  dl_bid_qty :: "int option"
  dl_ask_qty :: "int option"

definition depth_entry :: "json \<Rightarrow> pyexc + depth_level" where
  "depth_entry e =
     (if \<not> is_dict e then
        Inr \<lparr>dl_bid_price = None, dl_ask_price = None, dl_bid_qty = None, dl_ask_qty = None\<rparr>
      else
        and_then (py_or (jget e ''bidP'') (jget e ''bidQuote'')) (\<lambda>bp.
        and_then (py_or (jget e ''askP'') (jget e ''askQuote'')) (\<lambda>ap.
        and_then (and_then (jget e ''bidQ'') i_num) (\<lambda>bq.
        and_then (and_then (jget e ''askQ'') i_num) (\<lambda>aq.
          Inr \<lparr>dl_bid_price = f_num bp, dl_ask_price = f_num ap, dl_bid_qty = bq, dl_ask_qty = aq\<rparr>)))))"

fun depth_entries :: "json list \<Rightarrow> pyexc + depth_level list" where
  "depth_entries [] = Inr []"
| "depth_entries (e # es) = and_then (depth_entry e) (\<lambda>d. and_then (depth_entries es) (\<lambda>ds. Inr (d # ds)))"

text \<open>\<open>bid_ask_quotes[:5]\<close> of a truthy value that need not be a list: text yields characters, a
  dictionary raises KeyError, a number raises TypeError.\<close>

definition first_levels :: "json \<Rightarrow> pyexc + json list" where
  "first_levels q =
     (case q of
        JList xs \<Rightarrow> Inr (take DEPTH_LEVELS xs)
      | JStr s \<Rightarrow> Inr (map (\<lambda>c. JStr [c]) (take DEPTH_LEVELS s))
      | JObj _ \<Rightarrow> Inl KeyError
      | _ \<Rightarrow> Inl TypeError)"

record depth =
  de_bid_prices :: "money option list"
  de_ask_prices :: "money option list"
  de_bid_qtys :: "int option list"
  de_ask_qtys :: "int option list"
  de_total_bid :: "int option"
  de_total_ask :: "int option"

definition depth_of_levels :: "depth_level list \<Rightarrow> depth" where
  "depth_of_levels ls =
     (let bq = pad (map dl_bid_qty ls) DEPTH_LEVELS; aq = pad (map dl_ask_qty ls) DEPTH_LEVELS
      in \<lparr>de_bid_prices = pad (map dl_bid_price ls) DEPTH_LEVELS,
          de_ask_prices = pad (map dl_ask_price ls) DEPTH_LEVELS, de_bid_qtys = bq, de_ask_qtys = aq,
          de_total_bid = sum_or_none bq, de_total_ask = sum_or_none aq\<rparr>)"

definition extract_depth :: "json \<Rightarrow> pyexc + depth" where
  "extract_depth q =
     and_then (first_levels q) (\<lambda>es. and_then (depth_entries es) (\<lambda>ls. Inr (depth_of_levels ls)))"

text \<open>\<open>payload.get(a, {}).get(b, {}).get(c)\<close>.\<close>

definition get3 :: "json \<Rightarrow> string \<Rightarrow> string \<Rightarrow> string \<Rightarrow> pyexc + json" where
  "get3 p a b c =
     and_then (jget_default p a (JObj [])) (\<lambda>x. and_then (jget_default x b (JObj [])) (\<lambda>y. jget y c))"

definition get2 :: "json \<Rightarrow> string \<Rightarrow> string \<Rightarrow> pyexc + json" where
  "get2 p a b = and_then (jget_default p a (JObj [])) (\<lambda>x. jget x b)"

definition find_ltpc :: "json \<Rightarrow> pyexc + json" where
  "find_ltpc p =
     py_or (jget p ''ltpc'') (py_or (get3 p ''fullFeed'' ''marketFF'' ''ltpc'')
       (py_or (get3 p ''ff'' ''marketFF'' ''ltpc'') (py_or (get3 p ''fullFeed'' ''indexFF'' ''ltpc'')
         (py_or (get3 p ''ff'' ''indexFF'' ''ltpc'') (Inr (JObj []))))))"

definition find_market_ff :: "json \<Rightarrow> pyexc + json" where
  "find_market_ff p =
     py_or (get2 p ''fullFeed'' ''marketFF'') (py_or (get2 p ''ff'' ''marketFF'')
       (py_or (jget p ''marketFF'') (Inr (JObj []))))"

definition build_tick ::
  "int \<Rightarrow> token \<Rightarrow> depth \<Rightarrow> json \<Rightarrow> int option \<Rightarrow> int option \<Rightarrow> int option \<Rightarrow> int option \<Rightarrow> int option \<Rightarrow> parsed_tick"
where
  "build_tick now tok d ltp vol oi tbq tsq ts =
     \<lparr>pt_token = tok, pt_ltp = f_num ltp, pt_bid = hd (de_bid_prices d), pt_ask = hd (de_ask_prices d),
      pt_bid_qty = hd (de_bid_qtys d), pt_ask_qty = hd (de_ask_qtys d),
      pt_bid_prices = de_bid_prices d, pt_ask_prices = de_ask_prices d,
      pt_bid_qtys = de_bid_qtys d, pt_ask_qtys = de_ask_qtys d,
      pt_total_bid_qty = (case tbq of None \<Rightarrow> de_total_bid d | Some x \<Rightarrow> Some x),
      pt_total_ask_qty = (case tsq of None \<Rightarrow> de_total_ask d | Some x \<Rightarrow> Some x),
      pt_vol = vol, pt_oi = oi, pt_ts = num_or ts now\<rparr>"

definition extract_one :: "int \<Rightarrow> token \<Rightarrow> json \<Rightarrow> pyexc + parsed_tick" where
  "extract_one now tok p =
     and_then (find_ltpc p) (\<lambda>ltpc.
     and_then (find_market_ff p) (\<lambda>mff.
     and_then (py_or (jget mff ''marketLevel'') (py_or (jget p ''marketLevel'') (Inr (JObj [])))) (\<lambda>level.
     and_then (py_or (jget level ''bidAskQuote'') (Inr (JList []))) (\<lambda>quotes.
     and_then (extract_depth quotes) (\<lambda>d.
     and_then (jget_default mff ''marketOHLC'' (JObj [])) (\<lambda>ohlc.
     and_then (py_or (jget mff ''vtt'') (py_or (jget ohlc ''vol'') (py_or (jget p ''vol'') (jget p ''vtt'')))) (\<lambda>vol.
     and_then (py_or (jget mff ''oi'') (jget p ''oi'')) (\<lambda>oi.
     and_then (and_then (py_or (jget mff ''tbq'') (jget p ''tbq'')) i_num) (\<lambda>tbq.
     and_then (and_then (py_or (jget mff ''tsq'') (jget p ''tsq'')) i_num) (\<lambda>tsq.
     and_then (py_or (jget ltpc ''ltt'') (py_or (jget mff ''tsInMillis'') (Inr (JInt now)))) (\<lambda>ltt.
     and_then (i_num ltt) (\<lambda>ts.
     and_then (py_or (jget ltpc ''ltp'') (jget ltpc ''LTP'')) (\<lambda>ltp.
     and_then (i_num vol) (\<lambda>voln.
     and_then (i_num oi) (\<lambda>oin.
       Inr (build_tick now tok d ltp voln oin tbq tsq ts))))))))))))))))"

fun extract_all :: "int \<Rightarrow> (string \<times> json) list \<Rightarrow> pyexc + parsed_tick list" where
  "extract_all now [] = Inr []"
| "extract_all now ((tok, p) # feeds) =
     (if \<not> is_dict p then extract_all now feeds
      else and_then (extract_one now tok p) (\<lambda>t. and_then (extract_all now feeds) (\<lambda>ts. Inr (t # ts))))"

definition feeds_of :: "json \<Rightarrow> (string \<times> json) list" where
  "feeds_of raw =
     (case raw of
        JObj kvs \<Rightarrow>
          (case map_of kvs ''feeds'' of
             Some (JObj feeds) \<Rightarrow> feeds
           | _ \<Rightarrow> if list_all (\<lambda>(k, _). CHR ''|'' \<in> set k) kvs then kvs else [])
      | _ \<Rightarrow> [])"

definition parse_tick :: "int \<Rightarrow> json \<Rightarrow> pyexc + parsed_tick list" where
  "parse_tick now raw = extract_all now (feeds_of raw)"

definition tick_to_chain_leg :: "parsed_tick \<Rightarrow> leaf" where
  "tick_to_chain_leg t =
     \<lparr>l_token = Some (pt_token t), l_ltp = pt_ltp t, l_bid = pt_bid t, l_ask = pt_ask t, l_bid_qty = pt_bid_qty t,
      l_ask_qty = pt_ask_qty t, l_bid_prices = Some (pt_bid_prices t), l_ask_prices = Some (pt_ask_prices t),
      l_bid_qtys = Some (pt_bid_qtys t), l_ask_qtys = Some (pt_ask_qtys t),
      l_total_bid_qty = pt_total_bid_qty t, l_total_ask_qty = pt_total_ask_qty t, l_vol = pt_vol t,
      l_oi = pt_oi t, l_ts = Some (pt_ts t)\<rparr>"

section \<open>Lemmas\<close>

lemma pad_length [simp]: "length (pad xs n) = n"
  by (simp add: pad_def)

definition tick_wf :: "parsed_tick \<Rightarrow> bool" where
  "tick_wf t \<longleftrightarrow>
     length (pt_bid_prices t) = DEPTH_LEVELS \<and> length (pt_ask_prices t) = DEPTH_LEVELS \<and>
     length (pt_bid_qtys t) = DEPTH_LEVELS \<and> length (pt_ask_qtys t) = DEPTH_LEVELS \<and>
     pt_bid t = hd (pt_bid_prices t) \<and> pt_ask t = hd (pt_ask_prices t) \<and>
     pt_bid_qty t = hd (pt_bid_qtys t) \<and> pt_ask_qty t = hd (pt_ask_qtys t) \<and>
     (somes (pt_bid_qtys t) \<noteq> [] \<longrightarrow> pt_total_bid_qty t \<noteq> None) \<and>
     (somes (pt_ask_qtys t) \<noteq> [] \<longrightarrow> pt_total_ask_qty t \<noteq> None)"

lemma extract_depth_wf:
  "extract_depth q = Inr d \<Longrightarrow>
     length (de_bid_prices d) = DEPTH_LEVELS \<and> length (de_ask_prices d) = DEPTH_LEVELS \<and>
     length (de_bid_qtys d) = DEPTH_LEVELS \<and> length (de_ask_qtys d) = DEPTH_LEVELS \<and>
     de_total_bid d = sum_or_none (de_bid_qtys d) \<and> de_total_ask d = sum_or_none (de_ask_qtys d)"
  by (auto simp: extract_depth_def and_then_Inr depth_of_levels_def Let_def)

lemma extract_one_Inr:
  "extract_one now tok p = Inr t \<Longrightarrow>
   \<exists>q d ltp vol oi tbq tsq ts. extract_depth q = Inr d \<and> t = build_tick now tok d ltp vol oi tbq tsq ts"
  unfolding extract_one_def by (erule and_thenE)+ (blast dest: sum.inject(2) [THEN iffD1] sym)

lemma extract_one_wf:
  assumes "extract_one now tok p = Inr t"
  shows "tick_wf t \<and> pt_token t = tok \<and> (now \<noteq> 0 \<longrightarrow> pt_ts t \<noteq> 0)"
proof -
  obtain q d ltp vol oi tbq tsq ts where d: "extract_depth q = Inr d"
    and t: "t = build_tick now tok d ltp vol oi tbq tsq ts" using extract_one_Inr [OF assms] by blast
  from extract_depth_wf [OF d] show ?thesis
    by (simp add: t build_tick_def tick_wf_def sum_or_none_def num_or_def split: option.splits)
qed

lemma extract_all_spec:
  "extract_all now feeds = Inr ts \<Longrightarrow>
     map pt_token ts = map fst (filter (\<lambda>(_, p). is_dict p) feeds) \<and> list_all tick_wf ts \<and>
     (now \<noteq> 0 \<longrightarrow> list_all (\<lambda>t. pt_ts t \<noteq> 0) ts)"
proof (induction now feeds arbitrary: ts rule: extract_all.induct)
  case (2 now tok p feeds)
  show ?case
  proof (cases "is_dict p")
    case True
    with 2(3) obtain t ts' where "extract_one now tok p = Inr t" "extract_all now feeds = Inr ts'" "ts = t # ts'"
      by (auto simp: and_then_Inr)
    then show ?thesis using 2(2) True extract_one_wf [of now tok p t] by auto
  qed (use 2 in simp)
qed simp

section \<open>Properties\<close>


definition sample_payload :: json where
  "sample_payload = JObj [(''ltpc'', JObj [(''ltp'', JInt 101)]),
     (''marketLevel'', JObj [(''bidAskQuote'', JList
         [JObj [(''bidQ'', JInt 75), (''bidP'', JInt 101), (''askQ'', JInt 150)]])]),
      (''tbq'', JInt 9000)]"

lemmas parser_defs = parse_tick_def feeds_of_def extract_one_def find_ltpc_def find_market_ff_def get2_def
  get3_def extract_depth_def first_levels_def DEPTH_LEVELS_def depth_entry_def depth_of_levels_def pad_def
  build_tick_def sum_or_none_def f_num_def i_num_def py_float_def py_trunc_def num_or_def

lemma sample_parse:
  "parse_tick 5 (JObj [(''feeds'', JObj [(''T|1'', sample_payload), (''T|2'', JNull)])]) =
    Inr [\<lparr>pt_token = ''T|1'', pt_ltp = Some 101, pt_bid = Some 101, pt_ask = None, pt_bid_qty = Some 75,
      pt_ask_qty = Some 150, pt_bid_prices = [Some 101, None, None, None, None],
      pt_ask_prices = [None, None, None, None, None], pt_bid_qtys = [Some 75, None, None, None, None],
      pt_ask_qtys = [Some 150, None, None, None, None], pt_total_bid_qty = Some 9000, pt_total_ask_qty = Some 150,
      pt_vol = None, pt_oi = None, pt_ts = 5\<rparr>]"
  by (simp add: parser_defs sample_payload_def Let_def numeral_eq_Suc)


end
