(* ===== verification/Aggregator.thy ===== *)
theory Aggregator
  imports TickParser
begin

text \<open>
  \<open>data_pipeline/aggregator.py\<close>: merging a tick into a leg of the option chain and into the spot
  snapshot.  A leg keeps every value a tick does not carry, so after any sequence of ticks it
  holds the last known value of each field.
\<close>

section \<open>Model\<close>

text \<open>\<open>new if new is not None else existing.get(key, default)\<close>, and the same for a book side that
  counts as absent when all its levels are.\<close>

definition keep :: "'a option \<Rightarrow> 'a option \<Rightarrow> 'a \<Rightarrow> 'a option" where
  "keep new old d = (case new of None \<Rightarrow> Some (get_or old d) | Some x \<Rightarrow> Some x)"

definition keep_levels :: "'a option list \<Rightarrow> 'a option list option \<Rightarrow> 'a option list option" where
  "keep_levels new old = Some (if somes new \<noteq> [] then new else get_or old (replicate 5 None))"

definition empty_leaf :: leaf where
  "empty_leaf = \<lparr>l_token = None, l_ltp = None, l_bid = None, l_ask = None, l_bid_qty = None, l_ask_qty = None,
     l_bid_prices = None, l_ask_prices = None, l_bid_qtys = None, l_ask_qtys = None,
     l_total_bid_qty = None, l_total_ask_qty = None, l_vol = None, l_oi = None, l_ts = None\<rparr>"

definition merge_leaf :: "leaf option \<Rightarrow> parsed_tick \<Rightarrow> leaf" where
  "merge_leaf lf t =
     (let e = get_or lf empty_leaf
      in \<lparr>l_token = Some (str_or (l_token e) (pt_token t)),
          l_ltp = keep (pt_ltp t) (l_ltp e) 0, l_bid = keep (pt_bid t) (l_bid e) 0,
          l_ask = keep (pt_ask t) (l_ask e) 0, l_bid_qty = keep (pt_bid_qty t) (l_bid_qty e) 0,
          l_ask_qty = keep (pt_ask_qty t) (l_ask_qty e) 0,
          l_bid_prices = keep_levels (pt_bid_prices t) (l_bid_prices e),
          l_ask_prices = keep_levels (pt_ask_prices t) (l_ask_prices e),
          l_bid_qtys = keep_levels (pt_bid_qtys t) (l_bid_qtys e),
          l_ask_qtys = keep_levels (pt_ask_qtys t) (l_ask_qtys e),
          l_total_bid_qty = keep (pt_total_bid_qty t) (l_total_bid_qty e) 0,
          l_total_ask_qty = keep (pt_total_ask_qty t) (l_total_ask_qty e) 0,
          l_vol = keep (pt_vol t) (l_vol e) 0, l_oi = keep (pt_oi t) (l_oi e) 0, l_ts = Some (pt_ts t)\<rparr>)"

definition update_option_chain_leaf :: "chain \<Rightarrow> int \<Rightarrow> string \<Rightarrow> parsed_tick \<Rightarrow> chain" where
  "update_option_chain_leaf ch strike sd t =
     (let s = py_lower sd; k = str_int strike
      in if s \<noteq> ''ce'' \<and> s \<noteq> ''pe'' then ch
         else (case map_of ch k of
                 None \<Rightarrow> ch
               | Some (ce, pe) \<Rightarrow>
                   dict_set k (if s = ''ce'' then (Some (merge_leaf ce t), pe) else (ce, Some (merge_leaf pe t))) ch))"

record spot_snap =
  sp_ltp :: money
  sp_prev_close :: money
  sp_change_inr :: money
  sp_change_pct :: rat
  sp_ts :: int

definition update_spot_snapshot :: "spot_snap option \<Rightarrow> parsed_tick \<Rightarrow> money option \<Rightarrow> spot_snap" where
  "update_spot_snapshot sp t prev =
     (let ltp = (case pt_ltp t of None \<Rightarrow> get_or (map_option sp_ltp sp) 0 | Some x \<Rightarrow> x);
          pc = (case prev of None \<Rightarrow> get_or (map_option sp_prev_close sp) 0 | Some x \<Rightarrow> x);
          inr = (if pc \<noteq> 0 then ltp - pc else 0);
          pct = (if pc \<noteq> 0 then inr / pc * 100 else 0)
      in \<lparr>sp_ltp = ltp, sp_prev_close = pc, sp_change_inr = py_round 4 inr, sp_change_pct = py_round 4 pct,
          sp_ts = pt_ts t\<rparr>)"

section \<open>Reference: the last known value of every field\<close>

definition levels_known :: "'a option list list \<Rightarrow> 'a option list option list" where
  "levels_known xs = map (\<lambda>x. if somes x = [] then None else Some x) xs"

definition known_leaf :: "leaf \<Rightarrow> parsed_tick list \<Rightarrow> leaf" where
  "known_leaf e ts =
     \<lparr>l_token = l_token e,
      l_ltp = Some (last_known (get_or (l_ltp e) 0) (map pt_ltp ts)),
      l_bid = Some (last_known (get_or (l_bid e) 0) (map pt_bid ts)),
      l_ask = Some (last_known (get_or (l_ask e) 0) (map pt_ask ts)),
      l_bid_qty = Some (last_known (get_or (l_bid_qty e) 0) (map pt_bid_qty ts)),
      l_ask_qty = Some (last_known (get_or (l_ask_qty e) 0) (map pt_ask_qty ts)),
      l_bid_prices = Some (last_known (get_or (l_bid_prices e) (replicate 5 None)) (levels_known (map pt_bid_prices ts))),
      l_ask_prices = Some (last_known (get_or (l_ask_prices e) (replicate 5 None)) (levels_known (map pt_ask_prices ts))),
      l_bid_qtys = Some (last_known (get_or (l_bid_qtys e) (replicate 5 None)) (levels_known (map pt_bid_qtys ts))),
      l_ask_qtys = Some (last_known (get_or (l_ask_qtys e) (replicate 5 None)) (levels_known (map pt_ask_qtys ts))),
      l_total_bid_qty = Some (last_known (get_or (l_total_bid_qty e) 0) (map pt_total_bid_qty ts)),
      l_total_ask_qty = Some (last_known (get_or (l_total_ask_qty e) 0) (map pt_total_ask_qty ts)),
      l_vol = Some (last_known (get_or (l_vol e) 0) (map pt_vol ts)),
      l_oi = Some (last_known (get_or (l_oi e) 0) (map pt_oi ts)),
      l_ts = Some (pt_ts (last ts))\<rparr>"

section \<open>Lemmas\<close>

abbreviation leaf_step :: "leaf option \<Rightarrow> parsed_tick \<Rightarrow> leaf option" where
  "leaf_step lf t \<equiv> Some (merge_leaf lf t)"

lemma keep_known: "keep new (Some (last_known d xs)) z = Some (last_known d (xs @ [new]))"
  by (cases new) (simp_all add: keep_def)

lemma keep_levels_known:
  "keep_levels new (Some (last_known d (levels_known xs))) = Some (last_known d (levels_known (xs @ [new])))"
  by (simp add: keep_levels_def levels_known_def)

lemma keep_known1: "keep new old z = Some (last_known (get_or old z) [new])"
  using last_known_simps(2,3) [of "get_or old z" "[]"] by (cases new) (simp_all add: keep_def)

lemma keep_levels_known1: "keep_levels new old = Some (last_known (get_or old (replicate 5 None)) (levels_known [new]))"
  using last_known_simps(2,3) [of "get_or old (replicate 5 None)" "[]"]
  by (simp add: keep_levels_def levels_known_def)

text \<open>Merging tick by tick gives the last known value of every field.\<close>

lemma merge_known:
  assumes "ts \<noteq> []" and "l_token e = Some tok" and "tok \<noteq> []"
  shows "foldl leaf_step (Some e) ts = Some (known_leaf e ts)"
  using assms(1)
proof (induction ts rule: rev_nonempty_induct)
  case (single t)
  then show ?case
    using assms(2,3) by (simp add: merge_leaf_def known_leaf_def keep_known1 keep_levels_known1 str_or_def)
next
  case (snoc t ts)
  then show ?case
    using assms(2,3)
    by (simp add: merge_leaf_def [of "Some (known_leaf e ts)"])
       (simp add: known_leaf_def keep_known keep_levels_known str_or_def)
qed

fun side_key :: "side \<Rightarrow> string" where
  "side_key CE = ''ce''"
| "side_key PE = ''pe''"

lemma lower_side [simp]: "py_lower (side_key sd) = side_key sd" "py_lower ''ce'' = ''ce''" "py_lower ''pe'' = ''pe''"
  by (cases sd) (simp_all add: py_lower_def lower_char_def)

lemma side_key_cases [simp]:
  "side_key sd = ''ce'' \<longleftrightarrow> sd = CE" "side_key sd = ''pe'' \<longleftrightarrow> sd = PE" "side_key sd \<noteq> ''spot''" "''spot'' \<noteq> side_key sd"
  "side_key a = side_key b \<longleftrightarrow> a = b"
  by (cases sd; simp; fail)+ (cases a; cases b; simp)

lemma update_leaf_keys [simp]:
  "map fst (update_option_chain_leaf ch strike sd t) = map fst ch"
proof (cases "map_of ch (str_int strike)")
  case (Some v)
  then have "str_int strike \<in> fst ` set ch" by (force dest: map_of_SomeD)
  then show ?thesis by (simp add: update_option_chain_leaf_def Let_def dict_set_keys split: option.split prod.split)
qed (simp add: update_option_chain_leaf_def Let_def)

text \<open>A tick touches its own leg and no other.\<close>

lemma update_leaf_at:
  "str_int strike \<in> fst ` set ch \<Longrightarrow>
   chain_leaf (update_option_chain_leaf ch strike (side_key sd) t) k s =
     (if k = strike \<and> s = sd then leaf_step (chain_leaf ch k s) t else chain_leaf ch k s)"
proof -
  assume "str_int strike \<in> fst ` set ch"
  then obtain ce pe where m: "map_of ch (str_int strike) = Some (ce, pe)"
    by (metis map_of_eq_None_iff not_None_eq surj_pair)
  show ?thesis
    by (cases s; cases sd) (simp_all add: update_option_chain_leaf_def chain_leaf_def Let_def map_of_dict_set m)
qed

end
