(* ===== verification/Keys.thy ===== *)
theory Keys
  imports Store
begin

text \<open>
  \<open>backend/state/keys.py\<close>: the constants and helpers that build every Redis key.  A helper that
  validates its arguments returns \<open>Inl ValueError\<close> where the code raises.  The key families are
  then named by a datatype, and the properties show that the text of a key determines its family
  and parameters: this is what allows the store to be modelled as a record with one field per
  family.
\<close>

section \<open>Constants and helpers\<close>

definition INDEXES :: "string list" where
  "INDEXES = [''nifty50'', ''banknifty'']"

definition SYSTEM_FLAGS_READY :: string where
  "SYSTEM_FLAGS_READY = ''system:flags:ready''"

definition SYSTEM_FLAGS_TRADING_ACTIVE :: string where
  "SYSTEM_FLAGS_TRADING_ACTIVE = ''system:flags:trading_active''"

definition SYSTEM_FLAGS_TRADING_DISABLED_REASON :: string where
  "SYSTEM_FLAGS_TRADING_DISABLED_REASON = ''system:flags:trading_disabled_reason''"

definition SYSTEM_FLAGS_MODE :: string where
  "SYSTEM_FLAGS_MODE = ''system:flags:mode''"

definition SYSTEM_FLAGS_DAILY_LOSS_CIRCUIT_TRIGGERED :: string where
  "SYSTEM_FLAGS_DAILY_LOSS_CIRCUIT_TRIGGERED = ''system:flags:daily_loss_circuit_triggered''"

definition SYSTEM_FLAGS_INIT_FAILED :: string where
  "SYSTEM_FLAGS_INIT_FAILED = ''system:flags:init_failed''"

definition SYSTEM_FLAGS_DATA_PIPELINE_SUBSCRIBED :: string where
  "SYSTEM_FLAGS_DATA_PIPELINE_SUBSCRIBED = ''system:flags:data_pipeline_subscribed''"

definition system_flag_engine_up :: "string \<Rightarrow> string" where
  "system_flag_engine_up name = ''system:flags:engine_up:'' @ name"

definition system_flag_engine_exited :: "string \<Rightarrow> string" where
  "system_flag_engine_exited name = ''system:flags:exited:'' @ name"

definition SYSTEM_LIFECYCLE_START_TS :: string where
  "SYSTEM_LIFECYCLE_START_TS = ''system:lifecycle:start_ts''"

definition SYSTEM_LIFECYCLE_GIT_SHA :: string where
  "SYSTEM_LIFECYCLE_GIT_SHA = ''system:lifecycle:git_sha''"

definition SYSTEM_LIFECYCLE_LAST_SHUTDOWN_REASON :: string where
  "SYSTEM_LIFECYCLE_LAST_SHUTDOWN_REASON = ''system:lifecycle:last_shutdown_reason''"

definition SYSTEM_HEALTH_SUMMARY :: string where
  "SYSTEM_HEALTH_SUMMARY = ''system:health:summary''"

definition SYSTEM_HEALTH_ENGINES :: string where
  "SYSTEM_HEALTH_ENGINES = ''system:health:engines''"

definition SYSTEM_HEALTH_DEPENDENCIES :: string where
  "SYSTEM_HEALTH_DEPENDENCIES = ''system:health:dependencies''"

definition SYSTEM_HEALTH_AUTH :: string where
  "SYSTEM_HEALTH_AUTH = ''system:health:auth''"

definition SYSTEM_HEALTH_HEARTBEATS :: string where
  "SYSTEM_HEALTH_HEARTBEATS = ''system:health:heartbeats''"

definition SYSTEM_HEALTH_ALERTS :: string where
  "SYSTEM_HEALTH_ALERTS = ''system:health:alerts''"

definition SYSTEM_SCHEDULER_TASKS :: string where
  "SYSTEM_SCHEDULER_TASKS = ''system:scheduler:tasks''"

definition SYSTEM_SCHEDULER_ACTIVE :: string where
  "SYSTEM_SCHEDULER_ACTIVE = ''system:scheduler:active''"

definition SYSTEM_SCHEDULER_TRADING_DAYS :: string where
  "SYSTEM_SCHEDULER_TRADING_DAYS = ''system:scheduler:market_calendar:trading_days''"

definition SYSTEM_SCHEDULER_HOLIDAYS :: string where
  "SYSTEM_SCHEDULER_HOLIDAYS = ''system:scheduler:market_calendar:holidays''"

definition SYSTEM_SCHEDULER_SESSION :: string where
  "SYSTEM_SCHEDULER_SESSION = ''system:scheduler:market_calendar:session''"

definition SYSTEM_STREAM_CONTROL :: string where
  "SYSTEM_STREAM_CONTROL = ''system:stream:control''"

definition SYSTEM_PUB_SYSTEM_EVENT :: string where
  "SYSTEM_PUB_SYSTEM_EVENT = ''system:pub:system_event''"

definition SYSTEM_STREAM_SCHEDULER_EVENTS :: string where
  "SYSTEM_STREAM_SCHEDULER_EVENTS = ''system:stream:scheduler_events''"

definition USER_ACCOUNT_USERNAME :: string where
  "USER_ACCOUNT_USERNAME = ''user:account:username''"

definition USER_ACCOUNT_JWT_SECRET :: string where
  "USER_ACCOUNT_JWT_SECRET = ''user:account:jwt_secret''"

definition USER_ACCOUNT_ROLE :: string where
  "USER_ACCOUNT_ROLE = ''user:account:role''"

definition USER_CREDENTIALS_UPSTOX :: string where
  "USER_CREDENTIALS_UPSTOX = ''user:credentials:upstox''"

definition USER_AUTH_ACCESS_TOKEN :: string where
  "USER_AUTH_ACCESS_TOKEN = ''user:auth:access_token''"

definition USER_AUTH_LAST_REFRESH_TS :: string where
  "USER_AUTH_LAST_REFRESH_TS = ''user:auth:last_refresh_ts''"

definition USER_PROFILE_ACCOUNT :: string where
  "USER_PROFILE_ACCOUNT = ''user:profile:account''"

definition USER_CAPITAL_FUNDS :: string where
  "USER_CAPITAL_FUNDS = ''user:capital:funds''"

definition USER_CAPITAL_KILL_SWITCH :: string where
  "USER_CAPITAL_KILL_SWITCH = ''user:capital:kill_switch''"

definition USER_CAPITAL_STATIC_IPS :: string where
  "USER_CAPITAL_STATIC_IPS = ''user:capital:static_ips''"

definition MARKET_DATA_INSTRUMENTS_MASTER :: string where
  "MARKET_DATA_INSTRUMENTS_MASTER = ''market_data:instruments:master''"

definition MARKET_DATA_INSTRUMENTS_LAST_REFRESH_TS :: string where
  "MARKET_DATA_INSTRUMENTS_LAST_REFRESH_TS = ''market_data:instruments:last_refresh_ts''"

definition MARKET_DATA_SUBSCRIPTIONS_SET :: string where
  "MARKET_DATA_SUBSCRIPTIONS_SET = ''market_data:subscriptions:set''"

definition MARKET_DATA_SUBSCRIPTIONS_DESIRED :: string where
  "MARKET_DATA_SUBSCRIPTIONS_DESIRED = ''market_data:subscriptions:desired''"

definition MARKET_DATA_WS_STATUS_MARKET :: string where
  "MARKET_DATA_WS_STATUS_MARKET = ''market_data:ws_status:market_ws''"

definition MARKET_DATA_WS_STATUS_PORTFOLIO :: string where
  "MARKET_DATA_WS_STATUS_PORTFOLIO = ''market_data:ws_status:portfolio_ws''"

definition market_data_index_meta :: "string \<Rightarrow> pyexc + string" where
  "market_data_index_meta index = (if \<not> valid_index index then Inl ValueError else Inr (''market_data:indexes:'' @ index @ '':meta''))"

definition market_data_index_spot :: "string \<Rightarrow> pyexc + string" where
  "market_data_index_spot index = (if \<not> valid_index index then Inl ValueError else Inr (''market_data:indexes:'' @ index @ '':spot''))"

definition market_data_index_option_chain :: "string \<Rightarrow> pyexc + string" where
  "market_data_index_option_chain index = (if \<not> valid_index index then Inl ValueError else Inr (''market_data:indexes:'' @ index @ '':option_chain''))"

definition market_data_stream_tick :: "string \<Rightarrow> pyexc + string" where
  "market_data_stream_tick index = (if \<not> valid_index index then Inl ValueError else Inr (''market_data:stream:tick:'' @ index))"

definition market_data_pub_tick :: "string \<Rightarrow> string" where
  "market_data_pub_tick token = ''market_data:pub:tick:'' @ token"

definition STRATEGY_REGISTRY :: string where
  "STRATEGY_REGISTRY = ''strategy:registry''"

definition STRATEGY_DEFINITIONS :: string where
  "STRATEGY_DEFINITIONS = ''strategy:definitions''"

definition STRATEGY_CONFIGS_EXECUTION :: string where
  "STRATEGY_CONFIGS_EXECUTION = ''strategy:configs:execution''"

definition STRATEGY_CONFIGS_SESSION :: string where
  "STRATEGY_CONFIGS_SESSION = ''strategy:configs:session''"

definition STRATEGY_CONFIGS_RISK :: string where
  "STRATEGY_CONFIGS_RISK = ''strategy:configs:risk''"

definition strategy_config :: "string \<Rightarrow> pyexc + string" where
  "strategy_config sid = (if \<not> valid_strategy_id sid then Inl ValueError else Inr (''strategy:configs:strategies:'' @ sid))"

definition strategy_config_instrument :: "string \<Rightarrow> string \<Rightarrow> pyexc + string" where
  "strategy_config_instrument sid index = (if \<not> valid_strategy_id sid then Inl ValueError else (if \<not> valid_index index then Inl ValueError else Inr (''strategy:configs:strategies:'' @ sid @ '':instruments:'' @ index)))"

definition vessel_prefix :: "string \<Rightarrow> string \<Rightarrow> pyexc + string" where
  "vessel_prefix sid index = (if \<not> valid_strategy_id sid then Inl ValueError else (if \<not> valid_index index then Inl ValueError else Inr (''strategy:'' @ sid @ '':'' @ index)))"

definition vessel_state :: "string \<Rightarrow> string \<Rightarrow> pyexc + string" where
  "vessel_state sid index = map_sum id (\<lambda>p. p @ '':state'') (vessel_prefix sid index)"

definition vessel_phase :: "string \<Rightarrow> string \<Rightarrow> pyexc + string" where
  "vessel_phase sid index = map_sum id (\<lambda>p. p @ '':phase'') (vessel_prefix sid index)"

definition vessel_phase_entered_ts :: "string \<Rightarrow> string \<Rightarrow> pyexc + string" where
  "vessel_phase_entered_ts sid index = map_sum id (\<lambda>p. p @ '':phase_entered_ts'') (vessel_prefix sid index)"

definition vessel_enabled :: "string \<Rightarrow> string \<Rightarrow> pyexc + string" where
  "vessel_enabled sid index = map_sum id (\<lambda>p. p @ '':enabled'') (vessel_prefix sid index)"

definition vessel_basket :: "string \<Rightarrow> string \<Rightarrow> pyexc + string" where
  "vessel_basket sid index = map_sum id (\<lambda>p. p @ '':basket'') (vessel_prefix sid index)"

definition vessel_current_position_id :: "string \<Rightarrow> string \<Rightarrow> pyexc + string" where
  "vessel_current_position_id sid index = map_sum id (\<lambda>p. p @ '':current_position_id'') (vessel_prefix sid index)"

definition vessel_cooldown_until_ts :: "string \<Rightarrow> string \<Rightarrow> pyexc + string" where
  "vessel_cooldown_until_ts sid index = map_sum id (\<lambda>p. p @ '':cooldown_until_ts'') (vessel_prefix sid index)"

definition vessel_cooldown_reason :: "string \<Rightarrow> string \<Rightarrow> pyexc + string" where
  "vessel_cooldown_reason sid index = map_sum id (\<lambda>p. p @ '':cooldown_reason'') (vessel_prefix sid index)"

definition vessel_counter_entries :: "string \<Rightarrow> string \<Rightarrow> pyexc + string" where
  "vessel_counter_entries sid index = map_sum id (\<lambda>p. p @ '':counters:entries_today'') (vessel_prefix sid index)"

definition vessel_counter_reversals :: "string \<Rightarrow> string \<Rightarrow> pyexc + string" where
  "vessel_counter_reversals sid index = map_sum id (\<lambda>p. p @ '':counters:reversals_today'') (vessel_prefix sid index)"

definition vessel_counter_wins :: "string \<Rightarrow> string \<Rightarrow> pyexc + string" where
  "vessel_counter_wins sid index = map_sum id (\<lambda>p. p @ '':counters:wins_today'') (vessel_prefix sid index)"

definition vessel_metrics_per_strike :: "string \<Rightarrow> string \<Rightarrow> pyexc + string" where
  "vessel_metrics_per_strike sid index = map_sum id (\<lambda>p. p @ '':metrics:per_strike'') (vessel_prefix sid index)"

definition vessel_metrics_cum_ce :: "string \<Rightarrow> string \<Rightarrow> pyexc + string" where
  "vessel_metrics_cum_ce sid index = map_sum id (\<lambda>p. p @ '':metrics:cum_ce_imbalance'') (vessel_prefix sid index)"

definition vessel_metrics_cum_pe :: "string \<Rightarrow> string \<Rightarrow> pyexc + string" where
  "vessel_metrics_cum_pe sid index = map_sum id (\<lambda>p. p @ '':metrics:cum_pe_imbalance'') (vessel_prefix sid index)"

definition vessel_metrics_net_pressure :: "string \<Rightarrow> string \<Rightarrow> pyexc + string" where
  "vessel_metrics_net_pressure sid index = map_sum id (\<lambda>p. p @ '':metrics:net_pressure'') (vessel_prefix sid index)"

definition vessel_metrics_last_decision :: "string \<Rightarrow> string \<Rightarrow> pyexc + string" where
  "vessel_metrics_last_decision sid index = map_sum id (\<lambda>p. p @ '':metrics:last_decision'') (vessel_prefix sid index)"

definition vessel_metrics_last_decision_ts :: "string \<Rightarrow> string \<Rightarrow> pyexc + string" where
  "vessel_metrics_last_decision_ts sid index = map_sum id (\<lambda>p. p @ '':metrics:last_decision_ts'') (vessel_prefix sid index)"

definition STRATEGY_SIGNALS_ACTIVE :: string where
  "STRATEGY_SIGNALS_ACTIVE = ''strategy:signals:active''"

definition STRATEGY_SIGNALS_COUNTER :: string where
  "STRATEGY_SIGNALS_COUNTER = ''strategy:signals:counter''"

definition STRATEGY_STREAM_SIGNALS :: string where
  "STRATEGY_STREAM_SIGNALS = ''strategy:stream:signals''"

definition STRATEGY_STREAM_REJECTED_SIGNALS :: string where
  "STRATEGY_STREAM_REJECTED_SIGNALS = ''strategy:stream:rejected_signals''"

definition strategy_signal :: "string \<Rightarrow> string" where
  "strategy_signal sig_id = ''strategy:signals:'' @ sig_id"

definition ORDERS_ALLOCATOR_DEPLOYED :: string where
  "ORDERS_ALLOCATOR_DEPLOYED = ''orders:allocator:deployed''"

definition ORDERS_ALLOCATOR_OPEN_COUNT :: string where
  "ORDERS_ALLOCATOR_OPEN_COUNT = ''orders:allocator:open_count''"

definition orders_allocator_open_for_vessel :: "string \<Rightarrow> string \<Rightarrow> string" where
  "orders_allocator_open_for_vessel sid index = ''orders:allocator:open:'' @ sid @ '':'' @ index"

definition ORDERS_ALLOCATOR_OPEN_SYMBOLS :: string where
  "ORDERS_ALLOCATOR_OPEN_SYMBOLS = ''orders:allocator:open_symbols''"

definition ORDERS_POSITIONS_OPEN :: string where
  "ORDERS_POSITIONS_OPEN = ''orders:positions:open''"

definition ORDERS_POSITIONS_CLOSED_TODAY :: string where
  "ORDERS_POSITIONS_CLOSED_TODAY = ''orders:positions:closed_today''"

definition orders_position :: "string \<Rightarrow> string" where
  "orders_position pos_id = ''orders:positions:'' @ pos_id"

definition orders_positions_open_by_vessel :: "string \<Rightarrow> string \<Rightarrow> pyexc + string" where
  "orders_positions_open_by_vessel sid index = (if \<not> valid_strategy_id sid then Inl ValueError else (if \<not> valid_index index then Inl ValueError else Inr (''orders:positions:open_by_vessel:'' @ sid @ '':'' @ index)))"

definition orders_order :: "string \<Rightarrow> string" where
  "orders_order order_id = ''orders:orders:'' @ order_id"

definition orders_status :: "string \<Rightarrow> string" where
  "orders_status pos_id = ''orders:status:'' @ pos_id"

definition orders_exit_pull :: "string \<Rightarrow> string" where
  "orders_exit_pull pos_id = ''orders:exit_pull:'' @ pos_id"

definition orders_broker_pos :: "string \<Rightarrow> string" where
  "orders_broker_pos order_id = ''orders:broker:pos:'' @ order_id"

definition ORDERS_BROKER_OPEN_ORDERS :: string where
  "ORDERS_BROKER_OPEN_ORDERS = ''orders:broker:open_orders''"

definition ORDERS_PNL_REALIZED :: string where
  "ORDERS_PNL_REALIZED = ''orders:pnl:realized''"

definition ORDERS_PNL_UNREALIZED :: string where
  "ORDERS_PNL_UNREALIZED = ''orders:pnl:unrealized''"

definition ORDERS_PNL_DAY :: string where
  "ORDERS_PNL_DAY = ''orders:pnl:day''"

definition orders_pnl_per_strategy :: "string \<Rightarrow> pyexc + string" where
  "orders_pnl_per_strategy sid = (if \<not> valid_strategy_id sid then Inl ValueError else Inr (''orders:pnl:per_strategy:'' @ sid))"

definition orders_pnl_per_vessel :: "string \<Rightarrow> string \<Rightarrow> pyexc + string" where
  "orders_pnl_per_vessel sid index = (if \<not> valid_strategy_id sid then Inl ValueError else (if \<not> valid_index index then Inl ValueError else Inr (''orders:pnl:per_vessel:'' @ sid @ '':'' @ index)))"

definition ORDERS_REPORTS_PENDING :: string where
  "ORDERS_REPORTS_PENDING = ''orders:reports:pending''"

definition ORDERS_STREAM_ORDER_EVENTS :: string where
  "ORDERS_STREAM_ORDER_EVENTS = ''orders:stream:order_events''"

definition ORDERS_STREAM_MANUAL_EXIT :: string where
  "ORDERS_STREAM_MANUAL_EXIT = ''orders:stream:manual_exit''"

definition ORDERS_STREAM_INTENT :: string where
  "ORDERS_STREAM_INTENT = ''orders:intent:stream''"

definition UI_VIEW_DASHBOARD :: string where
  "UI_VIEW_DASHBOARD = ''ui:views:dashboard''"

definition UI_VIEW_POSITIONS_CLOSED_TODAY :: string where
  "UI_VIEW_POSITIONS_CLOSED_TODAY = ''ui:views:positions_closed_today''"

definition UI_VIEW_PNL :: string where
  "UI_VIEW_PNL = ''ui:views:pnl''"

definition UI_VIEW_CAPITAL :: string where
  "UI_VIEW_CAPITAL = ''ui:views:capital''"

definition UI_VIEW_HEALTH :: string where
  "UI_VIEW_HEALTH = ''ui:views:health''"

definition UI_VIEW_CONFIGS :: string where
  "UI_VIEW_CONFIGS = ''ui:views:configs''"

definition UI_VIEW_STRATEGIES :: string where
  "UI_VIEW_STRATEGIES = ''ui:views:strategies''"

definition UI_DIRTY :: string where
  "UI_DIRTY = ''ui:dirty''"

definition UI_PUB_VIEW :: string where
  "UI_PUB_VIEW = ''ui:pub:view''"

definition UI_STREAM_HEALTH_ALERTS :: string where
  "UI_STREAM_HEALTH_ALERTS = ''ui:stream:health_alerts''"

definition ui_view_vessel :: "string \<Rightarrow> string \<Rightarrow> pyexc + string" where
  "ui_view_vessel sid index = (if \<not> valid_strategy_id sid then Inl ValueError else (if \<not> valid_index index then Inl ValueError else Inr (''ui:views:vessels:'' @ sid @ '':'' @ index)))"

definition ui_view_position :: "string \<Rightarrow> pyexc + string" where
  "ui_view_position index = (if \<not> valid_index index then Inl ValueError else Inr (''ui:views:position:'' @ index))"

definition HEARTBEAT_FIELDS_STATIC :: "string list" where
  "HEARTBEAT_FIELDS_STATIC = [''init'', ''data_pipeline'', ''data_pipeline.subscription_manager'', ''order_exec'', ''background'', ''scheduler'', ''health'', ''api_gateway'']"

definition heartbeat_field_vessel :: "string \<Rightarrow> string \<Rightarrow> pyexc + string" where
  "heartbeat_field_vessel sid index = (if \<not> valid_strategy_id sid then Inl ValueError else (if \<not> valid_index index then Inl ValueError else Inr (''strategy:'' @ sid @ '':'' @ index)))"

definition strategy_enabled :: "string \<Rightarrow> pyexc + string" where
  "strategy_enabled index = vessel_enabled DEFAULT_STRATEGY_ID index"

definition strategy_state :: "string \<Rightarrow> pyexc + string" where
  "strategy_state index = vessel_state DEFAULT_STRATEGY_ID index"

definition strategy_basket :: "string \<Rightarrow> pyexc + string" where
  "strategy_basket index = vessel_basket DEFAULT_STRATEGY_ID index"

definition strategy_pre_open :: "string \<Rightarrow> pyexc + string" where
  "strategy_pre_open index = (if \<not> valid_index index then Inl ValueError else Inr (''strategy:legacy:'' @ index @ '':pre_open''))"

definition strategy_live_sum_ce :: "string \<Rightarrow> pyexc + string" where
  "strategy_live_sum_ce index = vessel_metrics_cum_ce DEFAULT_STRATEGY_ID index"

definition strategy_live_sum_pe :: "string \<Rightarrow> pyexc + string" where
  "strategy_live_sum_pe index = vessel_metrics_cum_pe DEFAULT_STRATEGY_ID index"

definition strategy_live_delta :: "string \<Rightarrow> pyexc + string" where
  "strategy_live_delta index = vessel_metrics_net_pressure DEFAULT_STRATEGY_ID index"

definition strategy_live_diffs :: "string \<Rightarrow> pyexc + string" where
  "strategy_live_diffs index = vessel_metrics_per_strike DEFAULT_STRATEGY_ID index"

definition strategy_live_last_decision_ts :: "string \<Rightarrow> pyexc + string" where
  "strategy_live_last_decision_ts index = vessel_metrics_last_decision_ts DEFAULT_STRATEGY_ID index"

definition strategy_current_position_id :: "string \<Rightarrow> pyexc + string" where
  "strategy_current_position_id index = vessel_current_position_id DEFAULT_STRATEGY_ID index"

definition strategy_cooldown_until_ts :: "string \<Rightarrow> pyexc + string" where
  "strategy_cooldown_until_ts index = vessel_cooldown_until_ts DEFAULT_STRATEGY_ID index"

definition strategy_cooldown_reason :: "string \<Rightarrow> pyexc + string" where
  "strategy_cooldown_reason index = vessel_cooldown_reason DEFAULT_STRATEGY_ID index"

definition strategy_counters_entries_today :: "string \<Rightarrow> pyexc + string" where
  "strategy_counters_entries_today index = vessel_counter_entries DEFAULT_STRATEGY_ID index"

definition strategy_counters_reversals_today :: "string \<Rightarrow> pyexc + string" where
  "strategy_counters_reversals_today index = vessel_counter_reversals DEFAULT_STRATEGY_ID index"

definition strategy_counters_wins_today :: "string \<Rightarrow> pyexc + string" where
  "strategy_counters_wins_today index = vessel_counter_wins DEFAULT_STRATEGY_ID index"

definition strategy_config_index :: "string \<Rightarrow> pyexc + string" where
  "strategy_config_index index = strategy_config_instrument DEFAULT_STRATEGY_ID index"

definition delta_pcr_baseline :: "string \<Rightarrow> pyexc + string" where
  "delta_pcr_baseline index = (if \<not> valid_index index then Inl ValueError else Inr (''strategy:legacy:'' @ index @ '':delta_pcr:baseline''))"

definition delta_pcr_last_oi :: "string \<Rightarrow> pyexc + string" where
  "delta_pcr_last_oi index = (if \<not> valid_index index then Inl ValueError else Inr (''strategy:legacy:'' @ index @ '':delta_pcr:last_oi''))"

definition delta_pcr_interval :: "string \<Rightarrow> pyexc + string" where
  "delta_pcr_interval index = (if \<not> valid_index index then Inl ValueError else Inr (''strategy:legacy:'' @ index @ '':delta_pcr:interval''))"

definition delta_pcr_cumulative :: "string \<Rightarrow> pyexc + string" where
  "delta_pcr_cumulative index = (if \<not> valid_index index then Inl ValueError else Inr (''strategy:legacy:'' @ index @ '':delta_pcr:cumulative''))"

definition delta_pcr_history :: "string \<Rightarrow> pyexc + string" where
  "delta_pcr_history index = (if \<not> valid_index index then Inl ValueError else Inr (''strategy:legacy:'' @ index @ '':delta_pcr:history''))"

definition delta_pcr_last_compute_ts :: "string \<Rightarrow> pyexc + string" where
  "delta_pcr_last_compute_ts index = (if \<not> valid_index index then Inl ValueError else Inr (''strategy:legacy:'' @ index @ '':delta_pcr:last_compute_ts''))"

definition delta_pcr_mode :: "string \<Rightarrow> pyexc + string" where
  "delta_pcr_mode index = (if \<not> valid_index index then Inl ValueError else Inr (''strategy:legacy:'' @ index @ '':delta_pcr:mode''))"

definition orders_positions_open_by_index :: "string \<Rightarrow> pyexc + string" where
  "orders_positions_open_by_index index = (if \<not> valid_index index then Inl ValueError else Inr (''orders:positions:open_by_index:'' @ index))"

definition orders_pnl_per_index :: "string \<Rightarrow> pyexc + string" where
  "orders_pnl_per_index index = orders_pnl_per_vessel DEFAULT_STRATEGY_ID index"

definition ui_view_strategy :: "string \<Rightarrow> pyexc + string" where
  "ui_view_strategy index = ui_view_vessel DEFAULT_STRATEGY_ID index"

definition ui_view_delta_pcr :: "string \<Rightarrow> pyexc + string" where
  "ui_view_delta_pcr index = (if \<not> valid_index index then Inl ValueError else Inr (''ui:views:legacy:delta_pcr:'' @ index))"

section \<open>Key families\<close>

datatype vessel_field =
    VState | VPhase | VPhaseTs | VEnabled | VBasket | VPositionId
  | VCooldownTs | VCooldownReason | VEntries | VReversals | VWins | VPerStrike
  | VCumCe | VCumPe | VNetPressure | VLastDecision | VLastDecisionTs

datatype legacy_field =
    LPreOpen | LBaseline | LLastOi | LInterval | LCumulative | LHistory | LLastComputeTs | LMode

datatype redis_key =
    KFixed string
  | KEngineUp string | KEngineExited string
  | KIndexMeta string | KIndexSpot string | KIndexChain string | KTickStream string | KPubTick string
  | KStrategyConfig string | KStrategyInstrument string string
  | KVessel vessel_field string string | KLegacy legacy_field string
  | KSignal string
  | KAllocOpen string string
  | KPosition string | KOpenByVessel string string | KOpenByIndex string
  | KOrder string | KStatus string | KExitPull string | KBrokerPos string
  | KPnlStrategy string | KPnlVessel string string
  | KViewVessel string string | KViewPosition string | KViewDeltaPcr string

definition FIXED_KEYS :: "string list" where
  "FIXED_KEYS =
    [
     SYSTEM_FLAGS_READY, SYSTEM_FLAGS_TRADING_ACTIVE, SYSTEM_FLAGS_TRADING_DISABLED_REASON,
     SYSTEM_FLAGS_MODE, SYSTEM_FLAGS_DAILY_LOSS_CIRCUIT_TRIGGERED, SYSTEM_FLAGS_INIT_FAILED,
     SYSTEM_FLAGS_DATA_PIPELINE_SUBSCRIBED, SYSTEM_LIFECYCLE_START_TS, SYSTEM_LIFECYCLE_GIT_SHA,
     SYSTEM_LIFECYCLE_LAST_SHUTDOWN_REASON, SYSTEM_HEALTH_SUMMARY, SYSTEM_HEALTH_ENGINES,
     SYSTEM_HEALTH_DEPENDENCIES, SYSTEM_HEALTH_AUTH, SYSTEM_HEALTH_HEARTBEATS,
     SYSTEM_HEALTH_ALERTS, SYSTEM_SCHEDULER_TASKS, SYSTEM_SCHEDULER_ACTIVE,
     SYSTEM_SCHEDULER_TRADING_DAYS, SYSTEM_SCHEDULER_HOLIDAYS, SYSTEM_SCHEDULER_SESSION,
     SYSTEM_STREAM_CONTROL, SYSTEM_PUB_SYSTEM_EVENT, SYSTEM_STREAM_SCHEDULER_EVENTS,
     USER_ACCOUNT_USERNAME, USER_ACCOUNT_JWT_SECRET, USER_ACCOUNT_ROLE, USER_CREDENTIALS_UPSTOX,
     USER_AUTH_ACCESS_TOKEN, USER_AUTH_LAST_REFRESH_TS, USER_PROFILE_ACCOUNT, USER_CAPITAL_FUNDS,
     USER_CAPITAL_KILL_SWITCH, USER_CAPITAL_STATIC_IPS, MARKET_DATA_INSTRUMENTS_MASTER,
     MARKET_DATA_INSTRUMENTS_LAST_REFRESH_TS, MARKET_DATA_SUBSCRIPTIONS_SET,
     MARKET_DATA_SUBSCRIPTIONS_DESIRED, MARKET_DATA_WS_STATUS_MARKET,
     MARKET_DATA_WS_STATUS_PORTFOLIO, STRATEGY_REGISTRY, STRATEGY_DEFINITIONS,
     STRATEGY_CONFIGS_EXECUTION, STRATEGY_CONFIGS_SESSION, STRATEGY_CONFIGS_RISK,
     STRATEGY_SIGNALS_ACTIVE, STRATEGY_SIGNALS_COUNTER, STRATEGY_STREAM_SIGNALS,
     STRATEGY_STREAM_REJECTED_SIGNALS, ORDERS_ALLOCATOR_DEPLOYED, ORDERS_ALLOCATOR_OPEN_COUNT,
     ORDERS_ALLOCATOR_OPEN_SYMBOLS, ORDERS_POSITIONS_OPEN, ORDERS_POSITIONS_CLOSED_TODAY,
     ORDERS_BROKER_OPEN_ORDERS, ORDERS_PNL_REALIZED, ORDERS_PNL_UNREALIZED, ORDERS_PNL_DAY,
     ORDERS_REPORTS_PENDING, ORDERS_STREAM_ORDER_EVENTS, ORDERS_STREAM_MANUAL_EXIT,
     ORDERS_STREAM_INTENT, UI_VIEW_DASHBOARD, UI_VIEW_POSITIONS_CLOSED_TODAY, UI_VIEW_PNL,
     UI_VIEW_CAPITAL, UI_VIEW_HEALTH, UI_VIEW_CONFIGS, UI_VIEW_STRATEGIES, UI_DIRTY, UI_PUB_VIEW,
     UI_STREAM_HEALTH_ALERTS]"

fun vessel_key :: "vessel_field \<Rightarrow> string \<Rightarrow> string \<Rightarrow> pyexc + string" where
"vessel_key VState sid idx = vessel_state sid idx"
| "vessel_key VPhase sid idx = vessel_phase sid idx"
| "vessel_key VPhaseTs sid idx = vessel_phase_entered_ts sid idx"
| "vessel_key VEnabled sid idx = vessel_enabled sid idx"
| "vessel_key VBasket sid idx = vessel_basket sid idx"
| "vessel_key VPositionId sid idx = vessel_current_position_id sid idx"
| "vessel_key VCooldownTs sid idx = vessel_cooldown_until_ts sid idx"
| "vessel_key VCooldownReason sid idx = vessel_cooldown_reason sid idx"
| "vessel_key VEntries sid idx = vessel_counter_entries sid idx"
| "vessel_key VReversals sid idx = vessel_counter_reversals sid idx"
| "vessel_key VWins sid idx = vessel_counter_wins sid idx"
| "vessel_key VPerStrike sid idx = vessel_metrics_per_strike sid idx"
| "vessel_key VCumCe sid idx = vessel_metrics_cum_ce sid idx"
| "vessel_key VCumPe sid idx = vessel_metrics_cum_pe sid idx"
| "vessel_key VNetPressure sid idx = vessel_metrics_net_pressure sid idx"
| "vessel_key VLastDecision sid idx = vessel_metrics_last_decision sid idx"
| "vessel_key VLastDecisionTs sid idx = vessel_metrics_last_decision_ts sid idx"

fun legacy_key :: "legacy_field \<Rightarrow> string \<Rightarrow> pyexc + string" where
"legacy_key LPreOpen idx = strategy_pre_open idx"
| "legacy_key LBaseline idx = delta_pcr_baseline idx"
| "legacy_key LLastOi idx = delta_pcr_last_oi idx"
| "legacy_key LInterval idx = delta_pcr_interval idx"
| "legacy_key LCumulative idx = delta_pcr_cumulative idx"
| "legacy_key LHistory idx = delta_pcr_history idx"
| "legacy_key LLastComputeTs idx = delta_pcr_last_compute_ts idx"
| "legacy_key LMode idx = delta_pcr_mode idx"

fun render_key :: "redis_key \<Rightarrow> pyexc + string" where
  "render_key (KFixed s) = Inr s"
| "render_key (KEngineUp n) = Inr (system_flag_engine_up n)"
| "render_key (KEngineExited n) = Inr (system_flag_engine_exited n)"
| "render_key (KIndexMeta i) = market_data_index_meta i"
| "render_key (KIndexSpot i) = market_data_index_spot i"
| "render_key (KIndexChain i) = market_data_index_option_chain i"
| "render_key (KTickStream i) = market_data_stream_tick i"
| "render_key (KPubTick t) = Inr (market_data_pub_tick t)"
| "render_key (KStrategyConfig sid) = strategy_config sid"
| "render_key (KStrategyInstrument sid i) = strategy_config_instrument sid i"
| "render_key (KVessel f sid i) = vessel_key f sid i"
| "render_key (KLegacy f i) = legacy_key f i"
| "render_key (KSignal s) = Inr (strategy_signal s)"
| "render_key (KAllocOpen sid i) = Inr (orders_allocator_open_for_vessel sid i)"
| "render_key (KPosition p) = Inr (orders_position p)"
| "render_key (KOpenByVessel sid i) = orders_positions_open_by_vessel sid i"
| "render_key (KOpenByIndex i) = orders_positions_open_by_index i"
| "render_key (KOrder x) = Inr (orders_order x)"
| "render_key (KStatus p) = Inr (orders_status p)"
| "render_key (KExitPull p) = Inr (orders_exit_pull p)"
| "render_key (KBrokerPos x) = Inr (orders_broker_pos x)"
| "render_key (KPnlStrategy sid) = orders_pnl_per_strategy sid"
| "render_key (KPnlVessel sid i) = orders_pnl_per_vessel sid i"
| "render_key (KViewVessel sid i) = ui_view_vessel sid i"
| "render_key (KViewPosition i) = ui_view_position i"
| "render_key (KViewDeltaPcr i) = ui_view_delta_pcr i"

text \<open>The identifiers the engines use: signal ids are hexadecimal, position ids are UUIDs; the
  unvalidated allocator helper is called with a valid vessel.\<close>

definition colon_free :: "string \<Rightarrow> bool" where
  "colon_free s \<longleftrightarrow> CHR '':'' \<notin> set s"

fun key_ok :: "redis_key \<Rightarrow> bool" where
  "key_ok (KFixed s) = (s \<in> set FIXED_KEYS)"
| "key_ok (KSignal s) = (colon_free s \<and> s \<notin> {''active'', ''counter''})"
| "key_ok (KPosition p) = (colon_free p \<and> p \<notin> {''open'', ''closed_today''})"
| "key_ok (KAllocOpen sid i) = (colon_free sid \<and> colon_free i)"
| "key_ok _ = True"

section \<open>Reading a key back\<close>

fun join_on :: "char \<Rightarrow> string list \<Rightarrow> string" where
  "join_on c [] = []"
| "join_on c [s] = s"
| "join_on c (s # ss) = s @ c # join_on c ss"

abbreviation segs :: "string \<Rightarrow> string list" where
  "segs \<equiv> split_on CHR '':''"

definition vessel_fields :: "(string list \<times> vessel_field) list" where
  "vessel_fields =
    [
     ([''state''], VState), ([''phase''], VPhase), ([''phase_entered_ts''], VPhaseTs),
     ([''enabled''], VEnabled), ([''basket''], VBasket), ([''current_position_id''], VPositionId),
     ([''cooldown_until_ts''], VCooldownTs), ([''cooldown_reason''], VCooldownReason),
     ([''counters'', ''entries_today''], VEntries),
     ([''counters'', ''reversals_today''], VReversals), ([''counters'', ''wins_today''], VWins),
     ([''metrics'', ''per_strike''], VPerStrike), ([''metrics'', ''cum_ce_imbalance''], VCumCe),
     ([''metrics'', ''cum_pe_imbalance''], VCumPe),
     ([''metrics'', ''net_pressure''], VNetPressure),
     ([''metrics'', ''last_decision''], VLastDecision),
     ([''metrics'', ''last_decision_ts''], VLastDecisionTs)]"

definition legacy_fields :: "(string list \<times> legacy_field) list" where
  "legacy_fields =
    [
     ([''pre_open''], LPreOpen), ([''delta_pcr'', ''baseline''], LBaseline),
     ([''delta_pcr'', ''last_oi''], LLastOi), ([''delta_pcr'', ''interval''], LInterval),
     ([''delta_pcr'', ''cumulative''], LCumulative), ([''delta_pcr'', ''history''], LHistory),
     ([''delta_pcr'', ''last_compute_ts''], LLastComputeTs), ([''delta_pcr'', ''mode''], LMode)]"

definition index_segs :: "string list \<Rightarrow> redis_key option" where
  "index_segs ss =
     (if drop 1 ss = [''meta''] then Some (KIndexMeta (ss ! 0))
      else if drop 1 ss = [''spot''] then Some (KIndexSpot (ss ! 0))
      else if drop 1 ss = [''option_chain''] then Some (KIndexChain (ss ! 0)) else None)"

definition strategy_segs :: "string list \<Rightarrow> redis_key option" where
  "strategy_segs ss =
     (if length ss = 2 \<and> ss ! 0 = ''signals'' then Some (KSignal (ss ! 1))
      else if take 2 ss = [''configs'', ''strategies''] then
        (if length ss = 3 then Some (KStrategyConfig (ss ! 2)) else Some (KStrategyInstrument (ss ! 2) (ss ! 4)))
      else (case map_of vessel_fields (drop 2 ss) of
              Some f \<Rightarrow> Some (KVessel f (ss ! 0) (ss ! 1))
            | None \<Rightarrow> map_option (\<lambda>f. KLegacy f (ss ! 1)) (map_of legacy_fields (drop 2 ss))))"

definition orders_segs :: "string list \<Rightarrow> redis_key option" where
  "orders_segs ss =
     (if take 2 ss = [''allocator'', ''open''] then Some (KAllocOpen (ss ! 2) (ss ! 3))
      else if take 2 ss = [''positions'', ''open_by_vessel''] \<and> length ss = 4 then Some (KOpenByVessel (ss ! 2) (ss ! 3))
      else if take 2 ss = [''positions'', ''open_by_index''] \<and> length ss = 3 then Some (KOpenByIndex (ss ! 2))
      else if take 1 ss = [''positions''] then Some (KPosition (ss ! 1))
      else if take 1 ss = [''orders''] then Some (KOrder (join_on CHR '':'' (drop 1 ss)))
      else if take 1 ss = [''status''] then Some (KStatus (join_on CHR '':'' (drop 1 ss)))
      else if take 1 ss = [''exit_pull''] then Some (KExitPull (join_on CHR '':'' (drop 1 ss)))
      else if take 2 ss = [''broker'', ''pos''] then Some (KBrokerPos (join_on CHR '':'' (drop 2 ss)))
      else if take 2 ss = [''pnl'', ''per_strategy''] then Some (KPnlStrategy (ss ! 2))
      else if take 2 ss = [''pnl'', ''per_vessel''] then Some (KPnlVessel (ss ! 2) (ss ! 3)) else None)"

definition ui_segs :: "string list \<Rightarrow> redis_key option" where
  "ui_segs ss =
     (if take 2 ss = [''views'', ''vessels''] then Some (KViewVessel (ss ! 2) (ss ! 3))
      else if take 2 ss = [''views'', ''position''] then Some (KViewPosition (ss ! 2))
      else if take 3 ss = [''views'', ''legacy'', ''delta_pcr''] then Some (KViewDeltaPcr (ss ! 3)) else None)"

definition read_key :: "string \<Rightarrow> redis_key option" where
  "read_key s =
     (if s \<in> set FIXED_KEYS then Some (KFixed s)
      else
        (let ss = segs s
         in if take 3 ss = [''system'', ''flags'', ''engine_up''] then Some (KEngineUp (join_on CHR '':'' (drop 3 ss)))
            else if take 3 ss = [''system'', ''flags'', ''exited''] then Some (KEngineExited (join_on CHR '':'' (drop 3 ss)))
            else if take 2 ss = [''market_data'', ''indexes''] then index_segs (drop 2 ss)
            else if take 3 ss = [''market_data'', ''stream'', ''tick''] then Some (KTickStream (ss ! 3))
            else if take 3 ss = [''market_data'', ''pub'', ''tick''] then Some (KPubTick (join_on CHR '':'' (drop 3 ss)))
            else if take 1 ss = [''strategy''] then strategy_segs (drop 1 ss)
            else if take 1 ss = [''orders''] then orders_segs (drop 1 ss)
            else if take 1 ss = [''ui''] then ui_segs (drop 1 ss) else None))"

section \<open>Lemmas\<close>

lemmas key_helper_defs =
  system_flag_engine_up_def system_flag_engine_exited_def market_data_index_meta_def
  market_data_index_spot_def market_data_index_option_chain_def market_data_stream_tick_def
  market_data_pub_tick_def strategy_config_def strategy_config_instrument_def vessel_prefix_def
  vessel_state_def vessel_phase_def vessel_phase_entered_ts_def vessel_enabled_def
  vessel_basket_def vessel_current_position_id_def vessel_cooldown_until_ts_def
  vessel_cooldown_reason_def vessel_counter_entries_def vessel_counter_reversals_def
  vessel_counter_wins_def vessel_metrics_per_strike_def vessel_metrics_cum_ce_def
  vessel_metrics_cum_pe_def vessel_metrics_net_pressure_def vessel_metrics_last_decision_def
  vessel_metrics_last_decision_ts_def strategy_signal_def orders_allocator_open_for_vessel_def
  orders_position_def orders_positions_open_by_vessel_def orders_order_def orders_status_def
  orders_exit_pull_def orders_broker_pos_def orders_pnl_per_strategy_def
  orders_pnl_per_vessel_def ui_view_vessel_def ui_view_position_def heartbeat_field_vessel_def
  strategy_enabled_def strategy_state_def strategy_basket_def strategy_pre_open_def
  strategy_live_sum_ce_def strategy_live_sum_pe_def strategy_live_delta_def
  strategy_live_diffs_def strategy_live_last_decision_ts_def strategy_current_position_id_def
  strategy_cooldown_until_ts_def strategy_cooldown_reason_def strategy_counters_entries_today_def
  strategy_counters_reversals_today_def strategy_counters_wins_today_def
  strategy_config_index_def delta_pcr_baseline_def delta_pcr_last_oi_def delta_pcr_interval_def
  delta_pcr_cumulative_def delta_pcr_history_def delta_pcr_last_compute_ts_def delta_pcr_mode_def
  orders_positions_open_by_index_def orders_pnl_per_index_def ui_view_strategy_def
  ui_view_delta_pcr_def

lemmas key_const_defs =
  SYSTEM_FLAGS_READY_def SYSTEM_FLAGS_TRADING_ACTIVE_def SYSTEM_FLAGS_TRADING_DISABLED_REASON_def
  SYSTEM_FLAGS_MODE_def SYSTEM_FLAGS_DAILY_LOSS_CIRCUIT_TRIGGERED_def
  SYSTEM_FLAGS_INIT_FAILED_def SYSTEM_FLAGS_DATA_PIPELINE_SUBSCRIBED_def
  SYSTEM_LIFECYCLE_START_TS_def SYSTEM_LIFECYCLE_GIT_SHA_def
  SYSTEM_LIFECYCLE_LAST_SHUTDOWN_REASON_def SYSTEM_HEALTH_SUMMARY_def SYSTEM_HEALTH_ENGINES_def
  SYSTEM_HEALTH_DEPENDENCIES_def SYSTEM_HEALTH_AUTH_def SYSTEM_HEALTH_HEARTBEATS_def
  SYSTEM_HEALTH_ALERTS_def SYSTEM_SCHEDULER_TASKS_def SYSTEM_SCHEDULER_ACTIVE_def
  SYSTEM_SCHEDULER_TRADING_DAYS_def SYSTEM_SCHEDULER_HOLIDAYS_def SYSTEM_SCHEDULER_SESSION_def
  SYSTEM_STREAM_CONTROL_def SYSTEM_PUB_SYSTEM_EVENT_def SYSTEM_STREAM_SCHEDULER_EVENTS_def
  USER_ACCOUNT_USERNAME_def USER_ACCOUNT_JWT_SECRET_def USER_ACCOUNT_ROLE_def
  USER_CREDENTIALS_UPSTOX_def USER_AUTH_ACCESS_TOKEN_def USER_AUTH_LAST_REFRESH_TS_def
  USER_PROFILE_ACCOUNT_def USER_CAPITAL_FUNDS_def USER_CAPITAL_KILL_SWITCH_def
  USER_CAPITAL_STATIC_IPS_def MARKET_DATA_INSTRUMENTS_MASTER_def
  MARKET_DATA_INSTRUMENTS_LAST_REFRESH_TS_def MARKET_DATA_SUBSCRIPTIONS_SET_def
  MARKET_DATA_SUBSCRIPTIONS_DESIRED_def MARKET_DATA_WS_STATUS_MARKET_def
  MARKET_DATA_WS_STATUS_PORTFOLIO_def STRATEGY_REGISTRY_def STRATEGY_DEFINITIONS_def
  STRATEGY_CONFIGS_EXECUTION_def STRATEGY_CONFIGS_SESSION_def STRATEGY_CONFIGS_RISK_def
  STRATEGY_SIGNALS_ACTIVE_def STRATEGY_SIGNALS_COUNTER_def STRATEGY_STREAM_SIGNALS_def
  STRATEGY_STREAM_REJECTED_SIGNALS_def ORDERS_ALLOCATOR_DEPLOYED_def
  ORDERS_ALLOCATOR_OPEN_COUNT_def ORDERS_ALLOCATOR_OPEN_SYMBOLS_def ORDERS_POSITIONS_OPEN_def
  ORDERS_POSITIONS_CLOSED_TODAY_def ORDERS_BROKER_OPEN_ORDERS_def ORDERS_PNL_REALIZED_def
  ORDERS_PNL_UNREALIZED_def ORDERS_PNL_DAY_def ORDERS_REPORTS_PENDING_def
  ORDERS_STREAM_ORDER_EVENTS_def ORDERS_STREAM_MANUAL_EXIT_def ORDERS_STREAM_INTENT_def
  UI_VIEW_DASHBOARD_def UI_VIEW_POSITIONS_CLOSED_TODAY_def UI_VIEW_PNL_def UI_VIEW_CAPITAL_def
  UI_VIEW_HEALTH_def UI_VIEW_CONFIGS_def UI_VIEW_STRATEGIES_def UI_DIRTY_def UI_PUB_VIEW_def
  UI_STREAM_HEALTH_ALERTS_def

lemma split_on_plain: "c \<notin> set s \<Longrightarrow> split_on c s = [s]"
  by (induction s) auto

lemma split_on_append: "c \<notin> set s \<Longrightarrow> split_on c (s @ c # t) = s # split_on c t"
  by (induction s) auto

lemma join_split_on [simp]: "join_on c (split_on c s) = s"
proof (induction s)
  case (Cons x s)
  then show ?case
    by (cases "split_on c s"; cases "tl (split_on c s)") (auto split: list.splits)
qed simp

lemma colon_free_index: "valid_index i \<Longrightarrow> CHR '':'' \<notin> set i"
  by (auto simp: valid_index_def)

lemma colon_free_strategy_id: "valid_strategy_id s \<Longrightarrow> CHR '':'' \<notin> set s"
proof
  assume v: "valid_strategy_id s" and c: "CHR '':'' \<in> set s"
  have "CHR '':'' \<in> set (filter (\<lambda>c. c \<noteq> CHR ''_'') s)" using c by simp
  with v have "is_alnum CHR '':''" by (auto simp: valid_strategy_id_def Let_def list_all_iff)
  then show False by (simp add: is_alnum_def)
qed

text \<open>The shape of a key that belongs to a parameterised family.\<close>

definition family_shape :: "string list \<Rightarrow> bool" where
  "family_shape ss \<longleftrightarrow>
     take 3 ss \<in> {[''system'', ''flags'', ''engine_up''], [''system'', ''flags'', ''exited''],
       [''market_data'', ''pub'', ''tick''], [''market_data'', ''stream'', ''tick''],
       [''strategy'', ''configs'', ''strategies''], [''orders'', ''allocator'', ''open''],
       [''orders'', ''positions'', ''open_by_vessel''], [''orders'', ''positions'', ''open_by_index''],
       [''orders'', ''broker'', ''pos''], [''orders'', ''pnl'', ''per_strategy''], [''orders'', ''pnl'', ''per_vessel''],
       [''ui'', ''views'', ''vessels''], [''ui'', ''views'', ''position''], [''ui'', ''views'', ''legacy'']} \<or>
     take 2 ss \<in> {[''market_data'', ''indexes''], [''orders'', ''orders''], [''orders'', ''status''], [''orders'', ''exit_pull'']} \<or>
     take 1 ss = [''strategy''] \<and> 4 \<le> length ss \<or>
     take 2 ss = [''strategy'', ''signals''] \<and> drop 2 ss \<notin> {[''active''], [''counter'']} \<or>
     take 2 ss = [''orders'', ''positions''] \<and> drop 2 ss \<notin> {[''open''], [''closed_today'']}"

lemma fixed_shape: "list_all (\<lambda>s. \<not> family_shape (segs s)) FIXED_KEYS"
  unfolding FIXED_KEYS_def key_const_defs list.pred_inject by (simp add: family_shape_def)

lemma family_not_fixed: "family_shape (segs s) \<Longrightarrow> s \<notin> set FIXED_KEYS"
  using fixed_shape by (auto simp: list_all_iff)

lemma read_family:
  "family_shape (segs s) \<Longrightarrow> read_key s =
     (let ss = segs s
      in if take 3 ss = [''system'', ''flags'', ''engine_up''] then Some (KEngineUp (join_on CHR '':'' (drop 3 ss)))
         else if take 3 ss = [''system'', ''flags'', ''exited''] then Some (KEngineExited (join_on CHR '':'' (drop 3 ss)))
         else if take 2 ss = [''market_data'', ''indexes''] then index_segs (drop 2 ss)
         else if take 3 ss = [''market_data'', ''stream'', ''tick''] then Some (KTickStream (ss ! 3))
         else if take 3 ss = [''market_data'', ''pub'', ''tick''] then Some (KPubTick (join_on CHR '':'' (drop 3 ss)))
         else if take 1 ss = [''strategy''] then strategy_segs (drop 1 ss)
         else if take 1 ss = [''orders''] then orders_segs (drop 1 ss)
         else if take 1 ss = [''ui''] then ui_segs (drop 1 ss) else None)"
  by (simp add: read_key_def family_not_fixed)

lemmas split_key = colon_free_index colon_free_strategy_id split_on_append split_on_plain

fun vessel_suffix :: "vessel_field \<Rightarrow> string" where
  "vessel_suffix VState = ''state''"
| "vessel_suffix VPhase = ''phase''"
| "vessel_suffix VPhaseTs = ''phase_entered_ts''"
| "vessel_suffix VEnabled = ''enabled''"
| "vessel_suffix VBasket = ''basket''"
| "vessel_suffix VPositionId = ''current_position_id''"
| "vessel_suffix VCooldownTs = ''cooldown_until_ts''"
| "vessel_suffix VCooldownReason = ''cooldown_reason''"
| "vessel_suffix VEntries = ''counters:entries_today''"
| "vessel_suffix VReversals = ''counters:reversals_today''"
| "vessel_suffix VWins = ''counters:wins_today''"
| "vessel_suffix VPerStrike = ''metrics:per_strike''"
| "vessel_suffix VCumCe = ''metrics:cum_ce_imbalance''"
| "vessel_suffix VCumPe = ''metrics:cum_pe_imbalance''"
| "vessel_suffix VNetPressure = ''metrics:net_pressure''"
| "vessel_suffix VLastDecision = ''metrics:last_decision''"
| "vessel_suffix VLastDecisionTs = ''metrics:last_decision_ts''"

fun legacy_suffix :: "legacy_field \<Rightarrow> string" where
  "legacy_suffix LPreOpen = ''pre_open''"
| "legacy_suffix LBaseline = ''delta_pcr:baseline''"
| "legacy_suffix LLastOi = ''delta_pcr:last_oi''"
| "legacy_suffix LInterval = ''delta_pcr:interval''"
| "legacy_suffix LCumulative = ''delta_pcr:cumulative''"
| "legacy_suffix LHistory = ''delta_pcr:history''"
| "legacy_suffix LLastComputeTs = ''delta_pcr:last_compute_ts''"
| "legacy_suffix LMode = ''delta_pcr:mode''"

lemma vessel_key_eq:
  "vessel_key f sid idx =
     (if \<not> valid_strategy_id sid \<or> \<not> valid_index idx then Inl ValueError
      else Inr (''strategy:'' @ sid @ '':'' @ idx @ '':'' @ vessel_suffix f))"
  by (cases f; simp add: key_helper_defs)

lemma legacy_key_eq:
  "legacy_key f idx =
     (if \<not> valid_index idx then Inl ValueError else Inr (''strategy:legacy:'' @ idx @ '':'' @ legacy_suffix f))"
  by (cases f; simp add: key_helper_defs)

lemma suffix_fields [simp]:
  "map_of vessel_fields (segs (vessel_suffix f)) = Some f"
  "map_of vessel_fields (segs (legacy_suffix g)) = None" "map_of legacy_fields (segs (legacy_suffix g)) = Some g"
  by (cases f; simp add: vessel_fields_def; fail) (cases g; simp add: vessel_fields_def legacy_fields_def; fail)+

lemma segs_nonempty [simp]: "segs s \<noteq> []"
  by (cases s) (auto split: list.splits)

lemma strategy_four_shape: "family_shape (''strategy'' # a # b # segs r)"
  by (cases "segs r") (simp_all add: family_shape_def)

lemma read_vessel_key: "vessel_key f sid idx = Inr s \<Longrightarrow> read_key s = Some (KVessel f sid idx)"
proof -
  assume "vessel_key f sid idx = Inr s"
  then have v: "valid_strategy_id sid" "valid_index idx" and s: "s = ''strategy:'' @ sid @ '':'' @ idx @ '':'' @ vessel_suffix f"
    by (auto simp: vessel_key_eq split: if_splits)
  have c: "idx \<noteq> ''strategies''" using v(2) by (auto simp: valid_index_def)
  have g: "segs s = ''strategy'' # sid # idx # segs (vessel_suffix f)" using v by (simp add: s split_key)
  have "length (segs (vessel_suffix f)) \<noteq> 0" by simp
  then show ?thesis
    using c strategy_four_shape [of sid idx "vessel_suffix f", folded g]
    by (simp add: read_family g strategy_segs_def del: segs_nonempty)
qed

lemma read_legacy_key: "legacy_key f idx = Inr s \<Longrightarrow> read_key s = Some (KLegacy f idx)"
proof -
  assume "legacy_key f idx = Inr s"
  then have v: "valid_index idx" and s: "s = ''strategy:legacy:'' @ idx @ '':'' @ legacy_suffix f"
    by (auto simp: legacy_key_eq split: if_splits)
  have g: "segs s = ''strategy'' # ''legacy'' # idx # segs (legacy_suffix f)" using v by (simp add: s split_key)
  then show ?thesis
    using strategy_four_shape [of "''legacy''" idx "legacy_suffix f", folded g]
    by (simp add: read_family g strategy_segs_def)
qed

lemma render_read: "key_ok k \<Longrightarrow> render_key k = Inr s \<Longrightarrow> read_key s = Some k"
proof (cases k)
  case (KFixed x)
  then show "key_ok k \<Longrightarrow> render_key k = Inr s \<Longrightarrow> ?thesis" by (simp add: read_key_def)
next
  case (KVessel f sid i)
  then show "key_ok k \<Longrightarrow> render_key k = Inr s \<Longrightarrow> ?thesis" using read_vessel_key by simp
next
  case (KLegacy f i)
  then show "key_ok k \<Longrightarrow> render_key k = Inr s \<Longrightarrow> ?thesis" using read_legacy_key by simp
qed (auto simp: key_helper_defs split_key colon_free_def read_family family_shape_def index_segs_def strategy_segs_def
      orders_segs_def ui_segs_def split: if_splits)

section \<open>Properties\<close>

text \<open>Claim C39.  No two keys of the system collide.  The text of a key determines its family and
  every parameter, over all the constants and all the parameterised families of the namespace,
  for signal ids and position ids that are free of colons and are not one of the four reserved
  words; so distinct pieces of state never share a Redis key.\<close>

theorem keys_never_collide:
  assumes "key_ok k1" and "key_ok k2" and "render_key k1 = Inr s" and "render_key k2 = Inr s"
  shows "k1 = k2"
  using render_read [OF assms(1,3)] render_read [OF assms(2,4)] by simp

theorem keys_never_collide_witness:
  "render_key (KVessel VState DEFAULT_STRATEGY_ID ''nifty50'') \<noteq> render_key (KLegacy LPreOpen ''nifty50'') \<and>
   (\<exists>s. render_key (KVessel VState DEFAULT_STRATEGY_ID ''nifty50'') = Inr s)"
proof -
  have v: "valid_strategy_id DEFAULT_STRATEGY_ID" "valid_index ''nifty50''"
    by (simp_all add: valid_strategy_id_def DEFAULT_STRATEGY_ID_def is_alnum_def Let_def valid_index_def)
  then obtain s where s: "render_key (KVessel VState DEFAULT_STRATEGY_ID ''nifty50'') = Inr s" by (simp add: vessel_key_eq del: vessel_key.simps)
  have "render_key (KLegacy LPreOpen ''nifty50'') \<noteq> Inr s"
    using keys_never_collide [OF _ _ s, of "KLegacy LPreOpen ''nifty50''"] by auto
  with s show ?thesis by auto
qed

end
