(* ===== verification/TickProcessor.thy ===== *)
theory TickProcessor
  imports Aggregator Keys
begin

text \<open>
  \<open>data_pipeline/{state,tick_processor,main}.py\<close> and the message callback of \<open>ws_io.py\<close>: loading
  the chain templates, the tick loop with its in-memory chains, and the flush to Redis.  The keys
  of \<open>market_data:*\<close> are one record.  Each pass of the loop reads one input: whether shutdown is
  set at the loop test, the messages the socket thread has delivered since the last pass, and the
  two clocks.  An empty queue is the timeout of \<open>wait_for\<close>.
\<close>

section \<open>State\<close>

record index_meta =
  im_strike_step :: "int option"
  im_spot_token :: "token option"
  im_prev_close :: "money option"

record tick_event =
  te_token :: token
  te_ltp :: money
  te_ts :: int

record ws_status =
  ws_connected_flag :: "bool option"
  ws_last_frame_ts :: "int option"
  ws_reconnect_count :: "int option"

record market_db =
  md_meta :: "index_name \<Rightarrow> index_meta option"
  md_chain :: "index_name \<Rightarrow> chain option"
  md_spot :: "index_name \<Rightarrow> spot_snap option"
  md_stream :: "index_name \<Rightarrow> tick_event list"
  md_published :: "string list"
  md_desired :: "token set"
  md_subscribed :: "token set"
  md_ws :: ws_status
  md_pipeline_subscribed :: "string option"
  md_engine_up :: "string option"
  md_engine_exited :: "string option"
  md_warnings :: "string list"
  md_heartbeats :: "string \<Rightarrow> int option"

record pipe =
  pl_index_meta :: "index_name \<Rightarrow> index_meta option"
  pl_token_index :: "(token \<times> index_name \<times> int \<times> string) list"
  pl_queue :: "json list"
  pl_ws_connected :: bool
  pl_chain :: "index_name \<Rightarrow> chain option"
  pl_spot :: "index_name \<Rightarrow> spot_snap option"
  pl_last_frame_ts :: "(token \<times> int) list"
  pl_first_frame :: "token set"
  pl_processed :: int
  pl_dropped :: int
  pl_last_flush_ts :: int

section \<open>Boot\<close>

definition load_access_token :: "auth_blob option \<Rightarrow> token option" where
  "load_access_token raw =
     (case raw of
        None \<Rightarrow> None
      | Some (AuthDict tok) \<Rightarrow> (case tok of Some (c # cs) \<Rightarrow> Some (c # cs) | _ \<Rightarrow> None)
      | Some (AuthBare txt) \<Rightarrow> (if txt = [] then None else Some txt))"

definition leg_entry :: "index_name \<Rightarrow> int \<Rightarrow> side \<Rightarrow> leaf option \<Rightarrow> (token \<times> index_name \<times> int \<times> string) list" where
  "leg_entry idx strike sd lf =
     (case lf of
        None \<Rightarrow> []
      | Some l \<Rightarrow> (case l_token l of Some (c # cs) \<Rightarrow> [(c # cs, idx, strike, side_key sd)] | _ \<Rightarrow> []))"

definition strike_entries :: "index_name \<Rightarrow> string \<times> sides \<Rightarrow> (token \<times> index_name \<times> int \<times> string) list" where
  "strike_entries idx row =
     (case row of (k, ce, pe) \<Rightarrow>
        (case int_of_str k of
           None \<Rightarrow> []
         | Some strike \<Rightarrow> leg_entry idx strike CE ce @ leg_entry idx strike PE pe))"

definition spot_entry :: "index_name \<Rightarrow> index_meta option \<Rightarrow> (token \<times> index_name \<times> int \<times> string) list" where
  "spot_entry idx meta =
     (case meta of
        None \<Rightarrow> []
      | Some m \<Rightarrow> (case im_spot_token m of Some (c # cs) \<Rightarrow> [(c # cs, idx, 0, ''spot'')] | _ \<Rightarrow> []))"

definition template_entries :: "market_db \<Rightarrow> (token \<times> index_name \<times> int \<times> string) list" where
  "template_entries m =
     concat (map (\<lambda>idx. spot_entry idx (md_meta m idx) @
       concat (map (strike_entries idx) (get_or (md_chain m idx) []))) INDEXES)"

definition on_indexes :: "(index_name \<Rightarrow> 'a option) \<Rightarrow> index_name \<Rightarrow> 'a option" where
  "on_indexes f idx = (if idx \<in> set INDEXES then f idx else None)"

definition load_state :: "auth_blob option \<Rightarrow> market_db \<Rightarrow> pipe option" where
  "load_state auth m =
     (if load_access_token auth = None then None
      else
        let ti = foldl (\<lambda>d (tok, v). dict_set tok v d) [] (template_entries m)
        in if ti = [] then None
           else Some \<lparr>pl_index_meta = on_indexes (md_meta m), pl_token_index = ti, pl_queue = [],
                  pl_ws_connected = False, pl_chain = on_indexes (md_chain m), pl_spot = (\<lambda>_. None),
                  pl_last_frame_ts = [], pl_first_frame = {}, pl_processed = 0, pl_dropped = 0,
                  pl_last_flush_ts = 0\<rparr>)"

section \<open>Messages\<close>

definition QUEUE_MAXSIZE :: nat where
  "QUEUE_MAXSIZE = 10000"

text \<open>\<open>_on_message\<close> only schedules \<open>put_nowait\<close> on the loop, so a full queue raises inside the
  scheduled callback, where the \<open>except QueueFull\<close> branch cannot see it: the new message is lost and
  nothing is counted.\<close>

definition on_message :: "json \<Rightarrow> pipe \<Rightarrow> pipe" where
  "on_message msg p =
     (if msg = JNull then p
      else if QUEUE_MAXSIZE \<le> length (pl_queue p) then p
      else p\<lparr>pl_queue := pl_queue p @ [msg]\<rparr>)"

section \<open>Ticks\<close>

definition emit_tick_stream :: "index_name \<Rightarrow> parsed_tick \<Rightarrow> market_db \<Rightarrow> pyexc + market_db" where
  "emit_tick_stream idx t m =
     and_then (market_data_stream_tick idx) (\<lambda>_.
       Inr (m\<lparr>md_stream := (md_stream m)(idx := md_stream m idx @
         [\<lparr>te_token = pt_token t, te_ltp = num_or (pt_ltp t) 0, te_ts = pt_ts t\<rparr>])\<rparr>))"

definition publish_tick :: "token \<Rightarrow> market_db \<Rightarrow> market_db" where
  "publish_tick tok m = m\<lparr>md_published := md_published m @ [market_data_pub_tick tok]\<rparr>"

definition flush_spot :: "index_name \<Rightarrow> spot_snap \<Rightarrow> market_db \<Rightarrow> pyexc + market_db" where
  "flush_spot idx sp m =
     and_then (market_data_index_spot idx) (\<lambda>_. Inr (m\<lparr>md_spot := (md_spot m)(idx \<mapsto> sp)\<rparr>))"

text \<open>The result of a handler that may raise after some of its effects.\<close>

definition effect_of :: "pyexc + market_db \<Rightarrow> pipe \<Rightarrow> market_db \<Rightarrow> pyexc option \<times> pipe \<times> market_db" where
  "effect_of r p m = (case r of Inl e \<Rightarrow> (Some e, p, m) | Inr m' \<Rightarrow> (None, p, m'))"

definition prev_close_of :: "pipe \<Rightarrow> index_name \<Rightarrow> money option" where
  "prev_close_of p idx =
     (case pl_index_meta p idx of
        None \<Rightarrow> None
      | Some im \<Rightarrow> (case im_prev_close im of Some x \<Rightarrow> if x = 0 then None else Some x | None \<Rightarrow> None))"

definition process_one_tick :: "int \<Rightarrow> parsed_tick \<Rightarrow> pipe \<Rightarrow> market_db \<Rightarrow> pyexc option \<times> pipe \<times> market_db" where
  "process_one_tick wall t p m =
     (case map_of (pl_token_index p) (pt_token t) of
        None \<Rightarrow> (Some KeyError, p, m)
      | Some (idx, strike, sd) \<Rightarrow>
          let p1 = p\<lparr>pl_last_frame_ts := dict_set (pt_token t) (if pt_ts t \<noteq> 0 then pt_ts t else wall) (pl_last_frame_ts p),
                     pl_first_frame := insert (pt_token t) (pl_first_frame p)\<rparr>
          in if sd = ''spot'' then
               let snap = update_spot_snapshot (pl_spot p1 idx) t (prev_close_of p1 idx);
                   p2 = p1\<lparr>pl_spot := (pl_spot p1)(idx \<mapsto> snap)\<rparr>
               in (case flush_spot idx snap m of
                     Inl e \<Rightarrow> (Some e, p2, m)
                   | Inr m1 \<Rightarrow> effect_of (and_then (emit_tick_stream idx t m1) (\<lambda>m2. Inr (publish_tick (pt_token t) m2))) p2 m1)
             else
               let p2 = p1\<lparr>pl_chain := (pl_chain p1)(idx \<mapsto>
                         update_option_chain_leaf (get_or (pl_chain p1 idx) []) strike sd t)\<rparr>
               in effect_of (and_then (emit_tick_stream idx t m) (\<lambda>m2. Inr (publish_tick (pt_token t) m2))) p2 m)"

section \<open>The loop\<close>

definition FLUSH_INTERVAL_MS :: int where
  "FLUSH_INTERVAL_MS = 50"

record proc =
  pr_pipe :: pipe
  pr_db :: market_db
  pr_dirty :: "index_name set"
  pr_last_flush :: int

definition flush_chains :: "int \<Rightarrow> proc \<Rightarrow> pyexc option \<times> proc" where
  "flush_chains wall s =
     (if pr_dirty s = {} then (None, s)
      else if \<not> (\<forall>i \<in> pr_dirty s. valid_index i) then (Some ValueError, s)
      else (None, s\<lparr>pr_db := (pr_db s)\<lparr>md_chain := (\<lambda>i. if i \<in> pr_dirty s then Some (get_or (pl_chain (pr_pipe s) i) [])
                                                   else md_chain (pr_db s) i)\<rparr>,
                    pr_pipe := (pr_pipe s)\<lparr>pl_last_flush_ts := wall\<rparr>\<rparr>))"

definition maybe_flush :: "int \<Rightarrow> int \<Rightarrow> proc \<Rightarrow> pyexc option \<times> proc" where
  "maybe_flush mt wall s =
     (if FLUSH_INTERVAL_MS \<le> mt - pr_last_flush s \<and> pr_dirty s \<noteq> {} then
        (case flush_chains wall s of
           (Some e, s') \<Rightarrow> (Some e, s')
         | (None, s') \<Rightarrow> (None, s'\<lparr>pr_dirty := {}, pr_last_flush := mt\<rparr>))
      else (None, s))"

fun apply_ticks :: "int \<Rightarrow> parsed_tick list \<Rightarrow> proc \<Rightarrow> proc" where
  "apply_ticks wall [] s = s"
| "apply_ticks wall (t # ts) s =
     (case map_of (pl_token_index (pr_pipe s)) (pt_token t) of
        None \<Rightarrow> apply_ticks wall ts s
      | Some (idx, strike, sd) \<Rightarrow>
          (case process_one_tick wall t (pr_pipe s) (pr_db s) of
             (Some e, p, m) \<Rightarrow> apply_ticks wall ts (s\<lparr>pr_pipe := p, pr_db := m\<rparr>)
           | (None, p, m) \<Rightarrow>
               apply_ticks wall ts
                 (s\<lparr>pr_pipe := p\<lparr>pl_processed := pl_processed p + 1\<rparr>, pr_db := m,
                    pr_dirty := (if sd \<noteq> ''spot'' then insert idx (pr_dirty s) else pr_dirty s)\<rparr>)))"

record tick_input =
  ti_stop :: bool
  ti_arrivals :: "json list"
  ti_mono :: int
  ti_wall :: int

definition receive :: "json list \<Rightarrow> proc \<Rightarrow> proc" where
  "receive msgs s = s\<lparr>pr_pipe := foldl (\<lambda>p msg. on_message msg p) (pr_pipe s) msgs\<rparr>"

definition tick_pass :: "tick_input \<Rightarrow> proc \<Rightarrow> pyexc option \<times> proc" where
  "tick_pass i s0 =
     (let s = receive (ti_arrivals i) s0
      in case pl_queue (pr_pipe s) of
           [] \<Rightarrow> maybe_flush (ti_mono i) (ti_wall i) s
         | frame # rest \<Rightarrow>
             let s1 = s\<lparr>pr_pipe := (pr_pipe s)\<lparr>pl_queue := rest\<rparr>\<rparr>
             in (case parse_tick (ti_wall i) frame of
                   Inl e \<Rightarrow> (Some e, s1)
                 | Inr ticks \<Rightarrow> maybe_flush (ti_mono i) (ti_wall i) (apply_ticks (ti_wall i) ticks s1)))"

datatype loop_outcome = Running | Exited | Raised pyexc

fun tick_processor_loop :: "tick_input list \<Rightarrow> proc \<Rightarrow> loop_outcome \<times> proc" where
  "tick_processor_loop [] s = (Running, s)"
| "tick_processor_loop (i # inputs) s =
     (if ti_stop i then
        (case flush_chains (ti_wall i) s of (Some e, s') \<Rightarrow> (Raised e, s') | (None, s') \<Rightarrow> (Exited, s'))
      else (case tick_pass i s of
              (Some e, s') \<Rightarrow> (Raised e, s')
            | (None, s') \<Rightarrow> tick_processor_loop inputs s'))"

definition start_proc :: "int \<Rightarrow> pipe \<Rightarrow> market_db \<Rightarrow> proc" where
  "start_proc mt p m = \<lparr>pr_pipe = p, pr_db = m, pr_dirty = {}, pr_last_flush = mt\<rparr>"

text \<open>\<open>main\<close>: load, announce, run the loops until the tick loop ends, withdraw.  The exit code is
  \<open>None\<close> while the loop runs.  Of the four loops \<open>gather\<close> runs, only the tick loop can raise.\<close>

definition pipeline_main :: "auth_blob option \<Rightarrow> int \<Rightarrow> int \<Rightarrow> tick_input list \<Rightarrow> market_db \<Rightarrow> int option \<times> market_db" where
  "pipeline_main auth mt wall inputs m =
     (case load_state auth m of
        None \<Rightarrow> (Some 1, m)
      | Some p \<Rightarrow>
          let m1 = m\<lparr>md_engine_up := Some ''true'', md_heartbeats := (md_heartbeats m)(''data_pipeline'' \<mapsto> wall)\<rparr>;
              (out, s) = tick_processor_loop inputs (start_proc mt p m1);
              down = (pr_db s)\<lparr>md_engine_up := Some ''false'', md_engine_exited := Some ''true''\<rparr>
          in case out of
               Running \<Rightarrow> (None, pr_db s)
             | Exited \<Rightarrow> (Some 0, down)
             | Raised _ \<Rightarrow> (Some 1, down))"

end
