(* ===== verification/PipelineProps.thy ===== *)
theory PipelineProps
  imports TickProcessor
begin

text \<open>
  What the data pipeline guarantees to its readers: the chain a vessel reads, how old it may be,
  and what a malformed frame does.
\<close>

section \<open>The invariant of the loop\<close>

definition entry_ok :: "pipe \<Rightarrow> token \<times> index_name \<times> int \<times> string \<Rightarrow> bool" where
  "entry_ok p e =
     (case e of (_, i, _, sd) \<Rightarrow> valid_index i \<and>
        (sd = ''spot'' \<or> (sd = ''ce'' \<or> sd = ''pe'') \<and> pl_chain p i \<noteq> None))"

definition synced :: "proc \<Rightarrow> index_name \<Rightarrow> bool" where
  "synced s i \<longleftrightarrow> md_chain (pr_db s) i = pl_chain (pr_pipe s) i"

definition proc_ok :: "proc \<Rightarrow> bool" where
  "proc_ok s \<longleftrightarrow>
     list_all (entry_ok (pr_pipe s)) (pl_token_index (pr_pipe s)) \<and>
     (\<forall>i \<in> pr_dirty s. valid_index i \<and> pl_chain (pr_pipe s) i \<noteq> None) \<and>
     (\<forall>i. valid_index i \<longrightarrow> i \<notin> pr_dirty s \<longrightarrow> synced s i)"

lemma entry_ok_mono:
  "list_all (entry_ok p) ti \<Longrightarrow> (\<And>i. pl_chain p i \<noteq> None \<Longrightarrow> pl_chain q i \<noteq> None) \<Longrightarrow> list_all (entry_ok q) ti"
  by (fastforce simp: list_all_iff entry_ok_def)

lemma on_message_keeps [simp]:
  "pl_token_index (on_message x p) = pl_token_index p" "pl_chain (on_message x p) = pl_chain p"
  "pl_processed (on_message x p) = pl_processed p" "pl_first_frame (on_message x p) = pl_first_frame p"
  "pl_index_meta (on_message x p) = pl_index_meta p"
  by (simp_all add: on_message_def)

lemma on_messages_keep [simp]:
  "pl_token_index (foldl (\<lambda>p msg. on_message msg p) p msgs) = pl_token_index p"
  "pl_chain (foldl (\<lambda>p msg. on_message msg p) p msgs) = pl_chain p"
  "pl_processed (foldl (\<lambda>p msg. on_message msg p) p msgs) = pl_processed p"
  by (induction msgs arbitrary: p) simp_all

lemma receive_keeps [simp]:
  "pl_token_index (pr_pipe (receive ms s)) = pl_token_index (pr_pipe s)"
  "pl_chain (pr_pipe (receive ms s)) = pl_chain (pr_pipe s)" "pr_db (receive ms s) = pr_db s"
  "pl_processed (pr_pipe (receive ms s)) = pl_processed (pr_pipe s)"
  "pr_dirty (receive ms s) = pr_dirty s" "pr_last_flush (receive ms s) = pr_last_flush s"
  by (simp_all add: receive_def)

lemma proc_ok_cong:
  "proc_ok s \<Longrightarrow> pl_token_index (pr_pipe s') = pl_token_index (pr_pipe s) \<Longrightarrow>
   pl_chain (pr_pipe s') = pl_chain (pr_pipe s) \<Longrightarrow> md_chain (pr_db s') = md_chain (pr_db s) \<Longrightarrow>
   pr_dirty s' = pr_dirty s \<Longrightarrow> proc_ok s'"
  by (simp add: proc_ok_def synced_def entry_ok_def [abs_def])

subsection \<open>One tick\<close>

lemma process_one_tick_effect:
  assumes "map_of (pl_token_index p) (pt_token t) = Some (idx, strike, sd)" and "valid_index idx"
  obtains p' m' where "process_one_tick wall t p m = (None, p', m')"
    and "pl_token_index p' = pl_token_index p" and "pl_queue p' = pl_queue p" and "pl_processed p' = pl_processed p"
    and "pl_chain p' = (if sd = ''spot'' then pl_chain p
           else (pl_chain p)(idx \<mapsto> update_option_chain_leaf (get_or (pl_chain p idx) []) strike sd t))"
    and "md_chain m' = md_chain m" and "md_published m' = md_published m @ [market_data_pub_tick (pt_token t)]"
  using assms
  by (cases "sd = ''spot''")
     (simp_all add: process_one_tick_def Let_def effect_of_def emit_tick_stream_def publish_tick_def flush_spot_def
       market_data_index_spot_def market_data_stream_tick_def)

lemma map_of_list_all: "list_all P xs \<Longrightarrow> map_of xs k = Some v \<Longrightarrow> P (k, v)"
  by (auto simp: list_all_iff dest: map_of_SomeD)

definition leg_ticks :: "(token \<times> index_name \<times> int \<times> string) list \<Rightarrow> index_name \<Rightarrow> int \<Rightarrow> side \<Rightarrow> parsed_tick list \<Rightarrow> parsed_tick list" where
  "leg_ticks ti idx k sd ts = filter (\<lambda>t. map_of ti (pt_token t) = Some (idx, k, side_key sd)) ts"

definition known_ticks :: "(token \<times> index_name \<times> int \<times> string) list \<Rightarrow> parsed_tick list \<Rightarrow> parsed_tick list" where
  "known_ticks ti ts = filter (\<lambda>t. map_of ti (pt_token t) \<noteq> None) ts"

definition leg_in :: "proc \<Rightarrow> index_name \<Rightarrow> int \<Rightarrow> side \<Rightarrow> leaf option" where
  "leg_in s idx k sd = chain_leaf (get_or (pl_chain (pr_pipe s) idx) []) k sd"

definition strikes_of :: "proc \<Rightarrow> index_name \<Rightarrow> string list" where
  "strikes_of s idx = map fst (get_or (pl_chain (pr_pipe s) idx) [])"

lemma update_leaf_absent: "str_int strike \<notin> fst ` set ch \<Longrightarrow> update_option_chain_leaf ch strike sd t = ch"
  by (auto simp: update_option_chain_leaf_def Let_def map_of_eq_None_iff [symmetric] split: option.splits)

lemma side_key_surj: "sd = ''ce'' \<or> sd = ''pe'' \<Longrightarrow> \<exists>d. sd = side_key d"
  by (metis side_key.simps)

text \<open>One indexed tick: the state it leads to, as the loop stores it.\<close>

lemma tick_effect:
  assumes ok: "proc_ok s" and hit: "map_of (pl_token_index (pr_pipe s)) (pt_token t) = Some (idx, strike, d)"
  obtains p' m' where "process_one_tick wall t (pr_pipe s) (pr_db s) = (None, p', m')"
    and "proc_ok (s\<lparr>pr_pipe := p'\<lparr>pl_processed := pl_processed p' + 1\<rparr>, pr_db := m',
           pr_dirty := (if d \<noteq> ''spot'' then insert idx (pr_dirty s) else pr_dirty s)\<rparr>)"
    and "pl_token_index p' = pl_token_index (pr_pipe s)" and "pl_queue p' = pl_queue (pr_pipe s)"
    and "pl_processed p' = pl_processed (pr_pipe s)" and "md_chain m' = md_chain (pr_db s)"
    and "md_published m' = md_published (pr_db s) @ [market_data_pub_tick (pt_token t)]"
    and "\<And>i. map fst (get_or (pl_chain p' i) []) = strikes_of s i"
    and "\<And>i k sd. str_int k \<in> set (strikes_of s i) \<Longrightarrow> chain_leaf (get_or (pl_chain p' i) []) k sd =
           (if (idx, strike, d) = (i, k, side_key sd) then leaf_step (leg_in s i k sd) t else leg_in s i k sd)"
proof -
  have e: "valid_index idx" "d = ''spot'' \<or> (d = ''ce'' \<or> d = ''pe'') \<and> pl_chain (pr_pipe s) idx \<noteq> None"
    using map_of_list_all [OF _ hit, of "entry_ok (pr_pipe s)"] ok by (simp_all add: proc_ok_def entry_ok_def)
  obtain p' m' where r: "process_one_tick wall t (pr_pipe s) (pr_db s) = (None, p', m')"
    and f: "pl_token_index p' = pl_token_index (pr_pipe s)" "pl_queue p' = pl_queue (pr_pipe s)"
      "pl_processed p' = pl_processed (pr_pipe s)" "md_chain m' = md_chain (pr_db s)"
      "md_published m' = md_published (pr_db s) @ [market_data_pub_tick (pt_token t)]"
    and c: "pl_chain p' = (if d = ''spot'' then pl_chain (pr_pipe s) else (pl_chain (pr_pipe s))(idx \<mapsto>
        update_option_chain_leaf (get_or (pl_chain (pr_pipe s) idx) []) strike d t))"
    using process_one_tick_effect [OF hit e(1)] by metis
  have n: "\<And>i. pl_chain (pr_pipe s) i \<noteq> None \<Longrightarrow> pl_chain p' i \<noteq> None" by (simp add: c)
  have "list_all (entry_ok p') (pl_token_index (pr_pipe s))"
    using entry_ok_mono [OF _ n] ok by (auto simp: proc_ok_def)
  then have "list_all (entry_ok (p'\<lparr>pl_processed := pl_processed p' + 1\<rparr>)) (pl_token_index (pr_pipe s))"
    by (simp add: entry_ok_def [abs_def])
  then have "proc_ok (s\<lparr>pr_pipe := p'\<lparr>pl_processed := pl_processed p' + 1\<rparr>, pr_db := m',
      pr_dirty := (if d \<noteq> ''spot'' then insert idx (pr_dirty s) else pr_dirty s)\<rparr>)"
    using ok e n by (auto simp: proc_ok_def synced_def f c)
  moreover have "\<And>i. map fst (get_or (pl_chain p' i) []) = strikes_of s i"
    using e(2) by (simp add: c strikes_of_def)
  moreover have "\<And>i k sd. str_int k \<in> set (strikes_of s i) \<Longrightarrow> chain_leaf (get_or (pl_chain p' i) []) k sd =
      (if (idx, strike, d) = (i, k, side_key sd) then leaf_step (leg_in s i k sd) t else leg_in s i k sd)"
  proof -
    fix i k sd assume k: "str_int k \<in> set (strikes_of s i)"
    show "chain_leaf (get_or (pl_chain p' i) []) k sd =
      (if (idx, strike, d) = (i, k, side_key sd) then leaf_step (leg_in s i k sd) t else leg_in s i k sd)"
    proof (cases "d \<noteq> ''spot'' \<and> i = idx")
      case True
      then obtain x where x: "d = side_key x" using e(2) side_key_surj by blast
      let ?ch = "get_or (pl_chain (pr_pipe s) idx) []"
      show ?thesis
      proof (cases "str_int strike \<in> fst ` set ?ch")
        case present: True
        then show ?thesis using update_leaf_at [OF present, of x t k sd] True by (auto simp: c x leg_in_def)
      next
        case False
        then have "strike \<noteq> k" using k True by (auto simp: strikes_of_def)
        then show ?thesis using update_leaf_absent [OF False] True by (simp add: c leg_in_def)
      qed
    qed (auto simp: c leg_in_def)
  qed
  ultimately show thesis using that r f by blast
qed


subsection \<open>A frame\<close>

lemma leg_ticks_simps [simp]:
  "leg_ticks ti i k sd [] = []"
  "leg_ticks ti i k sd (t # ts) =
     (if map_of ti (pt_token t) = Some (i, k, side_key sd) then t # leg_ticks ti i k sd ts else leg_ticks ti i k sd ts)"
  "leg_ticks ti i k sd (ts @ us) = leg_ticks ti i k sd ts @ leg_ticks ti i k sd us"
  by (simp_all add: leg_ticks_def)

lemma known_ticks_simps [simp]:
  "known_ticks ti [] = []"
  "known_ticks ti (t # ts) = (if map_of ti (pt_token t) \<noteq> None then t # known_ticks ti ts else known_ticks ti ts)"
  by (simp_all add: known_ticks_def)

text \<open>What applying ticks may not touch, and what it makes of every leg.\<close>

definition same_frame :: "proc \<Rightarrow> proc \<Rightarrow> bool" where
  "same_frame s s' \<longleftrightarrow> pl_token_index (pr_pipe s') = pl_token_index (pr_pipe s) \<and> (\<forall>i. strikes_of s' i = strikes_of s i)"

definition legs_merge :: "parsed_tick list \<Rightarrow> proc \<Rightarrow> proc \<Rightarrow> bool" where
  "legs_merge ts s s' \<longleftrightarrow>
     (\<forall>i k sd. str_int k \<in> set (strikes_of s i) \<longrightarrow>
        leg_in s' i k sd = foldl leaf_step (leg_in s i k sd) (leg_ticks (pl_token_index (pr_pipe s)) i k sd ts))"

lemma same_frame_trans: "same_frame a b \<Longrightarrow> same_frame b c \<Longrightarrow> same_frame a c"
  by (simp add: same_frame_def)

lemma legs_merge_append: "same_frame a b \<Longrightarrow> legs_merge xs a b \<Longrightarrow> legs_merge ys b c \<Longrightarrow> legs_merge (xs @ ys) a c"
  by (simp add: legs_merge_def same_frame_def)

lemma apply_ticks_spec:
  "proc_ok s \<Longrightarrow> proc_ok (apply_ticks w ts s) \<and> same_frame s (apply_ticks w ts s) \<and> legs_merge ts s (apply_ticks w ts s) \<and>
     pl_queue (pr_pipe (apply_ticks w ts s)) = pl_queue (pr_pipe s) \<and> pr_last_flush (apply_ticks w ts s) = pr_last_flush s \<and>
     md_chain (pr_db (apply_ticks w ts s)) = md_chain (pr_db s) \<and>
     pl_processed (pr_pipe (apply_ticks w ts s)) =
       pl_processed (pr_pipe s) + int (length (known_ticks (pl_token_index (pr_pipe s)) ts)) \<and>
     md_published (pr_db (apply_ticks w ts s)) = md_published (pr_db s) @
       map (\<lambda>t. market_data_pub_tick (pt_token t)) (known_ticks (pl_token_index (pr_pipe s)) ts)"
proof (induction ts arbitrary: s)
  case Nil
  then show ?case by (simp add: same_frame_def legs_merge_def)
next
  case (Cons t ts)
  show ?case
  proof (cases "map_of (pl_token_index (pr_pipe s)) (pt_token t)")
    case None
    then show ?thesis using Cons.IH [OF Cons.prems] by (simp add: legs_merge_def)
  next
    case (Some v)
    obtain idx strike d where v: "v = (idx, strike, d)" by (cases v)
    obtain p' m' where r: "process_one_tick w t (pr_pipe s) (pr_db s) = (None, p', m')"
      and ok: "proc_ok (s\<lparr>pr_pipe := p'\<lparr>pl_processed := pl_processed p' + 1\<rparr>, pr_db := m',
           pr_dirty := (if d \<noteq> ''spot'' then insert idx (pr_dirty s) else pr_dirty s)\<rparr>)"
      and f: "pl_token_index p' = pl_token_index (pr_pipe s)" "pl_queue p' = pl_queue (pr_pipe s)"
        "pl_processed p' = pl_processed (pr_pipe s)" "md_chain m' = md_chain (pr_db s)"
        "md_published m' = md_published (pr_db s) @ [market_data_pub_tick (pt_token t)]"
        "\<And>i. map fst (get_or (pl_chain p' i) []) = strikes_of s i"
      and l: "\<And>i k sd. str_int k \<in> set (strikes_of s i) \<Longrightarrow> chain_leaf (get_or (pl_chain p' i) []) k sd =
           (if (idx, strike, d) = (i, k, side_key sd) then leaf_step (leg_in s i k sd) t else leg_in s i k sd)"
      using tick_effect [OF Cons.prems Some [unfolded v]] by metis
    define s1 where "s1 = s\<lparr>pr_pipe := p'\<lparr>pl_processed := pl_processed p' + 1\<rparr>, pr_db := m',
           pr_dirty := (if d \<noteq> ''spot'' then insert idx (pr_dirty s) else pr_dirty s)\<rparr>"
    have a: "apply_ticks w (t # ts) s = apply_ticks w ts s1" using Some by (simp add: v r s1_def)
    have fr: "same_frame s s1" using f by (simp add: same_frame_def s1_def strikes_of_def)
    have "legs_merge [t] s s1"
      using l Some v by (auto simp: legs_merge_def s1_def leg_in_def)
    then show ?thesis
      using Cons.IH [of s1] ok fr f Some legs_merge_append [of s s1 "[t]" ts] same_frame_trans [of s s1]
      unfolding a by (simp add: s1_def [symmetric]) (simp add: s1_def)
  qed
qed

subsection \<open>A pass and a run\<close>

definition enqueue :: "json list \<Rightarrow> json \<Rightarrow> json list" where
  "enqueue q x = (if x = JNull \<or> QUEUE_MAXSIZE \<le> length q then q else q @ [x])"

lemma receive_queue [simp]: "pl_queue (pr_pipe (receive ms s)) = foldl enqueue (pl_queue (pr_pipe s)) ms"
proof -
  have "pl_queue (foldl (\<lambda>p msg. on_message msg p) p ms) = foldl enqueue (pl_queue p) ms" for p
    by (induction ms arbitrary: p) (simp_all add: on_message_def enqueue_def)
  then show ?thesis by (simp add: receive_def)
qed

lemma flush_chains_ok:
  assumes "proc_ok s"
  obtains s' where "flush_chains w s = (None, s')" and "proc_ok (s'\<lparr>pr_dirty := {}, pr_last_flush := l\<rparr>)"
    and "pl_chain (pr_pipe s') = pl_chain (pr_pipe s)" and "pl_token_index (pr_pipe s') = pl_token_index (pr_pipe s)"
    and "pl_queue (pr_pipe s') = pl_queue (pr_pipe s)" and "\<And>i. valid_index i \<Longrightarrow> synced s' i"
    and "pl_processed (pr_pipe s') = pl_processed (pr_pipe s)" and "md_published (pr_db s') = md_published (pr_db s)"
proof (cases "pr_dirty s = {}")
  case True
  then have "proc_ok (s\<lparr>pr_dirty := {}, pr_last_flush := l\<rparr>)" using assms by (simp add: proc_ok_def synced_def)
  moreover have "\<And>i. valid_index i \<Longrightarrow> synced s i" using assms True by (simp add: proc_ok_def)
  ultimately show thesis using that [of s] True by (simp add: flush_chains_def)
next
  case False
  define s' where "s' = snd (flush_chains w s)"
  have v: "\<forall>i \<in> pr_dirty s. valid_index i \<and> pl_chain (pr_pipe s) i \<noteq> None" using assms by (simp add: proc_ok_def)
  have f: "flush_chains w s = (None, s')" using v False by (simp add: flush_chains_def s'_def)
  have e: "s' = s\<lparr>pr_db := (pr_db s)\<lparr>md_chain := (\<lambda>i. if i \<in> pr_dirty s then Some (get_or (pl_chain (pr_pipe s) i) [])
      else md_chain (pr_db s) i)\<rparr>, pr_pipe := (pr_pipe s)\<lparr>pl_last_flush_ts := w\<rparr>\<rparr>"
    using v False by (simp add: flush_chains_def s'_def)
  have y: "\<And>i. valid_index i \<Longrightarrow> synced s' i" using assms v by (auto simp: e synced_def proc_ok_def)
  then have "proc_ok (s'\<lparr>pr_dirty := {}, pr_last_flush := l\<rparr>)"
    using assms by (simp add: proc_ok_def synced_def e entry_ok_def [abs_def])
  then show thesis using that [OF f] y by (simp add: e)
qed

lemma maybe_flush_ok:
  assumes "proc_ok s"
  obtains s' where "maybe_flush mt w s = (None, s')" and "proc_ok s'"
    and "pl_chain (pr_pipe s') = pl_chain (pr_pipe s)" and "pl_token_index (pr_pipe s') = pl_token_index (pr_pipe s)"
    and "pl_queue (pr_pipe s') = pl_queue (pr_pipe s)" and "pr_dirty s' = {} \<or> mt - pr_last_flush s' < FLUSH_INTERVAL_MS"
    and "pl_processed (pr_pipe s') = pl_processed (pr_pipe s)" and "md_published (pr_db s') = md_published (pr_db s)"
proof (cases "FLUSH_INTERVAL_MS \<le> mt - pr_last_flush s \<and> pr_dirty s \<noteq> {}")
  case True
  obtain s' where "flush_chains w s = (None, s')" and "proc_ok (s'\<lparr>pr_dirty := {}, pr_last_flush := mt\<rparr>)"
    and "pl_chain (pr_pipe s') = pl_chain (pr_pipe s)" and "pl_token_index (pr_pipe s') = pl_token_index (pr_pipe s)"
    and "pl_queue (pr_pipe s') = pl_queue (pr_pipe s)" and "pl_processed (pr_pipe s') = pl_processed (pr_pipe s)"
    and "md_published (pr_db s') = md_published (pr_db s)"
    using flush_chains_ok [OF assms] by metis
  then show thesis using that [of "s'\<lparr>pr_dirty := {}, pr_last_flush := mt\<rparr>"] True by (simp add: maybe_flush_def)
next
  case False
  then show thesis using that [of s] assms by (auto simp: maybe_flush_def)
qed

lemma frame_legs_cong:
  "pl_chain (pr_pipe s') = pl_chain (pr_pipe s) \<Longrightarrow> pl_token_index (pr_pipe s') = pl_token_index (pr_pipe s) \<Longrightarrow>
   same_frame s s' \<and> legs_merge [] s s'"
  by (simp add: same_frame_def legs_merge_def strikes_of_def leg_in_def)

definition frame_ticks :: "int \<Rightarrow> json list \<Rightarrow> parsed_tick list" where
  "frame_ticks w q = (case q of [] \<Rightarrow> [] | f # _ \<Rightarrow> (case parse_tick w f of Inl _ \<Rightarrow> [] | Inr ts \<Rightarrow> ts))"

lemma tick_pass_ok:
  assumes ok: "proc_ok s" and r: "tick_pass i s = (None, s')"
  defines "q \<equiv> foldl enqueue (pl_queue (pr_pipe s)) (ti_arrivals i)"
  shows "proc_ok s' \<and> same_frame s s' \<and> legs_merge (frame_ticks (ti_wall i) q) s s' \<and> pl_queue (pr_pipe s') = tl q \<and>
     (pr_dirty s' = {} \<or> ti_mono i - pr_last_flush s' < FLUSH_INTERVAL_MS) \<and>
     int (length (md_published (pr_db s'))) - pl_processed (pr_pipe s') =
       int (length (md_published (pr_db s))) - pl_processed (pr_pipe s)"
proof -
  have ok1: "proc_ok (receive (ti_arrivals i) s)" by (rule proc_ok_cong [OF ok]) simp_all
  note fs = frame_legs_cong [of "receive (ti_arrivals i) s" s]
  show ?thesis
  proof (cases q)
    case Nil
    then have m: "maybe_flush (ti_mono i) (ti_wall i) (receive (ti_arrivals i) s) = (None, s')"
      using r by (simp add: tick_pass_def q_def Let_def)
    show ?thesis
      by (rule maybe_flush_ok [OF ok1, of "ti_mono i" "ti_wall i"])
         (use m Nil frame_legs_cong [of s' s] in \<open>simp add: frame_ticks_def q_def\<close>)
  next
    case (Cons f rest)
    define s1 where "s1 = (receive (ti_arrivals i) s)\<lparr>pr_pipe := (pr_pipe (receive (ti_arrivals i) s))\<lparr>pl_queue := rest\<rparr>\<rparr>"
    have ok2: "proc_ok s1" by (rule proc_ok_cong [OF ok]) (simp_all add: s1_def)
    have q1: "pl_queue (pr_pipe s1) = rest" by (simp add: s1_def)
    have f1: "same_frame s s1 \<and> legs_merge [] s s1" by (rule frame_legs_cong) (simp_all add: s1_def)
    obtain ts where ts: "parse_tick (ti_wall i) f = Inr ts"
      and m: "maybe_flush (ti_mono i) (ti_wall i) (apply_ticks (ti_wall i) ts s1) = (None, s')"
      using r Cons by (auto simp: tick_pass_def q_def Let_def s1_def split: sum.splits)
    note A = apply_ticks_spec [OF ok2, of "ti_wall i" ts]
    have ft: "frame_ticks (ti_wall i) q = ts" using Cons ts by (simp add: frame_ticks_def)
    have pub: "pl_processed (pr_pipe s1) = pl_processed (pr_pipe s)" "md_published (pr_db s1) = md_published (pr_db s)"
      by (simp_all add: s1_def)
    show ?thesis
    proof (rule maybe_flush_ok [of "apply_ticks (ti_wall i) ts s1" "ti_mono i" "ti_wall i"])
      show "proc_ok (apply_ticks (ti_wall i) ts s1)" using A by blast
      fix s2
      assume B: "maybe_flush (ti_mono i) (ti_wall i) (apply_ticks (ti_wall i) ts s1) = (None, s2)" "proc_ok s2"
        "pl_chain (pr_pipe s2) = pl_chain (pr_pipe (apply_ticks (ti_wall i) ts s1))"
        "pl_token_index (pr_pipe s2) = pl_token_index (pr_pipe (apply_ticks (ti_wall i) ts s1))"
        "pl_queue (pr_pipe s2) = pl_queue (pr_pipe (apply_ticks (ti_wall i) ts s1))"
        "pr_dirty s2 = {} \<or> ti_mono i - pr_last_flush s2 < FLUSH_INTERVAL_MS"
        "pl_processed (pr_pipe s2) = pl_processed (pr_pipe (apply_ticks (ti_wall i) ts s1))"
        "md_published (pr_db s2) = md_published (pr_db (apply_ticks (ti_wall i) ts s1))"
      have e: "s2 = s'" using m B(1) by simp
      have "same_frame s s2 \<and> legs_merge ts s s2"
        using frame_legs_cong [OF B(3,4)] A f1 same_frame_trans legs_merge_append [of s s1 "[]" ts]
          legs_merge_append [of s "apply_ticks (ti_wall i) ts s1" ts "[]" s2]
        by (metis append_Nil append_Nil2)
      then show ?thesis using B A q1 pub Cons ft by (simp add: e)
    qed
  qed
qed

lemma tick_pass_raises:
  assumes ok: "proc_ok s" and r: "tick_pass i s = (Some e, s')"
  shows "proc_ok s' \<and> pr_db s' = pr_db s \<and>
    (\<exists>f rest. foldl enqueue (pl_queue (pr_pipe s)) (ti_arrivals i) = f # rest \<and> parse_tick (ti_wall i) f = Inl e)"
proof -
  have ok1: "proc_ok (receive (ti_arrivals i) s)" by (rule proc_ok_cong [OF ok]) simp_all
  have nf: "proc_ok x \<Longrightarrow> maybe_flush (ti_mono i) (ti_wall i) x \<noteq> (Some e, s')" for x
    by (metis maybe_flush_ok option.distinct(1) prod.inject)
  show ?thesis
  proof (cases "foldl enqueue (pl_queue (pr_pipe s)) (ti_arrivals i)")
    case Nil
    then show ?thesis using r nf [OF ok1] by (simp add: tick_pass_def Let_def)
  next
    case (Cons f rest)
    define s1 where "s1 = (receive (ti_arrivals i) s)\<lparr>pr_pipe := (pr_pipe (receive (ti_arrivals i) s))\<lparr>pl_queue := rest\<rparr>\<rparr>"
    have ok2: "proc_ok s1" by (rule proc_ok_cong [OF ok]) (simp_all add: s1_def)
    have db1: "pr_db s1 = pr_db s" by (simp add: s1_def)
    show ?thesis
      using r Cons nf apply_ticks_spec [OF ok2] ok2 db1
      by (auto simp: tick_pass_def Let_def s1_def [symmetric] split: sum.splits)
  qed
qed


text \<open>The frames a run takes off the queue, and the ticks they hold.\<close>

fun taken_ticks :: "tick_input list \<Rightarrow> json list \<Rightarrow> parsed_tick list" where
  "taken_ticks [] q = []"
| "taken_ticks (i # inputs) q =
     (if ti_stop i then []
      else frame_ticks (ti_wall i) (foldl enqueue q (ti_arrivals i)) @
           taken_ticks inputs (tl (foldl enqueue q (ti_arrivals i))))"

lemma loop_ok:
  assumes "proc_ok s" and "tick_processor_loop inputs s = (out, s')" and "out = Running \<or> out = Exited"
  shows "proc_ok s' \<or> out = Exited" and "same_frame s s'" and "legs_merge (taken_ticks inputs (pl_queue (pr_pipe s))) s s'"
    and "out = Exited \<Longrightarrow> valid_index i \<Longrightarrow> synced s' i"
proof -
  have "(proc_ok s' \<or> out = Exited) \<and> same_frame s s' \<and> legs_merge (taken_ticks inputs (pl_queue (pr_pipe s))) s s' \<and>
      (out = Exited \<longrightarrow> valid_index i \<longrightarrow> synced s' i)"
    using assms(1,2)
  proof (induction inputs s rule: tick_processor_loop.induct)
    case (1 s)
    then show ?case using frame_legs_cong [of s s] assms(3) by auto
  next
    case (2 x inputs s)
    show ?case
    proof (cases "ti_stop x")
      case True
      show ?thesis
        by (rule flush_chains_ok [OF 2(2), of "ti_wall x"])
           (use 2(3) True assms(3) frame_legs_cong [of s' s] in \<open>auto simp: same_frame_def legs_merge_def strikes_of_def leg_in_def\<close>)
    next
      case False
      then obtain s1 where p: "tick_pass x s = (None, s1)" and l: "tick_processor_loop inputs s1 = (out, s')"
        using 2(3) assms(3) by (auto split: option.splits prod.splits)
      note P = tick_pass_ok [OF 2(2) p]
      note IH = 2(1) [OF False p [symmetric] refl _ l]
      have t: "taken_ticks (x # inputs) (pl_queue (pr_pipe s)) =
          frame_ticks (ti_wall x) (foldl enqueue (pl_queue (pr_pipe s)) (ti_arrivals x)) @ taken_ticks inputs (pl_queue (pr_pipe s1))"
        using False P by simp
      have ok1: "proc_ok s1" "same_frame s s1"
        "legs_merge (frame_ticks (ti_wall x) (foldl enqueue (pl_queue (pr_pipe s)) (ti_arrivals x))) s s1"
        using P by blast+
      show ?thesis unfolding t using IH [OF ok1(1)] same_frame_trans [OF ok1(2)] legs_merge_append [OF ok1(2,3)] by blast
    qed
  qed
  then show "proc_ok s' \<or> out = Exited" "same_frame s s'" "legs_merge (taken_ticks inputs (pl_queue (pr_pipe s))) s s'"
    "out = Exited \<Longrightarrow> valid_index i \<Longrightarrow> synced s' i" by blast+
qed

subsection \<open>Boot\<close>

lemma map_of_fold_dict_set: "map_of (foldl (\<lambda>d (k, v). dict_set k v d) d es) = map_of d ++ map_of (rev es)"
  by (induction es arbitrary: d) (auto simp: map_of_dict_set map_add_upd_left map_add_assoc [symmetric] fun_eq_iff map_add_def split: option.splits)

lemma set_fold_dict_set: "set (foldl (\<lambda>d (k, v). dict_set k v d) d es) \<subseteq> set d \<union> set es"
proof (induction es arbitrary: d)
  case (Cons e es)
  have "set (dict_set k v xs) \<subseteq> insert (k, v) (set xs)" for k v and xs :: "('a \<times> 'b) list"
    by (induction k v xs rule: dict_set.induct) auto
  then show ?case using Cons [of "dict_set (fst e) (snd e) d"] by (cases e) fastforce
qed simp

lemma template_entries_ok:
  "e \<in> set (template_entries m) \<Longrightarrow> entry_ok (p\<lparr>pl_chain := on_indexes (md_chain m)\<rparr>) e"
  by (auto simp: template_entries_def INDEXES_def spot_entry_def strike_entries_def leg_entry_def entry_ok_def valid_index_def
      on_indexes_def get_or_def split: option.splits list.splits)

lemma load_state_ok:
  assumes "load_state auth m = Some p"
  shows "proc_ok (start_proc mt p m)" and "pl_queue p = []" and "pl_chain p = on_indexes (md_chain m)"
    and "map_of (pl_token_index p) = map_of (rev (template_entries m))"
proof -
  have ti: "pl_token_index p = foldl (\<lambda>d (tok, v). dict_set tok v d) [] (template_entries m)"
    and c: "pl_chain p = on_indexes (md_chain m)" and q: "pl_queue p = []"
    using assms by (auto simp: load_state_def Let_def split: if_splits)
  have e: "e \<in> set (template_entries m) \<Longrightarrow> entry_ok p e" for e
    using template_entries_ok [of e m p] by (simp add: entry_ok_def c)
  have "list_all (entry_ok p) (pl_token_index p)"
    using set_fold_dict_set [of "[]" "template_entries m"] e by (fastforce simp: ti list_all_iff)
  then show "proc_ok (start_proc mt p m)"
    by (auto simp: proc_ok_def start_proc_def synced_def c on_indexes_def INDEXES_def valid_index_def)
  show "pl_queue p = []" "pl_chain p = on_indexes (md_chain m)" by (rule q) (rule c)
  show "map_of (pl_token_index p) = map_of (rev (template_entries m))"
    using map_of_fold_dict_set [of "[]" "template_entries m"] by (simp add: ti)
qed

text \<open>Templates as the boot engine writes them: strikes are canonical decimals and no token is used twice.\<close>

definition template_ok :: "market_db \<Rightarrow> bool" where
  "template_ok m \<longleftrightarrow>
     distinct (map fst (template_entries m)) \<and>
     list_all (\<lambda>i. list_all (\<lambda>(k, _). map_option str_int (int_of_str k) = Some k) (get_or (md_chain m i) []) \<and>
                  distinct (map fst (get_or (md_chain m i) []))) INDEXES"

lemma leg_entry_mem: "l_token e = Some tok \<Longrightarrow> tok \<noteq> [] \<Longrightarrow> leg_entry i k sd (Some e) = [(tok, i, k, side_key sd)]"
  by (cases tok) (simp_all add: leg_entry_def)

lemma template_entry_of_leg:
  assumes "valid_index i" and "chain_leaf (get_or (md_chain m i) []) k sd = Some e" and "l_token e = Some tok" and "tok \<noteq> []"
  shows "(tok, i, k, side_key sd) \<in> set (template_entries m)"
proof -
  obtain ce pe where r: "(str_int k, ce, pe) \<in> set (get_or (md_chain m i) [])" and s: "(case sd of CE \<Rightarrow> ce | PE \<Rightarrow> pe) = Some e"
    using assms(2) by (auto simp: chain_leaf_def split: option.splits dest: map_of_SomeD)
  have "(tok, i, k, side_key sd) \<in> set (strike_entries i (str_int k, ce, pe))"
    using s leg_entry_mem [OF assms(3,4)] by (cases sd) (auto simp: strike_entries_def)
  then show ?thesis using r assms(1) by (force simp: template_entries_def INDEXES_def valid_index_def)
qed

lemma strike_entries_index:
  "(tok, i, k, sd) \<in> set (strike_entries j row) \<Longrightarrow> j = i" "(tok, i, k, sd) \<in> set (spot_entry j meta) \<Longrightarrow> sd = ''spot''"
  by (auto simp: strike_entries_def leg_entry_def spot_entry_def split: option.splits list.splits prod.splits)

lemma leg_of_template_entry:
  assumes "template_ok m" and "(tok, i, k, side_key sd) \<in> set (template_entries m)"
  shows "\<exists>e. chain_leaf (get_or (md_chain m i) []) k sd = Some e \<and> l_token e = Some tok"
proof -
  obtain j row where "j \<in> set INDEXES" and "row \<in> set (get_or (md_chain m j) [])"
    and "(tok, i, k, side_key sd) \<in> set (strike_entries j row)"
    using assms(2) by (auto simp: template_entries_def dest: strike_entries_index(2))
  then have j: "i \<in> set INDEXES" and "\<exists>row \<in> set (get_or (md_chain m i) []). (tok, i, k, side_key sd) \<in> set (strike_entries i row)"
    using strike_entries_index(1) by blast+
  then obtain ks ce pe where r: "(ks, ce, pe) \<in> set (get_or (md_chain m i) [])"
    and t: "(tok, i, k, side_key sd) \<in> set (strike_entries i (ks, ce, pe))" by (metis prod_cases3)
  have c: "map_option str_int (int_of_str ks) = Some ks" "distinct (map fst (get_or (md_chain m i) []))"
    using assms(1) j r by (auto simp: template_ok_def list_all_iff)
  have k: "ks = str_int k" and "leg_entry i k sd (case sd of CE \<Rightarrow> ce | PE \<Rightarrow> pe) = [(tok, i, k, side_key sd)]"
    using t c(1) by (auto simp: strike_entries_def leg_entry_def split: option.splits list.splits side.splits)
  then obtain e where "(case sd of CE \<Rightarrow> ce | PE \<Rightarrow> pe) = Some e" "l_token e = Some tok"
    by (auto simp: leg_entry_def split: option.splits list.splits)
  then show ?thesis using r c(2) by (auto simp: chain_leaf_def k map_of_eq_Some_iff split: side.splits)
qed

text \<open>The ticks of a leg are the ticks of its token.\<close>

lemma leg_ticks_of_token:
  assumes l: "load_state auth m = Some p" and t: "template_ok m" and i: "valid_index i"
    and e: "chain_leaf (get_or (md_chain m i) []) k sd = Some e" "l_token e = Some tok" "tok \<noteq> []"
  shows "leg_ticks (pl_token_index p) i k sd ts = filter (\<lambda>x. pt_token x = tok) ts"
proof -
  have d: "distinct (map fst (rev (template_entries m)))" using t by (simp add: template_ok_def rev_map [symmetric])
  have "map_of (pl_token_index p) x = Some (i, k, side_key sd) \<longleftrightarrow> x = tok" for x
    unfolding load_state_ok(4) [OF l] map_of_eq_Some_iff [OF d] set_rev
    using template_entry_of_leg [OF i e] leg_of_template_entry [OF t, of x i k sd] e by auto
  then show ?thesis by (simp add: leg_ticks_def)
qed


lemma load_strikes:
  "load_state auth m = Some p \<Longrightarrow> valid_index i \<Longrightarrow> strikes_of (start_proc mt p m') i = map fst (get_or (md_chain m i) [])"
  "load_state auth m = Some p \<Longrightarrow> valid_index i \<Longrightarrow> leg_in (start_proc mt p m') i k sd = chain_leaf (get_or (md_chain m i) []) k sd"
  by (auto simp: strikes_of_def leg_in_def start_proc_def load_state_ok(3) on_indexes_def INDEXES_def valid_index_def)

lemma chain_leaf_key: "chain_leaf ch k sd = Some e \<Longrightarrow> str_int k \<in> fst ` set ch"
  by (force simp: chain_leaf_def dest: map_of_SomeD split: option.splits)

text \<open>The announcement of \<open>main\<close> does not disturb the loaded state.\<close>

definition announced :: "int \<Rightarrow> market_db \<Rightarrow> market_db" where
  "announced wall m = m\<lparr>md_engine_up := Some ''true'', md_heartbeats := (md_heartbeats m)(''data_pipeline'' \<mapsto> wall)\<rparr>"

lemma announced_proc_ok: "proc_ok (start_proc mt p m) \<Longrightarrow> proc_ok (start_proc mt p (announced wall m))"
  by (simp add: proc_ok_def start_proc_def synced_def announced_def)

lemma main_exit:
  assumes "pipeline_main auth mt wall inputs m = (Some 0, m')"
  obtains p s where "load_state auth m = Some p" and "tick_processor_loop inputs (start_proc mt p (announced wall m)) = (Exited, s)"
    and "m' = (pr_db s)\<lparr>md_engine_up := Some ''false'', md_engine_exited := Some ''true''\<rparr>"
  using assms by (auto simp: pipeline_main_def Let_def announced_def split: option.splits prod.splits loop_outcome.splits)


lemma loop_snoc:
  "tick_processor_loop (inputs @ [i]) s = (Running, s') \<Longrightarrow>
   \<exists>s1. tick_processor_loop inputs s = (Running, s1) \<and> \<not> ti_stop i \<and> tick_pass i s1 = (None, s')"
  by (induction inputs s rule: tick_processor_loop.induct) (auto split: option.splits prod.splits if_splits)

lemma loop_counts:
  "proc_ok s \<Longrightarrow> tick_processor_loop inputs s = (Running, s') \<Longrightarrow>
   proc_ok s' \<and> int (length (md_published (pr_db s'))) - pl_processed (pr_pipe s') =
     int (length (md_published (pr_db s))) - pl_processed (pr_pipe s)"
proof (induction inputs s rule: tick_processor_loop.induct)
  case (2 x inputs s)
  then obtain s1 where f: "\<not> ti_stop x" and p: "tick_pass x s = (None, s1)" and l: "tick_processor_loop inputs s1 = (Running, s')"
    by (auto split: option.splits prod.splits if_splits)
  show ?case using tick_pass_ok [OF 2(2) p] 2(1) [OF f p [symmetric] refl _ l] by simp
qed simp

lemma enqueue_head: "foldl enqueue (f # q) ms = f # drop 1 (foldl enqueue (f # q) ms)"
  by (induction ms arbitrary: q) (simp_all add: enqueue_def)

section \<open>Properties\<close>

text \<open>Claim C7.  The whole data path, from the broker's frames to the leg a strategy vessel reads.
  After a run of the data pipeline that ends cleanly, every leg of the option chain in Redis holds
  for each field the last value any frame carried for the leg's token (the template's value when
  none did), and the leg built from it by the strategy's snapshot reader shows exactly that
  market: last traded price, best bid and ask, and the time of the last tick.\<close>

theorem market_reaches_strategy:
  assumes run: "pipeline_main auth mt wall inputs m = (Some 0, m')" and t: "template_ok m" and i: "valid_index i"
    and e: "chain_leaf (get_or (md_chain m i) []) k sd = Some e" "l_token e = Some tok" "tok \<noteq> []"
    and ts: "ts = filter (\<lambda>x. pt_token x = tok) (taken_ticks inputs [])" "ts \<noteq> []"
  shows "\<exists>ch. md_chain m' i = Some ch \<and> chain_leaf ch k sd = Some (known_leaf e ts) \<and>
    (let leg = build_leg tok k sd (chain_leaf ch k sd)
     in sl_token leg = tok \<and> sl_ltp leg = Some (last_known (get_or (l_ltp e) 0) (map pt_ltp ts)) \<and>
        sl_best_bid leg = Some (last_known (get_or (l_bid e) 0) (map pt_bid ts)) \<and>
        sl_best_ask leg = Some (last_known (get_or (l_ask e) 0) (map pt_ask ts)) \<and> sl_ts leg = pt_ts (last ts))"
proof -
  obtain p s where l: "load_state auth m = Some p"
    and r: "tick_processor_loop inputs (start_proc mt p (announced wall m)) = (Exited, s)"
    and m': "m' = (pr_db s)\<lparr>md_engine_up := Some ''false'', md_engine_exited := Some ''true''\<rparr>" using main_exit [OF run] .
  note L = loop_ok [OF announced_proc_ok [OF load_state_ok(1) [OF l]] r]
  have key: "str_int k \<in> set (strikes_of (start_proc mt p (announced wall m)) i)"
    using chain_leaf_key [OF e(1)] load_strikes(1) [OF l i] by simp
  have "leg_in s i k sd = foldl leaf_step (Some e) ts"
    using L(3) key load_strikes(2) [OF l i] e leg_ticks_of_token [OF l t i e] load_state_ok(2) [OF l]
    by (simp add: legs_merge_def start_proc_def ts(1))
  then have g: "leg_in s i k sd = Some (known_leaf e ts)" using merge_known [OF ts(2) e(2,3)] by simp
  then obtain ch where c: "pl_chain (pr_pipe s) i = Some ch"
    by (cases "pl_chain (pr_pipe s) i") (simp_all add: leg_in_def chain_leaf_def)
  have "md_chain m' i = Some ch" "chain_leaf ch k sd = Some (known_leaf e ts)"
    using L(4) i c g by (simp_all add: m' synced_def leg_in_def)
  then show ?thesis
    using e by (simp add: build_leg_def known_leaf_def str_or_def num_or_def split: list.splits)
qed


text \<open>A single frame that the parser cannot digest ends the data pipeline.  The parser is
  called outside the per-tick error handling, so its exception leaves the loop: the engine exits
  with code 1, without the final flush, and every frame behind the bad one is lost.\<close>

theorem bad_frame_stops_pipeline:
  assumes "load_state auth m = Some p" and "\<not> ti_stop i" and "ti_arrivals i = f # later" and "f \<noteq> JNull"
    and "parse_tick (ti_wall i) f = Inl e"
  shows "\<exists>m'. pipeline_main auth mt wall (i # rest) m = (Some 1, m') \<and> md_chain m' = md_chain m \<and>
    md_engine_up m' = Some ''false'' \<and> md_engine_exited m' = Some ''true''"
proof -
  define s where "s = receive (ti_arrivals i) (start_proc mt p (announced wall m))"
  have q: "pl_queue (pr_pipe s) = f # drop 1 (foldl enqueue [f] later)"
    using load_state_ok(2) [OF assms(1)] assms(3,4) enqueue_head [of f "[]" later]
    by (simp add: s_def start_proc_def enqueue_def QUEUE_MAXSIZE_def)
  have "tick_pass i (start_proc mt p (announced wall m)) =
      (Some e, s\<lparr>pr_pipe := (pr_pipe s)\<lparr>pl_queue := drop 1 (foldl enqueue [f] later)\<rparr>\<rparr>)"
    using assms(5) q by (simp add: tick_pass_def Let_def s_def [symmetric])
  moreover have "pr_db s = announced wall m" by (simp add: s_def start_proc_def)
  ultimately show ?thesis
    using assms(1,2) by (simp add: pipeline_main_def Let_def announced_def)
qed

section \<open>Witnesses\<close>

definition demo_leaf :: leaf where
  "demo_leaf = empty_leaf\<lparr>l_token := Some ''NSE_FO|1'', l_ltp := Some 0\<rparr>"

definition demo_db :: market_db where
  "demo_db = \<lparr>md_meta = (\<lambda>_. None), md_chain = (\<lambda>i. if i = ''nifty50'' then Some [(''24000'', Some demo_leaf, None)] else None),
     md_spot = (\<lambda>_. None), md_stream = (\<lambda>_. []), md_published = [], md_desired = {''NSE_FO|1''}, md_subscribed = {},
     md_ws = \<lparr>ws_connected_flag = None, ws_last_frame_ts = None, ws_reconnect_count = None\<rparr>,
     md_pipeline_subscribed = None, md_engine_up = None, md_engine_exited = None, md_warnings = [], md_heartbeats = (\<lambda>_. None)\<rparr>"

definition demo_frame :: json where
  "demo_frame = JObj [(''feeds'', JObj [(''NSE_FO|1'', JObj [(''ltpc'', JObj [(''ltp'', JInt 101)])])])]"

definition bad_frame :: json where
  "bad_frame = JObj [(''feeds'', JObj [(''X'', JObj [(''oi'', JStr ''inf'')])])]"

definition demo_auth :: "auth_blob option" where
  "demo_auth = Some (AuthBare ''t'')"

abbreviation demo_input :: "bool \<Rightarrow> json list \<Rightarrow> int \<Rightarrow> tick_input" where
  "demo_input stop msgs mt \<equiv> \<lparr>ti_stop = stop, ti_arrivals = msgs, ti_mono = mt, ti_wall = 1700\<rparr>"

lemma demo_template: "template_entries demo_db = [(''NSE_FO|1'', ''nifty50'', 24000, ''ce'')]"
  by (simp add: template_entries_def INDEXES_def demo_db_def demo_leaf_def empty_leaf_def spot_entry_def strike_entries_def
      leg_entry_def int_of_str_def char_digit_def)

lemma demo_strike: "str_int 24000 = ''24000''"
  by (simp add: str_int_def digits_nat.simps digit_char_def char_of_def bit_0)

lemma demo_chain:
  "template_ok demo_db" "valid_index ''nifty50''"
  "chain_leaf (get_or (md_chain demo_db ''nifty50'') []) 24000 CE = Some demo_leaf" "l_token demo_leaf = Some ''NSE_FO|1''"
  by (simp_all add: template_ok_def demo_template INDEXES_def)
     (simp_all add: demo_db_def demo_leaf_def chain_leaf_def demo_strike valid_index_def int_of_str_def char_digit_def)

lemma demo_load: "\<exists>p. load_state demo_auth demo_db = Some p"
  by (simp add: load_state_def load_access_token_def demo_auth_def demo_template Let_def)

lemma demo_ticks: "\<exists>t. frame_ticks 1700 [demo_frame] = [t] \<and> pt_token t = ''NSE_FO|1'' \<and> pt_ltp t = Some 101"
  by (simp add: frame_ticks_def demo_frame_def parser_defs Let_def numeral_eq_Suc)

lemma bad_parse: "parse_tick 1700 bad_frame = Inl OverflowError"
  by (simp add: bad_frame_def parser_defs Let_def float_of_text_def unsigned_float_text_def py_lower_def lower_char_def)

theorem bad_frame_stops_pipeline_witness:
  "\<exists>m'. pipeline_main demo_auth 0 0 [demo_input False [bad_frame, demo_frame] 10] demo_db = (Some 1, m') \<and>
     md_engine_up m' = Some ''false''"
proof -
  obtain p where "load_state demo_auth demo_db = Some p" using demo_load by blast
  from bad_frame_stops_pipeline [OF this, of "demo_input False [bad_frame, demo_frame] 10" bad_frame "[demo_frame]" OverflowError 0 0 "[]"]
  show ?thesis using bad_parse by (auto simp: bad_frame_def)
qed


lemma demo_run:
  "\<exists>m' t. pipeline_main demo_auth 0 0 [demo_input False [demo_frame] 10, demo_input True [] 20] demo_db = (Some 0, m') \<and>
     taken_ticks [demo_input False [demo_frame] 10, demo_input True [] 20] [] = [t] \<and> pt_token t = ''NSE_FO|1'' \<and>
     pt_ltp t = Some 101"
proof -
  obtain p where l: "load_state demo_auth demo_db = Some p" using demo_load by blast
  let ?s = "start_proc 0 p (announced 0 demo_db)"
  let ?in = "[demo_input False [demo_frame] 10, demo_input True [] 20]"
  have ok: "proc_ok ?s" by (rule announced_proc_ok [OF load_state_ok(1) [OF l]])
  have n: "demo_frame \<noteq> JNull" by (simp add: demo_frame_def)
  have q: "foldl enqueue (pl_queue (pr_pipe ?s)) [demo_frame] = [demo_frame]"
    using load_state_ok(2) [OF l] n by (simp add: start_proc_def enqueue_def QUEUE_MAXSIZE_def)
  obtain t where t: "frame_ticks 1700 [demo_frame] = [t]" "pt_token t = ''NSE_FO|1''" "pt_ltp t = Some 101"
    using demo_ticks by blast
  then obtain ts where ts: "parse_tick 1700 demo_frame = Inr ts" by (auto simp: frame_ticks_def split: sum.splits)
  obtain s1 where s1: "tick_pass (demo_input False [demo_frame] 10) ?s = (None, s1)"
  proof (cases "tick_pass (demo_input False [demo_frame] 10) ?s")
    case (Pair e s1)
    then show ?thesis using that tick_pass_raises [OF ok, of "demo_input False [demo_frame] 10"] q ts by (cases e) auto
  qed
  have ok1: "proc_ok s1" using tick_pass_ok [OF ok s1] by blast
  obtain s2 where "flush_chains 1700 s1 = (None, s2)" using flush_chains_ok [OF ok1] by metis
  then have "\<exists>m'. pipeline_main demo_auth 0 0 ?in demo_db = (Some 0, m')"
    using s1 by (simp add: pipeline_main_def l Let_def announced_def)
  then show ?thesis using t n by (auto simp: enqueue_def QUEUE_MAXSIZE_def)
qed

theorem market_reaches_strategy_witness:
  "\<exists>m' ch l. pipeline_main demo_auth 0 0 [demo_input False [demo_frame] 10, demo_input True [] 20] demo_db = (Some 0, m') \<and>
     md_chain m' ''nifty50'' = Some ch \<and> chain_leaf ch 24000 CE = Some l \<and> l_ltp l = Some 101"
proof -
  obtain m' t where r: "pipeline_main demo_auth 0 0 [demo_input False [demo_frame] 10, demo_input True [] 20] demo_db = (Some 0, m')"
    and t: "taken_ticks [demo_input False [demo_frame] 10, demo_input True [] 20] [] = [t]" "pt_token t = ''NSE_FO|1''" "pt_ltp t = Some 101"
    using demo_run by blast
  have ts: "[t] = filter (\<lambda>x. pt_token x = ''NSE_FO|1'') (taken_ticks [demo_input False [demo_frame] 10, demo_input True [] 20] [])"
    using t by simp
  show ?thesis
    using market_reaches_strategy [OF r demo_chain _ ts] r t last_known_simps(3) [of _ "[]"]
    by (auto simp: known_leaf_def)
qed


end
