(* ===== verification/Subscriptions.thy ===== *)
theory Subscriptions
  imports TickProcessor
begin

text \<open>
  \<open>data_pipeline/{subscription_manager,pre_market_subscriber,ws_io}.py\<close>: what the pipeline subscribes
  to at boot, the gate it opens when the subscribed tokens are live, and the socket status it
  publishes.  A poll of the gate reads the monotonic clock (milliseconds), the shutdown event and
  the tokens that have produced a frame.
\<close>

section \<open>Helpers\<close>

definition sm_compute_atm :: "money \<Rightarrow> int \<Rightarrow> int" where
  "sm_compute_atm spot step = (if step \<le> 0 then 0 else round_half_even (spot / of_int step) * step)"

definition leg_token :: "leaf option \<Rightarrow> token list" where
  "leg_token lf =
     (case lf of None \<Rightarrow> [] | Some l \<Rightarrow> (case l_token l of Some (c # cs) \<Rightarrow> [c # cs] | _ \<Rightarrow> []))"

definition chain_tokens :: "chain \<Rightarrow> token list" where
  "chain_tokens ch = concat (map (\<lambda>(_, ce, pe). leg_token ce @ leg_token pe) ch)"

text \<open>An index whose configuration is missing or empty (\<open>None\<close>) contributes nothing.\<close>

definition index_desired :: "money \<Rightarrow> index_meta option \<Rightarrow> chain option \<Rightarrow> token set" where
  "index_desired spot cfg ch =
     (case cfg of
        None \<Rightarrow> {}
      | Some c \<Rightarrow>
          (case im_spot_token c of Some (x # xs) \<Rightarrow> {x # xs} | _ \<Rightarrow> {}) \<union>
          (if spot = 0 then {} else set (chain_tokens (get_or ch []))))"

fun compute_desired_set ::
  "(index_name \<times> money) list \<Rightarrow> (index_name \<Rightarrow> index_meta option) \<Rightarrow> (index_name \<Rightarrow> chain option) \<Rightarrow> token set" where
  "compute_desired_set [] cfgs chs = {}"
| "compute_desired_set ((idx, spot) # rest) cfgs chs =
     index_desired spot (cfgs idx) (chs idx) \<union> compute_desired_set rest cfgs chs"

definition diff_sets :: "token set \<Rightarrow> token set \<Rightarrow> token set \<times> token set" where
  "diff_sets current desired = (current - desired, desired - current)"

section \<open>Boot\<close>

definition bootstrap_subscriptions :: "bool \<Rightarrow> market_db \<Rightarrow> token set \<times> market_db" where
  "bootstrap_subscriptions has_streamer m =
     (if md_desired m = {} then ({}, m)
      else if \<not> has_streamer then ({}, m)
      else (md_desired m, m\<lparr>md_subscribed := md_desired m\<rparr>))"

definition FIRST_FRAME_DEADLINE_MS :: int where
  "FIRST_FRAME_DEADLINE_MS = 30000"

record gate_poll =
  gp_mono :: int
  gp_stop :: bool
  gp_seen :: "token set"

datatype first_frame_result = GateWaiting | GateShutdown | GateOpen "token set"

fun first_frame_wait :: "token set \<Rightarrow> int \<Rightarrow> gate_poll list \<Rightarrow> first_frame_result" where
  "first_frame_wait subscribed deadline [] = GateWaiting"
| "first_frame_wait subscribed deadline (g # polls) =
     (if \<not> gp_mono g < deadline then GateOpen (gp_seen g)
      else if gp_stop g then GateShutdown
      else if subscribed - gp_seen g = {} then GateOpen (gp_seen g)
      else first_frame_wait subscribed deadline polls)"

definition open_gate :: "token set \<Rightarrow> token set \<Rightarrow> market_db \<Rightarrow> market_db" where
  "open_gate subscribed seen m =
     (let m1 = m\<lparr>md_pipeline_subscribed := Some ''true''\<rparr>
      in if subscribed - seen = {} then m1 else m1\<lparr>md_warnings := md_warnings m1 @ [''silent'']\<rparr>)"

text \<open>\<open>opened\<close> is whether the socket opened within the 15 second wait, \<open>mt\<close> the clock when the
  first-frame wait starts; \<open>None\<close> while the gate waits.\<close>

definition subscribe_at_premarket :: "bool \<Rightarrow> bool \<Rightarrow> bool \<Rightarrow> int \<Rightarrow> gate_poll list \<Rightarrow> market_db \<Rightarrow> market_db option" where
  "subscribe_at_premarket opened stopped has_streamer mt polls m =
     (if \<not> opened then Some (m\<lparr>md_warnings := md_warnings m @ [''ws_open_timeout'']\<rparr>)
      else if stopped then Some m
      else
        let (subscribed, m1) = bootstrap_subscriptions has_streamer m
        in if subscribed = {} then Some (m1\<lparr>md_pipeline_subscribed := Some ''true''\<rparr>)
           else (case first_frame_wait subscribed (mt + FIRST_FRAME_DEADLINE_MS) polls of
                   GateWaiting \<Rightarrow> None
                 | GateShutdown \<Rightarrow> Some m1
                 | GateOpen seen \<Rightarrow> Some (open_gate subscribed seen m1)))"

section \<open>At-the-money watch\<close>

definition watch_index :: "pipe \<Rightarrow> (index_name \<times> int) list \<Rightarrow> index_name \<Rightarrow> (index_name \<times> int) list" where
  "watch_index p seen idx =
     (let ltp = get_or (map_option sp_ltp (pl_spot p idx)) 0;
          step = (case pl_index_meta p idx of None \<Rightarrow> 0 | Some im \<Rightarrow> num_or (im_strike_step im) 0)
      in if ltp = 0 \<or> step = 0 then seen
         else
           let atm = sm_compute_atm ltp step
           in (case map_of seen idx of
                 None \<Rightarrow> dict_set idx atm seen
               | Some prev \<Rightarrow> if atm \<noteq> prev then dict_set idx atm seen else seen))"

text \<open>One pass of \<open>subscription_manager_loop\<close>: the only effect outside its own table is a heartbeat.\<close>

definition subscription_pass :: "int \<Rightarrow> pipe \<Rightarrow> (index_name \<times> int) list \<Rightarrow> market_db \<Rightarrow> (index_name \<times> int) list \<times> market_db" where
  "subscription_pass wall p seen m =
     (foldl (watch_index p) seen INDEXES,
      m\<lparr>md_heartbeats := (md_heartbeats m)(''data_pipeline.subscription_manager'' \<mapsto> wall)\<rparr>)"

section \<open>Socket status\<close>

definition some_or :: "'a option \<Rightarrow> 'a option \<Rightarrow> 'a option" where
  "some_or new old = (case new of None \<Rightarrow> old | Some x \<Rightarrow> Some x)"

definition update_ws_status :: "bool \<Rightarrow> int option \<Rightarrow> int option \<Rightarrow> market_db \<Rightarrow> market_db" where
  "update_ws_status is_up last_frame reconnects m =
     m\<lparr>md_ws := \<lparr>ws_connected_flag = Some is_up, ws_last_frame_ts = some_or last_frame (ws_last_frame_ts (md_ws m)),
                 ws_reconnect_count = some_or reconnects (ws_reconnect_count (md_ws m))\<rparr>\<rparr>"

datatype ws_event = WsOpen int | WsClose | WsError | WsReconnecting | WsGaveUp

record ws_side =
  wi_reconnects :: int
  wi_connected :: bool
  wi_shutdown :: bool

definition ws_callback :: "ws_event \<Rightarrow> ws_side \<Rightarrow> market_db \<Rightarrow> ws_side \<times> market_db" where
  "ws_callback ev s m =
     (case ev of
        WsOpen wall \<Rightarrow> (s\<lparr>wi_connected := True\<rparr>, update_ws_status True (Some wall) (Some (wi_reconnects s)) m)
      | WsClose \<Rightarrow> (s\<lparr>wi_connected := False\<rparr>, update_ws_status False None None m)
      | WsError \<Rightarrow> (s, m)
      | WsReconnecting \<Rightarrow> (s\<lparr>wi_reconnects := wi_reconnects s + 1\<rparr>, m)
      | WsGaveUp \<Rightarrow> (s\<lparr>wi_shutdown := True\<rparr>, m))"

text \<open>One wake-up of \<open>ws_io_loop\<close>: the status is refreshed when more than five seconds old.\<close>

definition ws_refresh :: "int \<Rightarrow> int \<Rightarrow> bool \<Rightarrow> (token \<times> int) list \<Rightarrow> market_db \<Rightarrow> int \<times> market_db" where
  "ws_refresh now last_flush is_up frames m =
     (if 5000 < now - last_flush then
        let newest = (if frames = [] then 0 else Max (set (map snd frames)))
        in (now, update_ws_status is_up (Some (if newest \<noteq> 0 then newest else now)) None m)
      else (last_flush, m))"

section \<open>Lemmas\<close>

lemma leg_token_nonempty: "x \<in> set (leg_token lf) \<Longrightarrow> \<exists>l. lf = Some l \<and> l_token l = Some x"
  by (auto simp: leg_token_def split: option.splits list.splits)

text \<open>Applying the difference of two token sets to the first gives the second.\<close>

lemma diff_sets_apply: "diff_sets cur des = (drop_set, add_set) \<Longrightarrow> (cur - drop_set) \<union> add_set = des \<and> drop_set \<inter> des = {} \<and> add_set \<inter> cur = {}"
  by (auto simp: diff_sets_def)

lemma first_frame_open:
  "first_frame_wait sub d polls = GateOpen seen \<Longrightarrow>
   \<exists>g \<in> set polls. gp_seen g = seen \<and> (sub \<subseteq> seen \<or> d \<le> gp_mono g)"
  by (induction sub d polls rule: first_frame_wait.induct) (auto split: if_splits)

lemma first_frame_returns:
  "(\<exists>g \<in> set polls. d \<le> gp_mono g) \<Longrightarrow> first_frame_wait sub d polls \<noteq> GateWaiting"
  by (induction sub d polls rule: first_frame_wait.induct) auto

lemma first_frame_no_stop:
  "\<forall>g \<in> set polls. \<not> gp_stop g \<Longrightarrow> first_frame_wait sub d polls \<noteq> GateShutdown"
  by (induction sub d polls rule: first_frame_wait.induct) auto

section \<open>Properties\<close>

text \<open>The first-frame gate always opens.  Once the socket is open and no shutdown
  intervenes, then by the first poll past the thirty-second deadline at the latest the pipeline
  has taken over the desired subscriptions and set the flag the other engines wait for; and it has
  added a warning exactly when some subscribed token was still silent at that moment, which can
  only happen at or after the deadline.\<close>

theorem premarket_gate_opens:
  assumes "md_desired m \<noteq> {}" and "\<forall>g \<in> set polls. \<not> gp_stop g"
    and "\<exists>g \<in> set polls. mt + FIRST_FRAME_DEADLINE_MS \<le> gp_mono g"
  shows "\<exists>m' seen. subscribe_at_premarket True False True mt polls m = Some m' \<and>
    md_pipeline_subscribed m' = Some ''true'' \<and> md_subscribed m' = md_desired m \<and>
    md_warnings m' = md_warnings m @ (if md_desired m \<subseteq> seen then [] else [''silent'']) \<and>
    (\<exists>g \<in> set polls. gp_seen g = seen \<and> (md_desired m \<subseteq> seen \<or> mt + FIRST_FRAME_DEADLINE_MS \<le> gp_mono g))"
proof -
  obtain seen where g: "first_frame_wait (md_desired m) (mt + FIRST_FRAME_DEADLINE_MS) polls = GateOpen seen"
    using first_frame_returns [OF assms(3)] first_frame_no_stop [OF assms(2)] by (metis first_frame_result.exhaust)
  show ?thesis
    using g assms(1) first_frame_open [OF g]
    by (auto simp: subscribe_at_premarket_def bootstrap_subscriptions_def open_gate_def Let_def)
qed

definition quiet_db :: market_db where
  "quiet_db = \<lparr>md_meta = (\<lambda>_. None), md_chain = (\<lambda>_. None), md_spot = (\<lambda>_. None), md_stream = (\<lambda>_. []), md_published = [],
     md_desired = {''NSE_FO|1'', ''NSE_FO|2''}, md_subscribed = {},
     md_ws = \<lparr>ws_connected_flag = None, ws_last_frame_ts = None, ws_reconnect_count = None\<rparr>,
     md_pipeline_subscribed = None, md_engine_up = None, md_engine_exited = None, md_warnings = [], md_heartbeats = (\<lambda>_. None)\<rparr>"

abbreviation quiet_polls :: "gate_poll list" where
  "quiet_polls \<equiv> [\<lparr>gp_mono = 500, gp_stop = False, gp_seen = {}\<rparr>, \<lparr>gp_mono = 30600, gp_stop = False, gp_seen = {''NSE_FO|1''}\<rparr>]"

text \<open>One of two tokens never ticks: the gate opens at the deadline with the warning.\<close>

theorem premarket_gate_opens_witness:
  "\<exists>m'. subscribe_at_premarket True False True 0 quiet_polls quiet_db = Some m' \<and>
     md_pipeline_subscribed m' = Some ''true'' \<and> md_warnings m' = [''silent'']"
proof -
  have h: "md_desired quiet_db \<noteq> {}" "\<forall>g \<in> set quiet_polls. \<not> gp_stop g"
    "\<exists>g \<in> set quiet_polls. 0 + FIRST_FRAME_DEADLINE_MS \<le> gp_mono g"
    by (simp_all add: quiet_db_def FIRST_FRAME_DEADLINE_MS_def)
  obtain m' seen where r: "subscribe_at_premarket True False True 0 quiet_polls quiet_db = Some m'"
    "md_pipeline_subscribed m' = Some ''true''"
    "md_warnings m' = md_warnings quiet_db @ (if md_desired quiet_db \<subseteq> seen then [] else [''silent''])"
    "\<exists>g \<in> set quiet_polls. gp_seen g = seen"
    using premarket_gate_opens [OF h] by blast
  from r(4) have "seen = {} \<or> seen = {''NSE_FO|1''}" by auto
  then have "\<not> md_desired quiet_db \<subseteq> seen" by (auto simp: quiet_db_def)
  with r show ?thesis by (simp add: quiet_db_def)
qed

end
