(* ===== verification/BasketBuilder.thy ===== *)
theory BasketBuilder
  imports Subscriptions "HOL-Library.List_Lexorder" "HOL-Library.Char_ord"
begin

text \<open>
  \<open>engines/init/strike_basket_builder.py\<close>: the option-chain template of an index, its trading
  basket and the subscriptions, computed from the broker's answers and written to Redis.  Here the
  keys are the texts themselves: \<open>db\<close> maps a key to the value its text denotes.
\<close>

section \<open>The key space\<close>

record full_meta = index_meta +
  fm_lot_size :: int
  fm_exchange :: json
  fm_expiry :: string
  fm_atm_at_open :: int
  fm_strikes :: "int list"

datatype rval =
    RText string
  | RJson json
  | RHash "(string \<times> string) list"
  | RSet "string set"
  | RMeta full_meta
  | RChain chain
  | RBasket "token list" "token list"

type_synonym db = "string \<Rightarrow> rval option"

definition set_members :: "db \<Rightarrow> string \<Rightarrow> string set" where
  "set_members d k = (case d k of Some (RSet s) \<Rightarrow> s | _ \<Rightarrow> {})"

definition sadd :: "string \<Rightarrow> string set \<Rightarrow> db \<Rightarrow> db" where
  "sadd k xs d = d(k \<mapsto> RSet (set_members d k \<union> xs))"

definition read_str :: "db \<Rightarrow> string \<Rightarrow> string \<Rightarrow> string" where
  "read_str d k dflt = (case d k of Some (RText s) \<Rightarrow> s | _ \<Rightarrow> dflt)"

section \<open>Pure helpers\<close>

definition INDEX_SPOT_TOKENS :: "(index_name \<times> token) list" where
  "INDEX_SPOT_TOKENS = [(''nifty50'', ''NSE_INDEX|Nifty 50''), (''banknifty'', ''NSE_INDEX|Nifty Bank'')]"

definition init_compute_atm :: "money \<Rightarrow> int \<Rightarrow> pyexc + int" where
  "init_compute_atm spot step =
     (if step \<le> 0 then Inl ValueError else Inr (round_half_even (spot / of_int step) * step))"

record contract =
  ct_expiry :: "string option"
  ct_strike :: "rat option"
  ct_type :: "string option"
  ct_key :: "token option"
  ct_lot :: "int option"

definition nonempty_texts :: "string option list \<Rightarrow> string list" where
  "nonempty_texts xs = filter (\<lambda>s. s \<noteq> []) (somes xs)"

definition discover_nearest_expiry :: "contract list \<Rightarrow> string \<Rightarrow> string option" where
  "discover_nearest_expiry cs today =
     (case filter (\<lambda>e. today \<le> e) (sort (remdups (nonempty_texts (map ct_expiry cs)))) of
        [] \<Rightarrow> None
      | e # _ \<Rightarrow> Some e)"

definition window_strikes :: "int \<Rightarrow> int \<Rightarrow> int \<Rightarrow> int list" where
  "window_strikes atm step window = map (\<lambda>i. atm + i * step) [- window..window]"

definition filter_atm_window_strikes ::
  "contract list \<Rightarrow> string \<Rightarrow> int \<Rightarrow> int \<Rightarrow> int \<Rightarrow> int list \<times> contract list" where
  "filter_atm_window_strikes cs expiry atm step window =
     (let strikes = window_strikes atm step window
      in (strikes, filter (\<lambda>c. ct_expiry c = Some expiry \<and> num_or (ct_strike c) 0 \<in> of_int ` set strikes) cs))"

definition py_upper :: "string \<Rightarrow> string" where
  "py_upper s = map (\<lambda>c. let n = (of_char c :: nat) in if 97 \<le> n \<and> n \<le> 122 then char_of (n - 32) else c) s"

definition template_leaf :: "token option \<Rightarrow> leaf" where
  "template_leaf tok =
     \<lparr>l_token = tok, l_ltp = Some 0, l_bid = Some 0, l_ask = Some 0, l_bid_qty = Some 0, l_ask_qty = Some 0,
      l_bid_prices = None, l_ask_prices = None, l_bid_qtys = None, l_ask_qtys = None,
      l_total_bid_qty = None, l_total_ask_qty = None, l_vol = Some 0, l_oi = Some 0, l_ts = Some 0\<rparr>"

definition place_contract :: "(int \<times> sides) list \<Rightarrow> contract \<Rightarrow> (int \<times> sides) list" where
  "place_contract by_strike c =
     (let strike = py_trunc (num_or (ct_strike c) 0); sd = py_upper (get_or (ct_type c) [])
      in case map_of by_strike strike of
           None \<Rightarrow> by_strike
         | Some (ce, pe) \<Rightarrow>
             if sd = ''CE'' then dict_set strike (Some (template_leaf (ct_key c)), pe) by_strike
             else if sd = ''PE'' then dict_set strike (ce, Some (template_leaf (ct_key c))) by_strike
             else by_strike)"

definition build_option_chain_template :: "contract list \<Rightarrow> int list \<Rightarrow> chain" where
  "build_option_chain_template cs strikes =
     map (\<lambda>(s, row). (str_int s, row))
       (foldl place_contract (map (\<lambda>s. (s, None, None)) (remdups strikes)) cs)"

definition basket_tokens :: "chain \<Rightarrow> side \<Rightarrow> int list \<Rightarrow> token list" where
  "basket_tokens ch sd strikes = concat (map (\<lambda>k. leg_token (chain_leaf ch k sd)) strikes)"

definition build_trading_basket :: "chain \<Rightarrow> int \<Rightarrow> int \<Rightarrow> int \<Rightarrow> token list \<times> token list" where
  "build_trading_basket ch atm step n =
     (basket_tokens ch CE (map (\<lambda>i. atm - i * step) [0..n]),
      basket_tokens ch PE (map (\<lambda>i. atm + i * step) [0..n]))"

section \<open>One index\<close>

text \<open>\<open>cfg[key]\<close> and \<open>int(...)\<close> of it.\<close>

definition cfg_int :: "json \<Rightarrow> string \<Rightarrow> pyexc + int" where
  "cfg_int cfg k =
     (case cfg of
        JObj kvs \<Rightarrow>
          (case map_of kvs k of
             None \<Rightarrow> Inl KeyError
           | Some (JInt i) \<Rightarrow> Inr i
           | Some (JBool b) \<Rightarrow> Inr (if b then 1 else 0)
           | Some (JFloat (Fin r)) \<Rightarrow> Inr (py_trunc r)
           | Some (JFloat (Infinity _)) \<Rightarrow> Inl OverflowError
           | Some (JFloat NaN) \<Rightarrow> Inl ValueError
           | Some (JStr s) \<Rightarrow> (case int_of_str s of None \<Rightarrow> Inl ValueError | Some i \<Rightarrow> Inr i)
           | Some _ \<Rightarrow> Inl TypeError)
      | _ \<Rightarrow> Inl TypeError)"

definition read_builder_config :: "db \<Rightarrow> index_name \<Rightarrow> pyexc + json" where
  "read_builder_config d idx =
     and_then (strategy_config_index idx) (\<lambda>k.
       case d k of Some (RJson j) \<Rightarrow> Inr j | _ \<Rightarrow> Inl RuntimeError)"

datatype build_result =
    BuildError string
  | Built int string nat "token list" "token list"

definition disable_index :: "index_name \<Rightarrow> db \<Rightarrow> db" where
  "disable_index idx d = (case strategy_enabled idx of Inl _ \<Rightarrow> d | Inr k \<Rightarrow> d(k \<mapsto> RText ''false''))"

definition first_lot_size :: "contract list \<Rightarrow> int \<Rightarrow> int" where
  "first_lot_size cs fallback = get_or (first_some (\<lambda>c. case ct_lot c of Some n \<Rightarrow> if n = 0 then None else Some n | None \<Rightarrow> None) cs) fallback"

definition persist_index :: "index_name \<Rightarrow> full_meta \<Rightarrow> chain \<Rightarrow> token list \<times> token list \<Rightarrow> token set \<Rightarrow> db \<Rightarrow> pyexc + db" where
  "persist_index idx meta ch basket toks d =
     and_then (market_data_index_meta idx) (\<lambda>km.
     and_then (market_data_index_option_chain idx) (\<lambda>kc.
     and_then (strategy_basket idx) (\<lambda>kb.
       Inr (sadd MARKET_DATA_SUBSCRIPTIONS_DESIRED toks
             (d(km \<mapsto> RMeta meta, kc \<mapsto> RChain ch, kb \<mapsto> RBasket (fst basket) (snd basket)))))))"

definition builder_meta :: "int \<Rightarrow> token \<Rightarrow> int \<Rightarrow> json \<Rightarrow> string \<Rightarrow> int \<Rightarrow> int list \<Rightarrow> full_meta" where
  "builder_meta step spot_token lot ex expiry atm strikes =
     \<lparr>im_strike_step = Some step, im_spot_token = Some spot_token, im_prev_close = None, fm_lot_size = lot,
      fm_exchange = ex, fm_expiry = expiry, fm_atm_at_open = atm, fm_strikes = strikes\<rparr>"

definition build_with_contracts ::
  "index_name \<Rightarrow> token \<Rightarrow> json \<Rightarrow> int \<Rightarrow> int \<Rightarrow> contract list \<Rightarrow> string \<Rightarrow> db \<Rightarrow> (pyexc + build_result) \<times> db" where
  "build_with_contracts idx spot_token cfg step atm cs today d =
     (case discover_nearest_expiry cs today of
        None \<Rightarrow> (Inr (BuildError ''no_future_expiry''), disable_index idx d)
      | Some expiry \<Rightarrow>
          (case cfg_int cfg ''pre_open_subscribe_window'' of
             Inl e \<Rightarrow> (Inl e, d)
           | Inr window \<Rightarrow>
               let (strikes, in_window) = filter_atm_window_strikes cs expiry atm step window;
                   ch = build_option_chain_template in_window strikes
               in case cfg_int cfg ''trading_basket_range'' of
                    Inl e \<Rightarrow> (Inl e, d)
                  | Inr n \<Rightarrow>
                      let basket = build_trading_basket ch atm step n
                      in case and_then (cfg_int cfg ''lot_size'') (\<lambda>lot.
                                and_then (jget_default cfg ''exchange'' (JStr ''NFO'')) (\<lambda>ex.
                                let toks = set (nonempty_texts (map ct_key in_window)) \<union> {spot_token};
                                    meta = builder_meta step spot_token (first_lot_size in_window lot) ex expiry atm strikes
                                in and_then (persist_index idx meta ch basket toks d) (\<lambda>d'. Inr (toks, d')))) of
                           Inl e \<Rightarrow> (Inl e, d)
                         | Inr (toks, d') \<Rightarrow> (Inr (Built atm expiry (card toks) (fst basket) (snd basket)), d')))"

definition build_for_index ::
  "(token \<Rightarrow> string + (token \<times> rat) list) \<Rightarrow> (token \<Rightarrow> string + contract list) \<Rightarrow> string \<Rightarrow> index_name \<Rightarrow> db
     \<Rightarrow> (pyexc + build_result) \<times> db" where
  "build_for_index get_ltp get_contracts today idx d =
     (case read_builder_config d idx of
        Inl e \<Rightarrow> (Inl e, d)
      | Inr cfg \<Rightarrow>
          (case map_of INDEX_SPOT_TOKENS idx of
             None \<Rightarrow> (Inl KeyError, d)
           | Some spot_token \<Rightarrow>
               (case get_ltp spot_token of
                  Inl err \<Rightarrow> (Inr (BuildError (''spot_ltp_failed: '' @ err)), disable_index idx d)
                | Inr quotes \<Rightarrow>
                    (case map_of quotes spot_token of
                       None \<Rightarrow> (Inr (BuildError ''spot_ltp_failed: None''), disable_index idx d)
                     | Some spot \<Rightarrow>
                         (case and_then (cfg_int cfg ''strike_step'') (\<lambda>step.
                                 and_then (init_compute_atm spot step) (\<lambda>atm. Inr (step, atm))) of
                            Inl e \<Rightarrow> (Inl e, d)
                          | Inr (step, atm) \<Rightarrow>
                              (case get_contracts spot_token of
                                 Inl err \<Rightarrow> (Inr (BuildError (''contracts_failed: '' @ err)), disable_index idx d)
                               | Inr cs \<Rightarrow> build_with_contracts idx spot_token cfg step atm cs today d))))))"


section \<open>What the data pipeline loads\<close>

definition typed_get :: "(rval \<Rightarrow> 'a option) \<Rightarrow> db \<Rightarrow> pyexc + string \<Rightarrow> 'a option" where
  "typed_get f d k = (case k of Inl _ \<Rightarrow> None | Inr s \<Rightarrow> (case d s of None \<Rightarrow> None | Some v \<Rightarrow> f v))"

definition market_of :: "db \<Rightarrow> market_db" where
  "market_of d =
     \<lparr>md_meta = (\<lambda>i. typed_get (\<lambda>v. case v of RMeta m \<Rightarrow> Some (index_meta.truncate m) | _ \<Rightarrow> None) d (market_data_index_meta i)),
      md_chain = (\<lambda>i. typed_get (\<lambda>v. case v of RChain c \<Rightarrow> Some c | _ \<Rightarrow> None) d (market_data_index_option_chain i)),
      md_spot = (\<lambda>_. None), md_stream = (\<lambda>_. []), md_published = [],
      md_desired = set_members d MARKET_DATA_SUBSCRIPTIONS_DESIRED, md_subscribed = {},
      md_ws = \<lparr>ws_connected_flag = None, ws_last_frame_ts = None, ws_reconnect_count = None\<rparr>,
      md_pipeline_subscribed = None, md_engine_up = None, md_engine_exited = None, md_warnings = [],
      md_heartbeats = (\<lambda>_. None)\<rparr>"

section \<open>Lemmas\<close>

text \<open>Every leg of the template comes from a contract of its strike and side.\<close>

definition leg_from :: "contract list \<Rightarrow> int \<Rightarrow> side \<Rightarrow> leaf option \<Rightarrow> bool" where
  "leg_from cs k sd lf \<longleftrightarrow>
     (\<forall>l. lf = Some l \<longrightarrow> (\<exists>c \<in> set cs. l = template_leaf (ct_key c) \<and> py_trunc (num_or (ct_strike c) 0) = k \<and>
        py_upper (get_or (ct_type c) []) = (case sd of CE \<Rightarrow> ''CE'' | PE \<Rightarrow> ''PE'')))"

lemma dict_set_mem: "(a, b) \<in> set (dict_set k v xs) \<Longrightarrow> (a, b) = (k, v) \<or> (a, b) \<in> set xs"
  by (induction k v xs rule: dict_set.induct) (auto split: if_splits)

lemma place_contract_keys [simp]: "map fst (place_contract bs c) = map fst bs"
proof (cases "map_of bs (py_trunc (num_or (ct_strike c) 0))")
  case (Some v)
  then have "py_trunc (num_or (ct_strike c) 0) \<in> fst ` set bs" by (force dest: map_of_SomeD)
  then show ?thesis by (simp add: place_contract_def Let_def dict_set_keys split: option.split prod.split)
qed (simp add: place_contract_def Let_def)

lemma place_contract_from:
  assumes "\<And>k ce pe. (k, ce, pe) \<in> set bs \<Longrightarrow> leg_from cs k CE ce \<and> leg_from cs k PE pe"
    and "(k, ce, pe) \<in> set (place_contract bs c)"
  shows "leg_from (cs @ [c]) k CE ce \<and> leg_from (cs @ [c]) k PE pe"
proof -
  have old: "leg_from (cs @ [c]) k' CE ce' \<and> leg_from (cs @ [c]) k' PE pe'" if "(k', ce', pe') \<in> set bs" for k' ce' pe'
    using assms(1) [OF that] by (fastforce simp: leg_from_def)
  have new: "leg_from (cs @ [c]) (py_trunc (num_or (ct_strike c) 0)) sd (Some (template_leaf (ct_key c)))"
    if "py_upper (get_or (ct_type c) []) = (case sd of CE \<Rightarrow> ''CE'' | PE \<Rightarrow> ''PE'')" for sd
    using that by (auto simp: leg_from_def)
  show ?thesis
    using assms(2) old new [of CE] new [of PE]
    by (auto simp: place_contract_def Let_def split: option.splits if_splits dest!: dict_set_mem map_of_SomeD)
qed

lemma template_from:
  "(k, ce, pe) \<in> set (foldl place_contract (map (\<lambda>s. (s, None, None)) ks) cs) \<Longrightarrow> leg_from cs k CE ce \<and> leg_from cs k PE pe"
proof (induction cs arbitrary: k ce pe rule: rev_induct)
  case Nil
  then show ?case by (auto simp: leg_from_def)
next
  case (snoc c cs)
  have m: "(k, ce, pe) \<in> set (place_contract (foldl place_contract (map (\<lambda>s. (s, None, None)) ks) cs) c)"
    using snoc.prems by simp
  show ?case by (rule place_contract_from [OF _ m]) (rule snoc.IH)
qed

lemma template_keys: "map fst (foldl place_contract bs cs) = map fst bs"
  by (induction cs arbitrary: bs) simp_all

lemma template_rows:
  "map fst (build_option_chain_template cs ks) = map str_int (remdups ks)"
  "(s, ce, pe) \<in> set (build_option_chain_template cs ks) \<Longrightarrow> \<exists>k. s = str_int k \<and> leg_from cs k CE ce \<and> leg_from cs k PE pe"
proof -
  let ?f = "foldl place_contract (map (\<lambda>s. (s, None, None)) (remdups ks)) cs"
  have "map fst (build_option_chain_template cs ks) = map str_int (map fst ?f)"
    by (auto simp: build_option_chain_template_def split: prod.splits)
  then show "map fst (build_option_chain_template cs ks) = map str_int (remdups ks)" by (simp add: template_keys comp_def)
  show "(s, ce, pe) \<in> set (build_option_chain_template cs ks) \<Longrightarrow> \<exists>k. s = str_int k \<and> leg_from cs k CE ce \<and> leg_from cs k PE pe"
    using template_from [of _ ce pe "remdups ks" cs] by (auto simp: build_option_chain_template_def)
qed

text \<open>The broker's contracts: no two share an instrument key, and none is a spot token.\<close>

definition contracts_ok :: "contract list \<Rightarrow> bool" where
  "contracts_ok cs \<longleftrightarrow> distinct (somes (map ct_key cs)) \<and> set (somes (map ct_key cs)) \<inter> snd ` set INDEX_SPOT_TOKENS = {}"

lemma somes_key_unique:
  "distinct (somes (map ct_key cs)) \<Longrightarrow> c \<in> set cs \<Longrightarrow> c' \<in> set cs \<Longrightarrow> ct_key c = Some t \<Longrightarrow> ct_key c' = Some t \<Longrightarrow> c = c'"
proof (induction cs)
  case (Cons a cs)
  have mem: "x \<in> set cs \<Longrightarrow> ct_key x = Some t \<Longrightarrow> t \<in> set (somes (map ct_key cs))" for x by (force simp: set_somes)
  show ?case using Cons mem by (cases "ct_key a") auto
qed simp

lemma leg_entry_from:
  "(t, j, k', sd') \<in> set (leg_entry i k sd lf) \<Longrightarrow> leg_from cs k sd lf \<Longrightarrow>
   j = i \<and> k' = k \<and> sd' = side_key sd \<and> (\<exists>c \<in> set cs. ct_key c = Some t \<and> py_trunc (num_or (ct_strike c) 0) = k \<and>
      py_upper (get_or (ct_type c) []) = (case sd of CE \<Rightarrow> ''CE'' | PE \<Rightarrow> ''PE''))"
  by (auto simp: leg_entry_def leg_from_def template_leaf_def split: option.splits list.splits) metis

definition entry_from :: "contract list \<Rightarrow> index_name \<Rightarrow> token \<times> index_name \<times> int \<times> string \<Rightarrow> bool" where
  "entry_from cs i e \<longleftrightarrow>
     (case e of (t, j, k, sd) \<Rightarrow> j = i \<and> (\<exists>c \<in> set cs. ct_key c = Some t \<and> py_trunc (num_or (ct_strike c) 0) = k \<and>
        (\<exists>s. sd = side_key s \<and> py_upper (get_or (ct_type c) []) = (case s of CE \<Rightarrow> ''CE'' | PE \<Rightarrow> ''PE''))))"

lemma template_entry_from:
  "e \<in> set (concat (map (strike_entries i) (build_option_chain_template cs ks))) \<Longrightarrow> entry_from cs i e"
  by (auto simp: strike_entries_def entry_from_def split: prod.splits option.splits
      dest!: template_rows(2) leg_entry_from)

lemma entry_from_unique:
  assumes "distinct (somes (map ct_key cs))" and "entry_from cs i a" and "entry_from cs i b" and "fst a = fst b"
  shows "a = b"
proof -
  obtain t k sd t' k' sd' where e: "a = (t, i, k, sd)" "b = (t', i, k', sd')"
    using assms(2,3) by (auto simp: entry_from_def split: prod.splits)
  obtain c s where c: "c \<in> set cs" "ct_key c = Some t" "py_trunc (num_or (ct_strike c) 0) = k" "sd = side_key s"
      "py_upper (get_or (ct_type c) []) = (case s of CE \<Rightarrow> ''CE'' | PE \<Rightarrow> ''PE'')"
    using assms(2) by (auto simp: e entry_from_def)
  obtain c' s' where c': "c' \<in> set cs" "ct_key c' = Some t'" "py_trunc (num_or (ct_strike c') 0) = k'" "sd' = side_key s'"
      "py_upper (get_or (ct_type c') []) = (case s' of CE \<Rightarrow> ''CE'' | PE \<Rightarrow> ''PE'')"
    using assms(3) by (auto simp: e entry_from_def)
  have "c = c'" using somes_key_unique [OF assms(1) c(1) c'(1) c(2)] c'(2) assms(4) by (simp add: e)
  then show ?thesis using c c' assms(4) by (cases s; cases s') (simp_all add: e)
qed

lemma leg_entry_fst: "distinct (leg_entry i k sd lf)" "length (leg_entry i k sd lf) \<le> 1"
  by (auto simp: leg_entry_def split: option.splits list.splits)

lemma strike_entries_distinct:
  "distinct (strike_entries i row)" "e \<in> set (strike_entries i row) \<Longrightarrow> int_of_str (fst row) = Some (fst (snd (snd e)))"
  by (auto simp: strike_entries_def leg_entry_def split: option.splits list.splits prod.splits)

lemma concat_entries_distinct:
  "distinct (map fst rows) \<Longrightarrow> \<forall>r \<in> set rows. \<exists>k. fst r = str_int k \<Longrightarrow> distinct (concat (map (strike_entries i) rows))"
proof (induction rows)
  case (Cons r rows)
  have "set (strike_entries i r) \<inter> set (concat (map (strike_entries i) rows)) = {}"
  proof (rule ccontr)
    assume "\<not> ?thesis"
    then obtain e r' where "e \<in> set (strike_entries i r)" "r' \<in> set rows" "e \<in> set (strike_entries i r')" by auto
    then have "int_of_str (fst r) = int_of_str (fst r')" using strike_entries_distinct(2) by metis
    then have "fst r = fst r'" using Cons.prems(2) \<open>r' \<in> set rows\<close> by fastforce
    then show False using Cons.prems(1) \<open>r' \<in> set rows\<close> by auto
  qed
  then show ?case using Cons strike_entries_distinct(1) by auto
qed simp

lemma template_entries_distinct:
  assumes "distinct (somes (map ct_key cs))"
  shows "distinct (map fst (concat (map (strike_entries i) (build_option_chain_template cs ks))))"
proof -
  have d: "distinct (concat (map (strike_entries i) (build_option_chain_template cs ks)))"
  proof (rule concat_entries_distinct)
    show "distinct (map fst (build_option_chain_template cs ks))"
      by (simp add: template_rows(1) distinct_map inj_on_def)
    have "r \<in> set (build_option_chain_template cs ks) \<Longrightarrow> fst r \<in> str_int ` set ks" for r
      using arg_cong [OF template_rows(1), of set cs ks] by auto
    then show "\<forall>r \<in> set (build_option_chain_template cs ks). \<exists>k. fst r = str_int k" by blast
  qed
  show ?thesis
    unfolding distinct_map
  proof (intro conjI inj_onI)
    fix a b
    assume "a \<in> set (concat (map (strike_entries i) (build_option_chain_template cs ks)))"
      and "b \<in> set (concat (map (strike_entries i) (build_option_chain_template cs ks)))" and "fst a = fst b"
    then show "a = b" using entry_from_unique [OF assms template_entry_from template_entry_from] by blast
  qed (rule d)
qed


lemma template_canonical:
  "list_all (\<lambda>(k, _). map_option str_int (int_of_str k) = Some k) (build_option_chain_template cs ks)"
  "distinct (map fst (build_option_chain_template cs ks))"
  by (auto simp: list_all_iff dest!: template_rows(2)) (simp add: template_rows(1) distinct_map inj_on_def)

text \<open>A successful build: what was written.\<close>

definition build_writes ::
  "index_name \<Rightarrow> token \<Rightarrow> contract list \<Rightarrow> int \<Rightarrow> string \<Rightarrow> token list \<Rightarrow> token list \<Rightarrow> db \<Rightarrow> db \<Rightarrow> bool" where
  "build_writes idx spot cs atm expiry ce pe d d' \<longleftrightarrow>
     (\<exists>step window r meta.
        let (ks, inw) = filter_atm_window_strikes cs expiry atm step window; ch = build_option_chain_template inw ks
        in im_spot_token meta = Some spot \<and> (ce, pe) = build_trading_basket ch atm step r \<and>
           persist_index idx meta ch (ce, pe) (set (nonempty_texts (map ct_key inw)) \<union> {spot}) d = Inr d')"

lemma build_with_contracts_Built:
  assumes "build_with_contracts idx spot cfg step a cs today d = (Inr (Built atm expiry n ce pe), d')"
  shows "atm = a \<and> discover_nearest_expiry cs today = Some expiry \<and> build_writes idx spot cs atm expiry ce pe d d'"
proof -
  obtain ex where ex: "discover_nearest_expiry cs today = Some ex"
    using assms by (cases "discover_nearest_expiry cs today") (simp_all add: build_with_contracts_def)
  obtain window where w: "cfg_int cfg ''pre_open_subscribe_window'' = Inr window"
    using assms ex by (cases "cfg_int cfg ''pre_open_subscribe_window''") (simp_all add: build_with_contracts_def)
  obtain r where r: "cfg_int cfg ''trading_basket_range'' = Inr r"
    using assms ex w by (cases "cfg_int cfg ''trading_basket_range''") (simp_all add: build_with_contracts_def split: prod.splits)
  obtain ks inw where f: "filter_atm_window_strikes cs ex a step window = (ks, inw)" by fastforce
  define ch where "ch = build_option_chain_template inw ks"
  obtain lot e where m: "a = atm" "ex = expiry"
    and p: "persist_index idx (builder_meta step spot (first_lot_size inw lot) e expiry atm ks) ch (build_trading_basket ch atm step r) (set (nonempty_texts (map ct_key inw)) \<union> {spot}) d = Inr d'"
    and b: "(ce, pe) = build_trading_basket ch atm step r"
    using assms ex w r f
    by (auto simp: build_with_contracts_def Let_def ch_def [symmetric] and_then_Inr split: sum.splits)
  have "build_writes idx spot cs atm expiry ce pe d d'"
    unfolding build_writes_def
    by (rule exI [of _ step], rule exI [of _ window], rule exI [of _ r],
        rule exI [of _ "builder_meta step spot (first_lot_size inw lot) e expiry atm ks"])
       (use m p b f in \<open>simp add: Let_def ch_def builder_meta_def\<close>)
  then show ?thesis using m ex by simp
qed

lemma build_for_index_Built:
  assumes "build_for_index get_ltp get_contracts today idx d = (Inr (Built atm expiry n ce pe), d')"
  obtains spot cs where "map_of INDEX_SPOT_TOKENS idx = Some spot" and "get_contracts spot = Inr cs"
    and "discover_nearest_expiry cs today = Some expiry" and "build_writes idx spot cs atm expiry ce pe d d'"
proof -
  obtain cfg spot cs step a where "map_of INDEX_SPOT_TOKENS idx = Some spot" "get_contracts spot = Inr cs"
    "build_with_contracts idx spot cfg step a cs today d = (Inr (Built atm expiry n ce pe), d')"
    using assms by (auto simp: build_for_index_def and_then_Inr split: sum.splits option.splits prod.splits)
  then show thesis using that build_with_contracts_Built by blast
qed

end
