(* ===== verification/InitTemplate.thy ===== *)
theory InitTemplate
  imports BasketBuilder
begin

text \<open>
  \<open>engines/init/redis_template.py\<close>: the runtime name spaces are flushed and the day's template is
  written.  The counters the code returns are only logged.
\<close>

section \<open>Model\<close>

datatype spec = TStr string | TJson json | THash "(string \<times> string) list" | THashEmpty | TSetEmpty

definition PRESERVED_PREFIXES :: "string list" where
  "PRESERVED_PREFIXES = [''user:'', ''strategy:configs:'', ''strategy:definitions'', ''strategy:registry'']"

definition RUNTIME_PREFIXES :: "string list" where
  "RUNTIME_PREFIXES = [''system:'', ''market_data:'', ''strategy:'', ''orders:'', ''ui:'']"

definition starts_with :: "string \<Rightarrow> string \<Rightarrow> bool" where
  "starts_with s p \<longleftrightarrow> take (length p) s = p"

definition rstrip_colon :: "string \<Rightarrow> string" where
  "rstrip_colon p = rev (dropWhile (\<lambda>c. c = CHR '':'') (rev p))"

definition preserved_key :: "string \<Rightarrow> bool" where
  "preserved_key k \<longleftrightarrow> list_ex (\<lambda>p. starts_with k p \<or> k = rstrip_colon p) PRESERVED_PREFIXES"

definition runtime_key :: "string \<Rightarrow> bool" where
  "runtime_key k \<longleftrightarrow> list_ex (starts_with k) RUNTIME_PREFIXES"

definition flush_runtime_namespaces :: "db \<Rightarrow> db" where
  "flush_runtime_namespaces d = (\<lambda>k. if runtime_key k \<and> \<not> preserved_key k then None else d k)"

definition TEMPLATE :: "(string \<times> spec) list" where
  "TEMPLATE =
    [(SYSTEM_FLAGS_READY, TStr ''false''),
     (SYSTEM_FLAGS_TRADING_ACTIVE, TStr ''false''),
     (SYSTEM_FLAGS_TRADING_DISABLED_REASON, TStr ''none''),
     (SYSTEM_FLAGS_MODE, TStr ''paper''),
     (SYSTEM_FLAGS_DAILY_LOSS_CIRCUIT_TRIGGERED, TStr ''false''),
     (SYSTEM_LIFECYCLE_START_TS, TStr ''''),
     (SYSTEM_LIFECYCLE_GIT_SHA, TStr ''''),
     (SYSTEM_LIFECYCLE_LAST_SHUTDOWN_REASON, TStr ''''),
     (SYSTEM_HEALTH_SUMMARY, THashEmpty),
     (SYSTEM_HEALTH_AUTH, TStr ''unknown''),
     (SYSTEM_HEALTH_ENGINES, THashEmpty),
     (SYSTEM_HEALTH_DEPENDENCIES, THashEmpty),
     (SYSTEM_HEALTH_HEARTBEATS, THashEmpty),
     (SYSTEM_SCHEDULER_TASKS, THashEmpty),
     (SYSTEM_SCHEDULER_ACTIVE, TSetEmpty),
     (SYSTEM_SCHEDULER_TRADING_DAYS, TSetEmpty),
     (SYSTEM_SCHEDULER_HOLIDAYS, TSetEmpty),
     (SYSTEM_SCHEDULER_SESSION, THashEmpty),
     (MARKET_DATA_INSTRUMENTS_MASTER, THashEmpty),
     (MARKET_DATA_INSTRUMENTS_LAST_REFRESH_TS, TStr ''''),
     (MARKET_DATA_SUBSCRIPTIONS_SET, TSetEmpty),
     (MARKET_DATA_SUBSCRIPTIONS_DESIRED, TSetEmpty),
     (MARKET_DATA_WS_STATUS_MARKET, THashEmpty),
     (MARKET_DATA_WS_STATUS_PORTFOLIO, THashEmpty),
     (ORDERS_ALLOCATOR_DEPLOYED, THash [(''nifty50'', ''0''), (''banknifty'', ''0''), (''total'', ''0'')]),
     (ORDERS_ALLOCATOR_OPEN_COUNT, THash [(''nifty50'', ''0''), (''banknifty'', ''0''), (''total'', ''0'')]),
     (ORDERS_ALLOCATOR_OPEN_SYMBOLS, TSetEmpty),
     (ORDERS_POSITIONS_OPEN, TSetEmpty),
     (ORDERS_POSITIONS_CLOSED_TODAY, TSetEmpty),
     (ORDERS_BROKER_OPEN_ORDERS, TSetEmpty),
     (ORDERS_PNL_REALIZED, TStr ''0''),
     (ORDERS_PNL_UNREALIZED, TStr ''0''),
     (ORDERS_PNL_DAY, TStr ''0''),
     (STRATEGY_SIGNALS_ACTIVE, TSetEmpty),
     (STRATEGY_SIGNALS_COUNTER, TStr ''0''),
     (UI_VIEW_DASHBOARD, TJson (JObj [])),
     (UI_VIEW_POSITIONS_CLOSED_TODAY, TJson (JList [])),
     (UI_VIEW_PNL, TJson (JObj [(''realized'', JInt 0), (''unrealized'', JInt 0), (''day'', JInt 0)])),
     (UI_VIEW_CAPITAL, TJson (JObj [])),
     (UI_VIEW_HEALTH, TJson (JObj [(''summary'', JStr ''OK''), (''engines'', JObj [])])),
     (UI_VIEW_CONFIGS, TJson (JObj [])),
     (UI_VIEW_STRATEGIES, TJson (JObj [(''vessels'', JList [])])),
     (UI_DIRTY, TSetEmpty)]"

definition DEFAULT_VESSELS :: "(string \<times> index_name) list" where
  "DEFAULT_VESSELS = [(''bid_ask_imbalance_v1'', ''nifty50''), (''bid_ask_imbalance_v1'', ''banknifty'')]"

definition vessel_rows :: "string \<Rightarrow> index_name \<Rightarrow> ((pyexc + string) \<times> spec) list" where
  "vessel_rows sid idx =
    [(vessel_enabled sid idx, TStr ''true''),
     (vessel_state sid idx, TStr ''FLAT''),
     (vessel_phase sid idx, TStr ''BOOT''),
     (vessel_phase_entered_ts sid idx, TStr ''0''),
     (vessel_basket sid idx, TJson (JObj [(''atm'', JInt 0), (''ce'', JList []), (''pe'', JList [])])),
     (vessel_current_position_id sid idx, TStr ''''),
     (vessel_cooldown_until_ts sid idx, TStr ''0''),
     (vessel_cooldown_reason sid idx, TStr ''''),
     (vessel_counter_entries sid idx, TStr ''0''),
     (vessel_counter_reversals sid idx, TStr ''0''),
     (vessel_counter_wins sid idx, TStr ''0''),
     (vessel_metrics_per_strike sid idx, TJson (JObj [])),
     (vessel_metrics_net_pressure sid idx, TStr ''0''),
     (vessel_metrics_cum_ce sid idx, TStr ''0''),
     (vessel_metrics_cum_pe sid idx, TStr ''0''),
     (vessel_metrics_last_decision sid idx, TJson (JObj [])),
     (vessel_metrics_last_decision_ts sid idx, TStr ''0''),
     (ui_view_vessel sid idx, TJson (JObj [])),
     (orders_pnl_per_vessel sid idx, TStr ''0''),
     (Inr (orders_allocator_open_for_vessel sid idx), TStr ''0''),
     (orders_pnl_per_strategy sid, TStr ''0'')]"

fun resolve_rows :: "((pyexc + string) \<times> spec) list \<Rightarrow> pyexc + (string \<times> spec) list" where
  "resolve_rows [] = Inr []"
| "resolve_rows ((k, s) # rows) = and_then k (\<lambda>x. and_then (resolve_rows rows) (\<lambda>xs. Inr ((x, s) # xs)))"

definition vessel_runtime_keys :: "pyexc + (string \<times> spec) list" where
  "vessel_runtime_keys = resolve_rows (concat (map (\<lambda>(sid, idx). vessel_rows sid idx) DEFAULT_VESSELS))"

definition full_template :: "pyexc + (string \<times> spec) list" where
  "full_template = and_then vessel_runtime_keys (\<lambda>v. Inr (TEMPLATE @ v))"

definition write_spec :: "db \<Rightarrow> string \<times> spec \<Rightarrow> db" where
  "write_spec d row =
     (case row of (k, s) \<Rightarrow>
        (case s of
           TStr v \<Rightarrow> d(k \<mapsto> RText v)
         | TJson j \<Rightarrow> d(k \<mapsto> RJson j)
         | THash kvs \<Rightarrow> d(k \<mapsto> RHash kvs)
         | THashEmpty \<Rightarrow> d
         | TSetEmpty \<Rightarrow> d))"

definition DEFAULT_STRATEGY_CONFIG_BID_ASK :: json where
  "DEFAULT_STRATEGY_CONFIG_BID_ASK =
     JObj [(''strategy_id'', JStr ''bid_ask_imbalance_v1''), (''version'', JStr ''1.0.0''), (''enabled'', JBool
      True), (''thresholds'', JObj [(''imbalance_strong_buy'', JFloat (Fin 1.30)), (''imbalance_moderate_buy'',
      JFloat (Fin 1.10)), (''imbalance_neutral_low'', JFloat (Fin 0.90)), (''imbalance_moderate_sell'', JFloat (Fin
      0.70)), (''imbalance_continuation'', JFloat (Fin 1.20)), (''net_pressure_entry_threshold'', JFloat (Fin
      0.50)), (''net_pressure_neutral_band'', JFloat (Fin 0.20)), (''imbalance_drop_pct_for_reversal'', JFloat (Fin
      30.00)), (''ask_wall_qty_multiple'', JFloat (Fin 5.00)), (''ltp_aggressor_tolerance_inr'', JFloat (Fin
      0.10))]), (''tick_speed'', JObj [(''min_consecutive'', JInt 3), (''window_ms'', JInt 1000)]), (''buffer'',
      JObj [(''ring_size'', JInt 50)]), (''atm_shift'', JObj [(''hysteresis_sec'', JInt 5)]), (''reversal'', JObj
      [(''lookback_ticks'', JInt 3), (''suppress_sec'', JInt 30)]), (''time_windows'', JList [JObj [(''start'', JStr
      ''09:15''), (''end'', JStr ''09:30''), (''phase'', JStr ''OPENING''), (''min_score'', JInt 8)], JObj
      [(''start'', JStr ''09:30''), (''end'', JStr ''11:30''), (''phase'', JStr ''PRIMARY''), (''min_score'', JInt
      6)], JObj [(''start'', JStr ''11:30''), (''end'', JStr ''13:30''), (''phase'', JStr ''MID''), (''min_score'',
      JInt 7)], JObj [(''start'', JStr ''13:30''), (''end'', JStr ''15:00''), (''phase'', JStr
      ''CONTINUATION_ONLY''), (''min_score'', JInt 7)], JObj [(''start'', JStr ''15:00''), (''end'', JStr
      ''15:30''), (''phase'', JStr ''EXIT_ONLY''), (''min_score'', JNull)]])]"

definition DEFAULT_INSTRUMENT_CONFIGS :: "(index_name \<times> json) list" where
  "DEFAULT_INSTRUMENT_CONFIGS =
    [(''nifty50'',
      JObj [(''instrument_id'', JStr ''nifty50''), (''strike_step'', JInt 50), (''lot_size'', JInt 75),
      (''qty_lots'', JInt 1), (''basket_size'', JInt 5), (''expiry_basket_size'', JInt 7), (''spread_good_inr'',
      JFloat (Fin 0.50)), (''spread_moderate_inr'', JFloat (Fin 1.00)), (''max_entries_per_day'', JInt 8),
      (''max_reversals_per_day'', JInt 4), (''sl_pct'', JFloat (Fin 0.20)), (''target_pct'', JFloat (Fin 0.50)),
      (''tsl_arm_pct'', JFloat (Fin 0.15)), (''tsl_trail_pct'', JFloat (Fin 0.05)), (''max_hold_sec'', JInt 1500),
      (''post_sl_cooldown_sec'', JInt 60), (''post_reversal_cooldown_sec'', JInt 90)]),
     (''banknifty'',
      JObj [(''instrument_id'', JStr ''banknifty''), (''strike_step'', JInt 100), (''lot_size'', JInt 35),
      (''qty_lots'', JInt 1), (''basket_size'', JInt 5), (''expiry_basket_size'', JInt 7), (''spread_good_inr'',
      JFloat (Fin 1.50)), (''spread_moderate_inr'', JFloat (Fin 3.00)), (''max_entries_per_day'', JInt 8),
      (''max_reversals_per_day'', JInt 4), (''sl_pct'', JFloat (Fin 0.20)), (''target_pct'', JFloat (Fin 0.50)),
      (''tsl_arm_pct'', JFloat (Fin 0.15)), (''tsl_trail_pct'', JFloat (Fin 0.05)), (''max_hold_sec'', JInt 1500),
      (''post_sl_cooldown_sec'', JInt 60), (''post_reversal_cooldown_sec'', JInt 90)])]"

definition set_nx :: "string \<Rightarrow> rval \<Rightarrow> db \<Rightarrow> db" where
  "set_nx k v d = (if d k = None then d(k \<mapsto> v) else d)"

fun seed_instruments :: "(string \<times> index_name) list \<Rightarrow> db \<Rightarrow> pyexc + db" where
  "seed_instruments [] d = Inr d"
| "seed_instruments ((sid, idx) # vs) d =
     (case map_of DEFAULT_INSTRUMENT_CONFIGS idx of
        None \<Rightarrow> seed_instruments vs d
      | Some cfg \<Rightarrow> and_then (strategy_config_instrument sid idx) (\<lambda>k. seed_instruments vs (set_nx k (RJson cfg) d)))"

definition seed_strategy_registry :: "db \<Rightarrow> pyexc + db" where
  "seed_strategy_registry d =
     (let d1 = d(STRATEGY_REGISTRY \<mapsto> RSet (set (map (\<lambda>(sid, idx). sid @ '':'' @ idx) DEFAULT_VESSELS)))
      in and_then (Keys.strategy_config ''bid_ask_imbalance_v1'') (\<lambda>k.
           seed_instruments DEFAULT_VESSELS (set_nx k (RJson DEFAULT_STRATEGY_CONFIG_BID_ASK) d1)))"

definition apply_template :: "bool \<Rightarrow> db \<Rightarrow> pyexc + db" where
  "apply_template flush_runtime d =
     (let d0 = (if flush_runtime then flush_runtime_namespaces d else d)
      in and_then full_template (\<lambda>t. seed_strategy_registry (foldl write_spec d0 t)))"

section \<open>Lemmas\<close>

lemma default_vessels_valid:
  "valid_strategy_id ''bid_ask_imbalance_v1''" "valid_index ''nifty50''" "valid_index ''banknifty''"
  by (simp_all add: valid_strategy_id_def is_alnum_def Let_def valid_index_def)


text \<open>The written rows and their values.\<close>

fun spec_value :: "spec \<Rightarrow> rval option" where
  "spec_value (TStr v) = Some (RText v)"
| "spec_value (TJson j) = Some (RJson j)"
| "spec_value (THash kvs) = Some (RHash kvs)"
| "spec_value THashEmpty = None"
| "spec_value TSetEmpty = None"

lemma write_spec_value: "write_spec d (k, s) = (case spec_value s of None \<Rightarrow> d | Some v \<Rightarrow> d(k \<mapsto> v))"
  by (cases s) (simp_all add: write_spec_def)

lemma writes_other: "k \<notin> fst ` set t \<Longrightarrow> foldl write_spec d t k = d k"
proof (induction t arbitrary: d)
  case (Cons r t)
  then show ?case by (cases r) (auto simp: write_spec_value split: option.splits)
qed simp

text \<open>A row all of whose namesakes agree decides the value of its key.\<close>

lemma writes_row:
  assumes "(k, s) \<in> set t" and "\<forall>(k', s') \<in> set t. k' = k \<longrightarrow> s' = s" and "spec_value s = Some v"
  shows "foldl write_spec d t k = Some v"
  using assms(1,2)
proof (induction t rule: rev_induct)
  case (snoc r t)
  obtain k' s' where r: "r = (k', s')" by (cases r)
  show ?case
  proof (cases "k' = k")
    case True
    then show ?thesis using snoc.prems assms(3) by (auto simp: r write_spec_value)
  next
    case False
    then have "(k, s) \<in> set t" "\<forall>(a, b) \<in> set t. a = k \<longrightarrow> b = s" using snoc.prems by (auto simp: r)
    then show ?thesis using snoc.IH False by (simp add: r write_spec_value split: option.split)
  qed
qed simp

lemma seed_instruments_total: "\<exists>d'. seed_instruments DEFAULT_VESSELS d = Inr d'"
  using default_vessels_valid
  by (auto simp: DEFAULT_VESSELS_def strategy_config_instrument_def DEFAULT_INSTRUMENT_CONFIGS_def)

definition CONFIG_KEYS :: "string set" where
  "CONFIG_KEYS = {''strategy:configs:strategies:bid_ask_imbalance_v1'',
     ''strategy:configs:strategies:bid_ask_imbalance_v1:instruments:nifty50'',
     ''strategy:configs:strategies:bid_ask_imbalance_v1:instruments:banknifty''}"

lemma seed_registry_eq:
  "\<exists>d'. seed_strategy_registry d = Inr d' \<and> (\<forall>k. k \<notin> insert STRATEGY_REGISTRY CONFIG_KEYS \<longrightarrow> d' k = d k)"
  using default_vessels_valid
  by (auto simp: seed_strategy_registry_def Keys.strategy_config_def Let_def DEFAULT_VESSELS_def strategy_config_instrument_def
      DEFAULT_INSTRUMENT_CONFIGS_def set_nx_def CONFIG_KEYS_def)

definition vessel_keys :: "index_name \<Rightarrow> (string \<times> spec) list" where
  "vessel_keys idx = map (\<lambda>(k, s). (case k of Inl _ \<Rightarrow> [] | Inr x \<Rightarrow> x, s)) (vessel_rows ''bid_ask_imbalance_v1'' idx)"

lemma full_template_eq: "full_template = Inr (TEMPLATE @ vessel_keys ''nifty50'' @ vessel_keys ''banknifty'')"
  using default_vessels_valid
  by (simp add: full_template_def vessel_runtime_keys_def DEFAULT_VESSELS_def vessel_keys_def vessel_rows_def key_helper_defs)

text \<open>Every template key lies in a runtime name space, under a first segment that fixes it.\<close>

definition template_rows_all :: "(string \<times> spec) list" where
  "template_rows_all = TEMPLATE @ vessel_keys ''nifty50'' @ vessel_keys ''banknifty''"

definition written_rows :: "(string \<times> spec) list" where
  "written_rows = filter (\<lambda>(_, s). spec_value s \<noteq> None) template_rows_all"

lemma writes_filter: "foldl write_spec d (filter (\<lambda>(_, s). spec_value s \<noteq> None) t) = foldl write_spec d t"
  by (induction t arbitrary: d) (auto simp: write_spec_value split: option.splits)

lemma written_rows_eq:
  "written_rows =
    [(''system:flags:ready'', TStr ''false''),
     (''system:flags:trading_active'', TStr ''false''),
     (''system:flags:trading_disabled_reason'', TStr ''none''),
     (''system:flags:mode'', TStr ''paper''),
     (''system:flags:daily_loss_circuit_triggered'', TStr ''false''),
     (''system:lifecycle:start_ts'', TStr ''''),
     (''system:lifecycle:git_sha'', TStr ''''),
     (''system:lifecycle:last_shutdown_reason'', TStr ''''),
     (''system:health:auth'', TStr ''unknown''),
     (''market_data:instruments:last_refresh_ts'', TStr ''''),
     (''orders:allocator:deployed'', THash [(''nifty50'', ''0''), (''banknifty'', ''0''), (''total'', ''0'')]),
     (''orders:allocator:open_count'', THash [(''nifty50'', ''0''), (''banknifty'', ''0''), (''total'', ''0'')]),
     (''orders:pnl:realized'', TStr ''0''),
     (''orders:pnl:unrealized'', TStr ''0''),
     (''orders:pnl:day'', TStr ''0''),
     (''strategy:signals:counter'', TStr ''0''),
     (''ui:views:dashboard'', TJson (JObj [])),
     (''ui:views:positions_closed_today'', TJson (JList [])),
     (''ui:views:pnl'', TJson (JObj [(''realized'', JInt 0), (''unrealized'', JInt 0), (''day'', JInt 0)])),
     (''ui:views:capital'', TJson (JObj [])),
     (''ui:views:health'', TJson (JObj [(''summary'', JStr ''OK''), (''engines'', JObj [])])),
     (''ui:views:configs'', TJson (JObj [])),
     (''ui:views:strategies'', TJson (JObj [(''vessels'', JList [])])),
     (''strategy:bid_ask_imbalance_v1:nifty50:enabled'', TStr ''true''),
     (''strategy:bid_ask_imbalance_v1:nifty50:state'', TStr ''FLAT''),
     (''strategy:bid_ask_imbalance_v1:nifty50:phase'', TStr ''BOOT''),
     (''strategy:bid_ask_imbalance_v1:nifty50:phase_entered_ts'', TStr ''0''),
     (''strategy:bid_ask_imbalance_v1:nifty50:basket'', TJson (JObj [(''atm'', JInt 0), (''ce'', JList []), (''pe'', JList [])])),
     (''strategy:bid_ask_imbalance_v1:nifty50:current_position_id'', TStr ''''),
     (''strategy:bid_ask_imbalance_v1:nifty50:cooldown_until_ts'', TStr ''0''),
     (''strategy:bid_ask_imbalance_v1:nifty50:cooldown_reason'', TStr ''''),
     (''strategy:bid_ask_imbalance_v1:nifty50:counters:entries_today'', TStr ''0''),
     (''strategy:bid_ask_imbalance_v1:nifty50:counters:reversals_today'', TStr ''0''),
     (''strategy:bid_ask_imbalance_v1:nifty50:counters:wins_today'', TStr ''0''),
     (''strategy:bid_ask_imbalance_v1:nifty50:metrics:per_strike'', TJson (JObj [])),
     (''strategy:bid_ask_imbalance_v1:nifty50:metrics:net_pressure'', TStr ''0''),
     (''strategy:bid_ask_imbalance_v1:nifty50:metrics:cum_ce_imbalance'', TStr ''0''),
     (''strategy:bid_ask_imbalance_v1:nifty50:metrics:cum_pe_imbalance'', TStr ''0''),
     (''strategy:bid_ask_imbalance_v1:nifty50:metrics:last_decision'', TJson (JObj [])),
     (''strategy:bid_ask_imbalance_v1:nifty50:metrics:last_decision_ts'', TStr ''0''),
     (''ui:views:vessels:bid_ask_imbalance_v1:nifty50'', TJson (JObj [])),
     (''orders:pnl:per_vessel:bid_ask_imbalance_v1:nifty50'', TStr ''0''),
     (''orders:allocator:open:bid_ask_imbalance_v1:nifty50'', TStr ''0''),
     (''orders:pnl:per_strategy:bid_ask_imbalance_v1'', TStr ''0''),
     (''strategy:bid_ask_imbalance_v1:banknifty:enabled'', TStr ''true''),
     (''strategy:bid_ask_imbalance_v1:banknifty:state'', TStr ''FLAT''),
     (''strategy:bid_ask_imbalance_v1:banknifty:phase'', TStr ''BOOT''),
     (''strategy:bid_ask_imbalance_v1:banknifty:phase_entered_ts'', TStr ''0''),
     (''strategy:bid_ask_imbalance_v1:banknifty:basket'', TJson (JObj [(''atm'', JInt 0), (''ce'', JList []), (''pe'', JList [])])),
     (''strategy:bid_ask_imbalance_v1:banknifty:current_position_id'', TStr ''''),
     (''strategy:bid_ask_imbalance_v1:banknifty:cooldown_until_ts'', TStr ''0''),
     (''strategy:bid_ask_imbalance_v1:banknifty:cooldown_reason'', TStr ''''),
     (''strategy:bid_ask_imbalance_v1:banknifty:counters:entries_today'', TStr ''0''),
     (''strategy:bid_ask_imbalance_v1:banknifty:counters:reversals_today'', TStr ''0''),
     (''strategy:bid_ask_imbalance_v1:banknifty:counters:wins_today'', TStr ''0''),
     (''strategy:bid_ask_imbalance_v1:banknifty:metrics:per_strike'', TJson (JObj [])),
     (''strategy:bid_ask_imbalance_v1:banknifty:metrics:net_pressure'', TStr ''0''),
     (''strategy:bid_ask_imbalance_v1:banknifty:metrics:cum_ce_imbalance'', TStr ''0''),
     (''strategy:bid_ask_imbalance_v1:banknifty:metrics:cum_pe_imbalance'', TStr ''0''),
     (''strategy:bid_ask_imbalance_v1:banknifty:metrics:last_decision'', TJson (JObj [])),
     (''strategy:bid_ask_imbalance_v1:banknifty:metrics:last_decision_ts'', TStr ''0''),
     (''ui:views:vessels:bid_ask_imbalance_v1:banknifty'', TJson (JObj [])),
     (''orders:pnl:per_vessel:bid_ask_imbalance_v1:banknifty'', TStr ''0''),
     (''orders:allocator:open:bid_ask_imbalance_v1:banknifty'', TStr ''0''),
     (''orders:pnl:per_strategy:bid_ask_imbalance_v1'', TStr ''0'')]"
  by (simp add: written_rows_def template_rows_all_def TEMPLATE_def vessel_keys_def vessel_rows_def key_helper_defs
      key_const_defs default_vessels_valid)

definition template_keys :: "string list" where
  "template_keys = map fst written_rows"

lemma template_keys_eq:
  "template_keys =
    [''system:flags:ready'',
     ''system:flags:trading_active'',
     ''system:flags:trading_disabled_reason'',
     ''system:flags:mode'',
     ''system:flags:daily_loss_circuit_triggered'',
     ''system:lifecycle:start_ts'',
     ''system:lifecycle:git_sha'',
     ''system:lifecycle:last_shutdown_reason'',
     ''system:health:auth'',
     ''market_data:instruments:last_refresh_ts'',
     ''orders:allocator:deployed'',
     ''orders:allocator:open_count'',
     ''orders:pnl:realized'',
     ''orders:pnl:unrealized'',
     ''orders:pnl:day'',
     ''strategy:signals:counter'',
     ''ui:views:dashboard'',
     ''ui:views:positions_closed_today'',
     ''ui:views:pnl'',
     ''ui:views:capital'',
     ''ui:views:health'',
     ''ui:views:configs'',
     ''ui:views:strategies'',
     ''strategy:bid_ask_imbalance_v1:nifty50:enabled'',
     ''strategy:bid_ask_imbalance_v1:nifty50:state'',
     ''strategy:bid_ask_imbalance_v1:nifty50:phase'',
     ''strategy:bid_ask_imbalance_v1:nifty50:phase_entered_ts'',
     ''strategy:bid_ask_imbalance_v1:nifty50:basket'',
     ''strategy:bid_ask_imbalance_v1:nifty50:current_position_id'',
     ''strategy:bid_ask_imbalance_v1:nifty50:cooldown_until_ts'',
     ''strategy:bid_ask_imbalance_v1:nifty50:cooldown_reason'',
     ''strategy:bid_ask_imbalance_v1:nifty50:counters:entries_today'',
     ''strategy:bid_ask_imbalance_v1:nifty50:counters:reversals_today'',
     ''strategy:bid_ask_imbalance_v1:nifty50:counters:wins_today'',
     ''strategy:bid_ask_imbalance_v1:nifty50:metrics:per_strike'',
     ''strategy:bid_ask_imbalance_v1:nifty50:metrics:net_pressure'',
     ''strategy:bid_ask_imbalance_v1:nifty50:metrics:cum_ce_imbalance'',
     ''strategy:bid_ask_imbalance_v1:nifty50:metrics:cum_pe_imbalance'',
     ''strategy:bid_ask_imbalance_v1:nifty50:metrics:last_decision'',
     ''strategy:bid_ask_imbalance_v1:nifty50:metrics:last_decision_ts'',
     ''ui:views:vessels:bid_ask_imbalance_v1:nifty50'',
     ''orders:pnl:per_vessel:bid_ask_imbalance_v1:nifty50'',
     ''orders:allocator:open:bid_ask_imbalance_v1:nifty50'',
     ''orders:pnl:per_strategy:bid_ask_imbalance_v1'',
     ''strategy:bid_ask_imbalance_v1:banknifty:enabled'',
     ''strategy:bid_ask_imbalance_v1:banknifty:state'',
     ''strategy:bid_ask_imbalance_v1:banknifty:phase'',
     ''strategy:bid_ask_imbalance_v1:banknifty:phase_entered_ts'',
     ''strategy:bid_ask_imbalance_v1:banknifty:basket'',
     ''strategy:bid_ask_imbalance_v1:banknifty:current_position_id'',
     ''strategy:bid_ask_imbalance_v1:banknifty:cooldown_until_ts'',
     ''strategy:bid_ask_imbalance_v1:banknifty:cooldown_reason'',
     ''strategy:bid_ask_imbalance_v1:banknifty:counters:entries_today'',
     ''strategy:bid_ask_imbalance_v1:banknifty:counters:reversals_today'',
     ''strategy:bid_ask_imbalance_v1:banknifty:counters:wins_today'',
     ''strategy:bid_ask_imbalance_v1:banknifty:metrics:per_strike'',
     ''strategy:bid_ask_imbalance_v1:banknifty:metrics:net_pressure'',
     ''strategy:bid_ask_imbalance_v1:banknifty:metrics:cum_ce_imbalance'',
     ''strategy:bid_ask_imbalance_v1:banknifty:metrics:cum_pe_imbalance'',
     ''strategy:bid_ask_imbalance_v1:banknifty:metrics:last_decision'',
     ''strategy:bid_ask_imbalance_v1:banknifty:metrics:last_decision_ts'',
     ''ui:views:vessels:bid_ask_imbalance_v1:banknifty'',
     ''orders:pnl:per_vessel:bid_ask_imbalance_v1:banknifty'',
     ''orders:allocator:open:bid_ask_imbalance_v1:banknifty'',
     ''orders:pnl:per_strategy:bid_ask_imbalance_v1'']"
  by (simp add: template_keys_def written_rows_eq)

lemma apply_template_eq:
  "\<exists>d'. apply_template True d = Inr d' \<and>
     (\<forall>k. k \<notin> insert STRATEGY_REGISTRY CONFIG_KEYS \<longrightarrow> d' k = foldl write_spec (flush_runtime_namespaces d) template_rows_all k)"
  using seed_registry_eq [of "foldl write_spec (flush_runtime_namespaces d) template_rows_all"]
  by (simp add: apply_template_def full_template_eq Let_def template_rows_all_def)

text \<open>Nothing of the previous day's runtime state survives.\<close>

lemma flush_forgets:
  "(\<And>k. \<not> (runtime_key k \<and> \<not> preserved_key k) \<Longrightarrow> d1 k = d2 k) \<Longrightarrow> apply_template True d1 = apply_template True d2"
proof -
  assume "\<And>k. \<not> (runtime_key k \<and> \<not> preserved_key k) \<Longrightarrow> d1 k = d2 k"
  then have "flush_runtime_namespaces d1 = flush_runtime_namespaces d2"
    by (auto simp: flush_runtime_namespaces_def fun_eq_iff)
  then show ?thesis by (simp add: apply_template_def)
qed

lemma template_user_key:
  assumes "apply_template True d = Inr d'" and "starts_with k ''user:''"
  shows "d' k = d k"
proof -
  have p: "preserved_key k" using assms(2) by (simp add: preserved_key_def PRESERVED_PREFIXES_def)
  obtain r where k: "k = ''user:'' @ r" using assms(2) by (metis append_take_drop_id starts_with_def)
  have "k \<notin> set template_keys" by (simp add: template_keys_eq k)
  then have "foldl write_spec (flush_runtime_namespaces d) template_rows_all k = d k"
    using p writes_other [of k written_rows] writes_filter [of _ template_rows_all]
    by (simp add: written_rows_def template_keys_def flush_runtime_namespaces_def)
  moreover have "k \<notin> insert STRATEGY_REGISTRY CONFIG_KEYS" by (simp add: k STRATEGY_REGISTRY_def CONFIG_KEYS_def)
  ultimately show ?thesis using apply_template_eq [of d] assms(1) by auto
qed

end
