(* ===== verification/Calendar.thy ===== *)
theory Calendar
  imports Keys
begin

text \<open>
  \<open>brokers/upstox/{holidays,market_timings}.py\<close> and \<open>engines/init/holiday_check.py\<close>: is today a
  trading day with the standard session?  A broker answer is \<open>Inl\<close> the error of a failed envelope
  or \<open>Inr\<close> its data; dates are ISO texts; epochs are milliseconds.
\<close>

section \<open>Holidays\<close>

record raw_open =
  ro_exchange :: "string option"
  ro_start :: "int option"
  ro_end :: "int option"

record raw_holiday =
  rh_date :: "string option"
  rh_closed :: "string list option"
  rh_open :: "raw_open list option"

record holiday =
  ho_date :: "string option"
  ho_closed :: "string list"
  ho_open :: "raw_open list"
  ho_fully_closed :: bool

definition normalize_holiday :: "raw_holiday \<Rightarrow> holiday" where
  "normalize_holiday e =
     \<lparr>ho_date = rh_date e, ho_closed = get_or (rh_closed e) [], ho_open = get_or (rh_open e) [],
      ho_fully_closed = (get_or (rh_open e) [] = [])\<rparr>"

fun is_holiday_for :: "holiday list \<Rightarrow> string \<Rightarrow> bool" where
  "is_holiday_for [] ex = False"
| "is_holiday_for (e # es) ex =
     (if ex \<in> set (ho_closed e) then True
      else if ho_open e = [] then True
      else if Some ex \<notin> ro_exchange ` set (ho_open e) then True
      else is_holiday_for es ex)"

definition is_trading_day_via_cache :: "string set \<Rightarrow> string set \<Rightarrow> string \<Rightarrow> bool option" where
  "is_trading_day_via_cache trading_days holidays today =
     (if trading_days = {} \<and> holidays = {} then None
      else if today \<in> trading_days then Some True
      else if today \<in> holidays then Some False
      else None)"

definition is_trading_day_via_broker :: "string + holiday list \<Rightarrow> string \<Rightarrow> bool" where
  "is_trading_day_via_broker res today =
     (case res of
        Inl _ \<Rightarrow> False
      | Inr entries \<Rightarrow>
          let todays = filter (\<lambda>e. ho_date e = Some today) entries
          in if todays = [] then True else \<not> is_holiday_for todays ''NSE'')"

definition is_trading_day_today ::
  "string set \<Rightarrow> string set \<Rightarrow> string \<Rightarrow> string option \<Rightarrow> string + holiday list \<Rightarrow> bool" where
  "is_trading_day_today trading_days holidays today tok res =
     (case is_trading_day_via_cache trading_days holidays today of
        Some b \<Rightarrow> b
      | None \<Rightarrow> if get_or tok [] \<noteq> [] then is_trading_day_via_broker res today else False)"

section \<open>Session timings\<close>

text \<open>The IST wall clock of an epoch; zero and missing epochs have none.\<close>

definition ist_minute :: "int \<Rightarrow> nat" where
  "ist_minute ms = nat ((ms div 60000 + 330) mod 1440)"

definition ist_hhmm :: "int option \<Rightarrow> string option" where
  "ist_hhmm ms =
     (case ms of
        None \<Rightarrow> None
      | Some t \<Rightarrow> if t = 0 then None else Some (hhmm_text (ist_minute t div 60) (ist_minute t mod 60)))"

record timing =
  tm_exchange :: "string option"
  tm_start_hhmm :: "string option"
  tm_end_hhmm :: "string option"

definition normalize_timing :: "raw_open \<Rightarrow> timing" where
  "normalize_timing e =
     \<lparr>tm_exchange = ro_exchange e, tm_start_hhmm = ist_hhmm (ro_start e), tm_end_hhmm = ist_hhmm (ro_end e)\<rparr>"

fun get_timings_for :: "timing list \<Rightarrow> string \<Rightarrow> timing option" where
  "get_timings_for [] ex = None"
| "get_timings_for (e # es) ex = (if tm_exchange e = Some ex then Some e else get_timings_for es ex)"

definition hm_of_text :: "string \<Rightarrow> (int \<times> int) option" where
  "hm_of_text s =
     (case split_on (CHR '':'') s of
        [h, m] \<Rightarrow> (case (int_of_str h, int_of_str m) of (Some x, Some y) \<Rightarrow> Some (x, y) | _ \<Rightarrow> None)
      | _ \<Rightarrow> None)"

definition is_standard_session :: "timing list \<Rightarrow> string \<Rightarrow> bool" where
  "is_standard_session es ex =
     (case get_timings_for es ex of
        None \<Rightarrow> False
      | Some e \<Rightarrow>
          (case (tm_start_hhmm e, tm_end_hhmm e) of
             (Some s, Some t) \<Rightarrow> hm_of_text s = Some (9, 15) \<and> hm_of_text t = Some (15, 30)
           | _ \<Rightarrow> False))"

section \<open>Lemmas\<close>

lemma is_holiday_for_iff:
  "is_holiday_for es ex \<longleftrightarrow>
     (\<exists>e \<in> set es. ex \<in> set (ho_closed e) \<or> ho_open e = [] \<or> Some ex \<notin> ro_exchange ` set (ho_open e))"
  by (induction es ex rule: is_holiday_for.induct) auto

text \<open>Formatting a wall clock and reading it back.\<close>

lemma hm_of_text_hhmm: "h < 100 \<Longrightarrow> m < 100 \<Longrightarrow> hm_of_text (hhmm_text h m) = Some (int h, int m)"
  using int_of_str_two_digits [of h] int_of_str_two_digits [of m]
  by (simp add: hm_of_text_def hhmm_text_def two_digits_def digit_char_neq_colon less_mult_imp_div_less)

lemma ist_minute_less: "ist_minute t < 1440"
  by (simp add: ist_minute_def nat_less_iff)

text \<open>The session is standard exactly when the first NSE entry opens in the minute 09:15 and closes
  in the minute 15:30, India time; a missing or zero epoch is not a session.\<close>

lemma standard_session_iff:
  "is_standard_session (map normalize_timing es) ex \<longleftrightarrow>
     (\<exists>e s t. get_timings_for (map normalize_timing es) ex = Some (normalize_timing e) \<and> ro_start e = Some s \<and> s \<noteq> 0 \<and>
        ro_end e = Some t \<and> t \<noteq> 0 \<and> ist_minute s = 9 * 60 + 15 \<and> ist_minute t = 15 * 60 + 30)"
proof -
  have m: "hm_of_text (hhmm_text (ist_minute x div 60) (ist_minute x mod 60)) = Some (int a, int b) \<longleftrightarrow> ist_minute x = a * 60 + b"
    if "b < 60" for x a b
  proof -
    have "ist_minute x div 60 < 100" "ist_minute x mod 60 < 100"
      using ist_minute_less [of x] mod_less_divisor [of 60 "ist_minute x"] by linarith+
    then show ?thesis
      using that div_mult_mod_eq [of "ist_minute x" 60] by (auto simp: hm_of_text_hhmm)
  qed
  note m1 = m [of 15 _ 9, simplified] note m2 = m [of 30 _ 15, simplified]
  have g: "get_timings_for (map normalize_timing es) ex = Some v \<Longrightarrow> \<exists>e. v = normalize_timing e" for v
    by (induction es) (auto split: if_splits)
  have n: "is_standard_session (map normalize_timing es) ex \<longleftrightarrow>
      (\<exists>s t. ro_start e = Some s \<and> s \<noteq> 0 \<and> ro_end e = Some t \<and> t \<noteq> 0 \<and> ist_minute s = 9 * 60 + 15 \<and> ist_minute t = 15 * 60 + 30)"
    if "get_timings_for (map normalize_timing es) ex = Some (normalize_timing e)" for e
    using that m1 m2
    by (simp add: is_standard_session_def normalize_timing_def ist_hhmm_def split: option.splits)
  show ?thesis
  proof (cases "get_timings_for (map normalize_timing es) ex")
    case None
    then show ?thesis by (simp add: is_standard_session_def)
  next
    case (Some v)
    then obtain e where v: "v = normalize_timing e" using g by blast
    have same: "normalize_timing e' = normalize_timing e \<Longrightarrow> is_standard_session (map normalize_timing es) ex \<longleftrightarrow>
       (\<exists>s t. ro_start e' = Some s \<and> s \<noteq> 0 \<and> ro_end e' = Some t \<and> t \<noteq> 0 \<and> ist_minute s = 9 * 60 + 15 \<and> ist_minute t = 15 * 60 + 30)" for e'
      using n [of e'] Some v by simp
    show ?thesis unfolding Some v option.inject using same by metis
  qed
qed

end
