(* ===== verification/Boot.thy ===== *)
theory Boot
  imports InitTemplate Calendar
begin

text \<open>
  \<open>engines/init/{main,postgres_hydrator,auth_bootstrap,instruments_loader}.py\<close>: the twelve steps
  of the morning boot as one function of the environment (the connections, the Postgres rows, the
  broker's answers and the clock) and the Redis of the previous day.  Redis calls do not fail once
  connected.
\<close>

section \<open>Environment\<close>

record pg_rows =
  pg_user :: "(string \<times> string \<times> string option) option"
  pg_creds :: "json option option"
  pg_configs :: "(string \<times> json) list"
  pg_calendar :: "(string \<times> bool) list"
  pg_session :: "(string \<times> string) list"
  pg_session_today :: "(string \<times> string) list"

text \<open>\<open>be_pg\<close> is \<open>None\<close> when a hydrator query fails; \<open>pg_creds\<close> is \<open>None\<close> without a row and
  \<open>Some None\<close> when decryption fails; \<open>be_login\<close> is the token of the browser login, if it succeeds.\<close>

record boot_env =
  be_redis :: bool
  be_postgres :: bool
  be_pg :: "pg_rows option"
  be_now :: int
  be_git_sha :: string
  be_today :: string
  be_validate :: "string \<Rightarrow> bool"
  be_login :: "string option"
  be_holidays :: "string + holiday list"
  be_timings :: "string + timing list"
  be_master :: "string + (string \<times> json) list list"
  be_ltp :: "token \<Rightarrow> string + (token \<times> rat) list"
  be_contracts :: "token \<Rightarrow> string + contract list"

section \<open>Hydration\<close>

definition hydrate_user_account :: "pg_rows \<Rightarrow> db \<Rightarrow> db" where
  "hydrate_user_account pg d =
     (case pg_user pg of
        None \<Rightarrow> d
      | Some (name, secret, role) \<Rightarrow>
          d(USER_ACCOUNT_USERNAME \<mapsto> RText name, USER_ACCOUNT_JWT_SECRET \<mapsto> RText secret,
            USER_ACCOUNT_ROLE \<mapsto> RText (str_or role ''admin'')))"

definition hydrate_credentials :: "pg_rows \<Rightarrow> db \<Rightarrow> bool \<times> db" where
  "hydrate_credentials pg d =
     (case pg_creds pg of
        Some (Some creds) \<Rightarrow> (True, d(USER_CREDENTIALS_UPSTOX \<mapsto> RJson creds))
      | _ \<Rightarrow> (False, d(SYSTEM_HEALTH_AUTH \<mapsto> RText ''missing'')))"

definition redis_key_for_config :: "string \<Rightarrow> pyexc + string" where
  "redis_key_for_config k =
     (if k = ''execution'' then Inr STRATEGY_CONFIGS_EXECUTION
      else if k = ''session'' then Inr STRATEGY_CONFIGS_SESSION
      else if k = ''risk'' then Inr STRATEGY_CONFIGS_RISK
      else if k = ''index:nifty50'' then strategy_config_index ''nifty50''
      else if k = ''index:banknifty'' then strategy_config_index ''banknifty''
      else Inl KeyError)"

fun hydrate_configs :: "(string \<times> json) list \<Rightarrow> db \<Rightarrow> db" where
  "hydrate_configs [] d = d"
| "hydrate_configs ((k, v) # rows) d =
     hydrate_configs rows (case redis_key_for_config k of Inl _ \<Rightarrow> d | Inr key \<Rightarrow> d(key \<mapsto> RJson v))"

definition hydrate_market_calendar :: "string \<Rightarrow> pg_rows \<Rightarrow> db \<Rightarrow> db" where
  "hydrate_market_calendar today pg d =
     (let rows = filter (\<lambda>(day, _). today \<le> day) (pg_calendar pg);
          trading = map fst (filter snd rows); holidays = map fst (filter (\<lambda>r. \<not> snd r) rows);
          d1 = (if trading = [] then d else sadd SYSTEM_SCHEDULER_TRADING_DAYS (set trading) d)
      in if holidays = [] then d1 else sadd SYSTEM_SCHEDULER_HOLIDAYS (set holidays) d1)"

definition hydrate_scheduler_session :: "pg_rows \<Rightarrow> db \<Rightarrow> db" where
  "hydrate_scheduler_session pg d =
     (let session = foldl (\<lambda>acc (k, v). dict_set k v acc) (pg_session pg) (pg_session_today pg)
      in if session = [] then d else d(SYSTEM_SCHEDULER_SESSION \<mapsto> RHash session))"

definition hydrate_all :: "string \<Rightarrow> pg_rows \<Rightarrow> db \<Rightarrow> bool \<times> db" where
  "hydrate_all today pg d =
     (let d1 = hydrate_user_account pg d; (creds_ok, d2) = hydrate_credentials pg d1;
          d3 = hydrate_configs (pg_configs pg) d2; d4 = hydrate_market_calendar today pg d3
      in (creds_ok, hydrate_scheduler_session pg d4))"

section \<open>Authentication\<close>

datatype auth_result = AuthValid string bool | AuthInvalid | AuthMissing

definition read_creds :: "db \<Rightarrow> json option" where
  "read_creds d = (case d USER_CREDENTIALS_UPSTOX of Some (RJson j) \<Rightarrow> Some j | _ \<Rightarrow> None)"

definition token_text :: "json \<Rightarrow> string option" where
  "token_text j =
     (case j of
        JObj kvs \<Rightarrow> (case map_of kvs ''token'' of Some (JStr (c # cs)) \<Rightarrow> Some (c # cs)
                    | Some (JInt i) \<Rightarrow> if i = 0 then None else Some (str_int i) | _ \<Rightarrow> None)
      | _ \<Rightarrow> None)"

definition read_cached_token :: "db \<Rightarrow> string option" where
  "read_cached_token d =
     (case d USER_AUTH_ACCESS_TOKEN of
        Some (RText s) \<Rightarrow> if s = [] then None else Some s
      | Some (RJson j) \<Rightarrow> token_text j
      | _ \<Rightarrow> None)"

definition persist_token :: "int \<Rightarrow> string \<Rightarrow> string \<Rightarrow> db \<Rightarrow> db" where
  "persist_token now tok source d =
     d(USER_AUTH_ACCESS_TOKEN \<mapsto> RJson (JObj [(''token'', JStr tok), (''issued_at'', JInt now), (''expires_at'', JNull),
                                              (''source'', JStr source)]),
       USER_AUTH_LAST_REFRESH_TS \<mapsto> RText (str_int now), SYSTEM_HEALTH_AUTH \<mapsto> RText ''valid'')"

definition ensure_valid_token :: "boot_env \<Rightarrow> db \<Rightarrow> auth_result \<times> db" where
  "ensure_valid_token env d =
     (if \<not> (case read_creds d of None \<Rightarrow> False | Some j \<Rightarrow> truthy j) then
        (AuthMissing, d(SYSTEM_HEALTH_AUTH \<mapsto> RText ''missing''))
      else
        (case (case read_cached_token d of None \<Rightarrow> None | Some t \<Rightarrow> if be_validate env t then Some t else None) of
           Some t \<Rightarrow> (AuthValid t False, d(SYSTEM_HEALTH_AUTH \<mapsto> RText ''valid''))
         | None \<Rightarrow>
             (case be_login env of
                Some (c # cs) \<Rightarrow> (AuthValid (c # cs) True, persist_token (be_now env) (c # cs) ''playwright'' d)
              | Some [] \<Rightarrow> (AuthInvalid, (persist_token (be_now env) [] ''playwright'' d)(SYSTEM_HEALTH_AUTH \<mapsto> RText ''invalid''))
              | None \<Rightarrow> (AuthInvalid, d(SYSTEM_HEALTH_AUTH \<mapsto> RText ''invalid'')))))"

section \<open>Instrument master\<close>

definition slim_or :: "(string \<times> json) list \<Rightarrow> string \<Rightarrow> string \<Rightarrow> json" where
  "slim_or row a b =
     (case map_of row a of Some v \<Rightarrow> if truthy v then v else get_or (map_of row b) JNull | None \<Rightarrow> get_or (map_of row b) JNull)"

definition slimify :: "(string \<times> json) list \<Rightarrow> json" where
  "slimify row =
     JObj [(''symbol'', slim_or row ''trading_symbol'' ''tradingsymbol''), (''expiry'', get_or (map_of row ''expiry'') JNull),
       (''strike'', get_or (map_of row ''strike_price'') JNull), (''type'', get_or (map_of row ''instrument_type'') JNull),
       (''lot_size'', get_or (map_of row ''lot_size'') JNull), (''tick_size'', get_or (map_of row ''tick_size'') JNull),
       (''exchange'', get_or (map_of row ''exchange'') JNull), (''segment'', get_or (map_of row ''segment'') JNull)]"

definition master_rows :: "(string \<times> json) list list \<Rightarrow> (string \<times> json) list" where
  "master_rows rows =
     concat (map (\<lambda>row. case map_of row ''instrument_key'' of Some (JStr (c # cs)) \<Rightarrow> [(c # cs, slimify row)] | _ \<Rightarrow> []) rows)"

text \<open>The hash of JSON texts is kept as the JSON object of its fields.\<close>

definition load_master_instruments :: "boot_env \<Rightarrow> db \<Rightarrow> nat \<times> db" where
  "load_master_instruments env d =
     (case be_master env of
        Inl _ \<Rightarrow> (0, d)
      | Inr rows \<Rightarrow>
          let entries = master_rows rows; d1 = d(MARKET_DATA_INSTRUMENTS_MASTER := None);
              d2 = (if entries = [] then d1
                    else d1(MARKET_DATA_INSTRUMENTS_MASTER \<mapsto> RJson (JObj (foldl (\<lambda>acc (k, v). dict_set k v acc) [] entries))))
          in (length entries, d2(MARKET_DATA_INSTRUMENTS_LAST_REFRESH_TS \<mapsto> RText (str_int (be_now env)))))"

section \<open>The twelve steps\<close>

definition set_disabled :: "string \<Rightarrow> db \<Rightarrow> db" where
  "set_disabled reason d =
     d(SYSTEM_FLAGS_TRADING_ACTIVE \<mapsto> RText ''false'', SYSTEM_FLAGS_TRADING_DISABLED_REASON \<mapsto> RText reason)"

definition set_init_failed :: "string \<Rightarrow> db \<Rightarrow> db" where
  "set_init_failed reason d = set_disabled ''init_failed'' (d(SYSTEM_FLAGS_INIT_FAILED \<mapsto> RText reason))"

definition idle_day :: "string \<Rightarrow> db \<Rightarrow> int \<times> db" where
  "idle_day reason d = (0, (set_disabled reason d)(SYSTEM_FLAGS_READY \<mapsto> RText ''true''))"

definition is_built :: "pyexc + build_result \<Rightarrow> bool" where
  "is_built r = (case r of Inr (Built _ _ _ _ _) \<Rightarrow> True | _ \<Rightarrow> False)"

fun build_indexes :: "boot_env \<Rightarrow> index_name list \<Rightarrow> db \<Rightarrow> nat \<times> db" where
  "build_indexes env [] d = (0, d)"
| "build_indexes env (idx # rest) d =
     (let (r, d1) = build_for_index (be_ltp env) (be_contracts env) (be_today env) idx d;
          d2 = (case r of Inl _ \<Rightarrow> disable_index idx d1 | Inr _ \<Rightarrow> d1);
          (n, d3) = build_indexes env rest d2
      in (if is_built r then Suc n else n, d3))"

definition enabled_indexes :: "db \<Rightarrow> index_name list" where
  "enabled_indexes d =
     filter (\<lambda>idx. case strategy_enabled idx of Inl _ \<Rightarrow> False | Inr k \<Rightarrow> py_lower (read_str d k ''true'') = ''true'') INDEXES"

text \<open>Steps 11 and 12.\<close>

definition boot_baskets :: "boot_env \<Rightarrow> db \<Rightarrow> int \<times> db" where
  "boot_baskets env d =
     (if enabled_indexes d = [] then idle_day ''no_indexes_enabled'' d
      else
        let (n, d1) = build_indexes env (enabled_indexes d) d
        in if n = 0 then idle_day ''basket_build_failed'' d1
           else (0, d1(SYSTEM_FLAGS_READY \<mapsto> RText ''true'', SYSTEM_FLAGS_TRADING_ACTIVE \<mapsto> RText ''true'',
                      SYSTEM_FLAGS_TRADING_DISABLED_REASON \<mapsto> RText ''none'')))"

text \<open>Step 10.\<close>

definition resolve_mode :: "db \<Rightarrow> db" where
  "resolve_mode d =
     (let forced = py_lower (read_str d ''system:flags:force_paper_today'' ''false'') = ''true'';
          mode = (if forced then ''paper'' else read_str d SYSTEM_FLAGS_MODE ''paper'');
          d1 = (if forced then d(''system:flags:force_paper_today'' \<mapsto> RText ''false'') else d)
      in d1(''system:flags:mode_today'' \<mapsto> RText mode))"

text \<open>Steps 7 to 9: the calendar, the session and the instrument master.\<close>

definition boot_market :: "boot_env \<Rightarrow> string \<Rightarrow> db \<Rightarrow> int \<times> db" where
  "boot_market env tok d =
     (if \<not> is_trading_day_today (set_members d SYSTEM_SCHEDULER_TRADING_DAYS) (set_members d SYSTEM_SCHEDULER_HOLIDAYS)
             (be_today env) (Some tok) (be_holidays env) then idle_day ''holiday'' d
      else if (case be_timings env of Inl _ \<Rightarrow> False | Inr es \<Rightarrow> \<not> is_standard_session es ''NSE'') then
        idle_day ''non_standard_session'' d
      else boot_baskets env (resolve_mode (snd (load_master_instruments env d))))"

text \<open>Steps 5 and 6: the operator's flags and authentication.\<close>

definition boot_session :: "boot_env \<Rightarrow> bool \<Rightarrow> db \<Rightarrow> int \<times> db" where
  "boot_session env creds_ok d =
     (if py_lower (read_str d ''system:flags:auto_continue'' ''true'') = ''false'' then idle_day ''auto_continue_off'' d
      else if py_lower (read_str d ''system:flags:skip_today'' ''false'') = ''true'' then
        idle_day ''skip_today'' (d(''system:flags:skip_today'' \<mapsto> RText ''false''))
      else if \<not> creds_ok then idle_day ''awaiting_credentials'' d
      else
        (case ensure_valid_token env d of
           (AuthValid tok _, d1) \<Rightarrow> boot_market env tok d1
         | (AuthMissing, d1) \<Rightarrow> idle_day ''awaiting_credentials'' d1
         | (AuthInvalid, d1) \<Rightarrow> idle_day ''auth_invalid'' d1))"

text \<open>Steps 1 to 4.\<close>

definition boot_main :: "boot_env \<Rightarrow> db \<Rightarrow> int \<times> db" where
  "boot_main env d =
     (if \<not> be_redis env then (1, d)
      else if \<not> be_postgres env then (1, set_init_failed ''postgres_connect_failed'' d)
      else
        (case apply_template True d of
           Inl _ \<Rightarrow> (1, set_init_failed ''template_apply_failed'' d)
         | Inr d1 \<Rightarrow>
             let d2 = d1(SYSTEM_LIFECYCLE_START_TS \<mapsto> RText (str_int (be_now env)),
                         SYSTEM_LIFECYCLE_GIT_SHA \<mapsto> RText (be_git_sha env))
             in (case be_pg env of
                   None \<Rightarrow> (1, set_init_failed ''hydration_failed'' d2)
                 | Some pg \<Rightarrow> let (creds_ok, d3) = hydrate_all (be_today env) pg d2 in boot_session env creds_ok d3)))"

end
