(* ===== verification/BootProps.thy ===== *)
theory BootProps
  imports Boot PipelineProps
begin

text \<open>
  What the morning boot guarantees: when trading is switched on, what it leaves for the data
  pipeline, and what it forgets.
\<close>

section \<open>Frames of the builder\<close>

lemmas market_key_defs = market_data_index_meta_def market_data_index_option_chain_def strategy_basket_def vessel_basket_def
  vessel_prefix_def strategy_enabled_def vessel_enabled_def MARKET_DATA_SUBSCRIPTIONS_DESIRED_def DEFAULT_STRATEGY_ID_def

lemma valid_index_cases: "valid_index i \<longleftrightarrow> i = ''nifty50'' \<or> i = ''banknifty''"
  by (auto simp: valid_index_def)

lemma INDEXES_valid: "i \<in> set INDEXES \<longleftrightarrow> valid_index i"
  by (auto simp: INDEXES_def valid_index_def)

lemma persist_eq:
  assumes "persist_index idx meta ch basket toks d = Inr d'"
  shows "valid_index idx \<and> d' = sadd MARKET_DATA_SUBSCRIPTIONS_DESIRED toks
    (d(''market_data:indexes:'' @ idx @ '':meta'' \<mapsto> RMeta meta,
       ''market_data:indexes:'' @ idx @ '':option_chain'' \<mapsto> RChain ch,
       ''strategy:bid_ask_imbalance_v1:'' @ idx @ '':basket'' \<mapsto> RBasket (fst basket) (snd basket)))"
  using assms default_vessels_valid by (auto simp: persist_index_def and_then_Inr market_key_defs split: if_splits)

lemma typed_market:
  "md_chain (market_of d) i = (if valid_index i then
     (case d (''market_data:indexes:'' @ i @ '':option_chain'') of Some (RChain c) \<Rightarrow> Some c | _ \<Rightarrow> None) else None)"
  "md_meta (market_of d) i = (if valid_index i then
     (case d (''market_data:indexes:'' @ i @ '':meta'') of Some (RMeta m) \<Rightarrow> Some (index_meta.truncate m) | _ \<Rightarrow> None) else None)"
  by (simp_all add: market_of_def typed_get_def market_key_defs split: option.split)

lemma persist_effect:
  assumes "persist_index idx meta ch basket toks d = Inr d'"
  shows "valid_index idx"
    and "md_chain (market_of d') = (md_chain (market_of d))(idx \<mapsto> ch)"
    and "md_meta (market_of d') = (md_meta (market_of d))(idx \<mapsto> index_meta.truncate meta)"
    and "hd k \<noteq> CHR ''m'' \<Longrightarrow> hd k \<noteq> CHR ''s'' \<Longrightarrow> d' k = d k"
proof -
  note e = persist_eq [OF assms]
  show v: "valid_index idx" using e by blast
  have d: "d' = sadd MARKET_DATA_SUBSCRIPTIONS_DESIRED toks
    (d(''market_data:indexes:'' @ idx @ '':meta'' \<mapsto> RMeta meta,
       ''market_data:indexes:'' @ idx @ '':option_chain'' \<mapsto> RChain ch,
       ''strategy:bid_ask_imbalance_v1:'' @ idx @ '':basket'' \<mapsto> RBasket (fst basket) (snd basket)))" using e by blast
  have i: "idx = ''nifty50'' \<or> idx = ''banknifty''" using v by (simp add: valid_index_cases)
  have c: "md_chain (market_of d') j = ((md_chain (market_of d))(idx \<mapsto> ch)) j"
    "md_meta (market_of d') j = ((md_meta (market_of d))(idx \<mapsto> index_meta.truncate meta)) j"
    if "j = ''nifty50'' \<or> j = ''banknifty''" for j
    using that i
    by (elim disjE; simp add: typed_market d sadd_def MARKET_DATA_SUBSCRIPTIONS_DESIRED_def default_vessels_valid)+
  have o: "md_chain (market_of d') j = ((md_chain (market_of d))(idx \<mapsto> ch)) j"
    "md_meta (market_of d') j = ((md_meta (market_of d))(idx \<mapsto> index_meta.truncate meta)) j"
    if "\<not> valid_index j" for j
    using that v by (auto simp: typed_market)
  have all: "md_chain (market_of d') j = ((md_chain (market_of d))(idx \<mapsto> ch)) j"
    "md_meta (market_of d') j = ((md_meta (market_of d))(idx \<mapsto> index_meta.truncate meta)) j" for j
    using c [of j] o [of j] valid_index_cases [of j] by argo+
  show "md_chain (market_of d') = (md_chain (market_of d))(idx \<mapsto> ch)" by (rule ext) (rule all(1))
  show "md_meta (market_of d') = (md_meta (market_of d))(idx \<mapsto> index_meta.truncate meta)" by (rule ext) (rule all(2))
  show "hd k \<noteq> CHR ''m'' \<Longrightarrow> hd k \<noteq> CHR ''s'' \<Longrightarrow> d' k = d k"
    by (cases k) (simp_all add: d sadd_def MARKET_DATA_SUBSCRIPTIONS_DESIRED_def)
qed

lemma disable_effect:
  "md_chain (market_of (disable_index idx d)) = md_chain (market_of d)"
  "md_meta (market_of (disable_index idx d)) = md_meta (market_of d)"
proof -
  have "disable_index idx d k = d k" if "hd k \<noteq> CHR ''s''" for k
    using that default_vessels_valid by (auto simp: disable_index_def market_key_defs split: sum.splits)
  then show "md_chain (market_of (disable_index idx d)) = md_chain (market_of d)"
    "md_meta (market_of (disable_index idx d)) = md_meta (market_of d)"
    by (simp_all add: fun_eq_iff typed_market)
qed

text \<open>The chain and the meta of an index after any number of builds.\<close>

definition index_ok :: "boot_env \<Rightarrow> market_db \<Rightarrow> index_name \<Rightarrow> bool" where
  "index_ok env m i \<longleftrightarrow>
     md_chain m i = None \<and> md_meta m i = None \<or>
     (\<exists>spot cs ks P meta. map_of INDEX_SPOT_TOKENS i = Some spot \<and> be_contracts env spot = Inr cs \<and>
        md_chain m i = Some (build_option_chain_template (filter P cs) ks) \<and> md_meta m i = Some meta \<and>
        im_spot_token meta = Some spot)"

definition index_ready :: "boot_env \<Rightarrow> market_db \<Rightarrow> index_name \<Rightarrow> bool" where
  "index_ready env m i \<longleftrightarrow> index_ok env m i \<and> md_chain m i \<noteq> None"

lemma build_writesE:
  assumes "build_writes idx spot cs atm expiry ce pe d d'"
  obtains ks P meta toks where "im_spot_token meta = Some spot"
    and "persist_index idx meta (build_option_chain_template (filter P cs) ks) (ce, pe) toks d = Inr d'"
proof -
  obtain step window r meta where W: "let (ks, inw) = filter_atm_window_strikes cs expiry atm step window; ch = build_option_chain_template inw ks
        in im_spot_token meta = Some spot \<and> (ce, pe) = build_trading_basket ch atm step r \<and>
           persist_index idx meta ch (ce, pe) (set (nonempty_texts (map ct_key inw)) \<union> {spot}) d = Inr d'"
    using assms(1) unfolding build_writes_def by blast
  obtain ks inw where f: "filter_atm_window_strikes cs expiry atm step window = (ks, inw)" by fastforce
  obtain P where "inw = filter P cs" using f by (auto simp: filter_atm_window_strikes_def Let_def)
  then show thesis using that W unfolding f Let_def prod.case by blast
qed

lemma build_writes_effect:
  assumes "build_writes idx spot cs atm expiry ce pe d d'" and "map_of INDEX_SPOT_TOKENS idx = Some spot"
    and "be_contracts env spot = Inr cs"
  shows "index_ready env (market_of d') idx \<and> (\<forall>i. i \<noteq> idx \<longrightarrow> md_chain (market_of d') i = md_chain (market_of d) i \<and>
           md_meta (market_of d') i = md_meta (market_of d) i)"
proof -
  obtain ks P meta toks where m: "im_spot_token meta = Some spot"
    and p: "persist_index idx meta (build_option_chain_template (filter P cs) ks) (ce, pe) toks d = Inr d'"
    using build_writesE [OF assms(1)] .
  have "im_spot_token (index_meta.truncate meta) = Some spot" using m by (cases meta) (simp add: index_meta.truncate_def)
  then have "index_ok env (market_of d') idx"
    unfolding index_ok_def using persist_effect(2,3) [OF p] assms(2,3) by fastforce
  then show ?thesis using persist_effect(2,3) [OF p] by (simp add: index_ready_def)
qed

lemma build_for_index_else:
  assumes "build_for_index l c today idx d = (r, d')" and "\<not> is_built r"
  shows "d' = d \<or> d' = disable_index idx d"
  using assms
  by (auto simp: build_for_index_def build_with_contracts_def Let_def is_built_def split: sum.splits option.splits prod.splits if_splits)

lemma build_step_effect:
  assumes "build_for_index (be_ltp env) (be_contracts env) today idx d = (r, d1)"
    and "d2 = (case r of Inl _ \<Rightarrow> disable_index idx d1 | Inr _ \<Rightarrow> d1)"
  shows "(\<forall>i. index_ok env (market_of d) i \<longrightarrow> index_ok env (market_of d2) i) \<and>
    (\<forall>i. index_ready env (market_of d) i \<longrightarrow> index_ready env (market_of d2) i) \<and>
    (is_built r \<longrightarrow> index_ready env (market_of d2) idx)"
proof (cases "is_built r")
  case True
  then obtain a e n ce pe where r: "r = Inr (Built a e n ce pe)" by (auto simp: is_built_def split: sum.splits build_result.splits)
  obtain spot cs where "map_of INDEX_SPOT_TOKENS idx = Some spot" "be_contracts env spot = Inr cs"
    "build_writes idx spot cs a e ce pe d d1" using build_for_index_Built [OF assms(1) [unfolded r]] .
  note E = build_writes_effect [OF this(3,1,2)]
  have d2: "d2 = d1" by (simp add: assms(2) r)
  have "index_ok env (market_of d2) i" if "index_ok env (market_of d) i" for i
    using E that by (cases "i = idx") (simp_all add: d2 index_ready_def index_ok_def)
  moreover have "index_ready env (market_of d2) i" if "index_ready env (market_of d) i" for i
    using E that by (cases "i = idx") (simp_all add: d2 index_ready_def index_ok_def)
  ultimately show ?thesis using E d2 by blast
next
  case False
  have "md_chain (market_of d1) = md_chain (market_of d)" "md_meta (market_of d1) = md_meta (market_of d)"
    using build_for_index_else [OF assms(1) False] disable_effect by auto
  then have "md_chain (market_of d2) = md_chain (market_of d)" "md_meta (market_of d2) = md_meta (market_of d)"
    using disable_effect by (auto simp: assms(2) split: sum.splits)
  then show ?thesis using False by (simp add: index_ready_def index_ok_def)
qed

lemma build_indexes_effect:
  "build_indexes env is d = (n, d') \<Longrightarrow>
   (\<forall>i. index_ok env (market_of d) i \<longrightarrow> index_ok env (market_of d') i) \<and>
   (\<forall>i. index_ready env (market_of d) i \<longrightarrow> index_ready env (market_of d') i) \<and>
   (0 < n \<longrightarrow> (\<exists>i \<in> set is. index_ready env (market_of d') i))"
proof (induction "is" arbitrary: d n d')
  case (Cons idx rest)
  obtain r d1 where b: "build_for_index (be_ltp env) (be_contracts env) (be_today env) idx d = (r, d1)" by fastforce
  define d2 where "d2 = (case r of Inl _ \<Rightarrow> disable_index idx d1 | Inr _ \<Rightarrow> d1)"
  obtain n' d3 where i: "build_indexes env rest d2 = (n', d3)" by fastforce
  have e: "n = (if is_built r then Suc n' else n')" "d' = d3"
    using Cons.prems b i by (simp_all add: d2_def Let_def split: if_splits)
  show ?case using build_step_effect [OF b d2_def] Cons.IH [OF i] e by (auto split: if_splits)
qed simp

section \<open>What the pipeline finds\<close>

definition all_contracts :: "boot_env \<Rightarrow> contract list" where
  "all_contracts env =
     concat (map (\<lambda>(_, spot). case be_contracts env spot of Inl _ \<Rightarrow> [] | Inr cs \<Rightarrow> cs) INDEX_SPOT_TOKENS)"

text \<open>No two contracts of the two underlyings share an instrument key, and none is a spot token.\<close>

definition broker_keys_ok :: "boot_env \<Rightarrow> bool" where
  "broker_keys_ok env \<longleftrightarrow> contracts_ok (all_contracts env)"

lemma somes_filter_sub: "set (somes (map ct_key (filter P cs))) \<subseteq> set (somes (map ct_key cs))"
  by (auto simp: set_somes)

lemma somes_filter_distinct: "distinct (somes (map ct_key cs)) \<Longrightarrow> distinct (somes (map ct_key (filter P cs)))"
proof (induction cs)
  case (Cons c cs)
  then show ?case using somes_filter_sub [of P cs] by (cases "ct_key c") auto
qed simp

definition chain_entries :: "market_db \<Rightarrow> index_name \<Rightarrow> (token \<times> index_name \<times> int \<times> string) list" where
  "chain_entries m i = concat (map (strike_entries i) (get_or (md_chain m i) []))"

definition spot_contracts :: "boot_env \<Rightarrow> index_name \<Rightarrow> contract list" where
  "spot_contracts env i =
     (case map_of INDEX_SPOT_TOKENS i of
        None \<Rightarrow> [] | Some spot \<Rightarrow> (case be_contracts env spot of Inl _ \<Rightarrow> [] | Inr cs \<Rightarrow> cs))"

lemma index_entries_ok:
  assumes "index_ok env m i" and "distinct (somes (map ct_key (spot_contracts env i)))"
  shows "distinct (map fst (chain_entries m i)) \<and> fst ` set (chain_entries m i) \<subseteq> set (somes (map ct_key (spot_contracts env i))) \<and>
    list_all (\<lambda>(k, _). map_option str_int (int_of_str k) = Some k) (get_or (md_chain m i) []) \<and>
    distinct (map fst (get_or (md_chain m i) []))"
  using assms(1) unfolding index_ok_def
proof (elim disjE exE conjE)
  fix spot cs ks P meta
  assume a: "map_of INDEX_SPOT_TOKENS i = Some spot" "be_contracts env spot = Inr cs"
    "md_chain m i = Some (build_option_chain_template (filter P cs) ks)"
  have cs: "spot_contracts env i = cs" by (simp add: spot_contracts_def a)
  have "fst e \<in> set (somes (map ct_key cs))" if "e \<in> set (chain_entries m i)" for e
  proof -
    have "entry_from (filter P cs) i e" using that template_entry_from by (simp add: chain_entries_def a(3))
    then show ?thesis by (auto simp: entry_from_def set_somes image_iff split: prod.splits) metis
  qed
  then have "fst ` set (chain_entries m i) \<subseteq> set (somes (map ct_key cs))" by blast
  then show ?thesis
    using template_entries_distinct [OF somes_filter_distinct [of cs P], of i ks] template_canonical [of "filter P cs" ks] assms(2) cs
    by (simp add: chain_entries_def a(3))
qed (simp add: chain_entries_def)

lemma spot_entry_ok:
  "index_ok env m i \<Longrightarrow> spot_entry i (md_meta m i) = [] \<or>
     (\<exists>spot. map_of INDEX_SPOT_TOKENS i = Some spot \<and> spot_entry i (md_meta m i) = [(spot, i, 0, ''spot'')])"
  by (auto simp: index_ok_def spot_entry_def split: option.splits list.splits)

lemma all_contracts_eq: "all_contracts env = spot_contracts env ''nifty50'' @ spot_contracts env ''banknifty''"
  by (simp add: all_contracts_def spot_contracts_def INDEX_SPOT_TOKENS_def split: sum.splits)

lemma boot_template_ok:
  assumes b: "broker_keys_ok env" and ok: "\<And>i. valid_index i \<Longrightarrow> index_ok env m i"
  shows "template_ok m"
proof -
  let ?n = "''nifty50''" let ?b = "''banknifty''"
  have v: "valid_index ?n" "valid_index ?b" by (simp_all add: valid_index_def)
  have d: "distinct (somes (map ct_key (spot_contracts env ?n)))" "distinct (somes (map ct_key (spot_contracts env ?b)))"
    "set (somes (map ct_key (spot_contracts env ?n))) \<inter> set (somes (map ct_key (spot_contracts env ?b))) = {}"
    "\<And>x. x \<in> set (somes (map ct_key (spot_contracts env ?n))) \<union> set (somes (map ct_key (spot_contracts env ?b))) \<Longrightarrow>
      x \<noteq> ''NSE_INDEX|Nifty 50'' \<and> x \<noteq> ''NSE_INDEX|Nifty Bank''"
    using b by (auto simp: broker_keys_ok_def contracts_ok_def all_contracts_eq INDEX_SPOT_TOKENS_def)
  note N = index_entries_ok [OF ok [OF v(1)] d(1)] note B = index_entries_ok [OF ok [OF v(2)] d(2)]
  have s: "spot_entry ?n (md_meta m ?n) = [] \<or> spot_entry ?n (md_meta m ?n) = [(''NSE_INDEX|Nifty 50'', ?n, 0, ''spot'')]"
    "spot_entry ?b (md_meta m ?b) = [] \<or> spot_entry ?b (md_meta m ?b) = [(''NSE_INDEX|Nifty Bank'', ?b, 0, ''spot'')]"
    using spot_entry_ok [OF ok [OF v(1)]] spot_entry_ok [OF ok [OF v(2)]] by (auto simp: INDEX_SPOT_TOKENS_def)
  have e: "template_entries m = spot_entry ?n (md_meta m ?n) @ chain_entries m ?n @ spot_entry ?b (md_meta m ?b) @ chain_entries m ?b"
    by (simp add: template_entries_def INDEXES_def chain_entries_def)
  have f: "fst ` set (chain_entries m ?n) \<inter> fst ` set (chain_entries m ?b) = {}" using N B d(3) by blast
  have g: "''NSE_INDEX|Nifty 50'' \<notin> fst ` set (chain_entries m ?n)" "''NSE_INDEX|Nifty 50'' \<notin> fst ` set (chain_entries m ?b)"
    "''NSE_INDEX|Nifty Bank'' \<notin> fst ` set (chain_entries m ?n)" "''NSE_INDEX|Nifty Bank'' \<notin> fst ` set (chain_entries m ?b)"
    using N B d(4) by blast+
  have "distinct (map fst (template_entries m))"
    unfolding e map_append distinct_append using s N B f g by (elim disjE) simp_all
  then show ?thesis using N B by (simp add: template_ok_def INDEXES_def)
qed


section \<open>Frames of the boot steps\<close>

text \<open>Keys under \<open>system:flags:\<close> and \<open>user:auth:\<close> that no step but its own may touch.\<close>

definition flag_key :: "string \<Rightarrow> string" where
  "flag_key r = ''system:flags:'' @ r"

definition auth_key :: "string \<Rightarrow> string" where
  "auth_key r = ''user:auth:'' @ r"

definition index_key :: "string \<Rightarrow> string" where
  "index_key r = ''market_data:indexes:'' @ r"

lemmas frame_key_defs = flag_key_def auth_key_def index_key_def key_const_defs

definition step_key :: "string \<Rightarrow> bool" where
  "step_key k \<longleftrightarrow> (\<exists>r. k = flag_key r \<or> k = auth_key r \<or> k = index_key r)"

lemma step_key_neq:
  assumes "step_key k"
  shows "k \<noteq> USER_ACCOUNT_USERNAME"
    "k \<noteq> USER_ACCOUNT_JWT_SECRET"
    "k \<noteq> USER_ACCOUNT_ROLE"
    "k \<noteq> USER_CREDENTIALS_UPSTOX"
    "k \<noteq> SYSTEM_HEALTH_AUTH"
    "k \<noteq> SYSTEM_SCHEDULER_TRADING_DAYS"
    "k \<noteq> SYSTEM_SCHEDULER_HOLIDAYS"
    "k \<noteq> SYSTEM_SCHEDULER_SESSION"
    "k \<noteq> MARKET_DATA_INSTRUMENTS_MASTER"
    "k \<noteq> MARKET_DATA_INSTRUMENTS_LAST_REFRESH_TS"
    "k \<noteq> SYSTEM_LIFECYCLE_START_TS"
    "k \<noteq> SYSTEM_LIFECYCLE_GIT_SHA"
  using assms by (auto simp: step_key_def frame_key_defs)

lemma config_key_neq:
  assumes "redis_key_for_config x = Inr y"
  shows "\<not> step_key y" "y \<noteq> USER_CREDENTIALS_UPSTOX" "y \<noteq> SYSTEM_SCHEDULER_TRADING_DAYS" "y \<noteq> SYSTEM_SCHEDULER_HOLIDAYS"
  using assms default_vessels_valid
  by (auto simp: redis_key_for_config_def strategy_config_index_def strategy_config_instrument_def DEFAULT_STRATEGY_ID_def
      step_key_def frame_key_defs split: if_splits)

lemma configs_frame:
  "step_key k \<or> k = USER_CREDENTIALS_UPSTOX \<or> k = SYSTEM_SCHEDULER_TRADING_DAYS \<or> k = SYSTEM_SCHEDULER_HOLIDAYS \<Longrightarrow>
   hydrate_configs rows d k = d k"
  by (induction rows d rule: hydrate_configs.induct) (auto split: sum.split dest: config_key_neq)

lemma hydrate_frame:
  assumes "hydrate_all today pg d = (ok, d')" and "step_key k"
  shows "d' k = d k"
  using assms step_key_neq [OF assms(2)]
  by (auto simp: hydrate_all_def Let_def hydrate_user_account_def hydrate_credentials_def hydrate_market_calendar_def sadd_def
      hydrate_scheduler_session_def configs_frame split: prod.splits option.splits if_splits)

lemma hydrate_creds:
  assumes "hydrate_all today pg d = (True, d')"
  shows "\<exists>creds. pg_creds pg = Some (Some creds) \<and> d' USER_CREDENTIALS_UPSTOX = Some (RJson creds)"
proof -
  have k: "USER_CREDENTIALS_UPSTOX \<noteq> SYSTEM_SCHEDULER_TRADING_DAYS" "USER_CREDENTIALS_UPSTOX \<noteq> SYSTEM_SCHEDULER_HOLIDAYS"
    "USER_CREDENTIALS_UPSTOX \<noteq> SYSTEM_SCHEDULER_SESSION" by (simp_all add: key_const_defs)
  obtain creds where c: "pg_creds pg = Some (Some creds)"
    using assms by (auto simp: hydrate_all_def hydrate_credentials_def Let_def split: option.splits)
  then show ?thesis
    using assms k by (auto simp: hydrate_all_def hydrate_credentials_def Let_def hydrate_market_calendar_def sadd_def
        hydrate_scheduler_session_def configs_frame)
qed

definition trading_dates :: "pg_rows \<Rightarrow> string \<Rightarrow> bool \<Rightarrow> string set" where
  "trading_dates pg today b = {day. (day, b) \<in> set (pg_calendar pg) \<and> today \<le> day}"

lemma sadd_get: "set_members (sadd k xs d) k' = (if k' = k then set_members d k \<union> xs else set_members d k')"
  by (simp add: set_members_def sadd_def)

lemma members_upd: "k \<noteq> k' \<Longrightarrow> set_members (d(k' \<mapsto> v)) k = set_members d k"
  by (simp add: set_members_def)

lemma hydrate_calendar:
  assumes "hydrate_all today pg d = (ok, d')" and "d SYSTEM_SCHEDULER_TRADING_DAYS = None" and "d SYSTEM_SCHEDULER_HOLIDAYS = None"
  shows "set_members d' SYSTEM_SCHEDULER_TRADING_DAYS = trading_dates pg today True"
    and "set_members d' SYSTEM_SCHEDULER_HOLIDAYS = trading_dates pg today False"
proof -
  let ?T = SYSTEM_SCHEDULER_TRADING_DAYS let ?H = SYSTEM_SCHEDULER_HOLIDAYS
  have n: "?T \<noteq> ?H" "?H \<noteq> ?T" "?T \<noteq> SYSTEM_SCHEDULER_SESSION" "?H \<noteq> SYSTEM_SCHEDULER_SESSION"
    "?T \<noteq> USER_ACCOUNT_USERNAME" "?T \<noteq> USER_ACCOUNT_JWT_SECRET" "?T \<noteq> USER_ACCOUNT_ROLE" "?T \<noteq> USER_CREDENTIALS_UPSTOX"
    "?T \<noteq> SYSTEM_HEALTH_AUTH" "?H \<noteq> USER_ACCOUNT_USERNAME" "?H \<noteq> USER_ACCOUNT_JWT_SECRET" "?H \<noteq> USER_ACCOUNT_ROLE"
    "?H \<noteq> USER_CREDENTIALS_UPSTOX" "?H \<noteq> SYSTEM_HEALTH_AUTH" by (simp_all add: key_const_defs)
  define d3 where "d3 = hydrate_configs (pg_configs pg) (snd (hydrate_credentials pg (hydrate_user_account pg d)))"
  have e: "d3 ?T = None" "d3 ?H = None"
    using n assms(2,3) by (auto simp: d3_def configs_frame hydrate_credentials_def hydrate_user_account_def split: option.split)
  have d': "d' = hydrate_scheduler_session pg (hydrate_market_calendar today pg d3)"
    using assms(1) by (auto simp: hydrate_all_def Let_def d3_def split: prod.splits)
  have s: "set_members (hydrate_scheduler_session pg x) ?T = set_members x ?T" "set_members (hydrate_scheduler_session pg x) ?H = set_members x ?H" for x
    using n by (simp_all add: hydrate_scheduler_session_def Let_def members_upd)
  have m: "set_members d3 ?T = {}" "set_members d3 ?H = {}" using e by (simp_all add: set_members_def)
  show "set_members d' ?T = trading_dates pg today True" "set_members d' ?H = trading_dates pg today False"
    unfolding d' s hydrate_market_calendar_def Let_def
    using n m by (auto simp: sadd_get trading_dates_def filter_empty_conv image_iff Bex_def)
qed


subsection \<open>Authentication, master, mode\<close>

lemma auth_keys: "USER_AUTH_ACCESS_TOKEN = auth_key ''access_token''" "USER_AUTH_LAST_REFRESH_TS = auth_key ''last_refresh_ts''"
  "SYSTEM_FLAGS_TRADING_ACTIVE = flag_key ''trading_active''" "SYSTEM_FLAGS_MODE = flag_key ''mode''"
  "SYSTEM_FLAGS_READY = flag_key ''ready''" "SYSTEM_FLAGS_TRADING_DISABLED_REASON = flag_key ''trading_disabled_reason''"
  by (simp_all add: frame_key_defs)

lemma key_neqs [simp]: "flag_key r \<noteq> auth_key q" "auth_key q \<noteq> flag_key r" "index_key p \<noteq> auth_key q" "auth_key q \<noteq> index_key p"
  "index_key p \<noteq> flag_key r" "flag_key r \<noteq> index_key p" "flag_key a = flag_key b \<longleftrightarrow> a = b" "auth_key a = auth_key b \<longleftrightarrow> a = b"
  "index_key a = index_key b \<longleftrightarrow> a = b"
  by (simp_all add: flag_key_def auth_key_def index_key_def)

lemma step_keys [simp]: "step_key (flag_key r)" "step_key (auth_key r)" "step_key (index_key r)"
  by (auto simp: step_key_def)

lemma ensure_token_frame:
  assumes "ensure_valid_token env d = (res, d')" and "step_key k" and "\<And>r. k \<noteq> auth_key r"
  shows "d' k = d k"
  using assms step_key_neq [OF assms(2)]
  by (auto simp: ensure_valid_token_def persist_token_def auth_keys split: if_splits option.splits list.splits)

lemma ensure_token_calendar:
  assumes "ensure_valid_token env d = (res, d')"
  shows "set_members d' SYSTEM_SCHEDULER_TRADING_DAYS = set_members d SYSTEM_SCHEDULER_TRADING_DAYS"
    "set_members d' SYSTEM_SCHEDULER_HOLIDAYS = set_members d SYSTEM_SCHEDULER_HOLIDAYS"
  using assms
  by (auto simp: ensure_valid_token_def persist_token_def set_members_def key_const_defs split: if_splits option.splits list.splits)

lemma token_text_nonempty: "token_text j = Some t \<Longrightarrow> t \<noteq> []"
  by (auto simp: token_text_def split: json.splits option.splits list.splits if_splits)

lemma cached_token_nonempty: "read_cached_token d = Some t \<Longrightarrow> t \<noteq> []"
  by (auto simp: read_cached_token_def token_text_nonempty split: option.splits rval.splits if_splits)

lemma read_cached_persist: "t \<noteq> [] \<Longrightarrow> read_cached_token (persist_token now t src d) = Some t"
  by (cases t) (simp_all add: read_cached_token_def persist_token_def token_text_def key_const_defs)

lemma read_cached_cong: "d USER_AUTH_ACCESS_TOKEN = d' USER_AUTH_ACCESS_TOKEN \<Longrightarrow> read_cached_token d = read_cached_token d'"
  by (simp add: read_cached_token_def)

lemma ensure_token_valid:
  assumes "ensure_valid_token env d = (AuthValid tok fresh, d')"
  shows "(\<exists>creds. d USER_CREDENTIALS_UPSTOX = Some (RJson creds) \<and> truthy creds) \<and> tok \<noteq> [] \<and> read_cached_token d' = Some tok \<and>
    (read_cached_token d = Some tok \<and> be_validate env tok \<or> be_login env = Some tok)"
proof -
  have n: "USER_AUTH_ACCESS_TOKEN \<noteq> SYSTEM_HEALTH_AUTH" by (simp add: key_const_defs)
  show ?thesis
    using assms read_cached_persist [of tok "be_now env" "''playwright''" d] cached_token_nonempty [of d]
      read_cached_cong [of "d(SYSTEM_HEALTH_AUTH \<mapsto> RText ''valid'')" d] n
    by (auto simp: ensure_valid_token_def read_creds_def split: if_splits option.splits rval.splits list.splits)
qed

lemma master_frame:
  assumes "step_key k"
  shows "snd (load_master_instruments env d) k = d k"
  using step_key_neq [OF assms] by (simp add: load_master_instruments_def Let_def split: sum.split)

lemma mode_frame:
  "(\<And>r. k \<noteq> flag_key r) \<Longrightarrow> resolve_mode d k = d k"
  "resolve_mode d (flag_key ''trading_active'') = d (flag_key ''trading_active'')"
  using flag_key_def [of "''force_paper_today''"] flag_key_def [of "''mode_today''"]
  by (simp_all add: resolve_mode_def Let_def flag_key_def)

text \<open>With a paper default and no flag set, the mode of the day is paper.\<close>

lemma mode_paper:
  assumes "d (flag_key ''force_paper_today'') = None" and "d SYSTEM_FLAGS_MODE = Some (RText ''paper'')"
  shows "resolve_mode d (flag_key ''mode_today'') = Some (RText ''paper'')"
  using assms by (simp add: resolve_mode_def Let_def read_str_def flag_key_def)

subsection \<open>Builders\<close>

lemma disable_frame: "step_key k \<Longrightarrow> disable_index idx d k = d k"
  using default_vessels_valid
  by (auto simp: disable_index_def market_key_defs step_key_def frame_key_defs split: sum.splits)

lemma persist_frame:
  assumes "persist_index idx meta ch basket toks d = Inr d'"
  shows "d' (flag_key r) = d (flag_key r)" "d' (auth_key r) = d (auth_key r)"
  using persist_eq [OF assms] by (simp_all add: sadd_def frame_key_defs)

lemma build_frame:
  assumes "build_for_index l c today idx d = (r, d')"
  shows "d' (flag_key k) = d (flag_key k)" "d' (auth_key k) = d (auth_key k)"
proof -
  have "d' (flag_key k) = d (flag_key k) \<and> d' (auth_key k) = d (auth_key k)"
  proof (cases "is_built r")
    case True
    then obtain a e n ce pe where r: "r = Inr (Built a e n ce pe)" by (auto simp: is_built_def split: sum.splits build_result.splits)
    obtain spot cs where W: "build_writes idx spot cs a e ce pe d d'" using build_for_index_Built [OF assms [unfolded r]] .
    obtain ks P meta toks where "persist_index idx meta (build_option_chain_template (filter P cs) ks) (ce, pe) toks d = Inr d'"
      using build_writesE [OF W] .
    then show ?thesis using persist_frame by blast
  next
    case False
    then show ?thesis using build_for_index_else [OF assms] disable_frame by auto
  qed
  then show "d' (flag_key k) = d (flag_key k)" "d' (auth_key k) = d (auth_key k)" by blast+
qed

lemma builds_frame:
  "build_indexes env is d = (n, d') \<Longrightarrow> d' (flag_key k) = d (flag_key k) \<and> d' (auth_key k) = d (auth_key k)"
proof (induction "is" arbitrary: d n d')
  case (Cons idx rest)
  obtain r d1 where b: "build_for_index (be_ltp env) (be_contracts env) (be_today env) idx d = (r, d1)" by fastforce
  define d2 where "d2 = (case r of Inl _ \<Rightarrow> disable_index idx d1 | Inr _ \<Rightarrow> d1)"
  obtain n' d3 where i: "build_indexes env rest d2 = (n', d3)" by fastforce
  have e: "d' = d3" using Cons.prems b i by (simp add: d2_def Let_def split: if_splits)
  have "d2 (flag_key k) = d (flag_key k) \<and> d2 (auth_key k) = d (auth_key k)"
    using build_frame [OF b] disable_frame by (auto simp: d2_def split: sum.splits)
  then show ?case using Cons.IH [OF i] e by simp
qed simp

subsection \<open>The template\<close>

lemma template_absent:
  assumes "apply_template True d = Inr d'" and "runtime_key k" and "\<not> preserved_key k" and "k \<notin> set template_keys"
    and "k \<notin> insert STRATEGY_REGISTRY CONFIG_KEYS"
  shows "d' k = None"
  using apply_template_eq [of d] assms writes_other [of k written_rows] writes_filter [of _ template_rows_all]
  by (auto simp: written_rows_def template_keys_def flush_runtime_namespaces_def)

lemma template_row:
  assumes "apply_template True d = Inr d'" and "(k, s) \<in> set written_rows"
    and "\<forall>(k', s') \<in> set written_rows. k' = k \<longrightarrow> s' = s" and "spec_value s = Some v"
    and "k \<notin> insert STRATEGY_REGISTRY CONFIG_KEYS"
  shows "d' k = Some v"
  using apply_template_eq [of d] assms writes_row [of k s written_rows v] writes_filter [of _ template_rows_all]
  by (auto simp: written_rows_def)

lemmas absent_defs = frame_key_defs runtime_key_def RUNTIME_PREFIXES_def preserved_key_def PRESERVED_PREFIXES_def
  starts_with_def rstrip_colon_def template_keys_eq STRATEGY_REGISTRY_def CONFIG_KEYS_def

lemma template_flags:
  assumes "apply_template True d = Inr d'"
  shows "d' (flag_key ''force_paper_today'') = None" "d' (flag_key ''skip_today'') = None" "d' (flag_key ''auto_continue'') = None"
    "d' (flag_key ''mode_today'') = None"
    "d' SYSTEM_FLAGS_MODE = Some (RText ''paper'')" "d' SYSTEM_FLAGS_TRADING_ACTIVE = Some (RText ''false'')"
proof -
  have absent: "d' (flag_key r) = None" if "r \<in> {''force_paper_today'', ''skip_today'', ''auto_continue'', ''mode_today''}" for r
    using that
    by (intro template_absent [OF assms])
       (auto simp: absent_defs)
  show "d' (flag_key ''force_paper_today'') = None" "d' (flag_key ''skip_today'') = None" "d' (flag_key ''auto_continue'') = None"
    "d' (flag_key ''mode_today'') = None" by (rule absent; simp)+
  show "d' SYSTEM_FLAGS_MODE = Some (RText ''paper'')"
    by (rule template_row [OF assms, of _ "TStr ''paper''"])
       (simp_all add: written_rows_eq SYSTEM_FLAGS_MODE_def STRATEGY_REGISTRY_def CONFIG_KEYS_def)
  show "d' SYSTEM_FLAGS_TRADING_ACTIVE = Some (RText ''false'')"
    by (rule template_row [OF assms, of _ "TStr ''false''"])
       (simp_all add: written_rows_eq SYSTEM_FLAGS_TRADING_ACTIVE_def STRATEGY_REGISTRY_def CONFIG_KEYS_def)
qed

lemma template_market:
  assumes "apply_template True d = Inr d'"
  shows "d' (index_key r) = None" "d' SYSTEM_SCHEDULER_TRADING_DAYS = None" "d' SYSTEM_SCHEDULER_HOLIDAYS = None"
  by (rule template_absent [OF assms]; simp add: absent_defs)+

end
