(* ===== verification/BootGate.thy ===== *)
theory BootGate
  imports BootProps
begin

text \<open>
  The properties of the morning boot, and their composition with the data pipeline.
\<close>

section \<open>The active day\<close>

definition auth_of :: "db \<Rightarrow> auth_blob option" where
  "auth_of d =
     (case d USER_AUTH_ACCESS_TOKEN of
        Some (RText s) \<Rightarrow> Some (AuthBare s)
      | Some (RJson j) \<Rightarrow> Some (AuthDict (token_text j))
      | _ \<Rightarrow> None)"

lemma cached_token_loads: "read_cached_token d = Some tok \<Longrightarrow> load_access_token (auth_of d) = Some tok"
  by (cases tok)
     (auto simp: read_cached_token_def auth_of_def load_access_token_def token_text_nonempty split: option.splits rval.splits if_splits)

lemma idle_day_flag: "idle_day reason d = (n, d') \<Longrightarrow> d' SYSTEM_FLAGS_TRADING_ACTIVE = Some (RText ''false'')"
  by (auto simp: idle_day_def set_disabled_def auth_keys)

text \<open>The path through the twelve steps that ends with trading switched on.\<close>

definition active_path :: "boot_env \<Rightarrow> db \<Rightarrow> pg_rows \<Rightarrow> string \<Rightarrow> db \<Rightarrow> db \<Rightarrow> db \<Rightarrow> db \<Rightarrow> bool" where
  "active_path env d pg tok d1 d3 d4 d6 \<longleftrightarrow>
     be_pg env = Some pg \<and> apply_template True d = Inr d1 \<and>
     hydrate_all (be_today env) pg (d1(SYSTEM_LIFECYCLE_START_TS \<mapsto> RText (str_int (be_now env)),
                                       SYSTEM_LIFECYCLE_GIT_SHA \<mapsto> RText (be_git_sha env))) = (True, d3) \<and>
     (\<exists>fresh. ensure_valid_token env d3 = (AuthValid tok fresh, d4)) \<and>
     is_trading_day_today (set_members d4 SYSTEM_SCHEDULER_TRADING_DAYS) (set_members d4 SYSTEM_SCHEDULER_HOLIDAYS)
       (be_today env) (Some tok) (be_holidays env) \<and>
     (\<forall>es. be_timings env = Inr es \<longrightarrow> is_standard_session es ''NSE'') \<and>
     (let d5 = resolve_mode (snd (load_master_instruments env d4))
      in \<exists>n. 0 < n \<and> build_indexes env (enabled_indexes d5) d5 = (n, d6))"

lemma boot_baskets_active:
  assumes "boot_baskets env d = (0, d')" and "d' SYSTEM_FLAGS_TRADING_ACTIVE = Some (RText ''true'')"
  shows "\<exists>n d6. 0 < n \<and> build_indexes env (enabled_indexes d) d = (n, d6) \<and>
    d' = d6(SYSTEM_FLAGS_READY \<mapsto> RText ''true'', SYSTEM_FLAGS_TRADING_ACTIVE \<mapsto> RText ''true'',
            SYSTEM_FLAGS_TRADING_DISABLED_REASON \<mapsto> RText ''none'')"
  using assms idle_day_flag by (fastforce simp: boot_baskets_def Let_def split: if_splits prod.splits)

lemma boot_active_path:
  assumes b: "boot_main env d = (0, d')" and t: "d' SYSTEM_FLAGS_TRADING_ACTIVE = Some (RText ''true'')"
  obtains pg tok d1 d3 d4 d6 where "active_path env d pg tok d1 d3 d4 d6"
    and "d' = d6(SYSTEM_FLAGS_READY \<mapsto> RText ''true'', SYSTEM_FLAGS_TRADING_ACTIVE \<mapsto> RText ''true'',
                 SYSTEM_FLAGS_TRADING_DISABLED_REASON \<mapsto> RText ''none'')"
proof -
  obtain pg d1 where pg: "be_pg env = Some pg" and d1: "apply_template True d = Inr d1"
    and x: "(let (creds_ok, d3) = hydrate_all (be_today env) pg (d1(SYSTEM_LIFECYCLE_START_TS \<mapsto> RText (str_int (be_now env)),
        SYSTEM_LIFECYCLE_GIT_SHA \<mapsto> RText (be_git_sha env))) in boot_session env creds_ok d3) = (0, d')"
    using b by (auto simp: boot_main_def Let_def split: if_splits sum.splits option.splits)
  obtain ok d3 where h: "hydrate_all (be_today env) pg (d1(SYSTEM_LIFECYCLE_START_TS \<mapsto> RText (str_int (be_now env)),
        SYSTEM_LIFECYCLE_GIT_SHA \<mapsto> RText (be_git_sha env))) = (ok, d3)" by fastforce
  have s: "boot_session env ok d3 = (0, d')" using x h by simp
  have ok: ok and nidle: "\<And>r e. idle_day r e \<noteq> (0, d')"
    using s t idle_day_flag by (fastforce simp: boot_session_def split: if_splits)+
  obtain tok fresh d4 where e: "ensure_valid_token env d3 = (AuthValid tok fresh, d4)" and m: "boot_market env tok d4 = (0, d')"
    using s nidle by (auto simp: boot_session_def split: if_splits prod.splits auth_result.splits)
  have td: "is_trading_day_today (set_members d4 SYSTEM_SCHEDULER_TRADING_DAYS) (set_members d4 SYSTEM_SCHEDULER_HOLIDAYS)
       (be_today env) (Some tok) (be_holidays env)"
    and ts: "\<forall>es. be_timings env = Inr es \<longrightarrow> is_standard_session es ''NSE''"
    and bb: "boot_baskets env (resolve_mode (snd (load_master_instruments env d4))) = (0, d')"
    using m nidle by (auto simp: boot_market_def split: if_splits sum.splits)
  show thesis
    using boot_baskets_active [OF bb t] that pg d1 h ok e td ts by (fastforce simp: active_path_def Let_def)
qed

text \<open>What the path implies for the inputs and the result.\<close>

lemma active_path_market:
  assumes "active_path env d pg tok d1 d3 d4 d6"
  shows "(\<forall>i. valid_index i \<longrightarrow> index_ok env (market_of d6) i) \<and> (\<exists>i. valid_index i \<and> index_ready env (market_of d6) i)"
proof -
  define d5 where "d5 = resolve_mode (snd (load_master_instruments env d4))"
  obtain n fresh where a: "apply_template True d = Inr d1"
    "hydrate_all (be_today env) pg (d1(SYSTEM_LIFECYCLE_START_TS \<mapsto> RText (str_int (be_now env)),
       SYSTEM_LIFECYCLE_GIT_SHA \<mapsto> RText (be_git_sha env))) = (True, d3)"
    "ensure_valid_token env d3 = (AuthValid tok fresh, d4)" "0 < n" "build_indexes env (enabled_indexes d5) d5 = (n, d6)"
    using assms by (auto simp: active_path_def Let_def d5_def)
  have k: "d5 (index_key r) = None" for r
    using template_market(1) [OF a(1), of r] hydrate_frame [OF a(2), of "index_key r"] ensure_token_frame [OF a(3), of "index_key r"]
      master_frame [of "index_key r" env d4] mode_frame(1) [of "index_key r"] step_key_neq(11,12) [of "index_key r"]
    by (simp add: d5_def)
  have c: "md_chain (market_of d5) i = None" "md_meta (market_of d5) i = None" for i
    using k [of "i @ '':option_chain''"] k [of "i @ '':meta''"] by (simp_all add: typed_market index_key_def)
  have "index_ok env (market_of d5) i" for i using c by (simp add: index_ok_def)
  moreover have "i \<in> set (enabled_indexes d5) \<Longrightarrow> valid_index i" for i by (auto simp: enabled_indexes_def INDEXES_valid)
  ultimately show ?thesis using build_indexes_effect [OF a(5)] a(4) by blast
qed

lemma flags_market: "market_of (d(flag_key r \<mapsto> v)) = market_of d"
proof -
  have "(d(flag_key r \<mapsto> v)) k = d k" if "hd k = CHR ''m''" for k using that by (auto simp: flag_key_def)
  then show ?thesis
    by (simp add: market_of_def typed_get_def market_data_index_meta_def market_data_index_option_chain_def set_members_def
        MARKET_DATA_SUBSCRIPTIONS_DESIRED_def fun_eq_iff)
qed

section \<open>The mode of the day\<close>

abbreviation mode_key :: string where
  "mode_key \<equiv> flag_key ''mode_today''"

lemma idle_mode: "snd (idle_day r d) mode_key = d mode_key"
  by (simp add: idle_day_def set_disabled_def auth_keys)

lemma baskets_mode: "snd (boot_baskets env d) mode_key = d mode_key"
proof -
  obtain n d1 where b: "build_indexes env (enabled_indexes d) d = (n, d1)" by fastforce
  show ?thesis using builds_frame [OF b] by (simp add: boot_baskets_def Let_def b idle_mode) (simp add: auth_keys)
qed

definition mode_ready :: "db \<Rightarrow> bool" where
  "mode_ready d \<longleftrightarrow> d mode_key = None \<and> d (flag_key ''force_paper_today'') = None \<and> d SYSTEM_FLAGS_MODE = Some (RText ''paper'')"

lemma market_mode: "mode_ready d \<Longrightarrow> snd (boot_market env tok d) mode_key \<in> {None, Some (RText ''paper'')}"
  using mode_paper [of "snd (load_master_instruments env d)"]
  by (simp add: boot_market_def idle_mode baskets_mode mode_ready_def master_frame auth_keys split: sum.split)

lemma session_mode:
  assumes "mode_ready d"
  shows "snd (boot_session env ok d) mode_key \<in> {None, Some (RText ''paper'')}"
proof -
  obtain res d1 where e: "ensure_valid_token env d = (res, d1)" by fastforce
  have "mode_ready d1" using assms ensure_token_frame [OF e] by (simp add: mode_ready_def auth_keys)
  then show ?thesis
    using assms market_mode [of d1 env]
    by (auto simp: boot_session_def e idle_mode mode_ready_def split: auth_result.split) (simp_all add: flag_key_def)
qed

section \<open>Properties\<close>

text \<open>Claim C8.  Trading is switched on by the boot only when everything that must be checked has
  been: the credentials could be decrypted, the access token was validated by the broker or comes
  from a fresh login, today is a trading day by the Postgres calendar or else by the broker's
  holiday list, the NSE session is the standard one whenever the broker says what it is, and at
  least one index has its option chain and its spot token in place.\<close>

theorem boot_activation_gate:
  assumes "boot_main env d = (0, d')" and "d' SYSTEM_FLAGS_TRADING_ACTIVE = Some (RText ''true'')"
  shows "\<exists>pg creds tok. be_pg env = Some pg \<and> pg_creds pg = Some (Some creds) \<and> truthy creds \<and> tok \<noteq> [] \<and>
    (read_cached_token d = Some tok \<and> be_validate env tok \<or> be_login env = Some tok) \<and>
    is_trading_day_today (trading_dates pg (be_today env) True) (trading_dates pg (be_today env) False)
      (be_today env) (Some tok) (be_holidays env) \<and>
    (\<forall>es. be_timings env = Inr es \<longrightarrow> is_standard_session es ''NSE'') \<and>
    (\<exists>i. valid_index i \<and> index_ready env (market_of d') i)"
proof -
  obtain pg tok d1 d3 d4 d6 where A: "active_path env d pg tok d1 d3 d4 d6"
    and d': "d' = d6(SYSTEM_FLAGS_READY \<mapsto> RText ''true'', SYSTEM_FLAGS_TRADING_ACTIVE \<mapsto> RText ''true'',
                 SYSTEM_FLAGS_TRADING_DISABLED_REASON \<mapsto> RText ''none'')" using boot_active_path [OF assms] .
  let ?d2 = "d1(SYSTEM_LIFECYCLE_START_TS \<mapsto> RText (str_int (be_now env)), SYSTEM_LIFECYCLE_GIT_SHA \<mapsto> RText (be_git_sha env))"
  obtain fresh where a: "be_pg env = Some pg" "apply_template True d = Inr d1" "hydrate_all (be_today env) pg ?d2 = (True, d3)"
    "ensure_valid_token env d3 = (AuthValid tok fresh, d4)" using A by (auto simp: active_path_def)
  have cal: "?d2 SYSTEM_SCHEDULER_TRADING_DAYS = None" "?d2 SYSTEM_SCHEDULER_HOLIDAYS = None"
    using template_market(2,3) [OF a(2)] by (simp_all add: key_const_defs)
  have m: "market_of d' = market_of d6" by (simp add: d' auth_keys flags_market)
  have u: "d3 USER_AUTH_ACCESS_TOKEN = d USER_AUTH_ACCESS_TOKEN"
    using template_user_key [OF a(2), of USER_AUTH_ACCESS_TOKEN] hydrate_frame [OF a(3), of USER_AUTH_ACCESS_TOKEN]
      step_key_neq(11,12) [of USER_AUTH_ACCESS_TOKEN]
    by (simp add: auth_keys) (simp add: auth_key_def starts_with_def)
  show ?thesis
    using hydrate_creds [OF a(3)] ensure_token_valid [OF a(4)] read_cached_cong [of d3 d, OF u] A a(1) m
      hydrate_calendar [OF a(3) cal] ensure_token_calendar [OF a(4)] active_path_market [OF A]
    by (auto simp: active_path_def)
qed

text \<open>Claim C11.  The boot leaves the data pipeline what it needs.  When trading is switched on, and
  the broker's contracts have distinct instrument keys, the data pipeline started on the resulting
  Redis loads its state, and the templates it loads are well formed, so that every guarantee of
  the tick loop about the legs of the chain applies.\<close>

theorem boot_feeds_pipeline:
  assumes "boot_main env d = (0, d')" and "d' SYSTEM_FLAGS_TRADING_ACTIVE = Some (RText ''true'')" and "broker_keys_ok env"
  shows "template_ok (market_of d') \<and> (\<exists>p. load_state (auth_of d') (market_of d') = Some p)"
proof -
  obtain pg tok d1 d3 d4 d6 where A: "active_path env d pg tok d1 d3 d4 d6"
    and d': "d' = d6(SYSTEM_FLAGS_READY \<mapsto> RText ''true'', SYSTEM_FLAGS_TRADING_ACTIVE \<mapsto> RText ''true'',
                 SYSTEM_FLAGS_TRADING_DISABLED_REASON \<mapsto> RText ''none'')" using boot_active_path [OF assms(1,2)] .
  have m: "market_of d' = market_of d6" by (simp add: d' auth_keys flags_market)
  note M = active_path_market [OF A]
  define d5 where "d5 = resolve_mode (snd (load_master_instruments env d4))"
  obtain fresh n where a: "ensure_valid_token env d3 = (AuthValid tok fresh, d4)" "build_indexes env (enabled_indexes d5) d5 = (n, d6)"
    using A by (auto simp: active_path_def Let_def d5_def)
  have "d' USER_AUTH_ACCESS_TOKEN = d4 USER_AUTH_ACCESS_TOKEN"
    using builds_frame [OF a(2), of "''access_token''"] master_frame [of USER_AUTH_ACCESS_TOKEN env d4]
      mode_frame(1) [of USER_AUTH_ACCESS_TOKEN "snd (load_master_instruments env d4)"]
    by (simp add: d' auth_keys d5_def)
  then have tok: "load_access_token (auth_of d') = Some tok"
    using ensure_token_valid [OF a(1)] read_cached_cong cached_token_loads by metis
  obtain i where i: "valid_index i" "index_ready env (market_of d') i" using M m by auto
  have "spot_entry i (md_meta (market_of d') i) \<noteq> []"
  proof -
    obtain spot meta where "map_of INDEX_SPOT_TOKENS i = Some spot" and e: "md_meta (market_of d') i = Some meta" "im_spot_token meta = Some spot"
      using i(2) by (auto simp: index_ready_def index_ok_def)
    then have "spot \<noteq> []" by (auto simp: INDEX_SPOT_TOKENS_def split: if_splits)
    then show ?thesis using e by (simp add: spot_entry_def split: list.split)
  qed
  then have "template_entries (market_of d') \<noteq> []"
    using i(1) INDEXES_valid by (auto simp: template_entries_def)
  then have "foldl (\<lambda>d (tok, v). dict_set tok v d) [] (template_entries (market_of d')) \<noteq> []"
  proof (rule contrapos_nn)
    assume "foldl (\<lambda>d (tok, v). dict_set tok v d) [] (template_entries (market_of d')) = []"
    then have "map_of (rev (template_entries (market_of d'))) = Map.empty"
      using map_of_fold_dict_set [of "[]" "template_entries (market_of d')"] by simp
    then show "template_entries (market_of d') = []" by simp
  qed
  then show ?thesis using boot_template_ok [OF assms(3)] M m tok by (simp add: load_state_def Let_def)
qed

text \<open>Claim C40.  The operator's flags of the previous evening have no effect.  The boot flushes the
  runtime name spaces before it reads them, so it behaves the same for every value of
  \<open>system:flags:skip_today\<close>, \<open>auto_continue\<close>, \<open>force_paper_today\<close> and \<open>mode\<close> (indeed of every
  runtime key), and the mode of the day, where it is decided, is always paper.\<close>

theorem boot_ignores_operator_flags:
  assumes "be_redis env" and "be_postgres env" and "\<And>k. \<not> (runtime_key k \<and> \<not> preserved_key k) \<Longrightarrow> d1 k = d2 k"
  shows "boot_main env d1 = boot_main env d2 \<and>
    snd (boot_main env d1) (flag_key ''mode_today'') \<in> {None, Some (RText ''paper'')}"
proof
  obtain d' where t: "apply_template True d1 = Inr d'" using apply_template_eq by blast
  then have "apply_template True d2 = Inr d'" using assms(3) flush_forgets [of d1 d2] by simp
  then show "boot_main env d1 = boot_main env d2" using assms(1,2) t by (simp add: boot_main_def)
  let ?d2 = "d'(SYSTEM_LIFECYCLE_START_TS \<mapsto> RText (str_int (be_now env)), SYSTEM_LIFECYCLE_GIT_SHA \<mapsto> RText (be_git_sha env))"
  have r2: "mode_ready ?d2"
    using template_flags [OF t] step_key_neq(11,12) [of "flag_key x" for x] by (simp add: mode_ready_def auth_keys)
  show "snd (boot_main env d1) mode_key \<in> {None, Some (RText ''paper'')}"
  proof (cases "be_pg env")
    case None
    then show ?thesis
      using assms(1,2) t r2
      by (simp add: boot_main_def Let_def set_init_failed_def set_disabled_def mode_ready_def SYSTEM_FLAGS_INIT_FAILED_def auth_keys)
        (simp add: flag_key_def)
  next
    case (Some pg)
    obtain ok d3 where h: "hydrate_all (be_today env) pg ?d2 = (ok, d3)" by fastforce
    have "mode_ready d3" using r2 hydrate_frame [OF h] by (simp add: mode_ready_def auth_keys)
    then show ?thesis using assms(1,2) t Some h session_mode [of d3 env ok] by (simp add: boot_main_def Let_def)
  qed
qed


section \<open>Witnesses\<close>

definition demo_config :: json where
  "demo_config = JObj [(''strike_step'', JInt 50), (''pre_open_subscribe_window'', JInt 0), (''trading_basket_range'', JInt 0),
     (''lot_size'', JInt 75)]"

definition demo_rows :: pg_rows where
  "demo_rows = \<lparr>pg_user = None, pg_creds = Some (Some (JObj [(''api_key'', JStr ''k'')])),
     pg_configs = [(''index:nifty50'', demo_config)], pg_calendar = [(''2026-01-01'', True)], pg_session = [], pg_session_today = []\<rparr>"

definition demo_contract :: contract where
  "demo_contract = \<lparr>ct_expiry = Some ''2026-01-06'', ct_strike = Some 24000, ct_type = Some ''CE'', ct_key = Some ''NSE_FO|1'',
     ct_lot = Some 75\<rparr>"

definition demo_env :: boot_env where
  "demo_env = \<lparr>be_redis = True, be_postgres = True, be_pg = Some demo_rows, be_now = 5, be_git_sha = ''abc'',
     be_today = ''2026-01-01'', be_validate = (\<lambda>t. t = ''tok''), be_login = None, be_holidays = Inl ''down'',
     be_timings = Inl ''down'', be_master = Inl ''down'', be_ltp = (\<lambda>_. Inr [(''NSE_INDEX|Nifty 50'', 24000)]),
     be_contracts = (\<lambda>t. if t = ''NSE_INDEX|Nifty 50'' then Inr [demo_contract] else Inl ''down'')\<rparr>"

definition demo_evening :: db where
  "demo_evening = (\<lambda>_. None)(''user:auth:access_token'' \<mapsto> RText ''tok'', ''system:flags:mode'' \<mapsto> RText ''live'')"

lemma demo_keys_ok: "broker_keys_ok demo_env"
  by (simp add: broker_keys_ok_def all_contracts_def INDEX_SPOT_TOKENS_def demo_env_def contracts_ok_def demo_contract_def)

lemma demo_build:
  assumes "d ''strategy:configs:strategies:bid_ask_imbalance_v1:instruments:nifty50'' = Some (RJson demo_config)"
  shows "is_built (fst (build_for_index (be_ltp demo_env) (be_contracts demo_env) ''2026-01-01'' ''nifty50'' d))"
proof -
  have k: "read_builder_config d ''nifty50'' = Inr demo_config"
    using assms default_vessels_valid
    by (simp add: read_builder_config_def strategy_config_index_def strategy_config_instrument_def DEFAULT_STRATEGY_ID_def)
  have a: "init_compute_atm 24000 50 = Inr 24000"
    by (simp add: init_compute_atm_def round_half_even_def Let_def)
  have x: "discover_nearest_expiry [demo_contract] ''2026-01-01'' = Some ''2026-01-06''"
    by (simp add: discover_nearest_expiry_def nonempty_texts_def demo_contract_def)
  obtain ks inw where f: "filter_atm_window_strikes [demo_contract] ''2026-01-06'' 24000 50 0 = (ks, inw)" by fastforce
  show ?thesis
    using default_vessels_valid
    by (simp add: build_for_index_def k INDEX_SPOT_TOKENS_def demo_env_def demo_config_def cfg_int_def a build_with_contracts_def x
        f Let_def persist_index_def market_key_defs is_built_def)
qed

lemma demo_boot: "\<exists>d'. boot_main demo_env demo_evening = (0, d') \<and> d' SYSTEM_FLAGS_TRADING_ACTIVE = Some (RText ''true'')"
proof -
  obtain d1 where t: "apply_template True demo_evening = Inr d1" using apply_template_eq by blast
  have u: "d1 USER_AUTH_ACCESS_TOKEN = Some (RText ''tok'')"
    using template_user_key [OF t, of USER_AUTH_ACCESS_TOKEN]
    by (simp add: USER_AUTH_ACCESS_TOKEN_def starts_with_def demo_evening_def)
  have en: "d1 (''strategy:bid_ask_imbalance_v1:nifty50:enabled'') = Some (RText ''true'')"
    by (rule template_row [OF t, of _ "TStr ''true''"])
       (simp_all add: written_rows_eq STRATEGY_REGISTRY_def CONFIG_KEYS_def)
  define d2 where "d2 = d1(SYSTEM_LIFECYCLE_START_TS \<mapsto> RText (str_int 5), SYSTEM_LIFECYCLE_GIT_SHA \<mapsto> RText ''abc'')"
  let ?cfg = "''strategy:configs:strategies:bid_ask_imbalance_v1:instruments:nifty50''"
  define d3 where "d3 = sadd SYSTEM_SCHEDULER_TRADING_DAYS {''2026-01-01''}
      (d2(USER_CREDENTIALS_UPSTOX \<mapsto> RJson (JObj [(''api_key'', JStr ''k'')]), ?cfg \<mapsto> RJson demo_config))"
  have h: "hydrate_all ''2026-01-01'' demo_rows d2 = (True, d3)"
    using default_vessels_valid
    by (simp add: hydrate_all_def demo_rows_def hydrate_user_account_def hydrate_credentials_def hydrate_market_calendar_def Let_def
        hydrate_scheduler_session_def redis_key_for_config_def strategy_config_index_def strategy_config_instrument_def
        DEFAULT_STRATEGY_ID_def d3_def)
  define d4 where "d4 = d3(SYSTEM_HEALTH_AUTH \<mapsto> RText ''valid'')"
  have auth: "ensure_valid_token demo_env d3 = (AuthValid ''tok'' False, d4)"
    using u by (simp add: ensure_valid_token_def read_creds_def read_cached_token_def demo_env_def d4_def d3_def d2_def sadd_def key_const_defs)
  have flags: "d3 (flag_key ''skip_today'') = None" "d3 (flag_key ''auto_continue'') = None"
    using template_flags [OF t] hydrate_frame [OF h] step_key_neq(11,12) [of "flag_key x" for x] by (simp_all add: d2_def)
  have cal: "set_members d4 SYSTEM_SCHEDULER_TRADING_DAYS = {''2026-01-01''}"
    using template_market [OF t] by (simp add: d4_def d3_def d2_def set_members_def sadd_def key_const_defs)
  define d5 where "d5 = resolve_mode d4"
  have e5: "''nifty50'' \<in> set (enabled_indexes d5)" and c5: "d5 ?cfg = Some (RJson demo_config)"
    using en default_vessels_valid
    by (simp_all add: d5_def d4_def d3_def d2_def resolve_mode_def Let_def sadd_def key_const_defs enabled_indexes_def INDEXES_def
        market_key_defs read_str_def py_lower_def lower_char_def)
  have "\<exists>n d6. build_indexes demo_env (enabled_indexes d5) d5 = (Suc n, d6)"
  proof -
    obtain rest where r: "enabled_indexes d5 = ''nifty50'' # rest"
      using e5 by (auto simp: enabled_indexes_def INDEXES_def split: if_splits)
    have td: "be_today demo_env = ''2026-01-01''" by (simp add: demo_env_def)
    show ?thesis using demo_build [of d5, OF c5] by (auto simp: r td Let_def split: prod.splits)
  qed
  then obtain n d6 where b: "build_indexes demo_env (enabled_indexes d5) d5 = (Suc n, d6)" by blast
  have ne: "enabled_indexes d5 \<noteq> []" using e5 by auto
  have m: "load_master_instruments demo_env d4 = (0, d4)" by (simp add: load_master_instruments_def demo_env_def)
  have s: "be_today demo_env = ''2026-01-01''" "be_pg demo_env = Some demo_rows" "be_redis demo_env" "be_postgres demo_env"
    "be_now demo_env = 5" "be_git_sha demo_env = ''abc''" "be_timings demo_env = Inl ''down''"
    by (simp_all add: demo_env_def)
  have bm: "boot_market demo_env ''tok'' d4 = boot_baskets demo_env d5"
    by (simp add: boot_market_def s cal is_trading_day_today_def is_trading_day_via_cache_def m d5_def)
  have "boot_session demo_env True d3 = boot_baskets demo_env d5"
    using flags bm by (simp add: boot_session_def auth read_str_def flag_key_def py_lower_def lower_char_def)
  then have "boot_main demo_env demo_evening = boot_baskets demo_env d5"
    using t h by (simp add: boot_main_def s Let_def d2_def)
  then show ?thesis by (simp add: boot_baskets_def ne b Let_def) (simp add: key_const_defs)
qed

theorem boot_activation_gate_witness:
  "\<exists>d' i. boot_main demo_env demo_evening = (0, d') \<and> valid_index i \<and> index_ready demo_env (market_of d') i"
  using demo_boot boot_activation_gate [of demo_env demo_evening] by blast

theorem boot_feeds_pipeline_witness:
  "\<exists>d' p. boot_main demo_env demo_evening = (0, d') \<and> template_ok (market_of d') \<and>
     load_state (auth_of d') (market_of d') = Some p"
  using demo_boot boot_feeds_pipeline [of demo_env demo_evening] demo_keys_ok by blast

theorem boot_ignores_operator_flags_witness:
  "boot_main demo_env demo_evening =
     boot_main demo_env (demo_evening(''system:flags:skip_today'' \<mapsto> RText ''true'', ''system:flags:mode'' \<mapsto> RText ''paper''))"
proof -
  have "runtime_key k \<and> \<not> preserved_key k" if "k = ''system:flags:skip_today'' \<or> k = ''system:flags:mode''" for k
    using that by (auto simp: runtime_key_def RUNTIME_PREFIXES_def preserved_key_def PRESERVED_PREFIXES_def starts_with_def rstrip_colon_def)
  then have same: "\<not> (runtime_key k \<and> \<not> preserved_key k) \<Longrightarrow>
      demo_evening k = (demo_evening(''system:flags:skip_today'' \<mapsto> RText ''true'', ''system:flags:mode'' \<mapsto> RText ''paper'')) k" for k
    by auto
  have "be_redis demo_env" "be_postgres demo_env" by (simp_all add: demo_env_def)
  note C = conjunct1 [OF boot_ignores_operator_flags [of demo_env demo_evening
      "demo_evening(''system:flags:skip_today'' \<mapsto> RText ''true'', ''system:flags:mode'' \<mapsto> RText ''paper'')", OF this]]
  show ?thesis by (rule C) (rule same)
qed

end
