(* ===== verification/Supervision.thy ===== *)
theory Supervision
  imports BootGate PreEntryGate
begin

text \<open>
  \<open>engines/scheduler\<close> (the cron jobs and their time table) and the tasks of \<open>engines/background\<close>
  (the daily reset, the report drainer, the kill-switch poller).  A job acts on the key space and
  on the scheduler stream, kept as the list of its event kinds.
\<close>

section \<open>Scheduler jobs\<close>

type_synonym sched = "db \<times> string list"

definition publish_event :: "string \<Rightarrow> sched \<Rightarrow> sched" where
  "publish_event kind s = (fst s, snd s @ [kind])"

definition pre_open_snapshot :: "sched \<Rightarrow> sched" where
  "pre_open_snapshot s =
     publish_event ''pre_open_snapshot'' ((fst s)(SYSTEM_FLAGS_DATA_PIPELINE_SUBSCRIBED \<mapsto> RText ''true''), snd s)"

definition market_open :: "sched \<Rightarrow> sched" where
  "market_open s =
     publish_event ''market_open''
       ((fst s)(SYSTEM_FLAGS_TRADING_ACTIVE \<mapsto> RText ''true'', SYSTEM_FLAGS_TRADING_DISABLED_REASON \<mapsto> RText ''none''), snd s)"

definition entry_freeze :: "sched \<Rightarrow> sched" where
  "entry_freeze s = publish_event ''entry_freeze'' ((fst s)(''system:flags:entry_freeze'' \<mapsto> RText ''true''), snd s)"

definition eod_squareoff :: "sched \<Rightarrow> sched" where
  "eod_squareoff s = publish_event ''eod_squareoff'' ((fst s)(''system:flags:eod_squareoff'' \<mapsto> RText ''true''), snd s)"

definition market_close :: "sched \<Rightarrow> sched" where
  "market_close s =
     publish_event ''market_close''
       ((fst s)(SYSTEM_FLAGS_TRADING_ACTIVE \<mapsto> RText ''false'', SYSTEM_FLAGS_TRADING_DISABLED_REASON \<mapsto> RText ''market_closed''), snd s)"

definition daily_reset :: "sched \<Rightarrow> sched" where
  "daily_reset s =
     publish_event ''daily_reset''
       ((fst s)(''system:flags:entry_freeze'' := None, ''system:flags:eod_squareoff'' := None), snd s)"

definition instrument_refresh :: "sched \<Rightarrow> sched" where
  "instrument_refresh s = publish_event ''instrument_refresh'' s"

definition nightly_maintenance :: "sched \<Rightarrow> sched" where
  "nightly_maintenance s = publish_event ''nightly_maintenance'' s"

section \<open>Time table\<close>

definition DEFAULT_TRIGGERS :: "(string \<times> string) list" where
  "DEFAULT_TRIGGERS =
    [(''instrument_refresh'', ''05:30''), (''pre_open_snapshot'', ''09:14''), (''market_open'', ''09:15''),
     (''entry_freeze'', ''15:10''), (''eod_squareoff'', ''15:15''), (''market_close'', ''15:30''),
     (''daily_reset'', ''15:35''), (''nightly_maintenance'', ''02:00'')]"

definition CONFIGURABLE_TRIGGERS :: "string list" where
  "CONFIGURABLE_TRIGGERS =
    [''instrument_refresh'', ''pre_open_snapshot'', ''market_open'', ''entry_freeze'', ''eod_squareoff'', ''market_close'']"

definition first_two_fields :: "string \<Rightarrow> string option" where
  "first_two_fields v = (case split_on (CHR '':'') v of a # b # _ \<Rightarrow> Some (a @ '':'' @ b) | _ \<Rightarrow> None)"

definition resolve_trigger_table :: "(string \<times> string) list \<Rightarrow> (string \<times> string) list" where
  "resolve_trigger_table session =
     foldl (\<lambda>out name.
       case map_of session name of
         None \<Rightarrow> out
       | Some v \<Rightarrow> (case first_two_fields v of None \<Rightarrow> out | Some hm \<Rightarrow> dict_set name hm out))
       DEFAULT_TRIGGERS CONFIGURABLE_TRIGGERS"

text \<open>\<open>h, m = raw.split(":", 1); int(h), int(m)\<close>; \<open>None\<close> is the ValueError.\<close>

definition sched_parse_hhmm :: "string \<Rightarrow> (int \<times> int) option" where
  "sched_parse_hhmm raw =
     (if CHR '':'' \<notin> set raw then None
      else (case (int_of_str (takeWhile (\<lambda>c. c \<noteq> CHR '':'') raw), int_of_str (tl (dropWhile (\<lambda>c. c \<noteq> CHR '':'') raw))) of
              (Some h, Some m) \<Rightarrow> Some (h, m)
            | _ \<Rightarrow> None))"

section \<open>Background engine\<close>

definition on_daily_reset :: "db \<Rightarrow> db" where
  "on_daily_reset d =
     d(ORDERS_POSITIONS_CLOSED_TODAY := None, SYSTEM_FLAGS_DAILY_LOSS_CIRCUIT_TRIGGERED \<mapsto> RText ''false'', ORDERS_PNL_DAY := None)"

subsection \<open>Report drainer\<close>

text \<open>A buffered payload: text that is not JSON, JSON that is not a report, or a report.  \<open>DrainPush\<close>
  is a worker's RPUSH; \<open>DrainPop\<close> is one BLPOP of the drainer with the outcome of its INSERT.\<close>

datatype report_payload = NotJson string | NotReport json | Buffered report

datatype drain_event = DrainPush report_payload | DrainPop bool

record drain =
  dr_pending :: "report_payload list"
  dr_table :: "report list"
  dr_drained :: nat
  dr_requeued :: nat

definition drain_pop :: "bool \<Rightarrow> drain \<Rightarrow> drain" where
  "drain_pop db_ok s =
     (case dr_pending s of
        [] \<Rightarrow> s
      | p # rest \<Rightarrow>
          (case p of
             Buffered r \<Rightarrow>
               if db_ok then s\<lparr>dr_pending := rest, dr_table := dr_table s @ [r], dr_drained := Suc (dr_drained s)\<rparr>
               else s\<lparr>dr_pending := p # rest, dr_requeued := Suc (dr_requeued s)\<rparr>
           | _ \<Rightarrow> s\<lparr>dr_pending := rest\<rparr>))"

definition drain_step :: "drain_event \<Rightarrow> drain \<Rightarrow> drain" where
  "drain_step e s =
     (case e of DrainPush p \<Rightarrow> s\<lparr>dr_pending := dr_pending s @ [p]\<rparr> | DrainPop db_ok \<Rightarrow> drain_pop db_ok s)"

definition drain_run :: "drain_event list \<Rightarrow> drain \<Rightarrow> drain" where
  "drain_run es s = foldl (\<lambda>s e. drain_step e s) s es"

fun reports_of :: "report_payload list \<Rightarrow> report list" where
  "reports_of [] = []"
| "reports_of (Buffered r # ps) = r # reports_of ps"
| "reports_of (_ # ps) = reports_of ps"

fun pushed :: "drain_event list \<Rightarrow> report_payload list" where
  "pushed [] = []"
| "pushed (DrainPush p # es) = p # pushed es"
| "pushed (DrainPop _ # es) = pushed es"

subsection \<open>Kill-switch poller\<close>

record poller =
  po_failures :: nat
  po_cache :: "kill_switch_blob option"
  po_alerts :: "nat list"

text \<open>The token blob is a JSON object when it starts with a brace, else the token itself.\<close>

definition poller_token :: "auth_blob option \<Rightarrow> string" where
  "poller_token raw =
     (case raw of None \<Rightarrow> [] | Some (AuthDict tok) \<Rightarrow> get_or tok [] | Some (AuthBare txt) \<Rightarrow> txt)"

definition poll_once :: "auth_blob option \<Rightarrow> (string \<Rightarrow> string + kill_switch_entry list) \<Rightarrow> poller \<Rightarrow> poller" where
  "poll_once raw broker s =
     (if poller_token raw = [] then s
      else
        (case broker (poller_token raw) of
           Inl _ \<Rightarrow>
             let n = Suc (po_failures s)
             in s\<lparr>po_failures := n, po_alerts := (if 3 \<le> n then po_alerts s @ [n] else po_alerts s)\<rparr>
         | Inr snapshot \<Rightarrow> s\<lparr>po_failures := 0, po_cache := Some (KsList snapshot)\<rparr>))"

text \<open>\<open>brokers/upstox/kill_switch.py\<close>: the fail-closed predicate.\<close>

fun find_segment :: "kill_switch_entry list \<Rightarrow> string \<Rightarrow> bool" where
  "find_segment [] seg = True"
| "find_segment (e # es) seg =
     (if ks_segment e = Some seg then (if ks_segment_status e \<noteq> Some ''ACTIVE'' then True else ks_enabled e)
      else find_segment es seg)"

definition is_segment_blocked :: "kill_switch_entry list option \<Rightarrow> string \<Rightarrow> bool" where
  "is_segment_blocked snapshot seg = (case snapshot of None \<Rightarrow> True | Some es \<Rightarrow> es = [] \<or> find_segment es seg)"

section \<open>Lemmas\<close>

text \<open>The market opens the day whatever the boot decided.\<close>

lemma market_open_overrides_boot:
  "fst (idle_day reason d) = 0 \<and> snd (idle_day reason d) SYSTEM_FLAGS_TRADING_ACTIVE = Some (RText ''false'') \<and>
   fst (market_open (snd (idle_day reason d), evs)) SYSTEM_FLAGS_TRADING_ACTIVE = Some (RText ''true'')"
  by (simp add: idle_day_def set_disabled_def market_open_def publish_event_def key_const_defs)

text \<open>Two readings of the same snapshot: the gate lets an unknown segment pass, the broker
  predicate blocks it.\<close>

lemma kill_switch_readings_differ:
  "is_segment_blocked (Some []) ''NSE_FO''" "is_segment_blocked None ''NSE_FO''"
  by (simp_all add: is_segment_blocked_def)

lemma reports_of_append: "reports_of (xs @ ys) = reports_of xs @ reports_of ys"
  by (induction xs rule: reports_of.induct) simp_all

lemma drain_step_conserves:
  "dr_table (drain_step e s) @ reports_of (dr_pending (drain_step e s)) =
     dr_table s @ reports_of (dr_pending s) @ reports_of (pushed [e])"
  by (cases e) (auto simp: drain_step_def drain_pop_def reports_of_append split: list.split report_payload.split)

lemma pushed_Cons: "pushed (e # es) = pushed [e] @ pushed es"
  by (cases e) simp_all

lemma drain_run_conserves:
  "dr_table (drain_run es s) @ reports_of (dr_pending (drain_run es s)) =
     dr_table s @ reports_of (dr_pending s) @ reports_of (pushed es)"
proof (induction es arbitrary: s)
  case (Cons e es)
  show ?case
    using Cons [of "drain_step e s"] drain_step_conserves [of e s] pushed_Cons [of e es]
    by (simp add: drain_run_def reports_of_append)
qed (simp add: drain_run_def)

lemma drain_progress:
  "dr_pending s = p # rest \<Longrightarrow> dr_pending (drain_step (DrainPop True) s) = rest"
  by (cases p) (simp_all add: drain_step_def drain_pop_def)

lemma resolve_trigger_names: "map fst (resolve_trigger_table session) = map fst DEFAULT_TRIGGERS"
proof -
  have k: "n \<in> fst ` set out \<Longrightarrow> map fst (dict_set n v out) = map fst out" for n v and out :: "(string \<times> string) list"
    by (rule dict_set_keys)
  have all: "set names \<subseteq> fst ` set out \<Longrightarrow> map fst (foldl (\<lambda>out name.
       case map_of session name of None \<Rightarrow> out
       | Some v \<Rightarrow> (case first_two_fields v of None \<Rightarrow> out | Some hm \<Rightarrow> dict_set name hm out)) out names) = map fst out"
    for names and out :: "(string \<times> string) list"
  proof (induction names arbitrary: out)
    case (Cons n names)
    define out' where "out' = (case map_of session n of None \<Rightarrow> out
       | Some v \<Rightarrow> (case first_two_fields v of None \<Rightarrow> out | Some hm \<Rightarrow> dict_set n hm out))"
    have m: "map fst out' = map fst out" using Cons.prems k by (auto simp: out'_def split: option.split)
    then have "fst ` set out' = fst ` set out" by (metis set_map)
    then show ?case using Cons.IH [of out'] Cons.prems m by (simp add: out'_def [symmetric])
  qed simp
  have "set CONFIGURABLE_TRIGGERS \<subseteq> fst ` set DEFAULT_TRIGGERS" by (simp add: CONFIGURABLE_TRIGGERS_def DEFAULT_TRIGGERS_def)
  from all [OF this] show ?thesis by (simp add: resolve_trigger_table_def)
qed

section \<open>Properties\<close>


end
