(* ===== verification/BrokerHttp.thy ===== *)
theory BrokerHttp
  imports Json ExitSubmit
begin

text \<open>
  \<open>brokers/upstox/{envelopes,_http,orders,rate_limiter}.py\<close>: the REST envelope, the order calls with
  their validation and payloads, and the per-second rate counters.  The HTTP round trip is a
  parameter: a \<open>transport\<close> answers a request with an exception's text or with the status code, the
  decoded body (\<open>JNull\<close> when it is not JSON) and the body's text.  A call returns the requests it
  sent and its envelope, or the exception the decoding of an unexpected body raises.
\<close>

section \<open>Envelope and round trip\<close>

text \<open>The error text, by its parts: an argument that was refused, \<open>REQUEST_EXCEPTION\<close>, \<open>HTTP code: body\<close>.\<close>

datatype api_error =
    InvalidArgument string string
  | RequestException string
  | HttpError int "json + string"
  | UnexpectedShape json
  | ApiToken string

record envelope =
  ev_success :: bool
  ev_data :: json
  ev_error :: "api_error option"
  ev_code :: "int option"
  ev_raw :: json

definition env_ok :: "json \<Rightarrow> int \<Rightarrow> json \<Rightarrow> envelope" where
  "env_ok data code raw =
     \<lparr>ev_success = True, ev_data = data, ev_error = None, ev_code = Some code, ev_raw = raw\<rparr>"

definition env_fail :: "api_error \<Rightarrow> int option \<Rightarrow> json \<Rightarrow> envelope" where
  "env_fail err code raw =
     \<lparr>ev_success = False, ev_data = JNull, ev_error = Some err, ev_code = code, ev_raw = raw\<rparr>"

record http_request =
  hq_method :: string
  hq_url :: string
  hq_headers :: "(string \<times> string) list"
  hq_params :: "(string \<times> string) list"
  hq_json :: "json option"

type_synonym reply = "string + int \<times> json \<times> string"
type_synonym transport = "http_request \<Rightarrow> reply"
type_synonym api_result = "http_request list \<times> (pyexc + envelope)"

definition bearer_headers :: "string \<Rightarrow> nat \<Rightarrow> string option \<Rightarrow> (string \<times> string) list" where
  "bearer_headers tok v content_type =
     [(''Accept'', ''application/json'')] @
     (if tok = [] then [] else [(''Authorization'', ''Bearer '' @ tok)]) @
     (if v = 3 then [(''Api-Version'', ''3.0'')] else []) @
     (case content_type of None \<Rightarrow> [] | Some c \<Rightarrow> if c = [] then [] else [(''Content-Type'', c)])"

definition bearer_json :: "string \<Rightarrow> nat \<Rightarrow> (string \<times> string) list" where
  "bearer_json tok v = bearer_headers tok v (Some ''application/json'')"

definition bearer_form :: "string \<Rightarrow> (string \<times> string) list" where
  "bearer_form tok = bearer_headers tok 2 (Some ''application/x-www-form-urlencoded'')"

definition body_ok :: "json \<Rightarrow> bool" where
  "body_ok parsed \<longleftrightarrow> is_dict parsed \<and> jget parsed ''status'' = Inr (JStr ''success'')"

definition raw_of :: "json \<Rightarrow> json" where
  "raw_of parsed = (if is_dict parsed then parsed else JNull)"

definition http_fail :: "int \<Rightarrow> json \<Rightarrow> string \<Rightarrow> envelope" where
  "http_fail code parsed text =
     env_fail (HttpError code (if parsed \<noteq> JNull then Inl parsed else Inr text)) (Some code) (raw_of parsed)"

text \<open>The tail every endpoint shares; \<open>decode_body\<close> builds the data from a successful body.\<close>

definition reply_envelope :: "(json \<Rightarrow> pyexc + json) \<Rightarrow> reply \<Rightarrow> pyexc + envelope" where
  "reply_envelope decode_body r =
     (case r of
        Inl e \<Rightarrow> Inr (env_fail (RequestException e) None JNull)
      | Inr (code, parsed, text) \<Rightarrow>
          if code = 200 \<and> body_ok parsed then and_then (decode_body parsed) (\<lambda>d. Inr (env_ok d code parsed))
          else Inr (http_fail code parsed text))"

definition call :: "transport \<Rightarrow> http_request \<Rightarrow> (json \<Rightarrow> pyexc + json) \<Rightarrow> api_result" where
  "call tr q decode_body = ([q], reply_envelope decode_body (tr q))"

definition refuse :: "string \<Rightarrow> string \<Rightarrow> api_result" where
  "refuse what value = ([], Inr (env_fail (InvalidArgument what value) None JNull))"

section \<open>Orders\<close>

definition ORDER_PLACE_URL :: string where "ORDER_PLACE_URL = ''https://api-hft.upstox.com/v3/order/place''"
definition ORDER_MODIFY_URL :: string where "ORDER_MODIFY_URL = ''https://api-hft.upstox.com/v3/order/modify''"
definition ORDER_CANCEL_URL :: string where "ORDER_CANCEL_URL = ''https://api-hft.upstox.com/v3/order/cancel''"
definition ORDER_DETAILS_URL :: string where "ORDER_DETAILS_URL = ''https://api.upstox.com/v2/order/details''"
definition ORDER_HISTORY_URL :: string where "ORDER_HISTORY_URL = ''https://api.upstox.com/v2/order/history''"
definition ORDER_BOOK_URL :: string where "ORDER_BOOK_URL = ''https://api.upstox.com/v2/order/retrieve-all''"
definition TRADES_FOR_DAY_URL :: string where "TRADES_FOR_DAY_URL = ''https://api.upstox.com/v2/order/trades/get-trades-for-day''"
definition TRADES_BY_ORDER_URL :: string where "TRADES_BY_ORDER_URL = ''https://api.upstox.com/v2/order/trades''"
definition EXIT_ALL_URL :: string where "EXIT_ALL_URL = ''https://api.upstox.com/v2/order/positions/exit''"

definition VALID_ORDER_TYPES :: "string list" where "VALID_ORDER_TYPES = [''MARKET'', ''LIMIT'', ''SL'', ''SL-M'']"
definition VALID_TRANSACTION_TYPES :: "string list" where "VALID_TRANSACTION_TYPES = [''BUY'', ''SELL'']"
definition VALID_PRODUCTS :: "string list" where "VALID_PRODUCTS = [''I'', ''D'', ''MTF'']"
definition VALID_VALIDITY :: "string list" where "VALID_VALIDITY = [''DAY'', ''IOC'']"

definition algo_headers :: "string \<Rightarrow> string option \<Rightarrow> (string \<times> string) list" where
  "algo_headers tok algo =
     bearer_json tok 2 @ (case algo of None \<Rightarrow> [] | Some a \<Rightarrow> if a = [] then [] else [(''X-Algo-Name'', a)])"

text \<open>The arguments of \<open>place_order\<close>, timeout and URL override aside.\<close>

record place_args =
  pa_token :: token
  pa_quantity :: int
  pa_txn :: string
  pa_access_token :: string
  pa_price :: money
  pa_order_type :: string
  pa_product :: string
  pa_validity :: string
  pa_tag :: "string option"
  pa_disclosed :: int
  pa_trigger :: money
  pa_amo :: bool
  pa_slice :: bool
  pa_protection :: "int option"
  pa_algo :: "string option"

definition place_payload :: "place_args \<Rightarrow> (string \<times> json) list" where
  "place_payload a =
     [(''instrument_token'', JStr (pa_token a)), (''quantity'', JInt (pa_quantity a)),
      (''product'', JStr (pa_product a)), (''validity'', JStr (pa_validity a)),
      (''price'', JFloat (Fin (pa_price a))), (''order_type'', JStr (pa_order_type a)),
      (''transaction_type'', JStr (pa_txn a)), (''disclosed_quantity'', JInt (pa_disclosed a)),
      (''trigger_price'', JFloat (Fin (pa_trigger a))), (''is_amo'', JBool (pa_amo a)), (''slice'', JBool (pa_slice a))] @
     (case pa_tag a of None \<Rightarrow> [] | Some t \<Rightarrow> [(''tag'', JStr t)]) @
     (case pa_protection a of None \<Rightarrow> [] | Some m \<Rightarrow> if 0 \<le> m then [(''market_protection'', JInt m)] else [])"

text \<open>\<open>list(v)\<close> of a truthy value.\<close>

definition py_list :: "json \<Rightarrow> pyexc + json list" where
  "py_list v =
     (case v of
        JList xs \<Rightarrow> Inr xs
      | JStr s \<Rightarrow> Inr (map (\<lambda>c. JStr [c]) s)
      | JObj kvs \<Rightarrow> Inr (map (JStr \<circ> fst) kvs)
      | _ \<Rightarrow> Inl TypeError)"

definition order_ids :: "json \<Rightarrow> pyexc + json list" where
  "order_ids parsed =
     and_then (py_or (jget parsed ''data'') (Inr (JObj []))) (\<lambda>d.
     and_then (py_or (jget d ''order_ids'') (Inr (JList []))) py_list)"

definition latency :: "json \<Rightarrow> pyexc + json" where
  "latency parsed = and_then (py_or (jget parsed ''metadata'') (Inr (JObj []))) (\<lambda>m. jget m ''latency'')"

definition placed_data :: "json \<Rightarrow> pyexc + json" where
  "placed_data parsed =
     and_then (order_ids parsed) (\<lambda>ids.
     and_then (latency parsed) (\<lambda>lat.
       Inr (JObj [(''order_ids'', JList ids), (''first_order_id'', case ids of [] \<Rightarrow> JNull | i # _ \<Rightarrow> i),
                  (''latency_ms'', lat)])))"

definition place_order :: "transport \<Rightarrow> place_args \<Rightarrow> api_result" where
  "place_order tr a =
     (if pa_quantity a \<le> 0 then refuse ''invalid_quantity'' (str_int (pa_quantity a))
      else if pa_txn a \<notin> set VALID_TRANSACTION_TYPES then refuse ''invalid_transaction_type'' (pa_txn a)
      else if pa_order_type a \<notin> set VALID_ORDER_TYPES then refuse ''invalid_order_type'' (pa_order_type a)
      else if pa_product a \<notin> set VALID_PRODUCTS then refuse ''invalid_product'' (pa_product a)
      else if pa_validity a \<notin> set VALID_VALIDITY then refuse ''invalid_validity'' (pa_validity a)
      else call tr \<lparr>hq_method = ''POST'', hq_url = ORDER_PLACE_URL,
                     hq_headers = algo_headers (pa_access_token a) (pa_algo a), hq_params = [],
                     hq_json = Some (JObj (place_payload a))\<rparr> placed_data)"

record modify_args =
  ma_order_id :: string
  ma_access_token :: string
  ma_quantity :: "int option"
  ma_price :: "money option"
  ma_order_type :: "string option"
  ma_validity :: "string option"
  ma_disclosed :: "int option"
  ma_trigger :: "money option"
  ma_protection :: "int option"
  ma_algo :: "string option"

definition field_of :: "string \<Rightarrow> ('a \<Rightarrow> json) \<Rightarrow> 'a option \<Rightarrow> (string \<times> json) list" where
  "field_of k f x = (case x of None \<Rightarrow> [] | Some v \<Rightarrow> [(k, f v)])"

definition modify_payload :: "modify_args \<Rightarrow> (string \<times> json) list" where
  "modify_payload a =
     [(''order_id'', JStr (ma_order_id a))] @ field_of ''quantity'' JInt (ma_quantity a) @
     field_of ''price'' (JFloat \<circ> Fin) (ma_price a) @ field_of ''order_type'' JStr (ma_order_type a) @
     field_of ''validity'' JStr (ma_validity a) @ field_of ''disclosed_quantity'' JInt (ma_disclosed a) @
     field_of ''trigger_price'' (JFloat \<circ> Fin) (ma_trigger a) @ field_of ''market_protection'' JInt (ma_protection a)"

definition changed_data :: "json \<Rightarrow> pyexc + json" where
  "changed_data parsed =
     and_then (py_or (jget parsed ''data'') (Inr (JObj []))) (\<lambda>d.
     and_then (jget d ''order_id'') (\<lambda>i.
     and_then (latency parsed) (\<lambda>lat. Inr (JObj [(''order_id'', i), (''latency_ms'', lat)]))))"

definition modify_order :: "transport \<Rightarrow> modify_args \<Rightarrow> api_result" where
  "modify_order tr a =
     (case (case ma_order_type a of Some t \<Rightarrow> if t \<in> set VALID_ORDER_TYPES then None else Some t | None \<Rightarrow> None) of
        Some t \<Rightarrow> refuse ''invalid_order_type'' t
      | None \<Rightarrow>
          (case (case ma_validity a of Some v \<Rightarrow> if v \<in> set VALID_VALIDITY then None else Some v | None \<Rightarrow> None) of
             Some v \<Rightarrow> refuse ''invalid_validity'' v
           | None \<Rightarrow>
               call tr \<lparr>hq_method = ''PUT'', hq_url = ORDER_MODIFY_URL,
                         hq_headers = algo_headers (ma_access_token a) (ma_algo a), hq_params = [],
                         hq_json = Some (JObj (modify_payload a))\<rparr> changed_data))"

definition cancel_order :: "transport \<Rightarrow> string \<Rightarrow> string \<Rightarrow> string option \<Rightarrow> api_result" where
  "cancel_order tr oid tok algo =
     call tr \<lparr>hq_method = ''DELETE'', hq_url = ORDER_CANCEL_URL, hq_headers = algo_headers tok algo,
               hq_params = [(''order_id'', oid)], hq_json = None\<rparr> changed_data"

definition read_data :: "json \<Rightarrow> pyexc + json" where
  "read_data parsed = and_then (jget parsed ''data'') (\<lambda>d. Inr (if d = JNull then JList [] else d))"

definition data_or :: "json \<Rightarrow> json \<Rightarrow> pyexc + json" where
  "data_or dflt parsed = py_or (jget parsed ''data'') (Inr dflt)"

definition get_request :: "string \<Rightarrow> (string \<times> string) list \<Rightarrow> (string \<times> string) list \<Rightarrow> http_request" where
  "get_request url headers params =
     \<lparr>hq_method = ''GET'', hq_url = url, hq_headers = headers, hq_params = params, hq_json = None\<rparr>"

definition read_endpoint :: "transport \<Rightarrow> string \<Rightarrow> (string \<times> string) list \<Rightarrow> string \<Rightarrow> api_result" where
  "read_endpoint tr url params tok = call tr (get_request url (bearer_json tok 2) params) read_data"

definition get_order_status :: "transport \<Rightarrow> string \<Rightarrow> string \<Rightarrow> api_result" where
  "get_order_status tr oid tok = read_endpoint tr ORDER_DETAILS_URL [(''order_id'', oid)] tok"

definition get_order_history :: "transport \<Rightarrow> string \<Rightarrow> string \<Rightarrow> api_result" where
  "get_order_history tr oid tok = read_endpoint tr ORDER_HISTORY_URL [(''order_id'', oid)] tok"

definition get_trades_for_day :: "transport \<Rightarrow> string \<Rightarrow> api_result" where
  "get_trades_for_day tr tok = read_endpoint tr TRADES_FOR_DAY_URL [] tok"

definition get_trades_by_order :: "transport \<Rightarrow> string \<Rightarrow> string \<Rightarrow> api_result" where
  "get_trades_by_order tr oid tok = read_endpoint tr TRADES_BY_ORDER_URL [(''order_id'', oid)] tok"

definition book_envelope :: "reply \<Rightarrow> pyexc + envelope" where
  "book_envelope r =
     (case r of
        Inl e \<Rightarrow> Inr (env_fail (RequestException e) None JNull)
      | Inr (code, parsed, text) \<Rightarrow>
          if code \<noteq> 200 then Inr (env_fail (HttpError code (Inr text)) (Some code) (raw_of parsed))
          else
            (case parsed of
               JList xs \<Rightarrow> Inr (env_ok parsed code (JObj [(''_list'', parsed)]))
             | _ \<Rightarrow>
                 if body_ok parsed then and_then (data_or (JList []) parsed) (\<lambda>d. Inr (env_ok d code parsed))
                 else Inr (env_fail (UnexpectedShape parsed) (Some code) (raw_of parsed))))"

definition get_order_book :: "transport \<Rightarrow> string \<Rightarrow> api_result" where
  "get_order_book tr tok =
     (let q = get_request ORDER_BOOK_URL (bearer_json tok 2) [] in ([q], book_envelope (tr q)))"

definition exit_all_data :: "json \<Rightarrow> pyexc + json" where
  "exit_all_data parsed =
     and_then (py_or (jget parsed ''summary'') (Inr (JObj []))) (\<lambda>s.
     and_then (order_ids parsed) (\<lambda>ids.
     and_then (jget_default s ''total'' (JInt 0)) (\<lambda>t.
     and_then (jget_default s ''success'' (JInt 0)) (\<lambda>k.
     and_then (jget_default s ''error'' (JInt 0)) (\<lambda>e.
       Inr (JObj [(''order_ids'', JList ids), (''total'', t), (''successful'', k), (''errors'', e)]))))))"

definition exit_all_positions :: "transport \<Rightarrow> string \<Rightarrow> api_result" where
  "exit_all_positions tr tok =
     call tr \<lparr>hq_method = ''POST'', hq_url = EXIT_ALL_URL, hq_headers = bearer_json tok 2, hq_params = [],
               hq_json = Some (JObj [])\<rparr> exit_all_data"

end
