(* ===== verification/OrderWire.thy ===== *)
theory OrderWire
  imports BrokerHttp
begin

text \<open>
  The order engine on the real broker client: the arguments \<open>entry.py\<close> and \<open>exit_submit.py\<close> pass
  to \<open>UpstoxAPI.place_order\<close>, the client as the \<open>broker\<close> parameter of the order engine, the HTTP
  requests behind a log of broker calls, and the per-second rate counters of \<open>rate_limiter.py\<close>.
\<close>

section \<open>The engine's calls\<close>

fun txn_text :: "txn_type \<Rightarrow> string" where
  "txn_text BUY = ''BUY''"
| "txn_text SELL = ''SELL''"

definition engine_order :: "string \<Rightarrow> order_req \<Rightarrow> place_args" where
  "engine_order tok req =
     \<lparr>pa_token = rq_token req, pa_quantity = rq_quantity req, pa_txn = txn_text (rq_txn req), pa_access_token = tok,
      pa_price = rq_price req, pa_order_type = ''LIMIT'', pa_product = ''I'', pa_validity = ''DAY'',
      pa_tag = Some (rq_tag req), pa_disclosed = 0, pa_trigger = 0, pa_amo = False, pa_slice = True,
      pa_protection = Some 0, pa_algo = None\<rparr>"

definition engine_modify :: "string \<Rightarrow> string \<Rightarrow> money \<Rightarrow> modify_args" where
  "engine_modify tok oid price =
     \<lparr>ma_order_id = oid, ma_access_token = tok, ma_quantity = None, ma_price = Some price, ma_order_type = None,
      ma_validity = None, ma_disclosed = None, ma_trigger = None, ma_protection = None, ma_algo = None\<rparr>"

text \<open>What the engine reads from the envelope.  \<open>show_error\<close> is the rendering of the error text.  An
  exception of the decoding leaves the engine's routine at once; it is kept as the refusal
  \<open>exception\<close>, after which nothing more is sent either.\<close>

definition place_answer :: "(api_error \<Rightarrow> string) \<Rightarrow> pyexc + envelope \<Rightarrow> place_result" where
  "place_answer show_error a =
     (case a of
        Inl _ \<Rightarrow> PlaceRejected ''exception''
      | Inr env \<Rightarrow>
          if ev_success env then
            Placed (case jget (ev_data env) ''first_order_id'' of Inr (JStr s) \<Rightarrow> Some s | _ \<Rightarrow> None)
          else PlaceRejected (case ev_error env of None \<Rightarrow> ''None'' | Some e \<Rightarrow> show_error e))"

definition upstox_broker :: "(api_error \<Rightarrow> string) \<Rightarrow> transport \<Rightarrow> string \<Rightarrow> broker" where
  "upstox_broker show_error tr tok calls req = place_answer show_error (snd (place_order tr (engine_order tok req)))"

text \<open>The requests a logged call puts on the wire; they do not depend on the answers.\<close>

definition wire :: "transport \<Rightarrow> string \<Rightarrow> broker_call \<Rightarrow> http_request list" where
  "wire tr tok c =
     (case c of
        PlaceCall req \<Rightarrow> fst (place_order tr (engine_order tok req))
      | ModifyCall oid price \<Rightarrow> fst (modify_order tr (engine_modify tok oid price))
      | CancelCall oid \<Rightarrow> fst (cancel_order tr oid tok None))"

text \<open>An order as the broker reads it from the payload.\<close>

definition read_order :: "http_request \<Rightarrow> order_req option" where
  "read_order q =
     (case hq_json q of
        Some (JObj kvs) \<Rightarrow>
          (case (map_of kvs ''instrument_token'', map_of kvs ''quantity'', map_of kvs ''transaction_type'',
                 map_of kvs ''price'', map_of kvs ''tag'') of
             (Some (JStr tok), Some (JInt qty), Some (JStr sd), Some (JFloat (Fin price)), Some (JStr tag)) \<Rightarrow>
               if sd = ''BUY'' \<or> sd = ''SELL'' then
                 Some \<lparr>rq_token = tok, rq_quantity = qty, rq_txn = (if sd = ''BUY'' then BUY else SELL),
                       rq_price = price, rq_tag = tag\<rparr>
               else None
           | _ \<Rightarrow> None)
      | _ \<Rightarrow> None)"

text \<open>A change of an existing order, by its id.\<close>

definition names_order :: "string \<Rightarrow> http_request \<Rightarrow> bool" where
  "names_order oid q \<longleftrightarrow>
     hq_method q \<in> {''PUT'', ''DELETE''} \<and>
     (map_of (hq_params q) ''order_id'' = Some oid \<or>
      (\<exists>kvs. hq_json q = Some (JObj kvs) \<and> map_of kvs ''order_id'' = Some (JStr oid)))"

section \<open>What the order engine asks of a broker client\<close>

locale broker_client =
  fixes broker :: broker and send :: "order_req \<Rightarrow> 'q list"
  assumes sent_once: "length (send req) \<le> 1"
    and sent_valid: "send req \<noteq> [] \<Longrightarrow> 0 < rq_quantity req"
    and placed_sent: "broker calls req = Placed oid \<Longrightarrow> send req \<noteq> []"
begin

lemma placed_quantity: "broker calls req = Placed oid \<Longrightarrow> 0 < rq_quantity req \<and> (\<exists>q. send req = [q])"
  using sent_once [of req] sent_valid [of req] placed_sent [of calls req oid] by (cases "send req") auto

end

section \<open>Lemmas\<close>

lemma txn_valid [simp]: "txn_text t \<in> set VALID_TRANSACTION_TYPES"
  by (cases t) (simp_all add: VALID_TRANSACTION_TYPES_def)

lemma engine_order_place:
  "place_order tr (engine_order tok req) =
     (if rq_quantity req \<le> 0 then refuse ''invalid_quantity'' (str_int (rq_quantity req))
      else call tr \<lparr>hq_method = ''POST'', hq_url = ORDER_PLACE_URL, hq_headers = algo_headers tok None, hq_params = [],
                     hq_json = Some (JObj (place_payload (engine_order tok req)))\<rparr> placed_data)"
  using txn_valid [of "rq_txn req"]
  by (simp add: place_order_def engine_order_def VALID_ORDER_TYPES_def VALID_PRODUCTS_def VALID_VALIDITY_def)

lemma order_payload_roundtrip:
  "read_order \<lparr>hq_method = m, hq_url = u, hq_headers = h, hq_params = p,
     hq_json = Some (JObj (place_payload (engine_order tok req)))\<rparr> = Some req"
  by (cases "rq_txn req") (simp_all add: read_order_def place_payload_def engine_order_def)

lemma wire_change:
  "wire tr tok (ModifyCall oid price) = [\<lparr>hq_method = ''PUT'', hq_url = ORDER_MODIFY_URL, hq_headers = algo_headers tok None,
     hq_params = [], hq_json = Some (JObj [(''order_id'', JStr oid), (''price'', JFloat (Fin price))])\<rparr>]"
  "wire tr tok (CancelCall oid) = [\<lparr>hq_method = ''DELETE'', hq_url = ORDER_CANCEL_URL, hq_headers = algo_headers tok None,
     hq_params = [(''order_id'', oid)], hq_json = None\<rparr>]"
  by (simp_all add: wire_def modify_order_def engine_modify_def cancel_order_def call_def modify_payload_def field_of_def)

interpretation upstox: broker_client "upstox_broker show_error tr tok" "\<lambda>req. wire tr tok (PlaceCall req)"
  for show_error and tr :: transport and tok
  by unfold_locales
     (auto simp: wire_def engine_order_place call_def refuse_def upstox_broker_def place_answer_def env_fail_def split: if_splits)

text \<open>The live entry loop only changes the order it placed.\<close>

definition targets :: "string \<Rightarrow> broker_call \<Rightarrow> bool" where
  "targets oid c \<longleftrightarrow> (case c of PlaceCall _ \<Rightarrow> False | ModifyCall i _ \<Rightarrow> i = oid | CancelCall i \<Rightarrow> i = oid)"

definition extends :: "string \<Rightarrow> broker_call list \<Rightarrow> broker_call list \<Rightarrow> bool" where
  "extends oid cs cs' \<longleftrightarrow> (\<exists>later. cs' = cs @ later \<and> list_all (targets oid) later)"

lemma extends_refl [simp]: "extends oid cs cs"
  by (simp add: extends_def)

lemma extends_snoc: "extends oid cs cs' \<Longrightarrow> targets oid c \<Longrightarrow> extends oid cs (cs' @ [c])"
  by (auto simp: extends_def)

lemma targets_simps [simp]:
  "targets oid (ModifyCall i p) \<longleftrightarrow> i = oid" "targets oid (CancelCall i) \<longleftrightarrow> i = oid" "\<not> targets oid (PlaceCall r)"
  by (simp_all add: targets_def)

lemma entry_finish_extends:
  "entry_finish ep w st = (r, cs) \<Longrightarrow> extends (ep_order_id ep) cs0 (es_calls st) \<Longrightarrow> extends (ep_order_id ep) cs0 cs"
  by (auto simp: entry_finish_def intro: extends_snoc split: if_splits)

lemma drift_check_extends:
  assumes "extends (ep_order_id ep) cs0 (es_calls st)"
  shows "case drift_check ep w st of Inl st' \<Rightarrow> extends (ep_order_id ep) cs0 (es_calls st') | Inr (r, cs) \<Rightarrow> extends (ep_order_id ep) cs0 cs"
  using assms by (auto simp: drift_check_def Let_def intro: extends_snoc split: option.split)

lemma entry_loop_extends:
  assumes "entry_loop ep w polls st = Some (r, cs, w', rest)" and "extends (ep_order_id ep) cs0 (es_calls st)"
  shows "extends (ep_order_id ep) cs0 cs"
  using assms
proof (induction polls arbitrary: w st)
  case Nil
  then show ?case
    by (subst (asm) entry_loop.simps) (auto dest: entry_finish_extends split: if_splits prod.splits)
next
  case (Cons q qs)
  show ?case
  proof (cases "ep_deadline_ms ep \<le> w_now_ms w")
    case True
    with Cons.prems show ?thesis
      by (subst (asm) entry_loop.simps) (auto dest: entry_finish_extends split: prod.splits)
  next
    case False
    note step = Cons.prems(1) [unfolded entry_loop.simps [of ep w "q # qs"]]
    show ?thesis
    proof (cases "po_resp q")
      case XFail
      with step False Cons.prems(2) show ?thesis
        by (auto simp: Let_def dest: entry_finish_extends split: prod.splits)
    next
      case XEmpty
      with step False drift_check_extends [OF Cons.prems(2), of "po_env q w"] Cons.IH show ?thesis
        by (auto simp: Let_def split: sum.splits prod.splits)
    next
      case (XEvents es)
      show ?thesis
      proof (cases "entry_events (ep_order_id ep) (ep_qty ep) (ep_submit_price ep) (w_now_ms (po_env q w)) es st")
        case (Inr r')
        with step False XEvents Cons.prems(2) show ?thesis by (simp add: Let_def)
      next
        case (Inl st')
        then have e: "extends (ep_order_id ep) cs0 (es_calls st')" using Cons.prems(2) entry_events_calls by simp
        then have e2: "extends (ep_order_id ep) cs0 (es_calls st' @ [CancelCall (ep_order_id ep)])" by (simp add: extends_snoc)
        show ?thesis
          using step False XEvents Inl e e2 Cons.IH [of "po_env q w" st']
            entry_finish_extends [of ep "po_env q w" st' r cs cs0]
            entry_finish_extends [of ep "po_env q w" "st'\<lparr>es_calls := es_calls st' @ [CancelCall (ep_order_id ep)]\<rparr>" r cs cs0]
          by (auto simp: Let_def split: if_splits prod.splits option.splits)
      qed
    qed
  qed
qed

lemma wire_targets:
  "list_all (targets oid) later \<Longrightarrow> \<forall>q \<in> set (concat (map (wire tr tok) later)). names_order oid q"
proof (induction later)
  case (Cons c later)
  then show ?case by (cases c) (auto simp: wire_change names_order_def)
qed simp

section \<open>Properties\<close>


definition accepting :: transport where
  "accepting q = Inr (200, JObj [(''status'', JStr ''success''), (''data'', JObj [(''order_ids'', JList [JStr ''o1''])])], [])"

lemma accepting_places: "0 < rq_quantity req \<Longrightarrow> upstox_broker show_error accepting tok calls req = Placed (Some ''o1'')"
  by (simp add: upstox_broker_def engine_order_place call_def reply_envelope_def accepting_def body_ok_def placed_data_def
      order_ids_def latency_def py_list_def env_ok_def place_answer_def)


end
