(* ===== verification/HealthEngine.thy ===== *)
theory HealthEngine
  imports BootGate
begin

text \<open>
  \<open>engines/health/{probes,main}.py\<close>: the probes as functions of what they read, and the cycle that
  publishes them.  A probe's input is the answer or the text of the exception it catches.  The result
  hashes are kept by field; the summary, the alerts and the summary of the last completed cycle are
  the state of the loop.
\<close>

section \<open>Health engine\<close>

datatype status = Green | Yellow | Red

type_synonym probe_result = "status \<times> string"

definition probe_flag :: "string + bool \<Rightarrow> string \<Rightarrow> string \<Rightarrow> probe_result" where
  "probe_flag answer bad failed =
     (case answer of Inl e \<Rightarrow> (Red, failed @ '':'' @ e) | Inr b \<Rightarrow> if b then (Green, ''ok'') else (Red, bad))"

definition probe_redis :: "string + bool \<Rightarrow> probe_result" where
  "probe_redis pong = probe_flag pong ''no_pong'' ''ping_failed''"

definition probe_postgres :: "bool \<Rightarrow> string + bool \<Rightarrow> probe_result" where
  "probe_postgres has_pool row = (if \<not> has_pool then (Red, ''no_pool'') else probe_flag row ''unexpected_row'' ''select_failed'')"

text \<open>The call raises, answers an error, or succeeds.\<close>

definition probe_broker_rest :: "string + (string option + unit) \<Rightarrow> probe_result" where
  "probe_broker_rest res =
     (case res of
        Inl e \<Rightarrow> (Red, ''raised:'' @ e)
      | Inr (Inr _) \<Rightarrow> (Green, ''ok'')
      | Inr (Inl e) \<Rightarrow> (Yellow, str_or e ''rest_error''))"

definition WS_RED_AFTER_SEC :: rat where
  "WS_RED_AFTER_SEC = 30"

definition probe_broker_ws :: "int \<Rightarrow> (string \<times> string) list \<Rightarrow> pyexc + probe_result" where
  "probe_broker_ws now fields_read =
     (if fields_read = [] then Inr (Red, ''no_ws_status'')
      else
        let ts = str_or (map_of fields_read ''ts_ms'') ''0''
        in case int_of_str ts of
             None \<Rightarrow> Inl ValueError
           | Some last_ts \<Rightarrow>
               if last_ts = 0 then Inr (Red, ''no_ts'')
               else
                 let age = of_int (now - last_ts) / 1000; st = decode (map_of fields_read ''state'')
                 in Inr (if py_lower st \<in> {''disconnected'', ''down'', ''error''} then (Red, ''state='' @ st)
                         else if WS_RED_AFTER_SEC < age then (Red, ''stale:'' @ fmt_fixed 1 age @ ''s'')
                         else if WS_RED_AFTER_SEC / 2 < age then (Yellow, ''stale:'' @ fmt_fixed 1 age @ ''s'')
                         else (Green, ''state='' @ st @ '';age='' @ fmt_fixed 1 age @ ''s'')))"

definition probe_system_load :: "string + rat \<Rightarrow> nat option \<Rightarrow> probe_result" where
  "probe_system_load load1 cpu_count =
     (case load1 of
        Inl e \<Rightarrow> (Red, ''loadavg_failed:'' @ e)
      | Inr l \<Rightarrow>
          let cpus = (case cpu_count of Some (Suc n) \<Rightarrow> Suc n | _ \<Rightarrow> 1); norm = l / of_nat cpus;
              detail = ''load1='' @ fmt_fixed 2 l @ ''/'' @ str_int (int cpus)
          in (if 0.95 \<le> norm then Red else if 0.75 \<le> norm then Yellow else Green, detail))"

definition probe_swap :: "string + rat \<Rightarrow> probe_result" where
  "probe_swap pct =
     (case pct of
        Inl e \<Rightarrow> (Red, ''swap_read_failed:'' @ e)
      | Inr p \<Rightarrow>
          let detail = ''swap='' @ fmt_fixed 1 p @ ''%''
          in (if 80 \<le> p then Red else if 50 \<le> p then Yellow else Green, detail))"

definition probe_engine :: "int \<Rightarrow> string \<Rightarrow> probe_result" where
  "probe_engine now ts =
     (case int_of_str ts of
        None \<Rightarrow> (Red, ''bad_ts'')
      | Some t \<Rightarrow>
          let age = of_int (now - t) / 1000
          in if (30 :: rat) < age then (Red, ''stale:'' @ fmt_fixed 1 age @ ''s'')
             else if 15 < age then (Yellow, ''stale:'' @ fmt_fixed 1 age @ ''s'')
             else (Green, ''age:'' @ fmt_fixed 1 age @ ''s''))"

definition probe_engines :: "int \<Rightarrow> (string \<times> string) list \<Rightarrow> (string \<times> probe_result) list" where
  "probe_engines now heartbeats = map (\<lambda>(k, v). (k, probe_engine now v)) heartbeats"

definition aggregate_status :: "probe_result list \<Rightarrow> status" where
  "aggregate_status parts =
     (let levels = fst ` set parts
      in if Red \<in> levels then Red else if Yellow \<in> levels then Yellow else if Green \<in> levels then Green else Red)"

section \<open>The cycle\<close>

record probe_input =
  pi_now :: int
  pi_ping :: "string + bool"
  pi_has_pool :: bool
  pi_select :: "string + bool"
  pi_ws :: "(string \<times> string) list"
  pi_rest :: "string + (string option + unit)"
  pi_load :: "string + rat"
  pi_cpus :: "nat option"
  pi_swap :: "string + rat"
  pi_beats :: "(string \<times> string) list"

text \<open>\<open>_run_probes\<close>; only the socket probe can raise.\<close>

definition run_probes :: "probe_input \<Rightarrow> pyexc + (string \<times> probe_result) list" where
  "run_probes i =
     and_then (probe_broker_ws (pi_now i) (pi_ws i)) (\<lambda>ws.
       Inr [(''redis'', probe_redis (pi_ping i)), (''postgres'', probe_postgres (pi_has_pool i) (pi_select i)),
            (''broker_rest'', probe_broker_rest (pi_rest i)), (''broker_ws'', ws),
            (''system_load'', probe_system_load (pi_load i) (pi_cpus i)), (''swap'', probe_swap (pi_swap i))])"

record health_state =
  he_deps :: "(string \<times> probe_result) list"
  he_engines :: "(string \<times> probe_result) list"
  he_summary :: "(status \<times> int) option"
  he_alerts :: "string list"
  he_prev :: "status option"

definition red_reasons :: "(string \<times> probe_result) list \<Rightarrow> string" where
  "red_reasons parts =
     take 500 (join_on (CHR '';'')
       (map (\<lambda>(k, st, detail). k @ ''=red('' @ detail @ '')'') (filter (\<lambda>(_, st, _). st = Red) parts)))"

abbreviation hset_all :: "(string \<times> 'v) list \<Rightarrow> (string \<times> 'v) list \<Rightarrow> (string \<times> 'v) list" where
  "hset_all h kvs \<equiv> foldl (\<lambda>h (k, v). dict_set k v h) h kvs"

text \<open>\<open>_publish_results\<close>; its result is the summary that the next cycle sees.\<close>

definition publish_results :: "int \<Rightarrow> (string \<times> probe_result) list \<Rightarrow> (string \<times> probe_result) list \<Rightarrow> health_state \<Rightarrow> health_state" where
  "publish_results now deps engines h =
     (let s = aggregate_status (map snd deps @ map snd engines)
      in h\<lparr>he_deps := hset_all (he_deps h) deps, he_engines := hset_all (he_engines h) engines,
           he_summary := Some (s, now),
           he_alerts := (if s = Red \<and> he_prev h \<noteq> Some Red then he_alerts h @ [red_reasons (hset_all deps engines)]
                         else he_alerts h),
           he_prev := Some s\<rparr>)"

text \<open>One cycle: the engine's own heartbeat, the probes, the results; an exception skips the rest.\<close>

definition health_cycle :: "probe_input \<Rightarrow> health_state \<Rightarrow> health_state" where
  "health_cycle i h =
     (let beats = dict_set ''health'' (str_int (pi_now i)) (pi_beats i)
      in case run_probes i of
           Inl _ \<Rightarrow> h
         | Inr deps \<Rightarrow> publish_results (pi_now i) deps (probe_engines (pi_now i) beats) h)"

definition health_run :: "probe_input list \<Rightarrow> health_state \<Rightarrow> health_state" where
  "health_run is h = foldl (\<lambda>h i. health_cycle i h) h is"

definition health_start :: health_state where
  "health_start = \<lparr>he_deps = [], he_engines = [], he_summary = None, he_alerts = [], he_prev = None\<rparr>"

text \<open>The status hash the pipeline writes, as the text fields a reader gets.\<close>

definition ws_fields :: "ws_status \<Rightarrow> (string \<times> string) list" where
  "ws_fields w =
     (case ws_connected_flag w of None \<Rightarrow> [] | Some b \<Rightarrow> [(''connected'', if b then ''true'' else ''false'')]) @
     (case ws_last_frame_ts w of None \<Rightarrow> [] | Some t \<Rightarrow> [(''last_frame_ts'', str_int t)]) @
     (case ws_reconnect_count w of None \<Rightarrow> [] | Some n \<Rightarrow> [(''reconnect_count'', str_int n)])"

section \<open>Severity\<close>

primrec severity :: "status \<Rightarrow> nat" where
  "severity Green = 0"
| "severity Yellow = 1"
| "severity Red = 2"

instantiation status :: linorder
begin

definition less_eq_status :: "status \<Rightarrow> status \<Rightarrow> bool" where
  "a \<le> b \<longleftrightarrow> severity a \<le> severity b"

definition less_status :: "status \<Rightarrow> status \<Rightarrow> bool" where
  "a < b \<longleftrightarrow> severity a < severity b"

instance
proof
  fix a b :: status
  show "a \<le> b \<Longrightarrow> b \<le> a \<Longrightarrow> a = b" by (cases a; cases b) (simp_all add: less_eq_status_def)
qed (auto simp: less_eq_status_def less_status_def)

end

text \<open>The summary is the worst of its parts, and red without any part.\<close>

lemma status_top: "s \<le> Red" "Red \<le> s \<longleftrightarrow> s = Red" "Green \<le> s"
  by (cases s; simp add: less_eq_status_def)+

lemma aggregate_is_worst: "parts \<noteq> [] \<Longrightarrow> aggregate_status parts = Max (fst ` set parts)"
proof -
  assume ne: "parts \<noteq> []"
  have "aggregate_status parts \<in> fst ` set parts"
  proof -
    obtain p ps where p: "parts = p # ps" using ne by (cases parts) auto
    then have "fst p \<in> fst ` set parts" by simp
    then show ?thesis by (cases "fst p") (auto simp: aggregate_status_def Let_def)
  qed
  moreover have "s \<le> aggregate_status parts" if "s \<in> fst ` set parts" for s
    using that by (cases s) (auto simp: aggregate_status_def Let_def less_eq_status_def)
  ultimately show ?thesis by (intro Max_eqI [symmetric]) auto
qed

section \<open>Lemmas\<close>

lemma aggregate_worst:
  "aggregate_status parts = Red \<longleftrightarrow> parts = [] \<or> (\<exists>p \<in> set parts. fst p = Red)"
proof (cases parts)
  case (Cons p ps)
  have e: "(\<exists>p \<in> set parts. fst p = Red) \<longleftrightarrow> Red \<in> fst ` set parts" by (metis image_iff)
  have "fst p \<in> fst ` set parts" by (simp add: Cons)
  then show ?thesis unfolding e using Cons by (cases "fst p") (simp_all add: aggregate_status_def Let_def)
qed (simp add: aggregate_status_def)

subsection \<open>Alerts\<close>

text \<open>The summary a cycle publishes, when it completes.\<close>

definition cycle_status :: "probe_input \<Rightarrow> status option" where
  "cycle_status i =
     (case run_probes i of
        Inl _ \<Rightarrow> None
      | Inr deps \<Rightarrow>
          Some (aggregate_status (map snd deps @
                  map snd (probe_engines (pi_now i) (dict_set ''health'' (str_int (pi_now i)) (pi_beats i))))))"

definition statuses :: "probe_input list \<Rightarrow> status list" where
  "statuses is = somes (map cycle_status is)"

lemma cycle_effect:
  "he_prev (health_cycle i h) = (case cycle_status i of None \<Rightarrow> he_prev h | Some s \<Rightarrow> Some s)"
  "map_option fst (he_summary (health_cycle i h)) =
     (case cycle_status i of None \<Rightarrow> map_option fst (he_summary h) | Some s \<Rightarrow> Some s)"
  "length (he_alerts (health_cycle i h)) =
     length (he_alerts h) + (if cycle_status i = Some Red \<and> he_prev h \<noteq> Some Red then 1 else 0)"
  by (simp_all add: health_cycle_def cycle_status_def publish_results_def Let_def split: sum.split)

text \<open>Entries into red, after a given status.\<close>

fun red_entries :: "status option \<Rightarrow> status list \<Rightarrow> nat" where
  "red_entries prev [] = 0"
| "red_entries prev (s # ss) = (if s = Red \<and> prev \<noteq> Some Red then 1 else 0) + red_entries (Some s) ss"

lemma run_effect:
  "length (he_alerts (health_run is h)) = length (he_alerts h) + red_entries (he_prev h) (statuses is) \<and>
   he_prev (health_run is h) = (if statuses is = [] then he_prev h else Some (List.last (statuses is)))"
proof (induction "is" arbitrary: h)
  case (Cons i js)
  have "health_run (i # js) h = health_run js (health_cycle i h)" by (simp add: health_run_def)
  then show ?case
    using Cons.IH [of "health_cycle i h"] by (cases "cycle_status i") (simp_all add: cycle_effect statuses_def somes_def)
qed (simp add: health_run_def statuses_def somes_def)

lemma summary_is_prev:
  "map_option fst (he_summary h) = he_prev h \<Longrightarrow> map_option fst (he_summary (health_run is h)) = he_prev (health_run is h)"
proof (induction "is" arbitrary: h)
  case (Cons i js)
  have "map_option fst (he_summary (health_cycle i h)) = he_prev (health_cycle i h)"
    using Cons.prems by (simp add: cycle_effect split: option.split)
  then show ?case using Cons.IH by (simp add: health_run_def)
qed (simp add: health_run_def)

text \<open>The entries into red are the red blocks.\<close>

lemma red_entries_blocks:
  "red_entries (Some x) ss + (if x = Red then 1 else 0) = length (filter (\<lambda>s. s = Red) (remdups_adj (x # ss)))"
proof (induction ss arbitrary: x)
  case (Cons y ss)
  show ?case using Cons.IH [of x] Cons.IH [of y] by (cases "x = y"; cases "y = Red") auto
qed simp

lemma red_blocks: "red_entries None ss = length (filter (\<lambda>s. s = Red) (remdups_adj ss))"
  using red_entries_blocks by (cases ss) (auto simp: add.commute)

text \<open>An engine is red once its last heartbeat is more than thirty seconds old, and then so is the summary.\<close>

lemma silent_engine_red:
  assumes "(name, str_int t) \<in> set (dict_set ''health'' (str_int (pi_now i)) (pi_beats i))" and "t + 30000 < pi_now i"
    and "cycle_status i = Some s"
  shows "s = Red"
proof -
  have "(30 :: rat) < of_int (pi_now i - t) / 1000" using assms(2) by (simp add: field_simps)
  then have "fst (probe_engine (pi_now i) (str_int t)) = Red" by (simp add: probe_engine_def Let_def)
  moreover have "(name, probe_engine (pi_now i) (str_int t)) \<in>
      set (probe_engines (pi_now i) (dict_set ''health'' (str_int (pi_now i)) (pi_beats i)))"
    using assms(1) by (force simp: probe_engines_def)
  ultimately have "\<exists>p \<in> set (map snd (probe_engines (pi_now i) (dict_set ''health'' (str_int (pi_now i)) (pi_beats i)))). fst p = Red"
    by force
  then have "\<exists>p \<in> set (ds @ map snd (probe_engines (pi_now i) (dict_set ''health'' (str_int (pi_now i)) (pi_beats i)))). fst p = Red"
    for ds by auto
  moreover obtain deps where "run_probes i = Inr deps" using assms(3) by (auto simp: cycle_status_def split: sum.splits)
  then have "s = aggregate_status (map snd deps @
      map snd (probe_engines (pi_now i) (dict_set ''health'' (str_int (pi_now i)) (pi_beats i))))"
    using assms(3) by (simp add: cycle_status_def)
  ultimately show ?thesis using aggregate_worst by blast
qed

text \<open>The health summary can never leave red.  The socket probe looks for the fields
  \<open>ts_ms\<close> and \<open>state\<close>, which the data pipeline never writes, so whatever the pipeline reports
  about its socket the probe answers red, every cycle is red, and only the first one alerts.\<close>

lemma pipeline_socket_red:
  "probe_broker_ws now (ws_fields (md_ws (update_ws_status up last_frame reconnects m))) = Inr (Red, ''no_ts'')"
proof -
  let ?f = "ws_fields (md_ws (update_ws_status up last_frame reconnects m))"
  have "?f \<noteq> []" "map_of ?f ''ts_ms'' = None"
    by (simp_all add: ws_fields_def update_ws_status_def split: option.split)
  then show ?thesis by (simp add: probe_broker_ws_def str_or_def int_of_str_def char_digit_def Let_def)
qed

theorem health_summary_always_red:
  assumes "pi_ws i = ws_fields (md_ws (update_ws_status up last_frame reconnects m))"
  shows "cycle_status i = Some Red"
  using assms pipeline_socket_red
  by (auto simp: cycle_status_def run_probes_def aggregate_worst)

section \<open>Properties\<close>

text \<open>Claim C22.  The health engine raises one alert per outage.  Whatever the probes read, and however many
  cycles fail half way, the published summary is that of the last completed cycle, each summary is the
  worst status of its parts, and the number of alerts is the number of blocks of consecutive red
  summaries.\<close>

theorem one_alert_per_outage:
  "length (he_alerts (health_run is health_start)) = length (filter (\<lambda>s. s = Red) (remdups_adj (statuses is))) \<and>
   map_option fst (he_summary (health_run is health_start)) =
     (if statuses is = [] then None else Some (List.last (statuses is))) \<and>
   (\<forall>i s. cycle_status i = Some s \<longrightarrow>
      (\<exists>deps. run_probes i = Inr deps \<and>
         s = Max (fst ` set (map snd deps @ map snd (probe_engines (pi_now i) (dict_set ''health'' (str_int (pi_now i)) (pi_beats i)))))))"
proof -
  have "s = Max (fst ` set (map snd deps @ map snd (probe_engines (pi_now i) (dict_set ''health'' (str_int (pi_now i)) (pi_beats i)))))"
    if "cycle_status i = Some s" "run_probes i = Inr deps" for i s deps
  proof -
    have "deps \<noteq> []" using that(2) by (auto simp: run_probes_def and_then_Inr)
    then show ?thesis using that aggregate_is_worst by (simp add: cycle_status_def)
  qed
  moreover have "cycle_status i = Some s \<Longrightarrow> \<exists>deps. run_probes i = Inr deps" for i s
    by (auto simp: cycle_status_def split: sum.splits)
  moreover have "map_option fst (he_summary (health_run is health_start)) = he_prev (health_run is health_start)"
    by (rule summary_is_prev) (simp add: health_start_def)
  ultimately show ?thesis
    using run_effect [of "is" health_start] by (simp add: red_blocks health_start_def) blast
qed

definition sample_probe :: probe_input where
  "sample_probe = \<lparr>pi_now = 100000, pi_ping = Inr True, pi_has_pool = True, pi_select = Inr True, pi_ws = [],
     pi_rest = Inr (Inr ()), pi_load = Inr 0.5, pi_cpus = Some 4, pi_swap = Inr 1, pi_beats = []\<rparr>"

lemma sample_probe_red: "cycle_status sample_probe = Some Red"
  by (auto simp: cycle_status_def run_probes_def sample_probe_def probe_broker_ws_def aggregate_worst)

theorem one_alert_per_outage_witness:
  "length (he_alerts (health_run [sample_probe, sample_probe] health_start)) = 1 \<and>
   (\<exists>deps. run_probes sample_probe = Inr deps)"
proof -
  have s: "statuses [sample_probe, sample_probe] = [Red, Red]" by (simp add: statuses_def sample_probe_red somes_def)
  note T = one_alert_per_outage [of "[sample_probe, sample_probe]", unfolded s]
  have "\<exists>deps. run_probes sample_probe = Inr deps" using T sample_probe_red by blast
  moreover have "length (he_alerts (health_run [sample_probe, sample_probe] health_start)) = 1" using conjunct1 [OF T] by simp
  ultimately show ?thesis by blast
qed

end
