(* ===== verification/BrokerReads.thy ===== *)
theory BrokerReads
  imports BrokerHttp BasketBuilder
begin

text \<open>
  The other endpoints of \<open>brokers/upstox\<close> on the request layer of BrokerHttp: account, funds,
  positions, static addresses, kill switch, market status, quotes, option chain and contracts, charges,
  candles, the token endpoints of \<open>auth.py\<close>, and the per-second counters of \<open>rate_limiter.py\<close>.
  A body sent as JSON text or as a form is kept by its decoded value.  Timeouts and URL overrides are
  left out.  \<open>show\<close> is the text Python's \<open>str\<close> gives a value that is neither a text nor an integer.
\<close>

section \<open>Account\<close>

definition PROFILE_URL :: string where "PROFILE_URL = ''https://api.upstox.com/v2/user/profile''"
definition CAPITAL_URL :: string where "CAPITAL_URL = ''https://api.upstox.com/v3/user/get-funds-and-margin''"
definition POSITIONS_URL :: string where "POSITIONS_URL = ''https://api.upstox.com/v2/portfolio/short-term-positions''"
definition KILL_SWITCH_URL :: string where "KILL_SWITCH_URL = ''https://api.upstox.com/v2/user/kill-switch''"
definition STATIC_IPS_URL :: string where "STATIC_IPS_URL = ''https://api.upstox.com/v2/user/ip''"

definition data_of :: "json \<Rightarrow> pyexc + json" where
  "data_of parsed = jget parsed ''data''"

definition send_json :: "string \<Rightarrow> string \<Rightarrow> (string \<times> string) list \<Rightarrow> json \<Rightarrow> http_request" where
  "send_json verb url headers body =
     \<lparr>hq_method = verb, hq_url = url, hq_headers = headers, hq_params = [], hq_json = Some body\<rparr>"

definition get_profile :: "transport \<Rightarrow> string \<Rightarrow> api_result" where
  "get_profile tr tok = call tr (get_request PROFILE_URL (bearer_headers tok 2 None) []) data_of"

text \<open>The funds endpoint answers 423 during the broker's maintenance window.\<close>

definition get_capital :: "transport \<Rightarrow> string \<Rightarrow> api_result" where
  "get_capital tr tok =
     (let q = get_request CAPITAL_URL (bearer_headers tok 3 None) []
      in ([q], case tr q of
                 Inr (code, _, _) \<Rightarrow>
                   if code = 423 then Inr (env_fail (ApiToken ''MAINTENANCE_WINDOW'') (Some 423) JNull)
                   else reply_envelope data_of (tr q)
               | Inl _ \<Rightarrow> reply_envelope data_of (tr q)))"

definition get_positions :: "transport \<Rightarrow> string \<Rightarrow> api_result" where
  "get_positions tr tok = call tr (get_request POSITIONS_URL (bearer_headers tok 2 None) []) (data_or (JList []))"

definition get_kill_switch_status :: "transport \<Rightarrow> string \<Rightarrow> api_result" where
  "get_kill_switch_status tr tok = call tr (get_request KILL_SWITCH_URL (bearer_json tok 2) []) (data_or (JList []))"

definition set_kill_switch :: "transport \<Rightarrow> json list \<Rightarrow> string \<Rightarrow> api_result" where
  "set_kill_switch tr toggles tok =
     call tr (send_json ''POST'' KILL_SWITCH_URL (bearer_json tok 2) (JList toggles)) (data_or (JList []))"

definition get_static_ips :: "transport \<Rightarrow> string \<Rightarrow> api_result" where
  "get_static_ips tr tok = call tr (get_request STATIC_IPS_URL (bearer_json tok 2) []) data_of"

definition static_ips_data :: "json \<Rightarrow> pyexc + json" where
  "static_ips_data parsed =
     and_then (data_or (JObj []) parsed) (\<lambda>d.
     and_then (jget d ''primary_ip'') (\<lambda>p.
     and_then (jget d ''secondary_ip'') (\<lambda>s.
     and_then (jget d ''primary_ip_updated_at'') (\<lambda>pu.
     and_then (jget d ''secondary_ip_updated_at'') (\<lambda>su.
     and_then (jget_default d ''access_tokens_invalidated'' (JBool False)) (\<lambda>inv.
       Inr (JObj [(''primary_ip'', p), (''secondary_ip'', s), (''primary_ip_updated_at'', pu),
                  (''secondary_ip_updated_at'', su), (''tokens_invalidated'', JBool (truthy inv))])))))))"

definition update_static_ips :: "transport \<Rightarrow> string \<Rightarrow> string \<Rightarrow> string option \<Rightarrow> api_result" where
  "update_static_ips tr primary tok secondary =
     (let body = (''primary_ip'', JStr primary) #
                 (case secondary of None \<Rightarrow> [] | Some s \<Rightarrow> if s = [] then [] else [(''secondary_ip'', JStr s)])
      in call tr (send_json ''PUT'' STATIC_IPS_URL (bearer_json tok 2) (JObj body)) static_ips_data)"

section \<open>Market status\<close>

definition OPEN_STATUSES :: "string list" where "OPEN_STATUSES = [''NORMAL_OPEN'', ''SPECIAL_OPEN'']"
definition PRE_OPEN_STATUSES :: "string list" where "PRE_OPEN_STATUSES = [''PRE_OPEN_START'', ''PRE_OPEN_END'']"
definition CLOSED_STATUSES :: "string list" where "CLOSED_STATUSES = [''NORMAL_CLOSE'', ''SPECIAL_CLOSE'', ''CLOSING_END'']"

text \<open>The proleptic Gregorian date of a day count from 1970-01-01, and \<open>isoformat\<close> in IST.\<close>

definition civil_from_days :: "int \<Rightarrow> int \<times> int \<times> int" where
  "civil_from_days days =
     (let z = days + 719468; era = z div 146097; doe = z mod 146097;
          yoe = (doe - doe div 1460 + doe div 36524 - doe div 146096) div 365;
          doy = doe - (365 * yoe + yoe div 4 - yoe div 100); mp = (5 * doy + 2) div 153;
          d = doy - (153 * mp + 2) div 5 + 1; m = (if mp < 10 then mp + 3 else mp - 9)
      in (yoe + era * 400 + (if m \<le> 2 then 1 else 0), m, d))"

definition padded :: "nat \<Rightarrow> int \<Rightarrow> string" where
  "padded n i = (let s = digits_nat (nat i) in replicate (n - length s) (CHR ''0'') @ s)"

definition ist_iso_text :: "int \<Rightarrow> string option" where
  "ist_iso_text ms =
     (let local = ms div 1000 + 19800; secs = local mod 86400
      in case civil_from_days (local div 86400) of
           (y, m, d) \<Rightarrow>
             if y < 1 \<or> 9999 < y then None
             else Some (padded 4 y @ ''-'' @ padded 2 m @ ''-'' @ padded 2 d @ ''T'' @ padded 2 (secs div 3600) @ '':'' @
                        padded 2 (secs div 60 mod 60) @ '':'' @ padded 2 (secs mod 60) @ ''+05:30''))"

definition epoch_ms_to_ist :: "json \<Rightarrow> json" where
  "epoch_ms_to_ist v =
     (case v of
        JInt i \<Rightarrow> if i = 0 then JNull else (case ist_iso_text i of None \<Rightarrow> JNull | Some s \<Rightarrow> JStr s)
      | JBool b \<Rightarrow> if b then (case ist_iso_text 1 of None \<Rightarrow> JNull | Some s \<Rightarrow> JStr s) else JNull
      | JFloat (Fin r) \<Rightarrow>
          if r = 0 then JNull
          else (case ist_iso_text (round_half_even (r * 1000) div 1000) of None \<Rightarrow> JNull | Some s \<Rightarrow> JStr s)
      | _ \<Rightarrow> JNull)"

text \<open>Membership in a set of texts hashes the value: a list or dictionary raises.\<close>

definition status_in :: "json \<Rightarrow> string list \<Rightarrow> pyexc + bool" where
  "status_in v names =
     (case v of JStr s \<Rightarrow> Inr (s \<in> set names) | JList _ \<Rightarrow> Inl TypeError | JObj _ \<Rightarrow> Inl TypeError | _ \<Rightarrow> Inr False)"

definition normalize_status :: "json \<Rightarrow> pyexc + json" where
  "normalize_status d =
     and_then (py_or (jget d ''status'') (Inr (JStr []))) (\<lambda>status.
     and_then (jget d ''exchange'') (\<lambda>ex.
     and_then (status_in status OPEN_STATUSES) (\<lambda>op.
     and_then (status_in status PRE_OPEN_STATUSES) (\<lambda>pre.
     and_then (status_in status CLOSED_STATUSES) (\<lambda>cl.
     and_then (jget d ''last_updated'') (\<lambda>upd.
       Inr (JObj [(''exchange'', ex), (''status'', status), (''is_open'', JBool op), (''is_pre_open'', JBool pre),
                  (''is_closed'', JBool cl), (''last_updated_ist'', epoch_ms_to_ist upd),
                  (''last_updated_epoch_ms'', upd)])))))))"

definition get_market_status :: "transport \<Rightarrow> string \<Rightarrow> string \<Rightarrow> api_result" where
  "get_market_status tr exchange tok =
     call tr (get_request (''https://api.upstox.com/v2/market/status/'' @ exchange) (bearer_json tok 2) [])
       (\<lambda>parsed. and_then (data_or (JObj []) parsed) normalize_status)"

definition is_open :: "string option \<Rightarrow> bool" where
  "is_open status = (case status of None \<Rightarrow> False | Some s \<Rightarrow> s \<noteq> [] \<and> s \<in> set OPEN_STATUSES)"

definition is_pre_open :: "string option \<Rightarrow> bool" where
  "is_pre_open status = (case status of None \<Rightarrow> False | Some s \<Rightarrow> s \<noteq> [] \<and> s \<in> set PRE_OPEN_STATUSES)"

section \<open>Quotes\<close>

definition join_comma :: "string list \<Rightarrow> string" where
  "join_comma xs = (case xs of [] \<Rightarrow> [] | y # ys \<Rightarrow> y @ concat (map (\<lambda>s. '','' @ s) ys))"

text \<open>\<open>.items()\<close>, and \<open>d[k] = v\<close> on a result keyed by a JSON value (a text, or any other hashable).\<close>

definition items :: "json \<Rightarrow> pyexc + (string \<times> json) list" where
  "items v = (case v of JObj kvs \<Rightarrow> Inr kvs | _ \<Rightarrow> Inl AttributeError)"

definition hashable :: "json \<Rightarrow> bool" where
  "hashable v = (case v of JList _ \<Rightarrow> False | JObj _ \<Rightarrow> False | _ \<Rightarrow> True)"

text \<open>\<open>ltp > 0\<close> raises on anything but a number.\<close>

definition positive_num :: "json \<Rightarrow> pyexc + bool" where
  "positive_num v =
     (case v of
        JInt i \<Rightarrow> Inr (0 < i) | JBool b \<Rightarrow> Inr b
      | JFloat (Fin r) \<Rightarrow> Inr (0 < r) | JFloat (Infinity b) \<Rightarrow> Inr b | JFloat NaN \<Rightarrow> Inr False
      | _ \<Rightarrow> Inl TypeError)"

definition to_float :: "json \<Rightarrow> json" where
  "to_float v = (case py_float v of Some x \<Rightarrow> JFloat x | None \<Rightarrow> v)"

fun ltp_rows :: "(string \<times> json) list \<Rightarrow> (json \<times> json) list \<Rightarrow> pyexc + (json \<times> json) list" where
  "ltp_rows [] acc = Inr acc"
| "ltp_rows ((_, info) # rest) acc =
     (if \<not> truthy info then ltp_rows rest acc
      else
        and_then (jget_default info ''last_price'' (JFloat (Fin 0))) (\<lambda>ltp.
        and_then (jget info ''instrument_token'') (\<lambda>tok.
        and_then (if truthy ltp then positive_num ltp else Inr False) (\<lambda>pos.
          if \<not> pos \<or> \<not> truthy tok then ltp_rows rest acc
          else if \<not> hashable tok then Inl TypeError
          else ltp_rows rest (dict_set tok (to_float ltp) acc)))))"

fun greek_rows :: "(string \<times> json) list \<Rightarrow> (json \<times> json) list \<Rightarrow> pyexc + (json \<times> json) list" where
  "greek_rows [] acc = Inr acc"
| "greek_rows ((_, info) # rest) acc =
     and_then (jget (if truthy info then info else JObj []) ''instrument_token'') (\<lambda>tok.
       if \<not> truthy tok then greek_rows rest acc
       else if \<not> hashable tok then Inl TypeError
       else greek_rows rest (dict_set tok info acc))"

text \<open>A dictionary keyed by JSON values, as a list of pairs.\<close>

definition keyed :: "(json \<times> json) list \<Rightarrow> json" where
  "keyed kvs = JList (map (\<lambda>(k, v). JList [k, v]) kvs)"

definition MAX_LTP_KEYS :: nat where "MAX_LTP_KEYS = 500"
definition MAX_GREEK_KEYS :: nat where "MAX_GREEK_KEYS = 50"

definition get_ltp :: "transport \<Rightarrow> token list \<Rightarrow> string \<Rightarrow> api_result" where
  "get_ltp tr ks tok =
     (if ks = [] then ([], Inr (env_ok (keyed []) 0 JNull))
      else if MAX_LTP_KEYS < length ks then refuse ''too_many_keys'' (digits_nat (length ks))
      else call tr (get_request ''https://api.upstox.com/v3/market-quote/ltp'' (bearer_headers tok 3 None)
                      [(''instrument_key'', join_comma ks)])
             (\<lambda>parsed. and_then (data_or (JObj []) parsed) (\<lambda>d. and_then (items d) (\<lambda>kvs.
                        and_then (ltp_rows kvs []) (\<lambda>rows. Inr (keyed rows))))))"

definition get_option_greeks :: "transport \<Rightarrow> token list \<Rightarrow> string \<Rightarrow> api_result" where
  "get_option_greeks tr ks tok =
     (if ks = [] then ([], Inr (env_ok (keyed []) 0 JNull))
      else if MAX_GREEK_KEYS < length ks then refuse ''too_many_keys'' (digits_nat (length ks))
      else call tr (get_request ''https://api.upstox.com/v3/market-quote/option-greek'' (bearer_json tok 3)
                      [(''instrument_key'', join_comma ks)])
             (\<lambda>parsed. and_then (data_or (JObj []) parsed) (\<lambda>d. and_then (items d) (\<lambda>kvs.
                        and_then (greek_rows kvs []) (\<lambda>rows. Inr (keyed rows))))))"

section \<open>Option chain\<close>

text \<open>The sort key: a finite number or missing; the comparison with anything else raises.\<close>

definition number_of :: "json \<Rightarrow> pyexc + rat" where
  "number_of v =
     (case v of JInt i \<Rightarrow> Inr (of_int i) | JFloat (Fin r) \<Rightarrow> Inr r | JBool b \<Rightarrow> Inr (if b then 1 else 0) | _ \<Rightarrow> Inl TypeError)"

definition strike_key :: "json \<Rightarrow> pyexc + rat" where
  "strike_key row = and_then (py_or (jget row ''strike_price'') (Inr (JInt 0))) number_of"

fun map_res :: "('a \<Rightarrow> 'e + 'b) \<Rightarrow> 'a list \<Rightarrow> 'e + 'b list" where
  "map_res f [] = Inr []"
| "map_res f (x # xs) = and_then (f x) (\<lambda>y. and_then (map_res f xs) (\<lambda>ys. Inr (y # ys)))"

definition sort_by_strike :: "json list \<Rightarrow> pyexc + json list" where
  "sort_by_strike rows =
     and_then (map_res strike_key rows) (\<lambda>ks. Inr (map snd (sort_key fst (zip ks rows))))"

definition get_option_chain :: "transport \<Rightarrow> token \<Rightarrow> string \<Rightarrow> string \<Rightarrow> api_result" where
  "get_option_chain tr key expiry tok =
     call tr (get_request ''https://api.upstox.com/v2/option/chain'' (bearer_json tok 2)
                [(''instrument_key'', key), (''expiry_date'', expiry)])
       (\<lambda>parsed. and_then (data_or (JList []) parsed) (\<lambda>d. and_then (py_list d) (\<lambda>rows.
                  and_then (sort_by_strike rows) (\<lambda>sorted_rows. Inr (JList sorted_rows)))))"

text \<open>\<open>int(x.get("oi") or 0)\<close>.\<close>

definition int_of_json :: "json \<Rightarrow> pyexc + int" where
  "int_of_json v =
     (case v of
        JInt i \<Rightarrow> Inr i | JBool b \<Rightarrow> Inr (if b then 1 else 0)
      | JFloat (Fin r) \<Rightarrow> Inr (py_trunc r) | JFloat (Infinity _) \<Rightarrow> Inl OverflowError | JFloat NaN \<Rightarrow> Inl ValueError
      | JStr s \<Rightarrow> (case signed_int_text s of None \<Rightarrow> Inl ValueError | Some i \<Rightarrow> Inr i)
      | _ \<Rightarrow> Inl TypeError)"

definition side_data :: "string \<Rightarrow> json \<Rightarrow> pyexc + json" where
  "side_data leg row =
     and_then (py_or (jget row leg) (Inr (JObj []))) (\<lambda>s. py_or (jget s ''market_data'') (Inr (JObj [])))"

definition side_oi :: "json \<Rightarrow> pyexc + int" where
  "side_oi md = and_then (py_or (jget md ''oi'') (Inr (JInt 0))) int_of_json"

definition total_pcr :: "json list \<Rightarrow> pyexc + rat option" where
  "total_pcr chain =
     (if chain = [] then Inr None
      else
        and_then (map_res (\<lambda>row. and_then (side_data ''call_options'' row) (\<lambda>co.
                            and_then (side_data ''put_options'' row) (\<lambda>po.
                            and_then (side_oi co) (\<lambda>c. and_then (side_oi po) (\<lambda>p. Inr (c, p)))))) chain) (\<lambda>ois.
          let call = sum_list (map fst ois); put = sum_list (map snd ois)
          in Inr (if call \<le> 0 then None else Some (py_round 4 (of_int put / of_int call)))))"

text \<open>\<open>min(range(len(chain)), key=...)\<close> keeps the first index of the least distance.\<close>

fun first_min_index :: "nat \<Rightarrow> nat \<Rightarrow> rat \<Rightarrow> rat list \<Rightarrow> nat" where
  "first_min_index i best d [] = best"
| "first_min_index i best d (x # xs) =
     (if x < d then first_min_index (Suc i) i x xs else first_min_index (Suc i) best d xs)"

definition nearest_index :: "rat \<Rightarrow> rat list \<Rightarrow> nat" where
  "nearest_index spot ks =
     (case map (\<lambda>k. \<bar>k - spot\<bar>) ks of [] \<Rightarrow> 0 | d # ds \<Rightarrow> first_min_index 1 0 d ds)"

definition slice_around :: "nat \<Rightarrow> nat \<Rightarrow> 'a list \<Rightarrow> 'a list" where
  "slice_around mid n xs = (let lo = mid - n; hi = min (length xs) (mid + n + 1) in take (hi - lo) (drop lo xs))"

definition strikes_around_atm :: "json list \<Rightarrow> rat option \<Rightarrow> nat \<Rightarrow> pyexc + json list" where
  "strikes_around_atm chain spot n =
     (case chain of
        [] \<Rightarrow> Inr []
      | row # _ \<Rightarrow>
          and_then (case spot of Some s \<Rightarrow> Inr (Some s)
                    | None \<Rightarrow> and_then (jget row ''underlying_spot_price'') (\<lambda>v.
                                if v = JNull then Inr None else and_then (number_of v) (Inr \<circ> Some))) (\<lambda>s.
            case s of
              None \<Rightarrow> Inr []
            | Some sp \<Rightarrow>
                and_then (map_res strike_key chain) (\<lambda>ks. Inr (slice_around (nearest_index sp ks) n chain))))"

section \<open>Option contracts\<close>

definition get_option_contracts :: "transport \<Rightarrow> token \<Rightarrow> string \<Rightarrow> string option \<Rightarrow> api_result" where
  "get_option_contracts tr key tok expiry =
     call tr (get_request ''https://api.upstox.com/v2/option/contract'' (bearer_json tok 2)
                ((''instrument_key'', key) #
                 (case expiry of None \<Rightarrow> [] | Some e \<Rightarrow> if e = [] then [] else [(''expiry_date'', e)])))
       (\<lambda>parsed. jget_default parsed ''data'' (JList []))"

definition py_str :: "(json \<Rightarrow> string) \<Rightarrow> json \<Rightarrow> string" where
  "py_str show_value v = (case v of JStr s \<Rightarrow> s | JInt i \<Rightarrow> str_int i | _ \<Rightarrow> show_value v)"

definition expiries_for :: "(json \<Rightarrow> string) \<Rightarrow> json list \<Rightarrow> pyexc + string list" where
  "expiries_for show_value contracts =
     and_then (map_res (\<lambda>c. jget c ''expiry'') contracts) (\<lambda>es.
       Inr (sort (remdups (map (py_str show_value) (filter truthy es)))))"

definition days_in_month :: "int \<Rightarrow> int \<Rightarrow> int" where
  "days_in_month y m =
     (if m = 2 then (if y mod 4 = 0 \<and> (y mod 100 \<noteq> 0 \<or> y mod 400 = 0) then 29 else 28)
      else if m \<in> {4, 6, 9, 11} then 30 else 31)"

text \<open>\<open>datetime.strptime(s, "%Y-%m-%d").date()\<close>; \<open>None\<close> is the ValueError.\<close>

definition strptime_ymd :: "string \<Rightarrow> (int \<times> int \<times> int) option" where
  "strptime_ymd s =
     (case split_on (CHR ''-'') s of
        [ys, ms, ds] \<Rightarrow>
          if length ys \<noteq> 4 \<or> length ms \<notin> {1, 2} \<or> length ds \<notin> {1, 2} then None
          else (case (parse_digits 0 ys, parse_digits 0 ms, parse_digits 0 ds) of
                  (Some y, Some m, Some d) \<Rightarrow>
                    if 1 \<le> y \<and> m \<in> {1..12} \<and> 1 \<le> d \<and> int d \<le> days_in_month (int y) (int m)
                    then Some (int y, int m, int d) else None
                | _ \<Rightarrow> None)
      | _ \<Rightarrow> None)"

definition date_le :: "int \<times> int \<times> int \<Rightarrow> int \<times> int \<times> int \<Rightarrow> bool" where
  "date_le a b \<longleftrightarrow>
     (case (a, b) of ((y1, m1, d1), (y2, m2, d2)) \<Rightarrow> y1 < y2 \<or> y1 = y2 \<and> (m1 < m2 \<or> m1 = m2 \<and> d1 \<le> d2))"

definition nearest_expiry :: "(json \<Rightarrow> string) \<Rightarrow> json list \<Rightarrow> int \<times> int \<times> int \<Rightarrow> pyexc + string option" where
  "nearest_expiry show_value contracts today =
     (if contracts = [] then Inr None
      else and_then (expiries_for show_value contracts) (\<lambda>es.
             case filter (\<lambda>e. case strptime_ymd e of None \<Rightarrow> False | Some d \<Rightarrow> date_le today d) es of
               [] \<Rightarrow> Inr None
             | e # _ \<Rightarrow> Inr (Some e)))"

definition strikes_for :: "json list \<Rightarrow> string \<Rightarrow> string \<Rightarrow> pyexc + json list" where
  "strikes_for contracts expiry itype =
     and_then (map_res (\<lambda>c. and_then (jget c ''expiry'') (\<lambda>e. and_then (jget c ''instrument_type'') (\<lambda>t.
                         Inr (e = JStr expiry \<and> t = JStr itype, c)))) contracts) (\<lambda>cs.
       sort_by_strike (map snd (filter fst cs)))"

section \<open>Charges and candles\<close>

text \<open>\<open>get_brokerage\<close>: the shown price is its text in the query.\<close>

definition charges_data :: "int \<Rightarrow> money \<Rightarrow> json \<Rightarrow> pyexc + json" where
  "charges_data qty price parsed =
     and_then (data_or (JObj []) parsed) (\<lambda>d.
     and_then (py_or (jget d ''charges'') (Inr (JObj []))) (\<lambda>charges.
     and_then (py_or (jget charges ''total'') (Inr (JFloat (Fin 0)))) (\<lambda>tv.
       case py_float tv of
         None \<Rightarrow> Inl (case tv of JStr _ \<Rightarrow> ValueError | _ \<Rightarrow> TypeError)
       | Some (Fin charged) \<Rightarrow>
           let gross = of_int qty * price
           in Inr (JObj [(''charges'', charges), (''gross'', JFloat (Fin (py_round 4 gross))),
                         (''total'', JFloat (Fin (py_round 4 charged))),
                         (''net_value'', JFloat (Fin (py_round 4 (gross - charged))))])
       | Some NaN \<Rightarrow>
           Inr (JObj [(''charges'', charges), (''gross'', JFloat (Fin (py_round 4 (of_int qty * price)))),
                      (''total'', JFloat NaN), (''net_value'', JFloat NaN)])
       | Some (Infinity b) \<Rightarrow>
           Inr (JObj [(''charges'', charges), (''gross'', JFloat (Fin (py_round 4 (of_int qty * price)))),
                      (''total'', JFloat (Infinity b)), (''net_value'', JFloat (Infinity (\<not> b)))]))))"

definition get_brokerage ::
  "(money \<Rightarrow> string) \<Rightarrow> transport \<Rightarrow> token \<Rightarrow> int \<Rightarrow> string \<Rightarrow> string \<Rightarrow> money \<Rightarrow> string \<Rightarrow> api_result" where
  "get_brokerage show_price tr key qty product txn price tok =
     (if qty \<le> 0 \<or> price \<le> 0 then refuse ''invalid_qty_or_price'' (str_int qty @ '','' @ show_price price)
      else if product \<notin> {''D'', ''I'', ''MTF''} then refuse ''invalid_product'' product
      else if txn \<notin> {''BUY'', ''SELL''} then refuse ''invalid_transaction_type'' txn
      else call tr (get_request ''https://api.upstox.com/v2/charges/brokerage'' (bearer_json tok 2)
             [(''instrument_token'', key), (''quantity'', str_int qty), (''product'', product),
              (''transaction_type'', txn), (''price'', show_price price)]) (charges_data qty price))"

definition VALID_UNITS :: "string list" where
  "VALID_UNITS = [''minutes'', ''hours'', ''days'', ''weeks'', ''months'']"

definition candle_row :: "json \<Rightarrow> json list" where
  "candle_row row =
     (case row of
        JList (ts # op # hi # lo # cl # vol # oi # _) \<Rightarrow>
          [JObj [(''ts_ist'', ts), (''open'', op), (''high'', hi), (''low'', lo), (''close'', cl), (''volume'', vol), (''oi'', oi)]]
      | _ \<Rightarrow> [])"

definition candle_data :: "json \<Rightarrow> pyexc + json" where
  "candle_data parsed =
     and_then (data_or (JObj []) parsed) (\<lambda>d.
     and_then (py_or (jget d ''candles'') (Inr (JList []))) (\<lambda>candles.
     and_then (py_list candles) (\<lambda>rows.
       Inr (JObj [(''candles'', candles), (''rows'', JList (concat (map candle_row rows)))]))))"

definition CANDLE_URL :: string where "CANDLE_URL = ''https://api.upstox.com/v3/historical-candle/''"

definition get_historical_candles ::
  "transport \<Rightarrow> token \<Rightarrow> string \<Rightarrow> int \<Rightarrow> string \<Rightarrow> string \<Rightarrow> string option \<Rightarrow> api_result" where
  "get_historical_candles tr key unit interval to_date tok from_date =
     (if unit \<notin> set VALID_UNITS then refuse ''invalid_unit'' unit
      else call tr (get_request (CANDLE_URL @ key @ ''/'' @ unit @ ''/'' @ str_int interval @ ''/'' @ to_date @
                      (case from_date of None \<Rightarrow> [] | Some f \<Rightarrow> if f = [] then [] else ''/'' @ f))
                      (bearer_json tok 3) []) candle_data)"

definition get_intraday_candles :: "transport \<Rightarrow> token \<Rightarrow> string \<Rightarrow> int \<Rightarrow> string \<Rightarrow> api_result" where
  "get_intraday_candles tr key unit interval tok =
     (if unit \<notin> set VALID_UNITS then refuse ''invalid_unit'' unit
      else call tr (get_request (CANDLE_URL @ ''intraday/'' @ key @ ''/'' @ unit @ ''/'' @ str_int interval)
                      (bearer_json tok 3) []) candle_data)"

section \<open>Tokens\<close>

definition is_token_valid_remote :: "transport \<Rightarrow> string \<Rightarrow> bool" where
  "is_token_valid_remote tr tok =
     (if tok = [] then False
      else (case tr (get_request PROFILE_URL (bearer_headers tok 2 None) []) of
              Inl _ \<Rightarrow> False
            | Inr (code, parsed, _) \<Rightarrow> code = 200 \<and> body_ok parsed))"

datatype exchange_error =
    CredentialMissing string | TransportRaised string | ExchangeHttp int string | ExchangeBadBody string
  | ExchangeNoToken | ExchangeRaised pyexc

fun lookup_all :: "(string \<times> json) list \<Rightarrow> string list \<Rightarrow> exchange_error + (string \<times> json) list" where
  "lookup_all creds [] = Inr []"
| "lookup_all creds (k # ks) =
     (case map_of creds k of
        None \<Rightarrow> Inl (CredentialMissing k)
      | Some v \<Rightarrow> and_then (lookup_all creds ks) (\<lambda>kvs. Inr ((k, v) # kvs)))"

definition TOKEN_URL :: string where "TOKEN_URL = ''https://api-v2.upstox.com/login/authorization/token''"

definition exchange_token :: "json \<Rightarrow> pyexc + json" where
  "exchange_token parsed =
     py_or (jget parsed ''access_token'')
       (and_then (py_or (jget parsed ''data'') (Inr (JObj []))) (\<lambda>d. jget d ''access_token''))"

definition exchange_code_for_token ::
  "(json \<Rightarrow> string) \<Rightarrow> transport \<Rightarrow> (string \<times> json) list \<Rightarrow> string \<Rightarrow> http_request list \<times> (exchange_error + string)" where
  "exchange_code_for_token show_value tr creds code =
     (case lookup_all creds [''api_key'', ''api_secret'', ''redirect_uri''] of
        Inl e \<Rightarrow> ([], Inl e)
      | Inr kvs \<Rightarrow>
          let field = (\<lambda>k. case map_of kvs k of None \<Rightarrow> JNull | Some v \<Rightarrow> v);
              q = send_json ''POST'' TOKEN_URL (bearer_form [] @ [(''Api-Version'', ''2.0'')])
                    (JObj [(''code'', JStr code), (''client_id'', field ''api_key''),
                           (''client_secret'', field ''api_secret''), (''redirect_uri'', field ''redirect_uri''),
                           (''grant_type'', JStr ''authorization_code'')])
          in ([q],
              case tr q of
                Inl e \<Rightarrow> Inl (TransportRaised e)
              | Inr (status, parsed, body) \<Rightarrow>
                  if status \<noteq> 200 then Inl (ExchangeHttp status body)
                  else if \<not> is_dict parsed then Inl (ExchangeBadBody body)
                  else (case exchange_token parsed of
                          Inl e \<Rightarrow> Inl (ExchangeRaised e)
                        | Inr tok \<Rightarrow> if truthy tok then Inr (py_str show_value tok) else Inl ExchangeNoToken)))"

definition token_request_data :: "json \<Rightarrow> pyexc + json" where
  "token_request_data parsed =
     and_then (data_or (JObj []) parsed) (\<lambda>d.
     and_then (jget d ''authorization_expiry'') (\<lambda>x.
     and_then (jget d ''notifier_url'') (\<lambda>n.
       Inr (JObj [(''authorization_expiry'', x), (''notifier_url'', n)]))))"

definition request_access_token :: "(json \<Rightarrow> string) \<Rightarrow> transport \<Rightarrow> (string \<times> json) list \<Rightarrow> api_result" where
  "request_access_token show_value tr creds =
     (case (map_of creds ''api_key'', map_of creds ''api_secret'') of
        (Some key, Some secret) \<Rightarrow>
          call tr (send_json ''POST'' (''https://api.upstox.com/v3/login/auth/token/request/'' @ py_str show_value key)
                     (bearer_headers [] 2 (Some ''application/json'')) (JObj [(''client_secret'', secret)])) token_request_data
      | _ \<Rightarrow> ([], Inl KeyError))"

subsection \<open>Token cache\<close>

text \<open>The cache file holds a dictionary of texts.  Instants are epoch milliseconds; the wall clock is IST.\<close>

definition compute_valid_until_ist :: "int \<Rightarrow> string \<Rightarrow> pyexc + int" where
  "compute_valid_until_ist now reset =
     (case split_on (CHR '':'') reset of
        [h, m] \<Rightarrow>
          (case (int_of_str h, int_of_str m) of
             (Some hh, Some mm) \<Rightarrow>
               if 0 \<le> hh \<and> hh < 24 \<and> 0 \<le> mm \<and> mm < 60 then
                 let midnight = (now + 19800000) div 86400000 * 86400000 - 19800000;
                     reset_at = midnight + (hh * 60 + mm) * 60000
                 in Inr (if now < reset_at then reset_at else reset_at + 86400000)
               else Inl ValueError
           | _ \<Rightarrow> Inl ValueError)
      | _ \<Rightarrow> Inl ValueError)"

definition iso_or_empty :: "int \<Rightarrow> string" where
  "iso_or_empty ms = (case ist_iso_text ms of None \<Rightarrow> [] | Some s \<Rightarrow> s)"

definition save_token_cache :: "int \<Rightarrow> string \<Rightarrow> string \<Rightarrow> pyexc + (string \<times> string) list" where
  "save_token_cache now tok reset =
     and_then (compute_valid_until_ist now reset) (\<lambda>until.
       Inr [(''access_token'', tok), (''created_at_ist'', iso_or_empty now), (''valid_until_ist'', iso_or_empty until)])"

text \<open>\<open>datetime.strptime(s, "%Y-%m-%d %H:%M:%S")\<close> as IST milliseconds of the day count \<open>days\<close> gives.\<close>

definition days_from_civil :: "int \<times> int \<times> int \<Rightarrow> int" where
  "days_from_civil ymd =
     (case ymd of (y0, m, d) \<Rightarrow>
        let y = (if m \<le> 2 then y0 - 1 else y0); era = y div 400; yoe = y mod 400;
            doy = (153 * (if 2 < m then m - 3 else m + 9) + 2) div 5 + d - 1;
            doe = yoe * 365 + yoe div 4 - yoe div 100 + doy
        in era * 146097 + doe - 719468)"

definition strptime_stamp :: "string \<Rightarrow> int option" where
  "strptime_stamp s =
     (case filter (\<lambda>w. w \<noteq> []) (split_on (CHR '' '') s) of
        [d, t] \<Rightarrow>
          (case (strptime_ymd d, split_on (CHR '':'') t) of
             (Some ymd, [h, m, sec]) \<Rightarrow>
               (case (parse_digits 0 h, parse_digits 0 m, parse_digits 0 sec) of
                  (Some hh, Some mm, Some ss) \<Rightarrow>
                    if hh < 24 \<and> mm < 60 \<and> ss < 62 \<and> length ` {h, m, sec} \<subseteq> {1, 2}
                    then Some ((days_from_civil ymd * 86400 + int (hh * 3600 + mm * 60 + ss) - 19800) * 1000) else None
                | _ \<Rightarrow> None)
           | _ \<Rightarrow> None)
      | _ \<Rightarrow> None)"

definition is_token_valid :: "int \<Rightarrow> (string \<times> string) list option \<Rightarrow> bool" where
  "is_token_valid now cache =
     (case cache of
        None \<Rightarrow> False
      | Some kvs \<Rightarrow>
          (case (map_of kvs ''access_token'', map_of kvs ''valid_until_ist'') of
             (Some _, Some until) \<Rightarrow>
               until \<noteq> [] \<and> (case strptime_stamp until of None \<Rightarrow> False | Some t \<Rightarrow> now < t)
           | _ \<Rightarrow> False))"

section \<open>Per-second counters\<close>

record api_state =
  as_orders :: "int option"
  as_positions :: "int option"
  as_second :: "int option"
  as_last_order :: "rat option"

definition fresh_second :: "rat \<Rightarrow> api_state \<Rightarrow> api_state" where
  "fresh_second now s =
     (if as_second s \<noteq> Some (py_trunc now)
      then s\<lparr>as_orders := Some 0, as_positions := Some 0, as_second := Some (py_trunc now)\<rparr> else s)"

definition under :: "int option \<Rightarrow> int \<Rightarrow> pyexc + bool" where
  "under n limit = (case n of None \<Rightarrow> Inl KeyError | Some k \<Rightarrow> Inr (k < limit))"

definition check_rate_limit :: "rat \<Rightarrow> int \<times> int \<Rightarrow> string \<Rightarrow> api_state \<Rightarrow> (pyexc + bool) \<times> api_state" where
  "check_rate_limit now limits kind s =
     (let s' = fresh_second now s
      in (if kind = ''order'' then under (as_orders s') (fst limits)
          else if kind = ''position'' then under (as_positions s') (snd limits)
          else Inr True, s'))"

definition increment_rate_counter :: "rat \<Rightarrow> string \<Rightarrow> api_state \<Rightarrow> api_state" where
  "increment_rate_counter now kind s =
     (if kind = ''order'' then s\<lparr>as_orders := Some (num_or (as_orders s) 0 + 1), as_last_order := Some now\<rparr>
      else if kind = ''position'' then s\<lparr>as_positions := Some (num_or (as_positions s) 0 + 1)\<rparr>
      else s)"

text \<open>The documented use: count a request only when the check lets it pass.\<close>

fun granted :: "int \<times> int \<Rightarrow> string \<Rightarrow> rat list \<Rightarrow> api_state \<Rightarrow> nat" where
  "granted limits kind [] s = 0"
| "granted limits kind (now # ts) s =
     (case check_rate_limit now limits kind s of
        (Inr True, s') \<Rightarrow> Suc (granted limits kind ts (increment_rate_counter now kind s'))
      | (_, s') \<Rightarrow> granted limits kind ts s')"

section \<open>Lemmas\<close>

lemma map_res_Inr: "map_res f xs = Inr ys \<longleftrightarrow> map f xs = map Inr ys"
proof (induction xs arbitrary: ys)
  case (Cons x xs)
  then show ?case by (cases ys) (auto simp: and_then_Inr)
qed auto

text \<open>Within one second the counter lets exactly the configured number of order calls pass.\<close>

lemma orders_per_second:
  assumes "\<forall>t \<in> set ts. py_trunc t = sec" and "as_second s = Some sec" and "as_orders s = Some n"
  shows "granted limits ''order'' ts s = min (nat (fst limits - n)) (length ts)"
  using assms
proof (induction ts arbitrary: s n)
  case (Cons t ts)
  have f: "fresh_second t s = s" using Cons.prems by (simp add: fresh_second_def)
  show ?case
  proof (cases "n < fst limits")
    case True
    have "granted limits ''order'' ts (increment_rate_counter t ''order'' s) = min (nat (fst limits - (n + 1))) (length ts)"
      using Cons.prems by (intro Cons.IH) (auto simp: increment_rate_counter_def num_or_def)
    then show ?thesis using True Cons.prems f by (simp add: check_rate_limit_def under_def Let_def)
  next
    case False
    then show ?thesis using Cons.prems f Cons.IH [of s n] by (simp add: check_rate_limit_def under_def Let_def)
  qed
qed simp

text \<open>A slice around the money is contiguous and bounded, and it holds a row of least distance.\<close>

lemma first_min_index_least:
  assumes "best < i" and "i + length xs = length all" and "drop i all = xs" and "all ! best = d"
    and "\<forall>j < i. d \<le> all ! j"
  shows "first_min_index i best d xs < length all \<and> (\<forall>j < length all. all ! first_min_index i best d xs \<le> all ! j)"
  using assms
proof (induction i best d xs rule: first_min_index.induct)
  case (1 i best d)
  then show ?case by simp
next
  case (2 i best d x xs)
  have i: "i < length all" "all ! i = x" "drop (Suc i) all = xs"
    using "2.prems"(2,3) nth_via_drop [of i all x xs] by (auto simp: drop_Suc dest: arg_cong [of _ _ tl] simp: drop_tl [symmetric])
  show ?case
  proof (cases "x < d")
    case True
    have "\<forall>j < Suc i. x \<le> all ! j" using "2.prems"(5) i True by (auto simp: less_Suc_eq)
    then show ?thesis using "2.IH"(1) [OF True] "2.prems" i True by simp
  next
    case False
    have "\<forall>j < Suc i. d \<le> all ! j" using "2.prems"(5) i False by (auto simp: less_Suc_eq)
    then show ?thesis using "2.IH"(2) [OF False] "2.prems" i False by simp
  qed
qed

lemma nearest_index_least:
  assumes "ks \<noteq> []"
  shows "nearest_index spot ks < length ks \<and> (\<forall>j < length ks. \<bar>ks ! nearest_index spot ks - spot\<bar> \<le> \<bar>ks ! j - spot\<bar>)"
proof -
  obtain k rest where ks: "ks = k # rest" using assms by (cases ks) auto
  define i where "i = nearest_index spot ks"
  let ?all = "map (\<lambda>k. \<bar>k - spot\<bar>) ks"
  have "i = first_min_index 1 0 \<bar>k - spot\<bar> (map (\<lambda>k. \<bar>k - spot\<bar>) rest)"
    by (simp add: i_def nearest_index_def ks)
  moreover have "first_min_index 1 0 \<bar>k - spot\<bar> (map (\<lambda>k. \<bar>k - spot\<bar>) rest) < length ?all \<and>
    (\<forall>j < length ?all. ?all ! first_min_index 1 0 \<bar>k - spot\<bar> (map (\<lambda>k. \<bar>k - spot\<bar>) rest) \<le> ?all ! j)"
    by (rule first_min_index_least) (simp_all add: ks)
  ultimately have "i < length ks" and "\<forall>j < length ks. ?all ! i \<le> ?all ! j" by (auto simp del: nth_map)
  then show ?thesis by (simp add: i_def)
qed

lemma slice_around_contains: "mid < length xs \<Longrightarrow> xs ! mid \<in> set (slice_around mid n xs)"
  by (simp add: slice_around_def Let_def set_conv_nth)
    (rule exI [of _ "mid - (mid - n)"], auto)

lemma slice_around_bound: "length (slice_around mid n xs) \<le> 2 * n + 1"
  by (auto simp: slice_around_def Let_def)

lemma strikes_around_atm_centred:
  assumes "strikes_around_atm chain (Some spot) n = Inr rows" and "chain \<noteq> []"
  shows "length rows \<le> 2 * n + 1 \<and>
    (\<exists>row k. row \<in> set rows \<and> strike_key row = Inr k \<and>
       (\<forall>other \<in> set chain. \<forall>k'. strike_key other = Inr k' \<longrightarrow> \<bar>k - spot\<bar> \<le> \<bar>k' - spot\<bar>))"
proof -
  obtain ks where ks: "map_res strike_key chain = Inr ks" and r: "rows = slice_around (nearest_index spot ks) n chain"
    using assms by (cases chain) (auto simp: strikes_around_atm_def and_then_Inr)
  have m: "map strike_key chain = map Inr ks" using ks by (simp add: map_res_Inr)
  then have len: "length ks = length chain" by (metis length_map)
  have nth: "j < length chain \<Longrightarrow> strike_key (chain ! j) = Inr (ks ! j)" for j using m len by (metis nth_map)
  let ?i = "nearest_index spot ks"
  have "ks \<noteq> []" using len assms(2) by auto
  from nearest_index_least [OF this, of spot] have i: "?i < length chain" "\<And>j. j < length chain \<Longrightarrow> \<bar>ks ! ?i - spot\<bar> \<le> \<bar>ks ! j - spot\<bar>"
    using len by auto
  have "chain ! ?i \<in> set rows" using slice_around_contains i(1) r by blast
  moreover have "\<forall>other \<in> set chain. \<forall>k'. strike_key other = Inr k' \<longrightarrow> \<bar>ks ! ?i - spot\<bar> \<le> \<bar>k' - spot\<bar>"
    using i(2) nth by (auto simp: in_set_conv_nth)
  ultimately show ?thesis using nth [OF i(1)] slice_around_bound r by blast
qed

text \<open>The cache is written in ISO form and read in another one: it never reads back as valid.\<close>

lemma padded_no_blank: "CHR '' '' \<notin> set (padded n i)"
proof -
  have "d < 10 \<Longrightarrow> digit_char d \<noteq> CHR '' ''" for d
    using char_digit_digit_char [of d] by (auto simp: char_digit_def)
  then have "CHR '' '' \<notin> set (digits_nat k)" for k using digits_nat_chars by fastforce
  then show ?thesis by (auto simp: padded_def Let_def)
qed

lemma iso_no_blank: "CHR '' '' \<notin> set (iso_or_empty ms)"
  by (auto simp: iso_or_empty_def ist_iso_text_def Let_def padded_no_blank split: prod.split option.split)

lemma saved_token_never_valid:
  assumes "save_token_cache now tok reset = Inr cache"
  shows "\<not> is_token_valid later (Some cache)"
proof -
  obtain until where "cache = [(''access_token'', tok), (''created_at_ist'', iso_or_empty now), (''valid_until_ist'', iso_or_empty until)]"
    using assms by (auto simp: save_token_cache_def and_then_Inr)
  moreover have "strptime_stamp (iso_or_empty until) = None"
    using split_on_plain [OF iso_no_blank] by (simp add: strptime_stamp_def)
  ultimately show ?thesis by (simp add: is_token_valid_def)
qed

end
