(* ===== verification/GatewayAccess.thy ===== *)
theory GatewayAccess
  imports BrokerReads InitTemplate
begin

text \<open>
  Who may call the API gateway, and how often: \<open>engines/api_gateway/{auth,deps,errors}.py\<close> and
  \<open>middleware/rate_limit_middleware.py\<close>.  Signature checks belong to the token library: \<open>jwt\<close> is a
  parameter that answers a token with its claims or with the library's failure.  Times of the limiter
  are readings of the monotonic clock in seconds.
\<close>

section \<open>Answers\<close>

text \<open>An answer is the body of a 200, the status and code of an error envelope, or an exception no
  handler catches (status 500).\<close>

datatype response = Success json | ApiFail int string | Crash pyexc

section \<open>Rate limiter\<close>

record api_request =
  ar_host :: "string option"
  ar_path :: string
  ar_method :: string
  ar_time :: rat

type_synonym hits = "string \<Rightarrow> rat list"

definition EXEMPT_PATHS :: "string list" where
  "EXEMPT_PATHS = [''/health'', ''/docs'', ''/openapi.json'', ''/redoc'']"

definition limit_for :: "string \<Rightarrow> string \<Rightarrow> nat" where
  "limit_for path meth =
     (if path = ''/auth/login'' \<and> py_upper meth = ''POST'' then 5
      else if starts_with path ''/commands/'' \<and> py_upper meth = ''POST'' then 10
      else 60)"

definition bucket_key :: "api_request \<Rightarrow> string" where
  "bucket_key r = get_or (ar_host r) ''unknown'' @ '':'' @ ar_path r @ '':'' @ ar_method r"

definition rate_dispatch :: "api_request \<Rightarrow> hits \<Rightarrow> bool \<times> hits" where
  "rate_dispatch r h =
     (if ar_path r \<in> set EXEMPT_PATHS then (True, h)
      else
        let k = bucket_key r; bucket = dropWhile (\<lambda>t. 60 < ar_time r - t) (h k)
        in if limit_for (ar_path r) (ar_method r) \<le> length bucket then (False, h(k := bucket))
           else (True, h(k := bucket @ [ar_time r])))"

text \<open>The log of a run from an empty table: every request with the verdict.\<close>

definition rate_step :: "hits \<times> (api_request \<times> bool) list \<Rightarrow> api_request \<Rightarrow> hits \<times> (api_request \<times> bool) list" where
  "rate_step s r = (case rate_dispatch r (fst s) of (ok, h) \<Rightarrow> (h, snd s @ [(r, ok)]))"

definition rate_run :: "api_request list \<Rightarrow> hits \<times> (api_request \<times> bool) list" where
  "rate_run rs = foldl rate_step (\<lambda>_. [], []) rs"

definition passed :: "api_request list \<Rightarrow> api_request list" where
  "passed rs = map fst (filter snd (snd (rate_run rs)))"

section \<open>Tokens and users\<close>

record user =
  us_id :: string
  us_name :: string
  us_role :: string

datatype jwt_answer = JwtExpired | JwtInvalid | JwtClaims "(string \<times> json) list"

type_synonym jwt = "string \<Rightarrow> jwt_answer"

datatype token_error = Expired | Invalid | Raised pyexc

text \<open>\<open>kvs.get(k)\<close>, and \<open>int(v or 0)\<close> of a claim.\<close>

definition field :: "(string \<times> json) list \<Rightarrow> string \<Rightarrow> json" where
  "field kvs k = (case map_of kvs k of None \<Rightarrow> JNull | Some v \<Rightarrow> v)"

definition claim_int :: "json \<Rightarrow> pyexc + int" where
  "claim_int v = (if truthy v then int_of_json v else Inr 0)"

definition decode_token :: "(json \<Rightarrow> string) \<Rightarrow> jwt \<Rightarrow> int \<Rightarrow> string \<Rightarrow> token_error + user" where
  "decode_token show_value jwt now tok =
     (case jwt tok of
        JwtExpired \<Rightarrow> Inl Expired
      | JwtInvalid \<Rightarrow> Inl Invalid
      | JwtClaims kvs \<Rightarrow>
          (case claim_int (field kvs ''exp'') of
             Inl e \<Rightarrow> Inl (Raised e)
           | Inr expires \<Rightarrow>
               if expires \<le> now then Inl Expired
               else (case map_of kvs ''sub'' of
                       None \<Rightarrow> Inl (Raised KeyError)
                     | Some sub \<Rightarrow>
                         let name = field kvs ''username''; role = field kvs ''role''
                         in Inr \<lparr>us_id = py_str show_value sub,
                                 us_name = (if truthy name then py_str show_value name else []),
                                 us_role = (if truthy role then py_str show_value role else ''admin'')\<rparr>)))"

text \<open>The bearer credentials of a request: the scheme and the token.\<close>

type_synonym bearer = "(string \<times> string) option"

definition get_current_user :: "(json \<Rightarrow> string) \<Rightarrow> jwt \<Rightarrow> int \<Rightarrow> bearer \<Rightarrow> response + user" where
  "get_current_user show_value jwt now creds =
     (case creds of
        None \<Rightarrow> Inl (ApiFail 401 ''AUTH_REQUIRED'')
      | Some (scheme, tok) \<Rightarrow>
          if py_lower scheme \<noteq> ''bearer'' then Inl (ApiFail 401 ''AUTH_REQUIRED'')
          else (case decode_token show_value jwt now tok of
                  Inl Expired \<Rightarrow> Inl (ApiFail 401 ''TOKEN_EXPIRED'')
                | Inl Invalid \<Rightarrow> Inl (ApiFail 401 ''TOKEN_INVALID'')
                | Inl (Raised e) \<Rightarrow> Inl (Crash e)
                | Inr u \<Rightarrow> Inr u))"

definition require_admin :: "response + user \<Rightarrow> response + user" where
  "require_admin r = and_then r (\<lambda>u. if us_role u \<noteq> ''admin'' then Inl (ApiFail 403 ''FORBIDDEN'') else Inr u)"

text \<open>The claims \<open>issue_token\<close> signs; signing itself is the library's.\<close>

definition token_claims :: "user \<Rightarrow> int \<Rightarrow> int \<Rightarrow> (string \<times> json) list" where
  "token_claims u now ttl_hours =
     [(''sub'', JStr (us_id u)), (''username'', JStr (us_name u)), (''role'', JStr (us_role u)),
      (''iat'', JInt now), (''exp'', JInt (now + ttl_hours * 3600))]"

section \<open>Lemmas\<close>

lemma rate_run_snoc: "rate_run (rs @ [r]) = rate_step (rate_run rs) r"
  by (simp add: rate_run_def)

lemma passed_snoc: "passed (rs @ [r]) = passed rs @ (if fst (rate_dispatch r (fst (rate_run rs))) then [r] else [])"
  by (simp add: passed_def rate_run_snoc rate_step_def split: prod.split)

lemma passed_Nil [simp]: "passed [] = []"
  by (simp add: passed_def rate_run_def)

definition key_times :: "string \<Rightarrow> api_request list \<Rightarrow> rat list" where
  "key_times k rs = map ar_time (filter (\<lambda>r. ar_path r \<notin> set EXEMPT_PATHS \<and> bucket_key r = k) rs)"

lemma key_times_snoc:
  "key_times k (rs @ [r]) = key_times k rs @ (if ar_path r \<notin> set EXEMPT_PATHS \<and> bucket_key r = k then [ar_time r] else [])"
  by (simp add: key_times_def)

text \<open>A bucket is what is left of its key's accepted times: whatever was dropped is out of every
  window that ends now or later.\<close>

definition bucket_inv :: "rat \<Rightarrow> api_request list \<Rightarrow> hits \<Rightarrow> bool" where
  "bucket_inv now acc h \<longleftrightarrow> (\<forall>k. \<exists>old. key_times k acc = old @ h k \<and> (\<forall>t \<in> set old. 60 < now - t))"

lemma bucket_inv_later: "bucket_inv now acc h \<Longrightarrow> now \<le> now' \<Longrightarrow> bucket_inv now' acc h"
  unfolding bucket_inv_def by (meson diff_right_mono less_le_trans)

lemma dispatch_inv:
  assumes i: "bucket_inv (ar_time r) acc h" and d: "rate_dispatch r h = (ok, h')"
  shows "bucket_inv (ar_time r) (acc @ (if ok then [r] else [])) h'"
  unfolding bucket_inv_def
proof
  fix k
  obtain old where o: "key_times k acc = old @ h k" "\<forall>t \<in> set old. 60 < ar_time r - t"
    using i unfolding bucket_inv_def by blast
  let ?p = "\<lambda>t. 60 < ar_time r - t"
  show "\<exists>old. key_times k (acc @ (if ok then [r] else [])) = old @ h' k \<and> (\<forall>t \<in> set old. ?p t)"
  proof (cases "ar_path r \<notin> set EXEMPT_PATHS \<and> bucket_key r = k")
    case True
    have "key_times k acc = (old @ takeWhile ?p (h k)) @ dropWhile ?p (h k)" using o(1) by simp
    moreover have "\<forall>t \<in> set (old @ takeWhile ?p (h k)). ?p t" using o(2) by (auto dest: set_takeWhileD)
    ultimately show ?thesis using True d
      by (intro exI [of _ "old @ takeWhile ?p (h k)"]) (auto simp: rate_dispatch_def Let_def key_times_snoc split: if_splits)
  next
    case False
    then have "h' k = h k" using d by (auto simp: rate_dispatch_def Let_def split: if_splits)
    then show ?thesis using False o by (intro exI [of _ old]) (auto simp: key_times_snoc)
  qed
qed

lemma run_inv:
  assumes "sorted (map ar_time rs)" and "\<forall>r \<in> set rs. ar_time r \<le> now"
  shows "bucket_inv now (passed rs) (fst (rate_run rs))"
  using assms
proof (induction rs arbitrary: now rule: rev_induct)
  case Nil
  then show ?case by (simp add: bucket_inv_def key_times_def rate_run_def)
next
  case (snoc r rs)
  obtain ok h' where d: "rate_dispatch r (fst (rate_run rs)) = (ok, h')" by fastforce
  have "bucket_inv (ar_time r) (passed rs) (fst (rate_run rs))"
    using snoc.prems by (intro snoc.IH) (auto simp: sorted_append)
  from dispatch_inv [OF this d] have "bucket_inv (ar_time r) (passed (rs @ [r])) (fst (rate_run (rs @ [r])))"
    using d by (simp add: passed_snoc rate_run_snoc rate_step_def)
  then show ?case using snoc.prems by (auto intro: bucket_inv_later)
qed

lemma passed_subset: "set (passed rs) \<subseteq> set rs"
  by (induction rs rule: rev_induct) (auto simp: passed_snoc split: if_splits)

lemma passed_sorted: "sorted (map ar_time rs) \<Longrightarrow> sorted (map ar_time (passed rs))"
  using passed_subset by (induction rs rule: rev_induct) (fastforce simp: passed_snoc sorted_append)+

lemma window_in_bucket:
  assumes "key_times k acc = old @ bucket" and "\<forall>t \<in> set old. 60 < now - t" and "now - 60 \<le> lo"
  shows "length (filter (\<lambda>t. lo \<le> t) (key_times k acc)) \<le> length bucket"
proof -
  have "filter (\<lambda>t. lo \<le> t) old = []" using assms(2,3) by (auto simp: filter_empty_conv)
  then show ?thesis by (simp add: assms(1))
qed

text \<open>Requests on the same route share a bucket and a limit.\<close>

definition same_route :: "api_request \<Rightarrow> api_request \<Rightarrow> bool" where
  "same_route q r \<longleftrightarrow> ar_host q = ar_host r \<and> ar_path q = ar_path r \<and> ar_method q = ar_method r"

definition in_window :: "api_request \<Rightarrow> rat \<Rightarrow> api_request list \<Rightarrow> api_request list" where
  "in_window r lo rs = filter (\<lambda>q. same_route q r \<and> lo \<le> ar_time q \<and> ar_time q \<le> lo + 60) rs"

definition bucket_at :: "api_request \<Rightarrow> hits \<Rightarrow> rat list" where
  "bucket_at r h = dropWhile (\<lambda>t. 60 < ar_time r - t) (h (bucket_key r))"

lemma dispatch_limit:
  "ar_path r \<notin> set EXEMPT_PATHS \<Longrightarrow>
     fst (rate_dispatch r h) \<longleftrightarrow> length (bucket_at r h) < limit_for (ar_path r) (ar_method r)"
  by (simp add: rate_dispatch_def bucket_at_def Let_def)

lemma bucket_at_splits:
  assumes "bucket_inv (ar_time r) acc h"
  shows "\<exists>old. key_times (bucket_key r) acc = old @ bucket_at r h \<and> (\<forall>t \<in> set old. 60 < ar_time r - t)"
proof -
  let ?p = "\<lambda>t. 60 < ar_time r - t"
  obtain old where o: "key_times (bucket_key r) acc = old @ h (bucket_key r)" "\<forall>t \<in> set old. ?p t"
    using assms unfolding bucket_inv_def by blast
  have "key_times (bucket_key r) acc = (old @ takeWhile ?p (h (bucket_key r))) @ bucket_at r h"
    by (simp add: o(1) bucket_at_def)
  moreover have "\<forall>t \<in> set (old @ takeWhile ?p (h (bucket_key r))). ?p t" using o(2) by (auto dest: set_takeWhileD)
  ultimately show ?thesis by blast
qed

lemma window_le_times:
  assumes "ar_path r \<notin> set EXEMPT_PATHS"
  shows "length (in_window r lo acc) \<le> length (filter (\<lambda>t. lo \<le> t) (key_times (bucket_key r) acc))"
  using assms by (induction acc) (auto simp: in_window_def key_times_def same_route_def bucket_key_def)

lemma before_last:
  assumes "sorted (map ar_time (rs @ [r]))"
  shows "sorted (map ar_time rs)" "\<forall>q \<in> set rs. ar_time q \<le> ar_time r"
  using assms by (auto simp: sorted_append)

lemma window_bound:
  assumes "sorted (map ar_time rs)" and "ar_path r \<notin> set EXEMPT_PATHS"
  shows "length (in_window r lo (passed rs)) \<le> limit_for (ar_path r) (ar_method r)"
  using assms(1)
proof (induction rs rule: rev_induct)
  case (snoc q rs)
  note s = before_last [OF snoc.prems]
  let ?h = "fst (rate_run rs)"
  show ?case
  proof (cases "fst (rate_dispatch q ?h) \<and> same_route q r \<and> lo \<le> ar_time q \<and> ar_time q \<le> lo + 60")
    case True
    have p: "ar_path q \<notin> set EXEMPT_PATHS" and k: "bucket_key q = bucket_key r"
      and l: "limit_for (ar_path q) (ar_method q) = limit_for (ar_path r) (ar_method r)"
      using True assms(2) by (auto simp: same_route_def bucket_key_def)
    obtain old where o: "key_times (bucket_key r) (passed rs) = old @ bucket_at q ?h" "\<forall>t \<in> set old. 60 < ar_time q - t"
      using bucket_at_splits [OF run_inv [OF s]] k by auto
    have "length (in_window r lo (passed rs)) \<le> length (bucket_at q ?h)"
      using window_le_times [OF assms(2), of lo "passed rs"] window_in_bucket [OF o, of lo] True by simp
    also have "\<dots> < limit_for (ar_path r) (ar_method r)" using dispatch_limit [OF p] True l by metis
    finally show ?thesis by (simp add: passed_snoc in_window_def)
  next
    case False
    then have "in_window r lo (passed (rs @ [q])) = in_window r lo (passed rs)"
      by (auto simp: passed_snoc in_window_def)
    then show ?thesis using snoc.IH [OF s(1)] by simp
  qed
qed (simp add: in_window_def)

lemma sorted_bucket_recent:
  assumes "sorted (bucket_at q h)"
  shows "filter (\<lambda>t. ar_time q - 60 \<le> t) (bucket_at q h) = bucket_at q h"
proof (cases "bucket_at q h")
  case (Cons t ts)
  then have "\<not> 60 < ar_time q - t" by (auto simp: bucket_at_def dropWhile_eq_Cons_conv)
  then have "\<forall>t \<in> set (bucket_at q h). ar_time q - 60 \<le> t" using assms by (auto simp: Cons)
  then show ?thesis by simp
qed simp

lemma refused_bucket_full:
  assumes s: "sorted (map ar_time (pre @ [q]))" and p: "ar_path q \<notin> set EXEMPT_PATHS" and "passed (pre @ [q]) = passed pre"
  shows "limit_for (ar_path q) (ar_method q) \<le> length (filter (\<lambda>t. ar_time q - 60 \<le> t) (key_times (bucket_key q) (passed pre)))"
proof -
  obtain old where o: "key_times (bucket_key q) (passed pre) = old @ bucket_at q (fst (rate_run pre))"
    using bucket_at_splits [OF run_inv [OF before_last [OF s]]] by auto
  have "sorted (key_times (bucket_key q) (passed pre))"
    using passed_sorted [OF before_last(1) [OF s]] by (simp add: key_times_def sorted_filter)
  then have "sorted (bucket_at q (fst (rate_run pre)))" by (simp add: o sorted_append)
  moreover have "limit_for (ar_path q) (ar_method q) \<le> length (bucket_at q (fst (rate_run pre)))"
    using assms(3) dispatch_limit [OF p, of "fst (rate_run pre)"] by (simp add: passed_snoc split: if_splits)
  ultimately show ?thesis by (simp add: o sorted_bucket_recent)
qed

section \<open>Properties\<close>

text \<open>Claim C15.  The limiter keeps its promise.  For requests that arrive in the order of the clock
  and any route (host, path and method) that is not exempt, no window of sixty seconds ever holds
  more accepted requests of the route than its limit: five for the login, ten for a command, sixty
  otherwise; and a request is refused only when its bucket really holds that many requests accepted
  in the sixty seconds before it.\<close>

theorem rate_limit_window:
  assumes "sorted (map ar_time rs)" and "ar_path r \<notin> set EXEMPT_PATHS"
  shows "length (in_window r lo (passed rs)) \<le> limit_for (ar_path r) (ar_method r) \<and>
    (\<forall>pre q post. rs = pre @ q # post \<longrightarrow> ar_path q \<notin> set EXEMPT_PATHS \<longrightarrow> passed (pre @ [q]) = passed pre \<longrightarrow>
       limit_for (ar_path q) (ar_method q) \<le>
         length (filter (\<lambda>t. ar_time q - 60 \<le> t) (key_times (bucket_key q) (passed pre))))"
  using window_bound [OF assms] refused_bucket_full assms(1) by (auto simp: sorted_append)

definition login_at :: "rat \<Rightarrow> api_request" where
  "login_at t = \<lparr>ar_host = None, ar_path = ''/auth/login'', ar_method = ''POST'', ar_time = t\<rparr>"

lemma login_dispatch:
  "rate_dispatch (login_at t) h =
     (let b = dropWhile (\<lambda>s. 60 < t - s) (h (bucket_key (login_at 0)))
      in if 5 \<le> length b then (False, h(bucket_key (login_at 0) := b)) else (True, h(bucket_key (login_at 0) := b @ [t])))"
proof -
  have "ar_path (login_at t) \<notin> set EXEMPT_PATHS" "bucket_key (login_at t) = bucket_key (login_at 0)"
    "limit_for (ar_path (login_at t)) (ar_method (login_at t)) = 5" "ar_time (login_at t) = t"
    by (simp_all add: login_at_def EXEMPT_PATHS_def limit_for_def starts_with_def py_upper_def bucket_key_def)
  then show ?thesis by (simp add: rate_dispatch_def Let_def)
qed

lemma login_passed: "passed (map login_at [0, 1, 2, 3, 4, 5, 61]) = map login_at [0, 1, 2, 3, 4, 61]"
  by (simp add: passed_def rate_run_def rate_step_def login_dispatch Let_def)

theorem rate_limit_window_witness:
  "length (in_window (login_at 0) 0 (passed (map login_at [0, 1, 2, 3, 4, 5, 61]))) = 5 \<and>
   length (in_window (login_at 0) 1 (passed (map login_at [0, 1, 2, 3, 4, 5, 61]))) \<le> 5"
proof -
  let ?rs = "map login_at [0, 1, 2, 3, 4, 5, 61]"
  have s: "sorted (map ar_time ?rs)" and p: "ar_path (login_at 0) \<notin> set EXEMPT_PATHS"
    by (simp_all add: login_at_def EXEMPT_PATHS_def)
  have l: "limit_for (ar_path (login_at 0)) (ar_method (login_at 0)) = 5"
    by (simp add: login_at_def limit_for_def starts_with_def py_upper_def)
  have "same_route (login_at x) (login_at 0)" "ar_time (login_at x) = x" for x
    by (simp_all add: same_route_def login_at_def)
  then have "length (in_window (login_at 0) 0 (passed ?rs)) = 5"
    unfolding login_passed in_window_def by simp
  with rate_limit_window [OF s p, of 1] l show ?thesis by simp
qed

end
