(* ===== verification/Gateway.thy ===== *)
theory Gateway
  imports Supervision HealthEngine GatewayAccess
begin

text \<open>
  The REST endpoints of \<open>engines/api_gateway/rest\<close> as functions on the key space, the control and
  manual-exit streams, the published events and the two Postgres tables the gateway writes.  The JSON
  reader \<open>orjson\<close>, encryption, password hashing, token signing and the pydantic validation of a
  configuration section are parameters; the broker is the \<open>transport\<close> of BrokerHttp.  SQL reads are
  left out except the user row of the login.
\<close>

section \<open>State and environment\<close>

record gateway =
  gw_db :: db
  gw_control :: "(string \<times> string) list"
  gw_manual :: "(string \<times> string) list"
  gw_events :: "json list"
  gw_views :: "string list"
  gw_pg_creds :: "string option"
  gw_pg_configs :: "(string \<times> json) list"

record gateway_env =
  ge_now :: int
  ge_now_iso :: string
  ge_expiry_iso :: string
  ge_loads :: "string \<Rightarrow> json option"
  ge_show :: "json \<Rightarrow> string"
  ge_show_error :: "api_error \<Rightarrow> string"
  ge_jwt :: jwt
  ge_sign :: "(string \<times> json) list \<Rightarrow> string"
  ge_account :: "string \<Rightarrow> (string \<times> string \<times> string option) option"
  ge_checkpw :: "string \<Rightarrow> string \<Rightarrow> bool option"
  ge_encrypt :: "json \<Rightarrow> string"
  ge_transport :: transport
  ge_validate :: "string \<Rightarrow> json \<Rightarrow> json option"
  ge_boot :: boot_env

type_synonym handler = "gateway \<Rightarrow> response \<times> gateway"

section \<open>Helpers\<close>

definition load_maybe :: "gateway_env \<Rightarrow> json \<Rightarrow> rval option \<Rightarrow> json" where
  "load_maybe env dflt raw =
     (case raw of
        Some (RText s) \<Rightarrow> (case ge_loads env s of None \<Rightarrow> dflt | Some j \<Rightarrow> j)
      | Some (RJson j) \<Rightarrow> j
      | _ \<Rightarrow> dflt)"

definition get_json :: "gateway_env \<Rightarrow> db \<Rightarrow> string \<Rightarrow> json \<Rightarrow> json" where
  "get_json env d k dflt = load_maybe env dflt (d k)"

definition dict_at :: "gateway_env \<Rightarrow> db \<Rightarrow> string \<Rightarrow> (string \<times> json) list option" where
  "dict_at env d k = (case get_json env d k JNull of JObj kvs \<Rightarrow> Some kvs | _ \<Rightarrow> None)"

definition hash_at :: "db \<Rightarrow> string \<Rightarrow> (string \<times> string) list" where
  "hash_at d k = (case d k of Some (RHash h) \<Rightarrow> h | _ \<Rightarrow> [])"

definition text_at :: "db \<Rightarrow> string \<Rightarrow> string option" where
  "text_at d k = (case d k of Some (RText s) \<Rightarrow> Some s | _ \<Rightarrow> None)"

definition opt_json :: "string option \<Rightarrow> json" where
  "opt_json x = (case x of None \<Rightarrow> JNull | Some s \<Rightarrow> JStr s)"

definition with_key :: "pyexc + string \<Rightarrow> (string \<Rightarrow> handler) \<Rightarrow> handler" where
  "with_key k h g = (case k of Inl e \<Rightarrow> (Crash e, g) | Inr key \<Rightarrow> h key g)"

definition known_index :: "string \<Rightarrow> handler \<Rightarrow> handler" where
  "known_index idx h g = (if \<not> valid_index idx then (ApiFail 404 ''INDEX_NOT_FOUND'', g) else h g)"

section \<open>Strategy control\<close>

definition strategy_status :: handler where
  "strategy_status g =
     (let d = gw_db g; is_true = (\<lambda>k. JBool (py_lower (decode (text_at d k)) = ''true''));
          key_of = (\<lambda>r. case r of Inl e \<Rightarrow> [] | Inr k \<Rightarrow> k);
          row = (\<lambda>i. let pos = decode (text_at d (key_of (strategy_current_position_id i)))
                     in (i, JObj [(''enabled'', is_true (key_of (strategy_enabled i))),
                                  (''state'', JStr (str_or (text_at d (key_of (strategy_state i))) ''FLAT'')),
                                  (''current_position_id'', if pos = [] then JNull else JStr pos)]))
      in (Success (JObj [(''system'', JObj [(''trading_active'', is_true SYSTEM_FLAGS_TRADING_ACTIVE),
                                           (''mode'', JStr (str_or (text_at d SYSTEM_FLAGS_MODE) ''paper'')),
                                           (''daily_loss_circuit_triggered'', is_true SYSTEM_FLAGS_DAILY_LOSS_CIRCUIT_TRIGGERED)]),
                         (''indexes'', JObj (map row INDEXES))]), g))"

definition system_event :: "string \<Rightarrow> (string \<times> json) list \<Rightarrow> gateway \<Rightarrow> gateway" where
  "system_event kind extra g = g\<lparr>gw_events := gw_events g @ [JObj ((''event'', JStr kind) # extra)]\<rparr>"

definition set_enabled :: "string \<Rightarrow> bool \<Rightarrow> string \<Rightarrow> handler" where
  "set_enabled kind on idx = known_index idx (with_key (strategy_enabled idx) (\<lambda>k g.
     (Success (JObj [(''ok'', JBool True), (''index'', JStr idx), (''enabled'', JBool on)]),
      system_event kind [(''index'', JStr idx)] (g\<lparr>gw_db := (gw_db g)(k \<mapsto> RText (if on then ''true'' else ''false''))\<rparr>))))"

definition halt_index :: "string \<Rightarrow> handler" where "halt_index = set_enabled ''halt_index'' False"
definition resume_index :: "string \<Rightarrow> handler" where "resume_index = set_enabled ''resume_index'' True"

definition global_kill :: "gateway_env \<Rightarrow> string \<Rightarrow> handler" where
  "global_kill env reason g =
     (Success (JObj [(''ok'', JBool True), (''exiting_positions'', JInt (int (card (set_members (gw_db g) ORDERS_POSITIONS_OPEN)))),
                     (''halted_at'', JStr (ge_now_iso env))]),
      g\<lparr>gw_db := (gw_db g)(SYSTEM_FLAGS_TRADING_ACTIVE \<mapsto> RText ''false'',
                            SYSTEM_FLAGS_TRADING_DISABLED_REASON \<mapsto> RText ''manual_kill''),
        gw_control := gw_control g @ [(''global_kill'', reason)]\<rparr>)"

definition global_resume :: "string \<Rightarrow> bool \<Rightarrow> handler" where
  "global_resume reason reset_circuit g =
     (let d1 = (gw_db g)(SYSTEM_FLAGS_TRADING_ACTIVE \<mapsto> RText ''true'', SYSTEM_FLAGS_TRADING_DISABLED_REASON \<mapsto> RText ''none'');
          d2 = (if reset_circuit then d1(SYSTEM_FLAGS_DAILY_LOSS_CIRCUIT_TRIGGERED \<mapsto> RText ''false'') else d1)
      in (Success (JObj [(''ok'', JBool True), (''trading_active'', JBool True)]),
          g\<lparr>gw_db := d2, gw_control := gw_control g @ [(''global_resume'', reason)]\<rparr>))"

section \<open>Positions and profit\<close>

definition parse_position_hash :: "gateway_env \<Rightarrow> (string \<times> string) list \<Rightarrow> (string \<times> json) list" where
  "parse_position_hash env h =
     map (\<lambda>(k, v). (k, case ge_loads env v of None \<Rightarrow> JStr v | Some j \<Rightarrow> j)) (filter (\<lambda>(k, v). v \<noteq> []) h)"

definition position_item :: "gateway_env \<Rightarrow> db \<Rightarrow> string \<Rightarrow> json list" where
  "position_item env d pos_id =
     (case hash_at d (orders_position pos_id) of
        [] \<Rightarrow> []
      | h \<Rightarrow>
          let item = parse_position_hash env h; status = hash_at d (orders_status pos_id)
          in [JObj (if status = [] then item else dict_set ''status_stage'' (opt_json (map_of status ''stage'')) item)])"

definition positions_open :: "gateway_env \<Rightarrow> handler" where
  "positions_open env g =
     (Success (JObj [(''items'', JList (concat (map (position_item env (gw_db g))
        (sorted_list_of_set (set_members (gw_db g) ORDERS_POSITIONS_OPEN)))))]), g)"

definition manual_exit :: "string \<Rightarrow> string \<Rightarrow> handler" where
  "manual_exit pos_id reason g =
     (if hash_at (gw_db g) (orders_position pos_id) = [] then (ApiFail 404 ''POSITION_NOT_FOUND'', g)
      else (Success (JObj [(''ok'', JBool True), (''queued'', JBool True), (''position_id'', JStr pos_id)]),
            g\<lparr>gw_manual := gw_manual g @ [(pos_id, reason)]\<rparr>))"

text \<open>\<open>float(text or 0)\<close> and \<open>int(text or 0)\<close> of a hash field.\<close>

definition float_field :: "(string \<times> string) list \<Rightarrow> string \<Rightarrow> pyexc + pyfloat" where
  "float_field h k =
     (let s = decode (map_of h k)
      in if s = [] then Inr (Fin 0) else (case float_of_text s of None \<Rightarrow> Inl ValueError | Some x \<Rightarrow> Inr x))"

definition int_field :: "(string \<times> string) list \<Rightarrow> string \<Rightarrow> pyexc + int" where
  "int_field h k =
     (let s = decode (map_of h k)
      in if s = [] then Inr 0 else (case signed_int_text s of None \<Rightarrow> Inl ValueError | Some i \<Rightarrow> Inr i))"

fun add_float :: "pyfloat \<Rightarrow> pyfloat \<Rightarrow> pyfloat" where
  "add_float (Fin a) (Fin b) = Fin (a + b)"
| "add_float NaN _ = NaN"
| "add_float _ NaN = NaN"
| "add_float (Infinity a) (Infinity b) = (if a = b then Infinity a else NaN)"
| "add_float (Infinity a) (Fin _) = Infinity a"
| "add_float (Fin _) (Infinity b) = Infinity b"

definition pnl_body :: "(string \<times> string) list \<Rightarrow> pyexc + json" where
  "pnl_body h =
     (if h = [] then Inr (JObj [(''realized_today'', JFloat (Fin 0)), (''unrealized'', JFloat (Fin 0)), (''total_today'', JFloat (Fin 0)),
                               (''trades_today'', JInt 0), (''wins_today'', JInt 0), (''win_rate'', JFloat (Fin 0)), (''per_index'', JObj [])])
      else
        and_then (float_field h ''realized'') (\<lambda>r.
        and_then (float_field h ''unrealized'') (\<lambda>u.
        and_then (int_field h ''trade_count'') (\<lambda>n.
        and_then (float_field h ''win_rate'') (\<lambda>w.
          Inr (JObj [(''realized_today'', JFloat r), (''unrealized'', JFloat u), (''total_today'', JFloat (add_float r u)),
                     (''trades_today'', JInt n), (''win_rate'', JFloat w), (''per_index'', JObj [])]))))))"

text \<open>\<open>HGETALL\<close> of a key of another type is a Redis error, here a \<open>RuntimeError\<close>.\<close>

definition pnl_live :: "gateway_env \<Rightarrow> handler" where
  "pnl_live env g =
     (case dict_at env (gw_db g) UI_VIEW_PNL of
        Some kvs \<Rightarrow> (Success (JObj kvs), g)
      | None \<Rightarrow>
          (case gw_db g ORDERS_PNL_DAY of
             Some (RText _) \<Rightarrow> (Crash RuntimeError, g)
           | _ \<Rightarrow> (case pnl_body (hash_at (gw_db g) ORDERS_PNL_DAY) of Inl e \<Rightarrow> (Crash e, g) | Inr j \<Rightarrow> (Success j, g))))"

section \<open>Put-call ratio view\<close>

text \<open>The history list is never written, so its range is empty.\<close>

definition delta_pcr_live :: "gateway_env \<Rightarrow> string \<Rightarrow> handler" where
  "delta_pcr_live env idx = known_index idx (with_key (ui_view_delta_pcr idx) (\<lambda>view g.
     case dict_at env (gw_db g) view of
       Some kvs \<Rightarrow> (Success (JObj kvs), g)
     | None \<Rightarrow>
         with_key (delta_pcr_interval idx) (\<lambda>ki. with_key (delta_pcr_cumulative idx) (\<lambda>kc. with_key (delta_pcr_mode idx) (\<lambda>km g.
           case int_field [(''mode'', str_or (text_at (gw_db g) km) ''1'')] ''mode'' of
             Inl e \<Rightarrow> (Crash e, g)
           | Inr m \<Rightarrow>
               (Success (JObj [(''index'', JStr idx), (''interval'', get_json env (gw_db g) ki JNull),
                  (''cumulative'', get_json env (gw_db g) kc JNull), (''history'', JList []),
                  (''interpretation'', JStr ''UNKNOWN''), (''mismatch_flag'', JBool False), (''mode'', JInt m)]), g)))) g))"

definition put_delta_pcr_mode :: "string \<Rightarrow> int \<Rightarrow> handler" where
  "put_delta_pcr_mode idx m = known_index idx (with_key (delta_pcr_mode idx) (\<lambda>k g.
     (Success (JObj [(''ok'', JBool True), (''index'', JStr idx), (''mode'', JInt m)]),
      system_event ''delta_pcr_mode'' [(''index'', JStr idx), (''mode'', JInt m)]
        (g\<lparr>gw_db := (gw_db g)(k \<mapsto> RText (str_int m))\<rparr>))))"

section \<open>Health\<close>

text \<open>Past the cached view the code reads \<open>K.HEARTBEAT_FIELDS\<close>, a name \<open>keys.py\<close> does not define.\<close>

definition health :: "gateway_env \<Rightarrow> handler" where
  "health env g =
     (case dict_at env (gw_db g) UI_VIEW_HEALTH of Some kvs \<Rightarrow> (Success (JObj kvs), g) | None \<Rightarrow> (Crash AttributeError, g))"

definition dependency :: "probe_result \<Rightarrow> (string \<times> json) list" where
  "dependency p = [(''ok'', JBool (fst p = Green)), (''detail'', JStr (snd p))]"

definition health_dependencies_test :: "string + bool \<Rightarrow> string + bool \<Rightarrow> probe_result \<Rightarrow> handler" where
  "health_dependencies_test pong row broker g =
     (Success (JObj [(''redis'', JObj (dependency (probe_redis pong))),
                     (''postgres'', JObj (dependency (probe_postgres True row))),
                     (''broker'', JObj (dependency broker @
                        [(''auth_valid'', JBool (fst broker = Green)), (''kill_switch_clear'', JBool True)]))]), g)"

section \<open>Credentials\<close>

record creds_in =
  ci_api_key :: string
  ci_api_secret :: string
  ci_redirect_uri :: string
  ci_totp_secret :: string
  ci_mobile_no :: string
  ci_pin :: string
  ci_analytics :: "string option"
  ci_sandbox :: "string option"

definition valid_creds :: "creds_in \<Rightarrow> bool" where
  "valid_creds c \<longleftrightarrow>
     ci_api_key c \<noteq> [] \<and> ci_api_secret c \<noteq> [] \<and> ci_redirect_uri c \<noteq> [] \<and> ci_totp_secret c \<noteq> [] \<and>
     6 \<le> length (ci_mobile_no c) \<and> 4 \<le> length (ci_pin c)"

definition dump_creds :: "creds_in \<Rightarrow> (string \<times> json) list" where
  "dump_creds c =
     [(''api_key'', JStr (ci_api_key c)), (''api_secret'', JStr (ci_api_secret c)), (''redirect_uri'', JStr (ci_redirect_uri c)),
      (''totp_secret'', JStr (ci_totp_secret c)), (''mobile_no'', JStr (ci_mobile_no c)), (''pin'', JStr (ci_pin c)),
      (''analytics_token'', opt_json (ci_analytics c)), (''sandbox_token'', opt_json (ci_sandbox c))]"

definition mask_secret :: "(json \<Rightarrow> string) \<Rightarrow> nat \<Rightarrow> string option \<Rightarrow> json \<Rightarrow> json" where
  "mask_secret show_value shown fixed v =
     (if v = JNull \<or> v = JStr [] then JNull
      else (case fixed of
              Some f \<Rightarrow> JStr f
            | None \<Rightarrow>
                let s = py_str show_value v
                in JStr (''****'' @ (if shown < length s then last_n shown s else s))))"

definition stored_creds :: "gateway_env \<Rightarrow> db \<Rightarrow> (string \<times> json) list" where
  "stored_creds env d = (case dict_at env d USER_CREDENTIALS_UPSTOX of None \<Rightarrow> [] | Some kvs \<Rightarrow> kvs)"

definition masked :: "gateway_env \<Rightarrow> (string \<times> json) list \<Rightarrow> string \<Rightarrow> json" where
  "masked env creds auth =
     (let mask = mask_secret (ge_show env); tok = field creds ''access_token''
      in JObj [(''configured'', JBool (creds \<noteq> [])), (''auth_status'', JStr (if auth = [] then ''unknown'' else auth)),
               (''api_key'', mask 4 None (field creds ''api_key'')),
               (''api_secret'', mask 4 (Some ''****'') (field creds ''api_secret'')),
               (''redirect_uri'', field creds ''redirect_uri''),
               (''totp_secret'', mask 4 (Some ''****'') (field creds ''totp_secret'')),
               (''mobile_no'', mask 4 None (field creds ''mobile_no'')),
               (''pin'', mask 4 (Some ''****'') (field creds ''pin'')),
               (''analytics_token'', mask 4 None (field creds ''analytics_token'')),
               (''sandbox_token'', mask 4 None (field creds ''sandbox_token'')),
               (''access_token'', JObj [(''present'', JBool (truthy tok)),
                  (''expires_at'', field creds ''access_token_expires_at''),
                  (''source'', if truthy tok then JStr ''webhook_v3'' else JNull)])])"

definition get_upstox_credentials :: "gateway_env \<Rightarrow> handler" where
  "get_upstox_credentials env g =
     (Success (masked env (stored_creds env (gw_db g)) (decode (text_at (gw_db g) SYSTEM_HEALTH_AUTH))), g)"

text \<open>The token the broker probe is called with: the analytics token, else the stored access token.\<close>

definition probe_token :: "(string \<times> json) list \<Rightarrow> json" where
  "probe_token creds =
     (let a = field creds ''analytics_token'' in if truthy a then a else field creds ''access_token'')"

definition merged_creds :: "(string \<times> json) list \<Rightarrow> creds_in \<Rightarrow> (string \<times> json) list" where
  "merged_creds existing c =
     (if truthy (field existing ''access_token'')
      then dump_creds c @ [(''access_token'', field existing ''access_token''),
                           (''access_token_expires_at'', field existing ''access_token_expires_at'')]
      else dump_creds c)"

definition write_auth :: "(string \<times> json) list \<Rightarrow> bool \<Rightarrow> gateway \<Rightarrow> gateway" where
  "write_auth creds valid g =
     system_event (if valid then ''auth_recovered'' else ''auth_invalid'') []
       (g\<lparr>gw_db := (gw_db g)(USER_CREDENTIALS_UPSTOX \<mapsto> RJson (JObj creds),
                              SYSTEM_HEALTH_AUTH \<mapsto> RText (if valid then ''valid'' else ''invalid''),
                              SYSTEM_FLAGS_TRADING_DISABLED_REASON \<mapsto> RText (if valid then ''none'' else ''auth_invalid''),
                              SYSTEM_FLAGS_TRADING_ACTIVE \<mapsto> RText (if valid then ''true'' else ''false''))\<rparr>)"

definition auth_answer :: "bool \<Rightarrow> (string \<times> json) list \<Rightarrow> response" where
  "auth_answer valid extra =
     Success (JObj ([(''ok'', JBool True), (''auth_status'', JStr (if valid then ''valid'' else ''invalid'')),
                     (''trading_active'', JBool valid),
                     (''trading_disabled_reason'', JStr (if valid then ''none'' else ''auth_invalid''))] @ extra))"

definition set_upstox_credentials :: "gateway_env \<Rightarrow> creds_in \<Rightarrow> handler" where
  "set_upstox_credentials env c g =
     (let creds = merged_creds (stored_creds env (gw_db g)) c; tok = probe_token creds;
          g1 = g\<lparr>gw_pg_creds := Some (ge_encrypt env (JObj creds))\<rparr>
      in if \<not> truthy tok
         then (auth_answer False [(''broker_error'', JObj [(''code'', JStr ''TOKEN_MISSING''), (''message'', JStr ''No analytics/access token provided'')])], write_auth creds False g1)
         else (case snd (get_profile (ge_transport env) (py_str (ge_show env) tok)) of
                 Inl e \<Rightarrow> (Crash e, g1)
               | Inr ev \<Rightarrow>
                   if ev_success ev
                   then (auth_answer True (if ev_data ev = JNull then [] else [(''profile'', ev_data ev)]), write_auth creds True g1)
                   else (auth_answer False [(''broker_error'', opt_json (map_option (ge_show_error env) (ev_error ev)))],
                         write_auth creds False g1)))"

definition delete_upstox_credentials :: handler where
  "delete_upstox_credentials g =
     (Success (JObj [(''ok'', JBool True), (''auth_status'', JStr ''missing'')]),
      g\<lparr>gw_pg_creds := None,
        gw_db := (gw_db g)(USER_CREDENTIALS_UPSTOX := None, USER_AUTH_ACCESS_TOKEN := None,
                           SYSTEM_HEALTH_AUTH \<mapsto> RText ''missing'',
                           SYSTEM_FLAGS_TRADING_DISABLED_REASON \<mapsto> RText ''awaiting_credentials'',
                           SYSTEM_FLAGS_TRADING_ACTIVE \<mapsto> RText ''false'')\<rparr>)"

section \<open>Login, refresh and the token webhook\<close>

definition issue_token :: "gateway_env \<Rightarrow> user \<Rightarrow> json" where
  "issue_token env u =
     JObj [(''token'', JStr (ge_sign env (token_claims u (ge_now env) 24))), (''expires_at'', JStr (ge_expiry_iso env)),
           (''user'', JObj [(''id'', JStr (us_id u)), (''username'', JStr (us_name u)), (''role'', JStr (us_role u))])]"

definition verify_password :: "gateway_env \<Rightarrow> string \<Rightarrow> string \<Rightarrow> bool" where
  "verify_password env plain hash = (case ge_checkpw env plain hash of None \<Rightarrow> False | Some b \<Rightarrow> b)"

definition login :: "gateway_env \<Rightarrow> string \<Rightarrow> string \<Rightarrow> handler" where
  "login env name password g =
     ((case ge_account env name of
         None \<Rightarrow> ApiFail 401 ''INVALID_CREDENTIALS''
       | Some (uid, hash, role) \<Rightarrow>
           if \<not> verify_password env password hash then ApiFail 401 ''INVALID_CREDENTIALS''
           else Success (issue_token env \<lparr>us_id = uid, us_name = name, us_role = str_or role ''admin''\<rparr>)), g)"

definition refresh :: "gateway_env \<Rightarrow> user \<Rightarrow> handler" where
  "refresh env u g = (Success (issue_token env u), g)"

record webhook =
  wh_client_id :: string
  wh_access_token :: string
  wh_issued_at :: "string option"
  wh_expires_at :: "string option"

definition upstox_webhook :: "gateway_env \<Rightarrow> webhook \<Rightarrow> handler" where
  "upstox_webhook env w g =
     (let creds = stored_creds env (gw_db g); key = field creds ''api_key''
      in if creds = [] then (ApiFail 400 ''INVALID_WEBHOOK_PAYLOAD'', g)
         else if (if truthy key then py_str (ge_show env) key else []) \<noteq> wh_client_id w
           then (ApiFail 400 ''INVALID_WEBHOOK_PAYLOAD'', g)
         else
           let creds' = dict_set ''access_token_expires_at'' (opt_json (wh_expires_at w))
                          (dict_set ''access_token'' (JStr (wh_access_token w)) creds);
               tok = JObj [(''token'', JStr (wh_access_token w)), (''issued_at'', opt_json (wh_issued_at w)),
                           (''expires_at'', opt_json (wh_expires_at w)), (''source'', JStr ''webhook_v3'')]
           in (Success (JObj [(''ok'', JBool True)]),
               system_event ''auth_refreshed'' []
                 (g\<lparr>gw_pg_creds := Some (ge_encrypt env (JObj creds')),
                    gw_db := (gw_db g)(USER_CREDENTIALS_UPSTOX \<mapsto> RJson (JObj creds'),
                                       USER_AUTH_ACCESS_TOKEN \<mapsto> RJson tok, SYSTEM_HEALTH_AUTH \<mapsto> RText ''valid'')\<rparr>)))"

section \<open>Configuration\<close>

definition SECTIONS :: "string list" where
  "SECTIONS = [''execution'', ''session'', ''risk'', ''index:nifty50'', ''index:banknifty'']"

text \<open>\<open>_load_section\<close>: the cached dictionary, else the Postgres row, which is then cached.\<close>

definition load_section :: "gateway_env \<Rightarrow> string \<Rightarrow> gateway \<Rightarrow> (string \<times> json) list option \<times> gateway" where
  "load_section env sec g =
     (case redis_key_for_config sec of
        Inl _ \<Rightarrow> (None, g)
      | Inr k \<Rightarrow>
          (case dict_at env (gw_db g) k of
             Some kvs \<Rightarrow> (Some kvs, g)
           | None \<Rightarrow>
               (case map_of (gw_pg_configs g) sec of
                  Some (JObj kvs) \<Rightarrow> (Some kvs, g\<lparr>gw_db := (gw_db g)(k \<mapsto> RJson (JObj kvs))\<rparr>)
                | _ \<Rightarrow> (None, g))))"

fun load_sections :: "gateway_env \<Rightarrow> string list \<Rightarrow> gateway \<Rightarrow> (string \<times> json) list \<times> gateway" where
  "load_sections env [] g = ([], g)"
| "load_sections env (s # ss) g =
     (case load_section env s g of (v, g1) \<Rightarrow>
        (case load_sections env ss g1 of (vs, g2) \<Rightarrow> ((s, case v of None \<Rightarrow> JObj [] | Some kvs \<Rightarrow> JObj kvs) # vs, g2)))"

definition configs_body :: "(string \<times> json) list \<Rightarrow> (string \<times> json) list" where
  "configs_body vs =
     [(''execution'', field vs ''execution''), (''session'', field vs ''session''), (''risk'', field vs ''risk''),
      (''indexes'', JObj [(''nifty50'', field vs ''index:nifty50''), (''banknifty'', field vs ''index:banknifty'')])]"

definition get_configs :: "gateway_env \<Rightarrow> handler" where
  "get_configs env g = (case load_sections env SECTIONS g of (vs, g') \<Rightarrow> (Success (JObj (configs_body vs)), g'))"

definition get_config_section :: "gateway_env \<Rightarrow> string \<Rightarrow> handler" where
  "get_config_section env sec g =
     (if sec \<notin> set SECTIONS then (ApiFail 404 ''CONFIG_SECTION_NOT_FOUND'', g)
      else (case load_section env sec g of
              (None, g') \<Rightarrow> (ApiFail 404 ''CONFIG_SECTION_NOT_FOUND'', g')
            | (Some kvs, g') \<Rightarrow> (Success (JObj kvs), g')))"

definition publish_configs_view :: "gateway_env \<Rightarrow> gateway \<Rightarrow> gateway" where
  "publish_configs_view env g =
     (case load_sections env SECTIONS g of (vs, g') \<Rightarrow>
        g'\<lparr>gw_db := (gw_db g')(UI_VIEW_CONFIGS \<mapsto> RJson (JObj (configs_body vs @ [(''ts'', JStr (ge_now_iso env))]))),
           gw_views := gw_views g' @ [UI_VIEW_CONFIGS]\<rparr>)"

definition put_config_section :: "gateway_env \<Rightarrow> string \<Rightarrow> json \<Rightarrow> handler" where
  "put_config_section env sec payload g =
     (if sec \<notin> set SECTIONS then (ApiFail 404 ''CONFIG_SECTION_NOT_FOUND'', g)
      else (case ge_validate env sec payload of
              None \<Rightarrow> (ApiFail 422 ''VALIDATION_ERROR'', g)
            | Some v \<Rightarrow>
                (case redis_key_for_config sec of
                   Inl e \<Rightarrow> (Crash e, g)
                 | Inr k \<Rightarrow>
                     (Success (JObj [(''ok'', JBool True), (''section'', JStr sec), (''updated_at'', JStr (ge_now_iso env)), (''value'', v)]),
                      publish_configs_view env
                        (g\<lparr>gw_pg_configs := dict_set sec v (gw_pg_configs g), gw_db := (gw_db g)(k \<mapsto> RJson v)\<rparr>)))))"

section \<open>Capital and the broker's kill switch\<close>

definition access_token :: "gateway_env \<Rightarrow> db \<Rightarrow> string option" where
  "access_token env d =
     (let raw = d USER_AUTH_ACCESS_TOKEN; tok = (case load_maybe env JNull raw of JObj kvs \<Rightarrow> field kvs ''token'' | _ \<Rightarrow> JNull)
      in if truthy tok then Some (py_str (ge_show env) tok)
         else (case raw of
                 Some (RText s) \<Rightarrow> if s = [] then None else Some s
               | Some (RJson j) \<Rightarrow> Some (ge_show env j)
               | _ \<Rightarrow> None))"

definition with_broker :: "gateway_env \<Rightarrow> (string \<Rightarrow> api_result) \<Rightarrow> (json \<Rightarrow> handler) \<Rightarrow> handler" where
  "with_broker env endpoint k g =
     (case access_token env (gw_db g) of
        None \<Rightarrow> (ApiFail 503 ''AUTH_TOKEN_MISSING'', g)
      | Some tok \<Rightarrow>
          (case snd (endpoint tok) of
             Inl e \<Rightarrow> (Crash e, g)
           | Inr ev \<Rightarrow> if ev_success ev then k (ev_data ev) g else (ApiFail 503 ''BROKER_ERROR'', g)))"

definition cache_json :: "string \<Rightarrow> json \<Rightarrow> handler" where
  "cache_json k j g = (Success j, g\<lparr>gw_db := (gw_db g)(k \<mapsto> RJson j)\<rparr>)"

definition capital_funds :: "gateway_env \<Rightarrow> handler" where
  "capital_funds env g =
     (case dict_at env (gw_db g) USER_CAPITAL_FUNDS of
        Some kvs \<Rightarrow> (Success (JObj kvs), g)
      | None \<Rightarrow>
          with_broker env (get_capital (ge_transport env))
            (\<lambda>data. cache_json USER_CAPITAL_FUNDS (if truthy data then data else JObj [])) g)"

definition segments_body :: "json \<Rightarrow> json" where
  "segments_body data = JObj [(''segments'', if truthy data then data else JList [])]"

definition capital_kill_switch :: "gateway_env \<Rightarrow> handler" where
  "capital_kill_switch env g =
     (case get_json env (gw_db g) USER_CAPITAL_KILL_SWITCH JNull of
        JObj kvs \<Rightarrow> (Success (JObj kvs), g)
      | JList xs \<Rightarrow> (Success (JObj [(''segments'', JList xs)]), g)
      | _ \<Rightarrow>
          with_broker env (get_kill_switch_status (ge_transport env))
            (\<lambda>data. cache_json USER_CAPITAL_KILL_SWITCH (segments_body data)) g)"

definition set_capital_kill_switch :: "gateway_env \<Rightarrow> (string \<times> string) list \<Rightarrow> handler" where
  "set_capital_kill_switch env toggles =
     with_broker env
       (set_kill_switch (ge_transport env) (map (\<lambda>(seg, act). JObj [(''segment'', JStr seg), (''action'', JStr act)]) toggles))
       (\<lambda>data. cache_json USER_CAPITAL_KILL_SWITCH (segments_body data))"

section \<open>Operational commands\<close>

definition command_instrument_refresh :: "gateway_env \<Rightarrow> handler" where
  "command_instrument_refresh env g =
     (case load_master_instruments (ge_boot env) (gw_db g) of
        (n, d) \<Rightarrow> (Success (JObj [(''ok'', JBool True), (''indexes'', JInt (int n))]), g\<lparr>gw_db := d\<rparr>))"

definition command_upstox_token_request :: "gateway_env \<Rightarrow> handler" where
  "command_upstox_token_request env g =
     ((case stored_creds env (gw_db g) of
         [] \<Rightarrow> ApiFail 400 ''CREDENTIALS_MISSING''
       | creds \<Rightarrow>
           (case snd (request_access_token (ge_show env) (ge_transport env) creds) of
              Inl e \<Rightarrow> Crash e
            | Inr ev \<Rightarrow>
                if \<not> ev_success ev then ApiFail 503 ''BROKER_ERROR''
                else (case (jget (ev_data ev) ''authorization_expiry'', jget (ev_data ev) ''notifier_url'') of
                        (Inr x, Inr n) \<Rightarrow>
                          Success (JObj [(''ok'', JBool True), (''authorization_expiry'', x), (''notifier_url'', n)])
                      | _ \<Rightarrow> Crash AttributeError))), g)"

section \<open>Routing\<close>

datatype endpoint =
    Login string string | Refresh | Webhook webhook
  | GetHealth | TestDependencies "string + bool" "string + bool" probe_result
  | GetCredentials | SetCredentials creds_in | DeleteCredentials
  | GetConfigs | GetConfig string | PutConfig string json
  | StrategyStatus | HaltIndex string | ResumeIndex string | GlobalKill string | GlobalResume string bool
  | PositionsOpen | ManualExit string string | PnlLive | PcrLive string | PcrMode string int
  | InstrumentRefresh | TokenRequest | Funds | KillSwitchStatus | KillSwitchSet "(string \<times> string) list"

text \<open>The request models' length and range bounds; a body outside them is answered with 422.\<close>

definition valid_body :: "endpoint \<Rightarrow> bool" where
  "valid_body e =
     (case e of
        Login name password \<Rightarrow> name \<noteq> [] \<and> password \<noteq> []
      | SetCredentials c \<Rightarrow> valid_creds c
      | GlobalKill reason \<Rightarrow> 3 \<le> length reason
      | GlobalResume reason _ \<Rightarrow> 3 \<le> length reason
      | ManualExit _ reason \<Rightarrow> 3 \<le> length reason
      | PcrMode _ m \<Rightarrow> 1 \<le> m \<and> m \<le> 3
      | KillSwitchSet toggles \<Rightarrow> toggles \<noteq> []
      | _ \<Rightarrow> True)"

definition public :: "endpoint \<Rightarrow> bool" where
  "public e = (case e of Login _ _ \<Rightarrow> True | Webhook _ \<Rightarrow> True | GetHealth \<Rightarrow> True | TestDependencies _ _ _ \<Rightarrow> True | _ \<Rightarrow> False)"

definition run_endpoint :: "gateway_env \<Rightarrow> user \<Rightarrow> endpoint \<Rightarrow> handler" where
  "run_endpoint env u e =
     (case e of
        Login name password \<Rightarrow> login env name password
      | Refresh \<Rightarrow> refresh env u
      | Webhook w \<Rightarrow> upstox_webhook env w
      | GetHealth \<Rightarrow> health env
      | TestDependencies pong row broker \<Rightarrow> health_dependencies_test pong row broker
      | GetCredentials \<Rightarrow> get_upstox_credentials env
      | SetCredentials c \<Rightarrow> set_upstox_credentials env c
      | DeleteCredentials \<Rightarrow> delete_upstox_credentials
      | GetConfigs \<Rightarrow> get_configs env
      | GetConfig s \<Rightarrow> get_config_section env s
      | PutConfig s j \<Rightarrow> put_config_section env s j
      | StrategyStatus \<Rightarrow> strategy_status
      | HaltIndex i \<Rightarrow> halt_index i
      | ResumeIndex i \<Rightarrow> resume_index i
      | GlobalKill r \<Rightarrow> global_kill env r
      | GlobalResume r b \<Rightarrow> global_resume r b
      | PositionsOpen \<Rightarrow> positions_open env
      | ManualExit p r \<Rightarrow> manual_exit p r
      | PnlLive \<Rightarrow> pnl_live env
      | PcrLive i \<Rightarrow> delta_pcr_live env i
      | PcrMode i m \<Rightarrow> put_delta_pcr_mode i m
      | InstrumentRefresh \<Rightarrow> command_instrument_refresh env
      | TokenRequest \<Rightarrow> command_upstox_token_request env
      | Funds \<Rightarrow> capital_funds env
      | KillSwitchStatus \<Rightarrow> capital_kill_switch env
      | KillSwitchSet ts \<Rightarrow> set_capital_kill_switch env ts)"

text \<open>The user a request acts for: nobody on a public route, any token holder on \<open>/auth/refresh\<close>, an
  administrator elsewhere.  Dependencies are resolved before the body is validated.\<close>

definition acting_user :: "gateway_env \<Rightarrow> bearer \<Rightarrow> endpoint \<Rightarrow> response + user" where
  "acting_user env creds e =
     (let u = get_current_user (ge_show env) (ge_jwt env) (ge_now env) creds
      in if public e then Inr \<lparr>us_id = [], us_name = [], us_role = []\<rparr>
         else if e = Refresh then u else require_admin u)"

definition handle :: "gateway_env \<Rightarrow> bearer \<Rightarrow> endpoint \<Rightarrow> handler" where
  "handle env creds e g =
     (case acting_user env creds e of
        Inl r \<Rightarrow> (r, g)
      | Inr u \<Rightarrow> if valid_body e then run_endpoint env u e g else (ApiFail 422 ''VALIDATION_ERROR'', g))"

end
