(* ===== verification/GatewayProps.thy ===== *)
theory GatewayProps
  imports Gateway
begin

text \<open>
  What the gateway guarantees: only an administrator's token writes, and a manual kill keeps every
  new entry out until somebody entitled to it, or the scheduler's opening job, switches trading on.
\<close>

section \<open>Frame of the trading flag\<close>

abbreviation flag_of :: "gateway \<Rightarrow> rval option" where
  "flag_of g \<equiv> gw_db g SYSTEM_FLAGS_TRADING_ACTIVE"

lemma other_keys:
  "strategy_enabled i = Inr k \<Longrightarrow> k \<noteq> SYSTEM_FLAGS_TRADING_ACTIVE"
  "delta_pcr_mode i = Inr k \<Longrightarrow> k \<noteq> SYSTEM_FLAGS_TRADING_ACTIVE"
  "redis_key_for_config s = Inr k \<Longrightarrow> k \<noteq> SYSTEM_FLAGS_TRADING_ACTIVE"
  by (auto simp: key_helper_defs key_const_defs redis_key_for_config_def strategy_config_index_def split: if_splits)

lemma with_key_flag:
  assumes "\<And>key g. k = Inr key \<Longrightarrow> flag_of (snd (h key g)) = flag_of g"
  shows "flag_of (snd (with_key k h g)) = flag_of g"
  using assms by (simp add: with_key_def split: sum.split)

lemma known_index_flag: "flag_of (snd (h g)) = flag_of g \<Longrightarrow> flag_of (snd (known_index i h g)) = flag_of g"
  by (simp add: known_index_def)

lemma system_event_db [simp]: "gw_db (system_event k x g) = gw_db g"
  by (simp add: system_event_def)

lemma load_section_flag: "flag_of (snd (load_section env s g)) = flag_of g"
  using other_keys(3) by (fastforce simp: load_section_def split: sum.split option.split json.split)

lemma load_sections_flag: "flag_of (snd (load_sections env ss g)) = flag_of g"
proof (induction ss arbitrary: g)
  case (Cons s ss)
  show ?case using Cons [of "snd (load_section env s g)"] load_section_flag [of env s g] by (simp add: split_beta)
qed simp

lemma with_broker_flag:
  assumes "\<And>j g. flag_of (snd (k j g)) = flag_of g"
  shows "flag_of (snd (with_broker env ep k g)) = flag_of g"
  using assms by (simp add: with_broker_def split: option.split sum.split)

lemma cache_json_flag: "k \<noteq> SYSTEM_FLAGS_TRADING_ACTIVE \<Longrightarrow> flag_of (snd (cache_json k j g)) = flag_of g"
  by (simp add: cache_json_def)

lemma capital_keys: "USER_CAPITAL_FUNDS \<noteq> SYSTEM_FLAGS_TRADING_ACTIVE" "USER_CAPITAL_KILL_SWITCH \<noteq> SYSTEM_FLAGS_TRADING_ACTIVE"
  "USER_CREDENTIALS_UPSTOX \<noteq> SYSTEM_FLAGS_TRADING_ACTIVE" "USER_AUTH_ACCESS_TOKEN \<noteq> SYSTEM_FLAGS_TRADING_ACTIVE"
  "SYSTEM_HEALTH_AUTH \<noteq> SYSTEM_FLAGS_TRADING_ACTIVE" "UI_VIEW_CONFIGS \<noteq> SYSTEM_FLAGS_TRADING_ACTIVE"
  "MARKET_DATA_INSTRUMENTS_MASTER \<noteq> SYSTEM_FLAGS_TRADING_ACTIVE"
  "MARKET_DATA_INSTRUMENTS_LAST_REFRESH_TS \<noteq> SYSTEM_FLAGS_TRADING_ACTIVE"
  "SYSTEM_FLAGS_TRADING_DISABLED_REASON \<noteq> SYSTEM_FLAGS_TRADING_ACTIVE"
  by (simp_all add: key_const_defs)

lemmas distinct_keys = capital_keys capital_keys [symmetric]

lemma put_config_flag: "flag_of (snd (put_config_section env s j g)) = flag_of g"
proof (cases "s \<in> set SECTIONS \<and> ge_validate env s j \<noteq> None")
  case True
  then obtain v where v: "ge_validate env s j = Some v" by auto
  show ?thesis
  proof (cases "redis_key_for_config s")
    case (Inr k)
    let ?g = "g\<lparr>gw_pg_configs := dict_set s v (gw_pg_configs g), gw_db := (gw_db g)(k \<mapsto> RJson v)\<rparr>"
    have "flag_of (publish_configs_view env ?g) = flag_of (snd (load_sections env SECTIONS ?g))"
      by (simp add: publish_configs_view_def split_beta distinct_keys)
    also have "\<dots> = flag_of g" using other_keys(3) [OF Inr] by (simp add: load_sections_flag)
    finally show ?thesis using True v Inr by (simp add: put_config_section_def)
  qed (use True v in \<open>simp add: put_config_section_def\<close>)
qed (auto simp: put_config_section_def split: option.split)

lemma set_enabled_flag: "flag_of (snd (set_enabled kind on i g)) = flag_of g"
  unfolding set_enabled_def using other_keys(1) by (intro known_index_flag with_key_flag) fastforce

lemma pcr_flag: "flag_of (snd (put_delta_pcr_mode i m g)) = flag_of g"
  unfolding put_delta_pcr_mode_def using other_keys(2) by (intro known_index_flag with_key_flag) fastforce

lemma pcr_live_state: "snd (delta_pcr_live env i g) = g"
  by (simp add: delta_pcr_live_def known_index_def with_key_def split: sum.split option.split)

lemma master_flag: "snd (load_master_instruments b d) SYSTEM_FLAGS_TRADING_ACTIVE = d SYSTEM_FLAGS_TRADING_ACTIVE"
  by (simp add: load_master_instruments_def Let_def distinct_keys split: sum.split)

definition enabling :: "endpoint \<Rightarrow> bool" where
  "enabling e = (case e of GlobalResume _ _ \<Rightarrow> True | SetCredentials _ \<Rightarrow> True | _ \<Rightarrow> False)"

lemmas plain_handlers = login_def refresh_def health_def health_dependencies_test_def get_upstox_credentials_def
  strategy_status_def positions_open_def pnl_live_def command_upstox_token_request_def

lemmas funds_handlers = capital_funds_def capital_kill_switch_def set_capital_kill_switch_def

lemma run_endpoint_flag:
  assumes "\<not> enabling e"
  shows "flag_of (snd (run_endpoint env u e g)) \<in> {flag_of g, Some (RText ''false'')}"
proof (cases e)
  case (Webhook w)
  then show ?thesis by (simp add: run_endpoint_def upstox_webhook_def Let_def distinct_keys)
next
  case (PutConfig s j)
  then show ?thesis by (simp add: run_endpoint_def put_config_flag)
next
  case GetConfigs
  then show ?thesis using load_sections_flag [of env SECTIONS g] by (simp add: run_endpoint_def get_configs_def split_beta)
next
  case (GetConfig s)
  then show ?thesis using load_section_flag [of env s g]
    by (auto simp: run_endpoint_def get_config_section_def split: prod.split option.split)
next
  case Funds
  then show ?thesis using with_broker_flag cache_json_flag distinct_keys
    by (simp add: run_endpoint_def capital_funds_def split: option.split)
next
  case KillSwitchStatus
  then show ?thesis using with_broker_flag cache_json_flag distinct_keys
    by (simp add: run_endpoint_def capital_kill_switch_def split: json.split)
next
  case (KillSwitchSet ts)
  then show ?thesis using with_broker_flag cache_json_flag distinct_keys
    by (simp add: run_endpoint_def set_capital_kill_switch_def)
next
  case InstrumentRefresh
  then show ?thesis using master_flag [of "ge_boot env" "gw_db g"]
    by (simp add: run_endpoint_def command_instrument_refresh_def split_beta)
next
  case (HaltIndex i)
  then show ?thesis by (simp add: run_endpoint_def halt_index_def set_enabled_flag)
next
  case (ResumeIndex i)
  then show ?thesis by (simp add: run_endpoint_def resume_index_def set_enabled_flag)
next
  case (PcrMode i m)
  then show ?thesis by (simp add: run_endpoint_def pcr_flag)
next
  case (PcrLive i)
  then show ?thesis by (simp add: run_endpoint_def pcr_live_state)
next
  case (ManualExit p r)
  then show ?thesis by (simp add: run_endpoint_def manual_exit_def)
next
  case PnlLive
  then show ?thesis by (simp add: run_endpoint_def pnl_live_def split: option.split sum.split rval.split)
next
  case (GlobalKill r)
  then show ?thesis by (simp add: run_endpoint_def global_kill_def distinct_keys)
qed (use assms in \<open>simp_all add: run_endpoint_def enabling_def delete_upstox_credentials_def plain_handlers distinct_keys Let_def
       split: option.split\<close>)

section \<open>A trading day\<close>

text \<open>The gateway's requests and the scheduler's jobs, interleaved; a job is looked up by its name.\<close>

definition run_job :: "string \<Rightarrow> db \<Rightarrow> db" where
  "run_job name d =
     (if name = ''pre_open_snapshot'' then fst (pre_open_snapshot (d, []))
      else if name = ''market_open'' then fst (market_open (d, []))
      else if name = ''entry_freeze'' then fst (entry_freeze (d, []))
      else if name = ''eod_squareoff'' then fst (eod_squareoff (d, []))
      else if name = ''market_close'' then fst (market_close (d, []))
      else if name = ''daily_reset'' then fst (daily_reset (d, []))
      else if name = ''instrument_refresh'' then fst (instrument_refresh (d, []))
      else if name = ''nightly_maintenance'' then fst (nightly_maintenance (d, []))
      else d)"

datatype day_event = Call gateway_env bearer endpoint | Job string

definition day_step :: "gateway \<Rightarrow> day_event \<Rightarrow> gateway" where
  "day_step g ev =
     (case ev of Call env creds e \<Rightarrow> snd (handle env creds e g) | Job name \<Rightarrow> g\<lparr>gw_db := run_job name (gw_db g)\<rparr>)"

definition run_day :: "day_event list \<Rightarrow> gateway \<Rightarrow> gateway" where
  "run_day evs g = foldl day_step g evs"

definition keeps_off :: "day_event \<Rightarrow> bool" where
  "keeps_off ev =
     (case ev of
        Call env creds e \<Rightarrow> enabling e \<longrightarrow> (\<exists>r. acting_user env creds e = Inl r) \<or> \<not> valid_body e
      | Job name \<Rightarrow> name \<noteq> ''market_open'')"

lemma run_job_flag:
  "name \<noteq> ''market_open'' \<Longrightarrow> run_job name d SYSTEM_FLAGS_TRADING_ACTIVE \<in> {d SYSTEM_FLAGS_TRADING_ACTIVE, Some (RText ''false'')}"
  by (simp add: run_job_def pre_open_snapshot_def entry_freeze_def eod_squareoff_def market_close_def daily_reset_def
      instrument_refresh_def nightly_maintenance_def publish_event_def key_const_defs)

lemma day_step_flag:
  assumes "keeps_off ev" and "flag_of g = Some (RText ''false'')"
  shows "flag_of (day_step g ev) = Some (RText ''false'')"
proof (cases ev)
  case (Call env creds e)
  then show ?thesis using assms run_endpoint_flag [of e env _ g]
    by (fastforce simp: day_step_def keeps_off_def handle_def split: sum.split)
next
  case (Job name)
  then show ?thesis using assms run_job_flag [of name "gw_db g"] by (auto simp: day_step_def keeps_off_def)
qed

lemma run_day_flag:
  "list_all keeps_off evs \<Longrightarrow> flag_of g = Some (RText ''false'') \<Longrightarrow> flag_of (run_day evs g) = Some (RText ''false'')"
  by (induction evs arbitrary: g) (auto simp: run_day_def day_step_flag)

section \<open>Authorisation\<close>

lemma current_user_cases:
  assumes "get_current_user show_value jwt now creds = r"
  obtains (refused) s code where "r = Inl (ApiFail s code)" | (crash) e where "r = Inl (Crash e)"
  | (user) scheme tok kvs ex u where "r = Inr u" "creds = Some (scheme, tok)" "py_lower scheme = ''bearer''" "jwt tok = JwtClaims kvs"
      "claim_int (field kvs ''exp'') = Inr ex" "now < ex"
      "us_role u = (if truthy (field kvs ''role'') then py_str show_value (field kvs ''role'') else ''admin'')"
proof (cases "case creds of None \<Rightarrow> True | Some (scheme, tok) \<Rightarrow> py_lower scheme \<noteq> ''bearer''")
  case True
  then show ?thesis using assms refused by (auto simp: get_current_user_def split: option.splits)
next
  case False
  then obtain scheme tok where c: "creds = Some (scheme, tok)" "py_lower scheme = ''bearer''" by (auto split: option.splits)
  show ?thesis
  proof (cases "decode_token show_value jwt now tok")
    case (Inl e)
    then show ?thesis using assms c refused crash by (cases e) (auto simp: get_current_user_def)
  next
    case (Inr u)
    then show ?thesis using assms c user
      by (auto simp: get_current_user_def decode_token_def Let_def split: jwt_answer.splits sum.splits if_splits option.splits)
  qed
qed

lemma acting_user_error: "acting_user env creds e = Inl r \<Longrightarrow> r \<noteq> Success b"
  by (cases rule: current_user_cases [OF refl, of "ge_show env" "ge_jwt env" "ge_now env" creds])
    (auto simp: acting_user_def require_admin_def Let_def split: if_splits)

lemma admin_token:
  assumes "acting_user env creds e = Inr u" and "\<not> public e" and "e \<noteq> Refresh"
  shows "\<exists>scheme tok kvs ex. creds = Some (scheme, tok) \<and> py_lower scheme = ''bearer'' \<and> ge_jwt env tok = JwtClaims kvs \<and>
    claim_int (field kvs ''exp'') = Inr ex \<and> ge_now env < ex \<and>
    (truthy (field kvs ''role'') \<longrightarrow> py_str (ge_show env) (field kvs ''role'') = ''admin'')"
  using assms
  by (cases rule: current_user_cases [OF refl, of "ge_show env" "ge_jwt env" "ge_now env" creds])
    (auto simp: acting_user_def require_admin_def Let_def split: if_splits)

lemma public_writes:
  assumes "public e \<or> e = Refresh" and "snd (run_endpoint env u e g) \<noteq> g"
  shows "\<exists>w. e = Webhook w \<and> stored_creds env (gw_db g) \<noteq> [] \<and>
    (let key = field (stored_creds env (gw_db g)) ''api_key''
     in (if truthy key then py_str (ge_show env) key else []) = wh_client_id w)"
  using assms
  by (cases e) (auto simp: public_def run_endpoint_def plain_handlers upstox_webhook_def Let_def split: if_splits option.splits)

section \<open>Properties\<close>

text \<open>Claim C13.  A manual kill holds.  Once an administrator's \<open>global_kill\<close> was answered, whatever
  further requests the gateway serves and whatever jobs the scheduler fires, the entry gate refuses
  every signal with \<open>trading_inactive\<close>, without reserving capital, until an authorised resume, an
  authorised change of the credentials or the market-open job; requests of those two kinds that are
  not authorised or not well formed do not lift it.\<close>

theorem kill_stops_entries:
  assumes "handle env creds (GlobalKill reason) g = (Success body, g1)"
    and "list_all keeps_off evs"
    and "w_trading_active w = text_at (gw_db (run_day evs g1)) SYSTEM_FLAGS_TRADING_ACTIVE"
  shows "gate_check_and_reserve as w sig = Inr (False, ''trading_inactive'', 0, w) \<and>
    gw_control g1 = gw_control g @ [(''global_kill'', reason)]"
proof -
  have "g1 = snd (global_kill env reason g)"
    using assms(1) acting_user_error by (fastforce simp: handle_def run_endpoint_def split: sum.splits if_splits)
  then have f: "flag_of g1 = Some (RText ''false'')" "gw_control g1 = gw_control g @ [(''global_kill'', reason)]"
    by (simp_all add: global_kill_def distinct_keys)
  have "flag_of (run_day evs g1) = Some (RText ''false'')" by (rule run_day_flag [OF assms(2) f(1)])
  then have "w_trading_active w = Some ''false''" using assms(3) by (simp add: text_at_def)
  then show ?thesis using f(2) by (simp add: gate_check_and_reserve_def check_def decode_def)
qed

text \<open>A day for the witnesses: one administrator's token, everything else refused.\<close>

definition admin_env :: gateway_env where
  "admin_env =
     \<lparr>ge_now = 100, ge_now_iso = [], ge_expiry_iso = [], ge_loads = (\<lambda>_. None), ge_show = (\<lambda>_. []), ge_show_error = (\<lambda>_. []),
      ge_jwt = (\<lambda>tok. if tok = ''good'' then JwtClaims [(''sub'', JStr ''1''), (''exp'', JInt 200), (''role'', JStr ''admin'')] else JwtInvalid),
      ge_sign = (\<lambda>_. []), ge_account = (\<lambda>_. None), ge_checkpw = (\<lambda>_ _. None), ge_encrypt = (\<lambda>_. []),
      ge_transport = (\<lambda>_. Inl []), ge_validate = (\<lambda>_ _. None), ge_boot = undefined\<rparr>"

definition fresh_gateway :: gateway where
  "fresh_gateway =
     \<lparr>gw_db = (\<lambda>k. if k = SYSTEM_FLAGS_TRADING_ACTIVE then Some (RText ''true'') else None), gw_control = [], gw_manual = [],
      gw_events = [], gw_views = [], gw_pg_creds = None, gw_pg_configs = []\<rparr>"

definition admin_bearer :: bearer where
  "admin_bearer = Some (''Bearer'', ''good'')"

lemma lower_bearer: "py_lower ''Bearer'' = ''bearer''"
  by code_simp

lemma admin_acts: "\<not> public e \<Longrightarrow> e \<noteq> Refresh \<Longrightarrow> \<exists>u. acting_user admin_env admin_bearer e = Inr u"
  by (simp add: acting_user_def get_current_user_def admin_bearer_def admin_env_def lower_bearer decode_token_def
      field_def claim_int_def int_of_json_def py_str_def require_admin_def Let_def)

lemma stranger_refused: "enabling e \<Longrightarrow> \<exists>r. acting_user admin_env None e = Inl r"
  by (cases e) (simp_all add: enabling_def acting_user_def public_def get_current_user_def require_admin_def)

theorem kill_stops_entries_witness:
  "\<exists>body g1. handle admin_env admin_bearer (GlobalKill ''halt'') fresh_gateway = (Success body, g1) \<and>
     gate_check_and_reserve []
       (boot_world\<lparr>w_trading_active := text_at (gw_db (run_day [Job ''daily_reset'', Call admin_env None (GlobalResume ''again'' True)] g1))
                                        SYSTEM_FLAGS_TRADING_ACTIVE\<rparr>) sample_signal =
       Inr (False, ''trading_inactive'', 0,
         boot_world\<lparr>w_trading_active := text_at (gw_db (run_day [Job ''daily_reset'', Call admin_env None (GlobalResume ''again'' True)] g1))
                                          SYSTEM_FLAGS_TRADING_ACTIVE\<rparr>)"
proof -
  obtain u where "acting_user admin_env admin_bearer (GlobalKill ''halt'') = Inr u" using admin_acts [of "GlobalKill ''halt''"] by (auto simp: public_def)
  then have h: "\<exists>body g1. handle admin_env admin_bearer (GlobalKill ''halt'') fresh_gateway = (Success body, g1)"
    by (simp add: handle_def valid_body_def run_endpoint_def global_kill_def)
  have k: "list_all keeps_off [Job ''daily_reset'', Call admin_env None (GlobalResume ''again'' True)]"
    using stranger_refused [of "GlobalResume ''again'' True"] by (simp add: keeps_off_def)
  from h obtain body g1 where g: "handle admin_env admin_bearer (GlobalKill ''halt'') fresh_gateway = (Success body, g1)" by blast
  show ?thesis using kill_stops_entries [OF g k] g by (intro exI conjI) (auto simp del: run_day_def)
qed

text \<open>Claim C14.  Only an administrator writes.  If serving a request changes anything (the key
  space, the control streams, the published events, the Postgres rows), the request either carries
  a bearer token whose signature the token library accepted, which has not expired and whose role
  is absent or \<open>admin\<close>, or it is the broker's token webhook and names the client id of the stored
  credentials.\<close>

theorem only_admins_write:
  assumes "snd (handle env creds e g) \<noteq> g"
  shows "(\<exists>scheme tok kvs ex. creds = Some (scheme, tok) \<and> py_lower scheme = ''bearer'' \<and> ge_jwt env tok = JwtClaims kvs \<and>
      claim_int (field kvs ''exp'') = Inr ex \<and> ge_now env < ex \<and>
      (truthy (field kvs ''role'') \<longrightarrow> py_str (ge_show env) (field kvs ''role'') = ''admin'')) \<or>
    (\<exists>w. e = Webhook w \<and> stored_creds env (gw_db g) \<noteq> [] \<and>
      (let key = field (stored_creds env (gw_db g)) ''api_key''
       in (if truthy key then py_str (ge_show env) key else []) = wh_client_id w))"
proof -
  from assms obtain u where u: "acting_user env creds e = Inr u" and "snd (run_endpoint env u e g) \<noteq> g"
    by (auto simp: handle_def split: sum.splits if_splits)
  then show ?thesis using admin_token [OF u] public_writes [of e env u g] by blast
qed

theorem only_admins_write_witness:
  "snd (handle admin_env admin_bearer (GlobalKill ''halt'') fresh_gateway) \<noteq> fresh_gateway \<and>
   (\<exists>scheme tok kvs. admin_bearer = Some (scheme, tok) \<and> ge_jwt admin_env tok = JwtClaims kvs)"
proof -
  obtain u where "acting_user admin_env admin_bearer (GlobalKill ''halt'') = Inr u" using admin_acts [of "GlobalKill ''halt''"] by (auto simp: public_def)
  then have h: "snd (handle admin_env admin_bearer (GlobalKill ''halt'') fresh_gateway) \<noteq> fresh_gateway"
    by (simp add: handle_def valid_body_def run_endpoint_def global_kill_def fresh_gateway_def)
  from only_admins_write [OF h] show ?thesis using h by auto
qed

end
