(* ===== verification/GatewayViews.thy ===== *)
theory GatewayViews
  imports Gateway
begin

text \<open>
  \<open>engines/api_gateway/view_router.py\<close> and \<open>ws_endpoints.py\<close>: the names of the frontend's views, and
  the push-only socket as a loop over its passes.  A pass reads the clock twice, takes at most one
  client message and at most one published key; Redis is what it holds at that pass.  A client text that
  is not JSON is left out.
\<close>

section \<open>View names\<close>

definition after_prefix :: "string \<Rightarrow> string \<Rightarrow> string option" where
  "after_prefix p s = (if take (length p) s = p then Some (drop (length p) s) else None)"

definition PLAIN_VIEWS :: "(string \<times> string) list" where
  "PLAIN_VIEWS =
    [(''dashboard'', UI_VIEW_DASHBOARD), (''positions:closed_today'', UI_VIEW_POSITIONS_CLOSED_TODAY), (''pnl'', UI_VIEW_PNL),
     (''capital'', UI_VIEW_CAPITAL), (''health'', UI_VIEW_HEALTH), (''configs'', UI_VIEW_CONFIGS)]"

definition view_key :: "string \<Rightarrow> pyexc + string" where
  "view_key v =
     (case map_of PLAIN_VIEWS v of
        Some k \<Rightarrow> Inr k
      | None \<Rightarrow>
          (case after_prefix ''strategy:'' v of Some i \<Rightarrow> ui_view_strategy i
           | None \<Rightarrow> (case after_prefix ''position:'' v of Some i \<Rightarrow> ui_view_position i
              | None \<Rightarrow> (case after_prefix ''delta_pcr:'' v of Some i \<Rightarrow> ui_view_delta_pcr i | None \<Rightarrow> Inl ValueError))))"

definition view_name_from_key :: "string \<Rightarrow> string option" where
  "view_name_from_key key =
     (case map_of (map (\<lambda>(v, k). (k, v)) PLAIN_VIEWS) key of
        Some v \<Rightarrow> Some v
      | None \<Rightarrow>
          (case after_prefix ''ui:views:strategy:'' key of Some i \<Rightarrow> Some (''strategy:'' @ i)
           | None \<Rightarrow> (case after_prefix ''ui:views:position:'' key of Some i \<Rightarrow> Some (''position:'' @ i)
              | None \<Rightarrow> map_option (\<lambda>i. ''delta_pcr:'' @ i) (after_prefix ''ui:views:delta_pcr:'' key))))"

fun validate_from :: "string list \<Rightarrow> string list \<Rightarrow> pyexc + string list" where
  "validate_from clean [] = Inr clean"
| "validate_from clean (v # vs) =
     and_then (view_key v) (\<lambda>_. validate_from (if v \<in> set clean then clean else clean @ [v]) vs)"

definition validate_views :: "string list \<Rightarrow> pyexc + string list" where
  "validate_views vs = validate_from [] vs"

definition read_view :: "gateway_env \<Rightarrow> db \<Rightarrow> string \<Rightarrow> json" where
  "read_view env d v = (case view_key v of Inl _ \<Rightarrow> JNull | Inr k \<Rightarrow> get_json env d k JNull)"

definition snapshot_views :: "gateway_env \<Rightarrow> db \<Rightarrow> string list \<Rightarrow> (string \<times> json) list" where
  "snapshot_views env d vs = map (\<lambda>v. (v, read_view env d v)) vs"

section \<open>The socket\<close>

definition PING_INTERVAL_SEC :: rat where "PING_INTERVAL_SEC = 20"
definition PONG_TIMEOUT_SEC :: rat where "PONG_TIMEOUT_SEC = 30"

datatype client_msg = Silence | Disconnect | Message json

datatype frame = Ping | Snapshot "(string \<times> json) list" | Update string json

datatype closing = Running | Closed int | Gone

record pass =
  ps_now :: rat
  ps_pong :: rat
  ps_msg :: client_msg
  ps_pub :: "string option"
  ps_db :: db

record session =
  ss_views :: "string list"
  ss_last_pong :: rat
  ss_last_ping :: rat

definition requested_views :: "gateway_env \<Rightarrow> (string \<times> json) list \<Rightarrow> pyexc + string list" where
  "requested_views env kvs =
     and_then (py_list (case map_of kvs ''views'' of None \<Rightarrow> JList [] | Some v \<Rightarrow> v)) (\<lambda>vs.
       validate_views (map (py_str (ge_show env)) vs))"

definition ping_part :: "pass \<Rightarrow> session \<Rightarrow> frame list \<times> session" where
  "ping_part p s =
     (if PING_INTERVAL_SEC \<le> ps_now p - ss_last_ping s then ([Ping], s\<lparr>ss_last_ping := ps_now p\<rparr>) else ([], s))"

definition message_part :: "gateway_env \<Rightarrow> pass \<Rightarrow> session \<Rightarrow> frame list \<times> session \<times> closing" where
  "message_part env p s =
     (case ps_msg p of
        Silence \<Rightarrow> ([], s, Running)
      | Disconnect \<Rightarrow> ([], s, Gone)
      | Message (JObj kvs) \<Rightarrow>
          if field kvs ''type'' = JStr ''pong'' then ([], s\<lparr>ss_last_pong := ps_pong p\<rparr>, Running)
          else if field kvs ''type'' = JStr ''subscribe'' then
            (case requested_views env kvs of
               Inl _ \<Rightarrow> ([], s, Closed 4001)
             | Inr vs \<Rightarrow> ([Snapshot (snapshot_views env (ps_db p) vs)], s\<lparr>ss_views := vs\<rparr>, Running))
          else ([], s, Running)
      | Message _ \<Rightarrow> ([], s, Running))"

definition update_part :: "gateway_env \<Rightarrow> pass \<Rightarrow> session \<Rightarrow> frame list" where
  "update_part env p s =
     (case ps_pub p of
        None \<Rightarrow> []
      | Some key \<Rightarrow>
          (case view_name_from_key key of
             None \<Rightarrow> []
           | Some v \<Rightarrow> if v \<in> set (ss_views s) then [Update v (read_view env (ps_db p) v)] else []))"

definition stream_pass :: "gateway_env \<Rightarrow> pass \<Rightarrow> session \<Rightarrow> frame list \<times> session \<times> closing" where
  "stream_pass env p s =
     (case ping_part p s of (pings, s1) \<Rightarrow>
        if PONG_TIMEOUT_SEC < ps_now p - ss_last_pong s1 then (pings, s1, Closed 4000)
        else (case message_part env p s1 of (out, s2, c) \<Rightarrow>
                (pings @ out @ (if c = Running then update_part env p s2 else []), s2, c)))"

fun stream_loop :: "gateway_env \<Rightarrow> pass list \<Rightarrow> session \<Rightarrow> frame list \<times> session \<times> closing" where
  "stream_loop env [] s = ([], s, Running)"
| "stream_loop env (p # ps) s =
     (case stream_pass env p s of (out, s1, c) \<Rightarrow>
        if c \<noteq> Running then (out, s1, c)
        else (case stream_loop env ps s1 of (rest, s2, c2) \<Rightarrow> (out @ rest, s2, c2)))"

definition stream :: "gateway_env \<Rightarrow> string option \<Rightarrow> rat \<Rightarrow> pass list \<Rightarrow> frame list \<times> closing" where
  "stream env tok start ps =
     (case tok of
        None \<Rightarrow> ([], Closed 1008)
      | Some t \<Rightarrow>
          if t = [] then ([], Closed 1008)
          else (case decode_token (ge_show env) (ge_jwt env) (ge_now env) t of
                  Inl (Raised _) \<Rightarrow> ([], Closed 1006)
                | Inl _ \<Rightarrow> ([], Closed 1008)
                | Inr _ \<Rightarrow>
                    (case stream_loop env ps \<lparr>ss_views = [], ss_last_pong = start, ss_last_ping = 0\<rparr> of (out, _, c) \<Rightarrow> (out, c))))"

section \<open>Lemmas\<close>

text \<open>The views a client may receive after a prefix of the session: those of its last subscription.\<close>

definition subscription_of :: "gateway_env \<Rightarrow> pass \<Rightarrow> string list option" where
  "subscription_of env p =
     (case ps_msg p of
        Message (JObj kvs) \<Rightarrow>
          if field kvs ''type'' = JStr ''subscribe'' then (case requested_views env kvs of Inl _ \<Rightarrow> None | Inr vs \<Rightarrow> Some vs) else None
      | _ \<Rightarrow> None)"

definition subscribed_after :: "gateway_env \<Rightarrow> pass list \<Rightarrow> string list" where
  "subscribed_after env ps = last_known [] (map (subscription_of env) ps)"

lemma last_known_Nil [simp]: "last_known d [] = d"
  by (simp add: last_known_def somes_def)

lemma last_known_Cons: "last_known d (x # xs) = last_known (case x of None \<Rightarrow> d | Some v \<Rightarrow> v) xs"
  by (cases x) (auto simp: last_known_def somes_def split: list.split)

lemma message_views:
  "message_part env p s = (out, s', c) \<Longrightarrow> c = Running \<Longrightarrow>
     ss_views s' = last_known (ss_views s) [subscription_of env p] \<and> (\<forall>v j. Update v j \<notin> set out)"
  by (auto simp: message_part_def subscription_of_def last_known_Cons split: client_msg.splits json.splits if_splits sum.splits)

lemma message_no_update: "message_part env p s = (out, s', c) \<Longrightarrow> Update v j \<notin> set out"
  by (auto simp: message_part_def split: client_msg.splits json.splits if_splits sum.splits)

lemma ping_views: "ping_part p s = (out, s') \<Longrightarrow> ss_views s' = ss_views s \<and> ss_last_pong s' = ss_last_pong s \<and> Update v j \<notin> set out"
  by (auto simp: ping_part_def split: if_splits)

lemma update_part_iff:
  "Update v j \<in> set (update_part env p s) \<longleftrightarrow>
     (\<exists>k. ps_pub p = Some k \<and> view_name_from_key k = Some v \<and> v \<in> set (ss_views s) \<and> j = read_view env (ps_db p) v)"
  by (cases "ps_pub p") (auto simp: update_part_def split: option.split)

lemma pass_update:
  assumes "stream_pass env p s = (out, s', c)" and "Update v j \<in> set out"
  shows "\<exists>k. ps_pub p = Some k \<and> view_name_from_key k = Some v \<and> j = read_view env (ps_db p) v \<and>
    v \<in> set (last_known (ss_views s) [subscription_of env p])"
proof -
  obtain pings s1 where a: "ping_part p s = (pings, s1)" by fastforce
  obtain o2 s2 c2 where b: "message_part env p s1 = (o2, s2, c2)" using prod_cases3 by blast
  have "c2 = Running \<and> Update v j \<in> set (update_part env p s2)"
    using assms ping_views [OF a] message_no_update [OF b] by (auto simp: stream_pass_def a b split: if_splits)
  moreover have "c2 = Running \<Longrightarrow> ss_views s2 = last_known (ss_views s) [subscription_of env p]"
    using message_views [OF b] ping_views [OF a] by simp
  ultimately show ?thesis by (auto simp: update_part_iff)
qed

lemma pass_views:
  assumes "stream_pass env p s = (out, s', Running)"
  shows "ss_views s' = last_known (ss_views s) [subscription_of env p]"
  using assms message_views ping_views
  by (auto simp: stream_pass_def split: prod.splits if_splits)

lemma loop_update:
  assumes "stream_loop env ps s = (out, s', c)" and "Update v j \<in> set out"
  shows "\<exists>pre p post k. ps = pre @ p # post \<and> ps_pub p = Some k \<and> view_name_from_key k = Some v \<and>
    v \<in> set (last_known (ss_views s) (map (subscription_of env) (pre @ [p]))) \<and> j = read_view env (ps_db p) v"
  using assms
proof (induction ps arbitrary: s out s' c)
  case (Cons p ps)
  obtain o1 s1 c1 where a: "stream_pass env p s = (o1, s1, c1)" using prod_cases3 by blast
  show ?case
  proof (cases "Update v j \<in> set o1")
    case True
    show ?thesis using pass_update [OF a True] by (intro exI [of _ "[]"]) auto
  next
    case False
    then have c1: "c1 = Running" using Cons.prems by (auto simp: a split: if_splits)
    obtain o2 s2 c2 where b: "stream_loop env ps s1 = (o2, s2, c2)" using prod_cases3 by blast
    have "Update v j \<in> set o2" using Cons.prems False c1 by (auto simp: a b)
    from Cons.IH [OF b this] obtain pre q post k where
      q: "ps = pre @ q # post" "ps_pub q = Some k" "view_name_from_key k = Some v" "j = read_view env (ps_db q) v"
        "v \<in> set (last_known (ss_views s1) (map (subscription_of env) (pre @ [q])))" by blast
    have "ss_views s1 = last_known (ss_views s) [subscription_of env p]" using pass_views a c1 by blast
    then show ?thesis using q by (intro exI [of _ "p # pre"]) (auto simp: last_known_Cons)
  qed
qed simp

text \<open>A client that stops answering pings is dropped at the first pass more than the timeout after
  its last pong.\<close>

lemma silent_client_dropped:
  assumes "\<forall>p \<in> set ps. \<forall>kvs. ps_msg p = Message (JObj kvs) \<longrightarrow> field kvs ''type'' \<noteq> JStr ''pong''"
    and "\<exists>p \<in> set ps. ss_last_pong s + PONG_TIMEOUT_SEC < ps_now p"
  shows "snd (snd (stream_loop env ps s)) \<noteq> Running"
  using assms
proof (induction ps arbitrary: s)
  case (Cons p ps)
  obtain o1 s1 c1 where a: "stream_pass env p s = (o1, s1, c1)" using prod_cases3 by blast
  show ?case
  proof (cases "c1 = Running")
    case True
    obtain pings s0 where b: "ping_part p s = (pings, s0)" by fastforce
    have l: "\<not> PONG_TIMEOUT_SEC < ps_now p - ss_last_pong s" and m: "\<exists>o2. message_part env p s0 = (o2, s1, Running)"
      using a True ping_views [OF b] by (auto simp: stream_pass_def b split: if_splits prod.splits)
    have "ss_last_pong s1 = ss_last_pong s0"
      using m Cons.prems(1) by (auto simp: message_part_def split: client_msg.splits json.splits if_splits sum.splits)
    then have "ss_last_pong s1 = ss_last_pong s" using ping_views [OF b] by simp
    moreover from this have "\<exists>p \<in> set ps. ss_last_pong s1 + PONG_TIMEOUT_SEC < ps_now p" using Cons.prems(2) l by auto
    ultimately show ?thesis using Cons True by (simp add: a split_beta)
  qed (simp add: a)
qed simp

text \<open>The key a view is stored under leads back to its name, except for the strategy and put-call
  ratio views: their updates are published under keys the router does not recognise.\<close>

definition routed :: "string \<Rightarrow> bool" where
  "routed v \<longleftrightarrow> after_prefix ''strategy:'' v = None \<and> after_prefix ''delta_pcr:'' v = None"

lemma after_prefix_Some: "after_prefix p s = Some r \<longleftrightarrow> s = p @ r"
  by (auto simp: after_prefix_def) (metis append_take_drop_id)

lemmas view_keys = UI_VIEW_DASHBOARD_def UI_VIEW_POSITIONS_CLOSED_TODAY_def UI_VIEW_PNL_def UI_VIEW_CAPITAL_def
  UI_VIEW_HEALTH_def UI_VIEW_CONFIGS_def

lemma view_name_roundtrip:
  assumes "view_key v = Inr k"
  shows "view_name_from_key k = (if routed v then Some v else None)"
proof (cases "map_of PLAIN_VIEWS v")
  case (Some k')
  then show ?thesis using assms
    by (auto simp: view_key_def PLAIN_VIEWS_def view_name_from_key_def routed_def after_prefix_def view_keys split: if_splits)
next
  case None
  consider (strategy) i where "v = ''strategy:'' @ i" "ui_view_strategy i = Inr k"
    | (position) i where "v = ''position:'' @ i" "ui_view_position i = Inr k" "routed v"
    | (pcr) i where "v = ''delta_pcr:'' @ i" "ui_view_delta_pcr i = Inr k"
  proof (cases "after_prefix ''strategy:'' v")
    case (Some i)
    then have "ui_view_strategy i = Inr k" using assms None by (simp add: view_key_def)
    moreover have "v = ''strategy:'' @ i" using Some after_prefix_Some by blast
    ultimately show ?thesis using that(1) by blast
  next
    case s: None
    show ?thesis
    proof (cases "after_prefix ''position:'' v")
      case (Some i)
      have v: "v = ''position:'' @ i" using Some after_prefix_Some by blast
      have "ui_view_position i = Inr k" using assms None s Some by (simp add: view_key_def)
      moreover have "routed v" using s unfolding routed_def v by (simp add: after_prefix_def)
      ultimately show ?thesis using that(2) v by blast
    next
      case p: None
      then obtain i where i: "after_prefix ''delta_pcr:'' v = Some i" "ui_view_delta_pcr i = Inr k"
        using assms None s by (auto simp: view_key_def split: option.splits)
      then show ?thesis using that(3) after_prefix_Some by blast
    qed
  qed
  then show ?thesis
  proof cases
    case strategy
    then have i: "i = ''nifty50'' \<or> i = ''banknifty''" "k = ''ui:views:vessels:'' @ DEFAULT_STRATEGY_ID @ '':'' @ i"
      by (auto simp: ui_view_strategy_def ui_view_vessel_def valid_index_cases split: if_splits)
    then show ?thesis using strategy(1)
      by (simp add: view_name_from_key_def PLAIN_VIEWS_def view_keys routed_def after_prefix_def)
  next
    case position
    then have i: "i = ''nifty50'' \<or> i = ''banknifty''" "k = ''ui:views:position:'' @ i"
      by (auto simp: ui_view_position_def valid_index_cases split: if_splits)
    then show ?thesis using position(1,3)
      by (simp add: view_name_from_key_def PLAIN_VIEWS_def view_keys after_prefix_def)
  next
    case pcr
    then have i: "i = ''nifty50'' \<or> i = ''banknifty''" "k = ''ui:views:legacy:delta_pcr:'' @ i"
      by (auto simp: ui_view_delta_pcr_def valid_index_cases split: if_splits)
    then show ?thesis using pcr(1)
      by (simp add: view_name_from_key_def PLAIN_VIEWS_def view_keys routed_def after_prefix_def)
  qed
qed

section \<open>Properties\<close>

text \<open>The stream sends a client only what it asked for.  Every update sent in a session
  comes from a pass on which the key of that view was published; the client had presented a valid
  token, its latest accepted subscription names the view, and the body is what Redis held under the
  view's key at that pass.  A client that stops answering pings is disconnected at the first pass
  more than thirty seconds after the start.\<close>

theorem stream_only_subscribed:
  assumes "stream env tok start ps = (out, c)"
  shows "(\<forall>v j. Update v j \<in> set out \<longrightarrow>
      (\<exists>t u pre p post k. tok = Some t \<and> decode_token (ge_show env) (ge_jwt env) (ge_now env) t = Inr u \<and> ps = pre @ p # post \<and>
         ps_pub p = Some k \<and> view_name_from_key k = Some v \<and> v \<in> set (subscribed_after env (pre @ [p])) \<and>
         j = read_view env (ps_db p) v)) \<and>
    ((\<forall>p \<in> set ps. \<forall>kvs. ps_msg p = Message (JObj kvs) \<longrightarrow> field kvs ''type'' \<noteq> JStr ''pong'') \<longrightarrow>
      (\<exists>p \<in> set ps. start + PONG_TIMEOUT_SEC < ps_now p) \<longrightarrow> c \<noteq> Running)"
proof (intro conjI allI impI)
  let ?s = "\<lparr>ss_views = [], ss_last_pong = start, ss_last_ping = 0\<rparr>"
  fix v j assume "Update v j \<in> set out"
  then obtain t u s' where t: "tok = Some t" "decode_token (ge_show env) (ge_jwt env) (ge_now env) t = Inr u"
    and l: "stream_loop env ps ?s = (out, s', c)"
    using assms by (auto simp: stream_def split: option.splits if_splits sum.splits token_error.splits prod.splits)
  from loop_update [OF l \<open>Update v j \<in> set out\<close>]
  show "\<exists>t u pre p post k. tok = Some t \<and> decode_token (ge_show env) (ge_jwt env) (ge_now env) t = Inr u \<and> ps = pre @ p # post \<and>
         ps_pub p = Some k \<and> view_name_from_key k = Some v \<and> v \<in> set (subscribed_after env (pre @ [p])) \<and>
         j = read_view env (ps_db p) v"
    using t by (auto simp: subscribed_after_def)
next
  let ?s = "\<lparr>ss_views = [], ss_last_pong = start, ss_last_ping = 0\<rparr>"
  assume "\<forall>p \<in> set ps. \<forall>kvs. ps_msg p = Message (JObj kvs) \<longrightarrow> field kvs ''type'' \<noteq> JStr ''pong''"
    and "\<exists>p \<in> set ps. start + PONG_TIMEOUT_SEC < ps_now p"
  then have "snd (snd (stream_loop env ps ?s)) \<noteq> Running" by (intro silent_client_dropped) auto
  then show "c \<noteq> Running"
    using assms by (auto simp: stream_def split: option.splits if_splits sum.splits token_error.splits prod.splits)
qed

definition reader_env :: gateway_env where
  "reader_env =
     \<lparr>ge_now = 100, ge_now_iso = [], ge_expiry_iso = [], ge_loads = (\<lambda>_. None), ge_show = (\<lambda>_. []), ge_show_error = (\<lambda>_. []),
      ge_jwt = (\<lambda>_. JwtClaims [(''sub'', JStr ''1''), (''exp'', JInt 200)]), ge_sign = (\<lambda>_. []), ge_account = (\<lambda>_. None),
      ge_checkpw = (\<lambda>_ _. None), ge_encrypt = (\<lambda>_. []), ge_transport = (\<lambda>_. Inl []), ge_validate = (\<lambda>_ _. None), ge_boot = undefined\<rparr>"

definition pnl_pass :: pass where
  "pnl_pass =
     \<lparr>ps_now = 1, ps_pong = 1, ps_msg = Message (JObj [(''type'', JStr ''subscribe''), (''views'', JList [JStr ''pnl''])]),
      ps_pub = Some UI_VIEW_PNL, ps_db = (\<lambda>_. Some (RJson (JInt 7)))\<rparr>"

theorem stream_only_subscribed_witness:
  "\<exists>out c. stream reader_env (Some ''t'') 0 [pnl_pass] = (out, c) \<and> Update ''pnl'' (JInt 7) \<in> set out \<and>
     ''pnl'' \<in> set (subscribed_after reader_env [pnl_pass])"
proof -
  obtain out c where s: "stream reader_env (Some ''t'') 0 [pnl_pass] = (out, c)" by fastforce
  have r: "requested_views reader_env [(''type'', JStr ''subscribe''), (''views'', JList [JStr ''pnl''])] = Inr [''pnl'']"
    by (simp add: requested_views_def py_list_def validate_views_def view_key_def PLAIN_VIEWS_def py_str_def)
  have "decode_token (ge_show reader_env) (ge_jwt reader_env) (ge_now reader_env) ''t'' = Inr \<lparr>us_id = ''1'', us_name = [], us_role = ''admin''\<rparr>"
    by (simp add: decode_token_def reader_env_def field_def claim_int_def int_of_json_def py_str_def Let_def)
  moreover have "view_name_from_key UI_VIEW_PNL = Some ''pnl''" "view_key ''pnl'' = Inr UI_VIEW_PNL"
    by (simp_all add: view_name_from_key_def PLAIN_VIEWS_def view_keys view_key_def)
  ultimately have u: "Update ''pnl'' (JInt 7) \<in> set out" using s r
    by (auto simp: stream_def stream_pass_def ping_part_def message_part_def update_part_def pnl_pass_def field_def
        PING_INTERVAL_SEC_def PONG_TIMEOUT_SEC_def read_view_def get_json_def load_maybe_def)
  obtain pre p post where "[pnl_pass] = pre @ p # post" "''pnl'' \<in> set (subscribed_after reader_env (pre @ [p]))"
    using stream_only_subscribed [OF s] u by blast
  then have "''pnl'' \<in> set (subscribed_after reader_env [pnl_pass])" by (cases pre) auto
  then show ?thesis using s u by blast
qed

end
