(* ===== verification/Credentials.thy ===== *)
theory Credentials
  imports Gateway
begin

text \<open>
  \<open>state/crypto.py\<close> and \<open>state/credentials_store.py\<close>: the encryption key read from its base64 text, the
  encrypted blob and the store of broker credentials in Postgres with its mirror in Redis.  The AES-GCM
  cipher is a parameter (\<open>enc\<close> and \<open>dec\<close>, on bytes as naturals below 256); the plaintext is JSON text, kept
  by its decoded value; the nonce comes from the random source.  A failing SQL statement is left out.
\<close>

section \<open>Base64 as the standard library decodes it\<close>

type_synonym bytes = "nat list"

definition sextet :: "char \<Rightarrow> nat option" where
  "sextet c =
     (let n = (of_char c :: nat)
      in if 65 \<le> n \<and> n \<le> 90 then Some (n - 65)
         else if 97 \<le> n \<and> n \<le> 122 then Some (n - 71)
         else if 48 \<le> n \<and> n \<le> 57 then Some (n + 4)
         else if n = 43 then Some 62 else if n = 47 then Some 63 else None)"

text \<open>\<open>binascii.a2b_base64\<close>, not strict: position in the group of four, the pending bits, the pads seen and
  the output.  Characters outside the alphabet are skipped; \<open>None\<close> is the error.\<close>

fun a2b_base64 :: "nat \<Rightarrow> nat \<Rightarrow> nat \<Rightarrow> bytes \<Rightarrow> string \<Rightarrow> bytes option" where
  "a2b_base64 q left pads out [] = (if q = 0 then Some out else None)"
| "a2b_base64 q left pads out (c # cs) =
     (if c = CHR ''='' then
        (if 2 \<le> q then (if 4 \<le> q + Suc pads then Some out else a2b_base64 q left (Suc pads) out cs)
         else a2b_base64 q left pads out cs)
      else (case sextet c of
              None \<Rightarrow> a2b_base64 q left pads out cs
            | Some v \<Rightarrow>
                if q = 0 then a2b_base64 1 v 0 out cs
                else if q = 1 then a2b_base64 2 (v mod 16) 0 (out @ [left * 4 + v div 16]) cs
                else if q = 2 then a2b_base64 3 (v mod 4) 0 (out @ [left * 16 + v div 4]) cs
                else a2b_base64 0 0 0 (out @ [left * 64 + v]) cs))"

definition ascii :: "string \<Rightarrow> bool" where
  "ascii s \<longleftrightarrow> list_all (\<lambda>c. (of_char c :: nat) < 128) s"

definition b64decode :: "string \<Rightarrow> bytes option" where
  "b64decode s = (if ascii s then a2b_base64 0 0 0 [] s else None)"

definition url_char :: "char \<Rightarrow> char" where
  "url_char c = (if c = CHR ''-'' then CHR ''+'' else if c = CHR ''_'' then CHR ''/'' else c)"

definition urlsafe_b64decode :: "string \<Rightarrow> bytes option" where
  "urlsafe_b64decode s = b64decode (map url_char s)"

definition is_space :: "char \<Rightarrow> bool" where
  "is_space c \<longleftrightarrow> (of_char c :: nat) \<in> {9..13} \<union> {28..32}"

definition strip :: "string \<Rightarrow> string" where
  "strip s = rev (dropWhile is_space (rev (dropWhile is_space s)))"

section \<open>Keys\<close>

definition padding :: "string \<Rightarrow> string" where
  "padding s = replicate ((4 - length s mod 4) mod 4) (CHR ''='')"

text \<open>\<open>crypto._decode_key\<close>: a text neither decoder accepts, and a wrong length, raise ValueError.\<close>

definition decode_key :: "string \<Rightarrow> pyexc + bytes" where
  "decode_key txt =
     (let k = strip txt; s = k @ padding k;
          raw = (case urlsafe_b64decode s of Some b \<Rightarrow> Some b | None \<Rightarrow> b64decode s)
      in case raw of None \<Rightarrow> Inl ValueError | Some b \<Rightarrow> if length b = 32 then Inr b else Inl ValueError)"

text \<open>\<open>credentials_store._derive_key\<close>: the first attempt that gives 32 bytes.\<close>

definition key_of_size :: "bytes option \<Rightarrow> bytes option" where
  "key_of_size r = (case r of Some b \<Rightarrow> if length b = 32 then Some b else None | None \<Rightarrow> None)"

definition derive_key :: "string \<Rightarrow> pyexc + bytes" where
  "derive_key txt =
     (let k = strip txt
      in case first_some (\<lambda>s. key_of_size (urlsafe_b64decode s)) [k, k @ ''='', k @ ''==''] of
           Some b \<Rightarrow> Inr b
         | None \<Rightarrow> (case key_of_size (b64decode k) of Some b \<Rightarrow> Inr b | None \<Rightarrow> Inl ValueError))"

section \<open>Blobs\<close>

datatype crypt_error = BadKey pyexc | KeyNotSet | TooShort | InvalidTag | NotJsonText

record cipher =
  enc :: "bytes \<Rightarrow> bytes \<Rightarrow> json \<Rightarrow> bytes"
  dec :: "bytes \<Rightarrow> bytes \<Rightarrow> bytes \<Rightarrow> crypt_error + json"

definition NONCE_LEN :: nat where "NONCE_LEN = 12"

text \<open>\<open>crypto._aesgcm\<close> reads the environment variable; the store reads the settings.\<close>

definition crypto_key :: "string \<Rightarrow> crypt_error + bytes" where
  "crypto_key var =
     (if strip var = [] then Inl KeyNotSet else (case decode_key (strip var) of Inl e \<Rightarrow> Inl (BadKey e) | Inr k \<Rightarrow> Inr k))"

definition crypto_encrypt_json :: "cipher \<Rightarrow> string \<Rightarrow> bytes \<Rightarrow> json \<Rightarrow> crypt_error + bytes" where
  "crypto_encrypt_json c var nonce data = and_then (crypto_key var) (\<lambda>k. Inr (nonce @ enc c k nonce data))"

definition crypto_decrypt_json :: "cipher \<Rightarrow> string \<Rightarrow> bytes \<Rightarrow> crypt_error + json" where
  "crypto_decrypt_json c var blob =
     (if length blob \<le> NONCE_LEN then Inl TooShort
      else and_then (crypto_key var) (\<lambda>k. dec c k (take NONCE_LEN blob) (drop NONCE_LEN blob)))"

definition store_key :: "string \<Rightarrow> crypt_error + bytes" where
  "store_key setting = (case derive_key setting of Inl e \<Rightarrow> Inl (BadKey e) | Inr k \<Rightarrow> Inr k)"

definition encrypt_json :: "cipher \<Rightarrow> string \<Rightarrow> bytes \<Rightarrow> json \<Rightarrow> crypt_error + bytes" where
  "encrypt_json c setting nonce data = and_then (store_key setting) (\<lambda>k. Inr (nonce @ enc c k nonce data))"

definition decrypt_json :: "cipher \<Rightarrow> string \<Rightarrow> bytes \<Rightarrow> crypt_error + json" where
  "decrypt_json c setting blob =
     (if length blob < NONCE_LEN then Inl TooShort
      else and_then (store_key setting) (\<lambda>k. dec c k (take NONCE_LEN blob) (drop NONCE_LEN blob)))"

section \<open>The store\<close>

record cred_store =
  cs_rows :: "string \<Rightarrow> bytes option"
  cs_redis :: db

definition creds_key :: "string \<Rightarrow> string" where
  "creds_key broker = (if broker = ''upstox'' then USER_CREDENTIALS_UPSTOX else ''user:credentials:'' @ broker)"

definition read_credentials :: "cipher \<Rightarrow> string \<Rightarrow> string \<Rightarrow> cred_store \<Rightarrow> crypt_error + json option" where
  "read_credentials c setting broker s =
     (case cs_rows s broker of None \<Rightarrow> Inr None | Some blob \<Rightarrow> and_then (decrypt_json c setting blob) (Inr \<circ> Some))"

definition write_credentials :: "cipher \<Rightarrow> string \<Rightarrow> bytes \<Rightarrow> string \<Rightarrow> json \<Rightarrow> cred_store \<Rightarrow> crypt_error + cred_store" where
  "write_credentials c setting nonce broker data s =
     and_then (encrypt_json c setting nonce data) (\<lambda>blob. Inr (s\<lparr>cs_rows := (cs_rows s)(broker \<mapsto> blob)\<rparr>))"

definition delete_credentials :: "string \<Rightarrow> cred_store \<Rightarrow> bool \<times> cred_store" where
  "delete_credentials broker s = (cs_rows s broker \<noteq> None, s\<lparr>cs_rows := (cs_rows s)(broker := None)\<rparr>)"

definition sync_to_redis :: "string \<Rightarrow> json \<Rightarrow> cred_store \<Rightarrow> cred_store" where
  "sync_to_redis broker data s = s\<lparr>cs_redis := (cs_redis s)(creds_key broker \<mapsto> RJson data)\<rparr>"

definition delete_from_redis :: "string \<Rightarrow> cred_store \<Rightarrow> cred_store" where
  "delete_from_redis broker s = s\<lparr>cs_redis := (cs_redis s)(creds_key broker := None)\<rparr>"

definition persist_credentials :: "cipher \<Rightarrow> string \<Rightarrow> bytes \<Rightarrow> string \<Rightarrow> json \<Rightarrow> cred_store \<Rightarrow> crypt_error + cred_store" where
  "persist_credentials c setting nonce broker data s =
     and_then (write_credentials c setting nonce broker data s) (\<lambda>s1. Inr (sync_to_redis broker data s1))"

definition load_credentials :: "cipher \<Rightarrow> string \<Rightarrow> string \<Rightarrow> cred_store \<Rightarrow> crypt_error + json option \<times> cred_store" where
  "load_credentials c setting broker s =
     and_then (read_credentials c setting broker s) (\<lambda>r.
       Inr (r, case r of None \<Rightarrow> s | Some data \<Rightarrow> sync_to_redis broker data s))"

definition clear_credentials :: "string \<Rightarrow> cred_store \<Rightarrow> cred_store" where
  "clear_credentials broker s = delete_from_redis broker (snd (delete_credentials broker s))"

definition hydrate_credentials_to_redis :: "cipher \<Rightarrow> string \<Rightarrow> cred_store \<Rightarrow> crypt_error + json option \<times> cred_store" where
  "hydrate_credentials_to_redis c setting s = load_credentials c setting ''upstox'' s"

definition init_engine_load_credentials ::
  "cipher \<Rightarrow> string \<Rightarrow> cred_store \<Rightarrow> (json option \<times> string option) \<times> cred_store" where
  "init_engine_load_credentials c setting s =
     (case read_credentials c setting ''upstox'' s of
        Inl _ \<Rightarrow> ((None, Some ''decrypt_failed''), s)
      | Inr None \<Rightarrow> ((None, Some ''missing''), s)
      | Inr (Some data) \<Rightarrow> ((Some data, None), sync_to_redis ''upstox'' data s))"

section \<open>Validation and the bootstrap file\<close>

definition REQUIRED_UPSTOX_FIELDS :: "string list" where
  "REQUIRED_UPSTOX_FIELDS = [''api_key'', ''api_secret'', ''redirect_uri'', ''totp_key'', ''mobile_no'', ''pin'']"

definition validate_upstox_payload :: "json \<Rightarrow> pyexc + unit" where
  "validate_upstox_payload data =
     (case data of
        JObj kvs \<Rightarrow> if set REQUIRED_UPSTOX_FIELDS \<subseteq> fst ` set kvs then Inr () else Inl ValueError
      | _ \<Rightarrow> Inl AttributeError)"

text \<open>The file is \<open>None\<close> when it does not exist; \<open>raw.get("upstox")\<close> of anything but a dictionary raises.\<close>

definition read_local_credentials_file :: "json option \<Rightarrow> pyexc + json option" where
  "read_local_credentials_file file =
     (case file of
        None \<Rightarrow> Inr None
      | Some raw \<Rightarrow> and_then (jget raw ''upstox'') (\<lambda>u. Inr (if u = JNull then None else Some u)))"

definition bootstrap_from_file ::
  "cipher \<Rightarrow> string \<Rightarrow> bytes \<Rightarrow> json option \<Rightarrow> cred_store \<Rightarrow> (pyexc + crypt_error) + bool \<times> cred_store" where
  "bootstrap_from_file c setting nonce file s =
     (case read_local_credentials_file file of
        Inl e \<Rightarrow> Inl (Inl e)
      | Inr None \<Rightarrow> Inr (False, s)
      | Inr (Some u) \<Rightarrow>
          (case validate_upstox_payload u of
             Inl e \<Rightarrow> Inl (Inl e)
           | Inr _ \<Rightarrow>
               (case persist_credentials c setting nonce ''upstox'' u s of
                  Inl e \<Rightarrow> Inl (Inr e)
                | Inr s' \<Rightarrow> Inr (True, s'))))"

section \<open>Masking\<close>

definition mask_value :: "nat \<Rightarrow> string option \<Rightarrow> string option" where
  "mask_value shown v =
     (case v of None \<Rightarrow> None | Some s \<Rightarrow> if length s \<le> shown + 2 then Some ''****'' else Some (''****'' @ last_n shown s))"

definition SECRET_FIELDS :: "string list" where
  "SECRET_FIELDS = [''api_key'', ''api_secret'', ''totp_key'', ''analytics_token'', ''sandbox_token'', ''pin'']"

definition mask_mobile :: "string \<Rightarrow> string" where
  "mask_mobile m = (if 4 < length m then replicate (length m - 4) (CHR ''*'') @ last_n 4 m else ''****'')"

text \<open>The credentials as texts or nulls.\<close>

definition mask_field :: "string \<times> string option \<Rightarrow> string \<times> string option" where
  "mask_field kv =
     (case kv of (k, v) \<Rightarrow>
        if k \<in> set SECRET_FIELDS then (k, mask_value 4 v)
        else if k = ''mobile_no'' then (k, map_option mask_mobile v)
        else (k, v))"

definition mask_credentials :: "(string \<times> string option) list \<Rightarrow> (string \<times> string option) list" where
  "mask_credentials data = map mask_field data"

section \<open>Lemmas\<close>

subsection \<open>Key texts\<close>

text \<open>The base64 text of a byte sequence, in the standard or the url-safe alphabet, without its padding.\<close>

definition letter :: "bool \<Rightarrow> nat \<Rightarrow> char" where
  "letter url n =
     (if n < 26 then char_of (65 + n) else if n < 52 then char_of (71 + n) else if n < 62 then char_of (n - 4)
      else if n = 62 then (if url then CHR ''-'' else CHR ''+'') else if url then CHR ''_'' else CHR ''/'')"

fun b64body :: "bool \<Rightarrow> bytes \<Rightarrow> string" where
  "b64body u [] = []"
| "b64body u [a] = [letter u (a div 4), letter u (a mod 4 * 16)]"
| "b64body u [a, b] = [letter u (a div 4), letter u (a mod 4 * 16 + b div 16), letter u (b mod 16 * 4)]"
| "b64body u (a # b # c # r) =
     letter u (a div 4) # letter u (a mod 4 * 16 + b div 16) # letter u (b mod 16 * 4 + c div 64) # letter u (c mod 64) # b64body u r"

lemma letter_cases:
  assumes "n < 64"
  obtains k :: nat where "letter u n = char_of k" "k < 128" "sextet (char_of k) = Some n" "url_char (char_of k) = char_of k" "32 < k" "k \<noteq> 61"
  | "letter u n = CHR ''-''" "n = 62" | "letter u n = CHR ''_''" "n = 63"
proof -
  have eq: "(char_of k :: char) = c \<longleftrightarrow> k = of_char c" if "k < 128" for k :: nat and c :: char
    using that by (simp add: char_of_eq_iff take_bit_nat_eq_self)
  have code: "of_char (char_of k :: char) = k" if "k < 128" for k :: nat using that by (simp add: of_char_of)
  have plus: "(char_of (43 :: nat) :: char) = CHR ''+''" "(char_of (47 :: nat) :: char) = CHR ''/''" by (simp_all add: eq)
  consider "n < 26" | "26 \<le> n" "n < 52" | "52 \<le> n" "n < 62" | "n = 62" | "n = 63" using assms by linarith
  then show thesis
  proof cases
    case 1
    then show thesis using that(1) [of "65 + n"] by (simp add: letter_def sextet_def code url_char_def eq Let_def)
  next
    case 2
    then show thesis using that(1) [of "71 + n"] by (simp add: letter_def sextet_def code url_char_def eq Let_def)
  next
    case 3
    define m where "m = n - 4"
    then have "n = m + 4" "48 \<le> m" "m < 58" using 3 by simp_all
    then show thesis using that(1) [of m] by (simp add: letter_def sextet_def code url_char_def eq Let_def)
  next
    case 4
    then show thesis using that(2) that(1) [of 43] by (cases u) (simp_all add: plus letter_def sextet_def code url_char_def eq Let_def)
  next
    case 5
    then show thesis using that(3) that(1) [of 47] by (cases u) (simp_all add: plus letter_def sextet_def code url_char_def eq Let_def)
  qed
qed

lemma letter_facts:
  assumes "n < 64"
  shows "sextet (url_char (letter u n)) = Some n" "url_char (letter u n) \<noteq> CHR ''=''"
    "(of_char (url_char (letter u n)) :: nat) < 128" "\<not> is_space (letter u n)"
proof -
  have "sextet (url_char (letter u n)) = Some n \<and> url_char (letter u n) \<noteq> CHR ''='' \<and>
    (of_char (url_char (letter u n)) :: nat) < 128 \<and> \<not> is_space (letter u n)"
  proof (cases rule: letter_cases [OF assms, of u])
    case (1 k)
    have "(of_char (char_of k :: char) :: nat) = k" using 1(2) by (simp add: of_char_of)
    moreover have "(char_of k :: char) \<noteq> CHR ''=''"
    proof
      assume "(char_of k :: char) = CHR ''=''"
      then have "(of_char (char_of k :: char) :: nat) = 61" by simp
      with calculation 1(6) show False by simp
    qed
    ultimately show ?thesis using 1 by (simp add: is_space_def)
  qed (simp_all add: url_char_def sextet_def is_space_def)
  then show "sextet (url_char (letter u n)) = Some n" "url_char (letter u n) \<noteq> CHR ''=''"
    "(of_char (url_char (letter u n)) :: nat) < 128" "\<not> is_space (letter u n)" by auto
qed

lemma group_bounds:
  assumes "a < 256" "b < 256" "c < (256 :: nat)"
  shows "a div 4 < 64" "a mod 4 * 16 + b div 16 < 64" "b mod 16 * 4 + c div 64 < 64" "c mod 64 < 64" "b mod 16 * 4 < 64"
proof -
  have "a mod 4 < 4" "b div 16 < 16" "b mod 16 < 16" "c div 64 < 4" using assms by (simp_all add: less_mult_imp_div_less)
  then show "a mod 4 * 16 + b div 16 < 64" "b mod 16 * 4 + c div 64 < 64" "b mod 16 * 4 < 64" by linarith+
qed (use assms in \<open>simp_all add: less_mult_imp_div_less\<close>)

lemma group_values:
  fixes a b c :: nat
  assumes "b < 256" "c < 256"
  shows "a div 4 * 4 + (a mod 4 * 16 + b div 16) div 16 = a"
    "(a mod 4 * 16 + b div 16) mod 16 * 16 + (b mod 16 * 4 + c div 64) div 4 = b"
    "(b mod 16 * 4 + c div 64) mod 4 * 64 + c mod 64 = c"
    "(a mod 4 * 16 + b div 16) mod 16 * 16 + b mod 16 * 4 div 4 = b"
proof -
  have q: "b div 16 < 16" "c div 64 < 4" using assms by (simp_all add: less_mult_imp_div_less)
  then have "(a mod 4 * 16 + b div 16) div 16 = a mod 4" "(a mod 4 * 16 + b div 16) mod 16 = b div 16"
    "(b mod 16 * 4 + c div 64) div 4 = b mod 16" "(b mod 16 * 4 + c div 64) mod 4 = c div 64" by simp_all
  then show "a div 4 * 4 + (a mod 4 * 16 + b div 16) div 16 = a"
    "(a mod 4 * 16 + b div 16) mod 16 * 16 + (b mod 16 * 4 + c div 64) div 4 = b"
    "(b mod 16 * 4 + c div 64) mod 4 * 64 + c mod 64 = c"
    "(a mod 4 * 16 + b div 16) mod 16 * 16 + b mod 16 * 4 div 4 = b" by simp_all
qed

lemma decode_body:
  assumes "length bs mod 3 = 2" and "\<forall>b \<in> set bs. b < 256"
  shows "a2b_base64 0 l p out (map url_char (b64body u bs) @ rest) = a2b_base64 3 0 0 (out @ bs) rest"
  using assms
proof (induction u bs arbitrary: l p out rule: b64body.induct)
  case (3 u a b)
  then show ?case using group_bounds [of a b 0] group_values(1,4) [of b 0 a] by (simp add: letter_facts)
next
  case (4 u a b c r)
  have "length r mod 3 = 2" using "4.prems"(1) by simp
  moreover have "b div 16 < 16" using "4.prems"(2) by (simp add: less_mult_imp_div_less)
  ultimately show ?case using "4.IH" "4.prems" group_bounds [of a b c] group_values(1,2) [of b c a] group_values(3) [of b c]
    by (simp add: letter_facts)
qed simp_all

lemma body_ascii: "\<forall>b \<in> set bs. b < 256 \<Longrightarrow> ascii (map url_char (b64body u bs))"
proof (induction u bs rule: b64body.induct)
  case (2 u a)
  then show ?case using group_bounds [of a 0 0] by (simp add: ascii_def letter_facts)
next
  case (3 u a b)
  then show ?case using group_bounds [of a b 0] by (simp add: ascii_def letter_facts)
next
  case (4 u a b c r)
  then show ?case using group_bounds [of a b c] by (simp add: ascii_def letter_facts)
qed (simp add: ascii_def)

lemma body_not_space: "\<forall>b \<in> set bs. b < 256 \<Longrightarrow> \<forall>c \<in> set (b64body u bs). \<not> is_space c"
proof (induction u bs rule: b64body.induct)
  case (2 u a)
  then show ?case using group_bounds [of a 0 0] by (simp add: letter_facts)
next
  case (3 u a b)
  then show ?case using group_bounds [of a b 0] by (simp add: letter_facts)
next
  case (4 u a b c r)
  then show ?case using group_bounds [of a b c] by (simp add: letter_facts)
qed simp

lemma body_length: "length bs mod 3 = 2 \<Longrightarrow> length (b64body u bs) mod 4 = 3"
proof (induction u bs rule: b64body.induct)
  case (4 u a b c r)
  then have "length (b64body u r) mod 4 = 3" by simp
  then show ?case by simp
qed simp_all

lemma strip_core:
  assumes "list_all is_space pre" "list_all is_space post" "\<forall>c \<in> set s. \<not> is_space c" "s \<noteq> []"
  shows "strip (pre @ s @ post) = s"
proof -
  have "dropWhile is_space (pre @ s @ post) = s @ post"
    using assms by (cases s) (auto simp: list_all_iff dropWhile_append2)
  moreover obtain c cs where r: "rev s = c # cs" using assms(4) by (cases "rev s") auto
  then have "c \<in> set s" by (metis list.set_intros(1) set_rev)
  then have "dropWhile is_space (rev s) = rev s" using assms(3) r by simp
  moreover have "dropWhile is_space (rev post @ rev s) = dropWhile is_space (rev s)"
    using assms(2) by (intro dropWhile_append2) (simp add: list_all_iff)
  ultimately show ?thesis by (simp add: strip_def)
qed

text \<open>What a setup tool may write for a key: either alphabet, with or without the padding, with
  blanks around it.\<close>

definition key_text :: "bool \<Rightarrow> bool \<Rightarrow> string \<Rightarrow> string \<Rightarrow> bytes \<Rightarrow> string" where
  "key_text url with_pad pre post bs = pre @ (b64body url bs @ (if with_pad then ''='' else [])) @ post"

lemma full_decodes:
  assumes "length bs = 32" and "\<forall>b \<in> set bs. b < 256"
  shows "urlsafe_b64decode (b64body u bs @ ''='') = Some bs" "urlsafe_b64decode (b64body u bs) = None"
proof -
  have m: "length bs mod 3 = 2" using assms(1) by simp
  have d: "a2b_base64 0 0 0 [] (map url_char (b64body u bs) @ rest) = a2b_base64 3 0 0 bs rest" for rest
    using decode_body [OF m assms(2), where l = 0 and p = 0 and out = "[]" and u = u] by simp
  have "url_char (CHR ''='') = CHR ''=''" "ascii (map url_char (b64body u bs) @ ''='')"
    using body_ascii [OF assms(2), of u] by (simp_all add: url_char_def ascii_def)
  then show "urlsafe_b64decode (b64body u bs @ ''='') = Some bs"
    using d [of "''=''"] by (simp add: urlsafe_b64decode_def b64decode_def)
  show "urlsafe_b64decode (b64body u bs) = None"
    using d [of "[]"] body_ascii [OF assms(2), of u] by (simp add: urlsafe_b64decode_def b64decode_def)
qed

lemma key_text_accepted:
  assumes "length bs = 32" and "\<forall>b \<in> set bs. b < 256" and "list_all is_space pre" and "list_all is_space post"
  shows "decode_key (key_text u p pre post bs) = Inr bs" "derive_key (key_text u p pre post bs) = Inr bs"
    "strip (key_text u p pre post bs) = b64body u bs @ (if p then ''='' else [])"
proof -
  let ?k = "b64body u bs @ (if p then ''='' else [])"
  have "length bs mod 3 = 2" using assms(1) by simp
  from body_length [OF this, of u] have l: "length (b64body u bs) mod 4 = 3" .
  then have ne: "b64body u bs \<noteq> []" by auto
  have "\<forall>c \<in> set ?k. \<not> is_space c" using body_not_space [OF assms(2), of u] by (auto simp: is_space_def)
  then show s: "strip (key_text u p pre post bs) = ?k" using strip_core [OF assms(3,4), of ?k] ne by (simp add: key_text_def)
  have "?k @ padding ?k = b64body u bs @ ''=''" using l by (auto simp: padding_def mod_Suc)
  then show "decode_key (key_text u p pre post bs) = Inr bs"
    using s full_decodes(1) [OF assms(1,2), of u] assms(1) by (simp add: decode_key_def Let_def)
  show "derive_key (key_text u p pre post bs) = Inr bs"
    using s full_decodes [OF assms(1,2), of u] assms(1) by (cases p) (simp_all add: derive_key_def Let_def key_of_size_def)
qed

subsection \<open>Masks and field names\<close>

text \<open>The store's mask hides at least three characters of every secret it shows the end of; the
  gateway's shows a secret of up to four characters in full.\<close>

lemma mask_value_hides:
  assumes "mask_value 4 (Some s) = Some m"
  shows "m = ''****'' \<or> (\<exists>hidden. 3 \<le> length hidden \<and> s = hidden @ last_n 4 s \<and> m = ''****'' @ last_n 4 s)"
proof (cases "length s \<le> 6")
  case False
  have "s = take (length s - 4) s @ last_n 4 s" by (simp add: last_n_def)
  moreover have "3 \<le> length (take (length s - 4) s)" using False by simp
  ultimately show ?thesis using assms False by (auto simp: mask_value_def)
qed (use assms in \<open>simp add: mask_value_def\<close>)

lemma short_secret_shown: "s \<noteq> [] \<Longrightarrow> length s \<le> 4 \<Longrightarrow> mask_secret show_value 4 None (JStr s) = JStr (''****'' @ s)"
  by (simp add: mask_secret_def py_str_def)

text \<open>What the gateway stores does not pass the store's own check: it lacks \<open>totp_key\<close>.\<close>

lemma gateway_creds_not_valid: "validate_upstox_payload (JObj (dump_creds c)) = Inl ValueError"
  by (simp add: validate_upstox_payload_def REQUIRED_UPSTOX_FIELDS_def dump_creds_def)

subsection \<open>One key, two modules\<close>

lemma key_text_strip:
  assumes "length k = 32" "\<forall>b \<in> set k. b < 256" "list_all is_space pre" "list_all is_space post"
  shows "strip (key_text u p pre post k) = key_text u p [] [] k"
  using key_text_accepted(3) [OF assms] by (simp add: key_text_def)

lemma crypto_key_accepted:
  assumes "length k = 32" "\<forall>b \<in> set k. b < 256" "list_all is_space pre" "list_all is_space post"
  shows "crypto_key (key_text u p pre post k) = Inr k"
proof -
  have "b64body u k \<noteq> []" using body_length [of k u] assms(1) by auto
  then have "key_text u p [] [] k \<noteq> []" by (simp add: key_text_def)
  then show ?thesis
    using key_text_accepted(1) [OF assms(1,2), of "[]" "[]" u p] key_text_strip [OF assms] by (simp add: crypto_key_def)
qed

lemma blob_opens:
  assumes "dec c k nonce (enc c k nonce data) = Inr data" and "length nonce = 12" and "enc c k nonce data \<noteq> []"
    and "crypto_key a = Inr k" and "store_key b = Inr k"
  shows "crypto_decrypt_json c a (nonce @ enc c k nonce data) = Inr data"
    "decrypt_json c b (nonce @ enc c k nonce data) = Inr data"
  using assms by (simp_all add: crypto_decrypt_json_def decrypt_json_def NONCE_LEN_def)

section \<open>Properties\<close>


text \<open>For the witness: a cipher for a single text, and a key of zero bytes.\<close>

definition one_text_cipher :: cipher where
  "one_text_cipher = \<lparr>enc = (\<lambda>k n d. k @ n), dec = (\<lambda>k n b. if b = k @ n then Inr (JObj []) else Inl InvalidTag)\<rparr>"


end
