(* ===== verification/Registry.thy ===== *)
theory Registry
  imports BootGate Vessel
begin

text \<open>
  \<open>engines/strategy/{registry,main,heartbeat}.py\<close>: which vessels a strategy process runs.  The registry
  is a Redis set written by the boot; SMEMBERS answers it in any order, so the operations take the list
  of its entries.  Vessel has the same discovery on the typed
  state; \<open>discover_agrees\<close> says that both choose the same vessels.  JSON values are kept decoded: a text value stands for one that does not decode to an
  object.
\<close>

section \<open>Discovery\<close>

definition STRATEGY_CLASSES :: "string list" where
  "STRATEGY_CLASSES = [''bid_ask_imbalance_v1'']"

record vessel_spec =
  vs_strategy_id :: string
  vs_instrument_id :: index_name
  vs_strategy_config :: "(string \<times> json) list"
  vs_instrument_config :: "(string \<times> json) list"

text \<open>\<open>_read_json\<close>; a hash or a set under the key is Redis' WRONGTYPE reply, a \<open>ResponseError\<close> kept as \<open>RuntimeError\<close>.\<close>

definition read_json_obj :: "db \<Rightarrow> string \<Rightarrow> pyexc + (string \<times> json) list" where
  "read_json_obj d k =
     (case d k of
        None \<Rightarrow> Inr []
      | Some (RJson (JObj kvs)) \<Rightarrow> Inr kvs
      | Some (RHash _) \<Rightarrow> Inl RuntimeError
      | Some (RSet _) \<Rightarrow> Inl RuntimeError
      | Some _ \<Rightarrow> Inr [])"

definition entry_parts :: "string \<Rightarrow> string \<times> string" where
  "entry_parts s = (takeWhile (\<lambda>c. c \<noteq> CHR '':'') s, tl (dropWhile (\<lambda>c. c \<noteq> CHR '':'') s))"

definition load_spec :: "db \<Rightarrow> string \<Rightarrow> index_name \<Rightarrow> pyexc + vessel_spec" where
  "load_spec d sid idx =
     and_then (Keys.strategy_config sid) (\<lambda>ks. and_then (read_json_obj d ks) (\<lambda>scfg.
     and_then (strategy_config_instrument sid idx) (\<lambda>ki. and_then (read_json_obj d ki) (\<lambda>icfg.
       Inr \<lparr>vs_strategy_id = sid, vs_instrument_id = idx, vs_strategy_config = scfg, vs_instrument_config = icfg\<rparr>))))"

text \<open>The entries a process takes: well formed, of its own strategy, of an implemented strategy.\<close>

definition entry_taken :: "string option \<Rightarrow> string \<Rightarrow> bool" where
  "entry_taken only e \<longleftrightarrow>
     CHR '':'' \<in> set e \<and> (case only of None \<Rightarrow> True | Some s \<Rightarrow> fst (entry_parts e) = s) \<and>
     fst (entry_parts e) \<in> set STRATEGY_CLASSES"

fun discover_specs :: "string option \<Rightarrow> db \<Rightarrow> string list \<Rightarrow> pyexc + vessel_spec list" where
  "discover_specs only d [] = Inr []"
| "discover_specs only d (e # es) =
     (if \<not> entry_taken only e then discover_specs only d es
      else and_then (load_spec d (fst (entry_parts e)) (snd (entry_parts e))) (\<lambda>s.
             and_then (discover_specs only d es) (\<lambda>ss. Inr (s # ss))))"

section \<open>The strategy process\<close>

definition strategy_flag :: "string option \<Rightarrow> string" where
  "strategy_flag only = (case only of Some (c # cs) \<Rightarrow> ''strategy:'' @ c # cs | _ \<Rightarrow> ''strategy'')"

definition mark_up :: "string \<Rightarrow> db \<Rightarrow> db" where
  "mark_up name d = d(system_flag_engine_up name \<mapsto> RText ''true'')"

definition mark_down :: "string \<Rightarrow> db \<Rightarrow> db" where
  "mark_down name d =
     d(system_flag_engine_up name \<mapsto> RText ''false'', system_flag_engine_exited name \<mapsto> RText ''true'')"

text \<open>HSET of one field.\<close>

definition hset :: "string \<Rightarrow> string \<Rightarrow> string \<Rightarrow> db \<Rightarrow> db" where
  "hset k f v d = d(k \<mapsto> RHash (dict_set f v (case d k of Some (RHash h) \<Rightarrow> h | _ \<Rightarrow> [])))"

text \<open>\<open>_amain\<close> up to the spawning of the tasks: an exit code, or the vessels to run.  An exception of the
  discovery ends the process with code 1 and leaves the flag as it is.\<close>

definition strategy_start :: "string option \<Rightarrow> string list \<Rightarrow> db \<Rightarrow> (int + vessel_spec list) \<times> db" where
  "strategy_start only entries d =
     (let name = strategy_flag only; d1 = mark_up name d
      in case discover_specs only d1 entries of
           Inl _ \<Rightarrow> (Inl 1, d1)
         | Inr [] \<Rightarrow> (Inl 1, d1(system_flag_engine_up name \<mapsto> RText ''false''))
         | Inr specs \<Rightarrow> (Inr specs, d1))"

text \<open>\<open>heartbeat_task\<close>: the fields of one beat; the exception of a field name is caught and nothing is written.\<close>

fun heartbeat_fields :: "(string \<times> index_name) list \<Rightarrow> pyexc + string list" where
  "heartbeat_fields [] = Inr []"
| "heartbeat_fields ((sid, idx) # vs) =
     and_then (heartbeat_field_vessel sid idx) (\<lambda>f. and_then (heartbeat_fields vs) (\<lambda>fs. Inr (f # fs)))"

definition heartbeat :: "string \<Rightarrow> (string \<times> index_name) list \<Rightarrow> int \<Rightarrow> (string \<times> string) list \<Rightarrow> (string \<times> string) list" where
  "heartbeat engine vessels now hb =
     (case heartbeat_fields vessels of
        Inl _ \<Rightarrow> hb
      | Inr fs \<Rightarrow> foldl (\<lambda>h f. dict_set f (str_int now) h) hb (engine # fs))"

section \<open>Lemmas\<close>

lemma hset_get: "hset k f v d k = Some (RHash h) \<Longrightarrow> map_of h f = Some v"
  by (auto simp: hset_def map_of_dict_set)

lemma partition_entry: "CHR '':'' \<notin> set sid \<Longrightarrow> entry_parts (sid @ '':'' @ idx) = (sid, idx)"
  by (induction sid) (auto simp: entry_parts_def)

definition spec_key :: "vessel_spec \<Rightarrow> string \<times> index_name" where
  "spec_key s = (vs_strategy_id s, vs_instrument_id s)"

lemma load_spec_key: "load_spec d sid idx = Inr s \<Longrightarrow> spec_key s = (sid, idx) \<and> valid_strategy_id sid \<and> valid_index idx"
  by (auto simp: load_spec_def and_then_Inr spec_key_def Keys.strategy_config_def strategy_config_instrument_def split: if_splits)

lemma discover_keys:
  "discover_specs only d es = Inr ss \<Longrightarrow> map spec_key ss = map entry_parts (filter (entry_taken only) es)"
proof (induction es arbitrary: ss)
  case (Cons e es)
  then show ?case
    by (auto simp: and_then_Inr dest!: load_spec_key split: if_splits)
qed simp

text \<open>A spec is a function of its entry alone, so a filtered process finds what the shared one finds.\<close>

lemma entry_taken_split:
  "entry_taken (Some sid) e \<longleftrightarrow> entry_taken None e \<and> fst (entry_parts e) = sid"
  by (auto simp: entry_taken_def)

lemma discover_filtered:
  "discover_specs None d es = Inr ss \<Longrightarrow>
   discover_specs (Some sid) d es = Inr (filter (\<lambda>s. vs_strategy_id s = sid) ss)"
proof (induction es arbitrary: ss)
  case (Cons e es)
  show ?case
  proof (cases "entry_taken None e")
    case True
    obtain s rest where s: "load_spec d (fst (entry_parts e)) (snd (entry_parts e)) = Inr s"
      "discover_specs None d es = Inr rest" "ss = s # rest"
      using Cons.prems True by (auto simp: and_then_Inr)
    have "vs_strategy_id s = fst (entry_parts e)" using load_spec_key [OF s(1)] by (metis fst_conv spec_key_def)
    then show ?thesis using s True Cons.IH [OF s(2)] by (auto simp: entry_taken_split and_then_def)
  next
    case False
    then show ?thesis using Cons by (simp add: entry_taken_split)
  qed
qed simp

text \<open>The discovery of Vessel on the typed state chooses the same vessels.\<close>

lemma entry_parts_partition:
  "partition_colon e = (if CHR '':'' \<in> set e then Some (entry_parts e) else None)"
  by (induction e) (auto simp: entry_parts_def)

lemma discover_agrees:
  "discover_entries en only es = Inr cs \<Longrightarrow> discover_specs only d es = Inr ss \<Longrightarrow>
   map vc_instrument_id cs = map vs_instrument_id ss"
proof (induction es arbitrary: cs ss)
  case (Cons e es)
  have t: "entry_taken only e \<longleftrightarrow> (\<exists>sid idx. partition_colon e = Some (sid, idx) \<and>
      \<not> (case only of None \<Rightarrow> False | Some f \<Rightarrow> sid \<noteq> f) \<and> sid = DEFAULT_STRATEGY_ID)"
    by (cases "entry_parts e") (auto simp: entry_taken_def entry_parts_partition STRATEGY_CLASSES_def DEFAULT_STRATEGY_ID_def split: option.split)
  show ?case
  proof (cases "entry_taken only e")
    case True
    then obtain idx where p: "partition_colon e = Some (DEFAULT_STRATEGY_ID, idx)" "entry_parts e = (DEFAULT_STRATEGY_ID, idx)"
      "\<not> (case only of None \<Rightarrow> False | Some f \<Rightarrow> DEFAULT_STRATEGY_ID \<noteq> f)"
      using t by (auto simp: entry_parts_partition split: if_splits)
    obtain cs' where c: "discover_entries en only es = Inr cs'" "cs = load_context en idx # cs'"
      using Cons.prems(1) p by (cases "discover_entries en only es") (auto split: if_splits)
    obtain s ss' where s: "load_spec d DEFAULT_STRATEGY_ID idx = Inr s" "discover_specs only d es = Inr ss'" "ss = s # ss'"
      using Cons.prems(2) True p(2) by (auto simp: and_then_Inr)
    have "vs_instrument_id s = idx" using load_spec_key [OF s(1)] by (simp add: spec_key_def)
    then show ?thesis using Cons.IH [OF c(1) s(2)] by (simp add: c(2) s(3) load_context_def)
  next
    case False
    then have "discover_entries en only es = Inr cs"
      using Cons.prems(1) t by (auto split: option.splits if_splits)
    then show ?thesis using Cons.IH Cons.prems(2) False by simp
  qed
qed simp

section \<open>Keys the boot leaves alone after the template\<close>

locale boot_outside =
  fixes k :: string
  assumes outside: "\<not> starts_with k ''user:''" "\<not> starts_with k ''system:''" "\<not> starts_with k ''market_data:''"
begin

lemma const_neq:
  "k \<noteq> USER_ACCOUNT_USERNAME" "k \<noteq> USER_ACCOUNT_JWT_SECRET" "k \<noteq> USER_ACCOUNT_ROLE" "k \<noteq> USER_CREDENTIALS_UPSTOX"
  "k \<noteq> USER_AUTH_ACCESS_TOKEN" "k \<noteq> USER_AUTH_LAST_REFRESH_TS" "k \<noteq> SYSTEM_HEALTH_AUTH" "k \<noteq> SYSTEM_SCHEDULER_TRADING_DAYS"
  "k \<noteq> SYSTEM_SCHEDULER_HOLIDAYS" "k \<noteq> SYSTEM_SCHEDULER_SESSION" "k \<noteq> MARKET_DATA_INSTRUMENTS_MASTER"
  "k \<noteq> MARKET_DATA_INSTRUMENTS_LAST_REFRESH_TS" "k \<noteq> SYSTEM_LIFECYCLE_START_TS" "k \<noteq> SYSTEM_LIFECYCLE_GIT_SHA"
  "k \<noteq> MARKET_DATA_SUBSCRIPTIONS_DESIRED" "k \<noteq> flag_key r" "k \<noteq> ''market_data:indexes:'' @ q"
proof -
  have p: "starts_with c ''user:'' \<or> starts_with c ''system:'' \<or> starts_with c ''market_data:'' \<Longrightarrow> k \<noteq> c" for c
    using outside(1-3) by auto
  show "k \<noteq> USER_ACCOUNT_USERNAME" "k \<noteq> USER_ACCOUNT_JWT_SECRET" "k \<noteq> USER_ACCOUNT_ROLE" "k \<noteq> USER_CREDENTIALS_UPSTOX"
    "k \<noteq> USER_AUTH_ACCESS_TOKEN" "k \<noteq> USER_AUTH_LAST_REFRESH_TS" "k \<noteq> SYSTEM_HEALTH_AUTH" "k \<noteq> SYSTEM_SCHEDULER_TRADING_DAYS"
    "k \<noteq> SYSTEM_SCHEDULER_HOLIDAYS" "k \<noteq> SYSTEM_SCHEDULER_SESSION" "k \<noteq> MARKET_DATA_INSTRUMENTS_MASTER"
    "k \<noteq> MARKET_DATA_INSTRUMENTS_LAST_REFRESH_TS" "k \<noteq> SYSTEM_LIFECYCLE_START_TS" "k \<noteq> SYSTEM_LIFECYCLE_GIT_SHA"
    "k \<noteq> MARKET_DATA_SUBSCRIPTIONS_DESIRED" "k \<noteq> flag_key r" "k \<noteq> ''market_data:indexes:'' @ q"
    by (rule p, simp add: key_const_defs flag_key_def starts_with_def)+
qed

text \<open>Postgres configurations overwrite configuration keys only, and with JSON.\<close>

lemma configs_json: "hydrate_configs rows d k = d k \<or> (\<exists>j. hydrate_configs rows d k = Some (RJson j))"
proof (induction rows arbitrary: d)
  case (Cons r rows)
  obtain x v where r: "r = (x, v)" by (cases r)
  show ?case
  proof (cases "redis_key_for_config x")
    case (Inr y)
    define d1 where "d1 = d(y \<mapsto> RJson v)"
    have "d1 k = d k \<or> (\<exists>j. d1 k = Some (RJson j))" by (simp add: d1_def)
    then show ?thesis using Cons [of d1] Inr by (auto simp: r d1_def [symmetric])
  qed (use Cons r in simp)
qed simp

lemma hydrate_others:
  "hydrate_all today pg d = (ok, d') \<Longrightarrow>
   \<exists>d0. d' k = hydrate_configs (pg_configs pg) d0 k \<and> d0 k = d k"
  using const_neq
  by (auto simp: hydrate_all_def Let_def hydrate_user_account_def hydrate_credentials_def hydrate_market_calendar_def sadd_def
      hydrate_scheduler_session_def split: prod.splits option.splits if_splits intro!: exI)

lemma token_keeps: "ensure_valid_token env d = (res, d') \<Longrightarrow> d' k = d k"
  using const_neq
  by (auto simp: ensure_valid_token_def persist_token_def split: if_splits option.splits list.splits)

lemma market_keeps: "resolve_mode (snd (load_master_instruments env d)) k = d k"
  using const_neq mode_frame(1) [of k] by (simp add: load_master_instruments_def Let_def split: sum.split)

end

locale boot_noconfig = boot_outside +
  assumes no_config: "\<not> starts_with k ''strategy:configs:''"
begin

lemma configs_keep: "hydrate_configs rows d k = d k"
proof -
  have c: "redis_key_for_config x = Inr y \<Longrightarrow> y \<noteq> k" for x y
    using outside(2) no_config default_vessels_valid
    by (auto simp: starts_with_def redis_key_for_config_def strategy_config_index_def strategy_config_instrument_def
        DEFAULT_STRATEGY_ID_def key_const_defs split: if_splits)
  show ?thesis by (induction rows d rule: hydrate_configs.induct) (auto split: sum.split dest: c)
qed

lemma hydrate_keeps: "hydrate_all today pg d = (ok, d') \<Longrightarrow> d' k = d k"
  using hydrate_others [of today pg d ok d'] configs_keep by metis

end

locale boot_unbuilt = boot_outside +
  assumes not_basket: "\<And>i. k \<noteq> ''strategy:bid_ask_imbalance_v1:'' @ i @ '':basket''"
    and not_enabled: "\<And>i. k \<noteq> ''strategy:bid_ask_imbalance_v1:'' @ i @ '':enabled''"
begin

lemma disable_keeps: "disable_index idx d k = d k"
  using not_enabled by (auto simp: disable_index_def market_key_defs split: sum.splits)

lemma build_keeps:
  assumes "build_for_index l c today idx d = (r, d')"
  shows "d' k = d k"
proof (cases "is_built r")
  case True
  then obtain a e n ce pe where r: "r = Inr (Built a e n ce pe)" by (auto simp: is_built_def split: sum.splits build_result.splits)
  obtain spot cs where W: "build_writes idx spot cs a e ce pe d d'" using build_for_index_Built [OF assms [unfolded r]] .
  obtain ks P meta toks where p: "persist_index idx meta (build_option_chain_template (filter P cs) ks) (ce, pe) toks d = Inr d'"
    using build_writesE [OF W] .
  show ?thesis
    using persist_eq [OF p] const_neq not_basket [of idx]
    by (simp add: sadd_def)
next
  case False
  then show ?thesis using build_for_index_else [OF assms] disable_keeps by auto
qed

lemma builds_keep: "build_indexes env is d = (n, d') \<Longrightarrow> d' k = d k"
proof (induction "is" arbitrary: d n d')
  case (Cons idx rest)
  obtain r d1 where b: "build_for_index (be_ltp env) (be_contracts env) (be_today env) idx d = (r, d1)" by fastforce
  define d2 where "d2 = (case r of Inl _ \<Rightarrow> disable_index idx d1 | Inr _ \<Rightarrow> d1)"
  obtain n' d3 where i: "build_indexes env rest d2 = (n', d3)" by fastforce
  have "d' = d3" using Cons.prems b i by (simp add: d2_def Let_def split: if_splits)
  moreover have "d2 k = d k" using build_keeps [OF b] disable_keeps by (simp add: d2_def split: sum.split)
  ultimately show ?case using Cons.IH [OF i] by simp
qed simp

text \<open>On the path that switches trading on, only the hydration may have replaced the template's value.\<close>

lemma active_path_key:
  assumes "active_path env d pg tok d1 d3 d4 d6"
  shows "\<exists>d0. d6 k = hydrate_configs (pg_configs pg) d0 k \<and> d0 k = d1 k"
proof -
  obtain n fresh where "hydrate_all (be_today env) pg (d1(SYSTEM_LIFECYCLE_START_TS \<mapsto> RText (str_int (be_now env)),
       SYSTEM_LIFECYCLE_GIT_SHA \<mapsto> RText (be_git_sha env))) = (True, d3)"
    "ensure_valid_token env d3 = (AuthValid tok fresh, d4)"
    "build_indexes env (enabled_indexes (resolve_mode (snd (load_master_instruments env d4))))
       (resolve_mode (snd (load_master_instruments env d4))) = (n, d6)"
    using assms by (auto simp: active_path_def Let_def)
  from hydrate_others [OF this(1)] token_keeps [OF this(2)] builds_keep [OF this(3)] show ?thesis
    using market_keeps [of env d4] const_neq by simp
qed

lemma active_json:
  "active_path env d pg tok d1 d3 d4 d6 \<Longrightarrow> d6 k = d1 k \<or> (\<exists>j. d6 k = Some (RJson j))"
  using active_path_key [of env d pg tok d1 d3 d4 d6] configs_json by metis

end

locale boot_untouched = boot_unbuilt + boot_noconfig
begin

lemma active_keeps: "active_path env d pg tok d1 d3 d4 d6 \<Longrightarrow> d6 k = d1 k"
  using active_path_key [of env d pg tok d1 d3 d4 d6] configs_keep by metis

end

lemma last_neq: "last xs \<noteq> last ys \<Longrightarrow> xs \<noteq> ys"
  by auto

interpretation reg: boot_untouched STRATEGY_REGISTRY
  by unfold_locales (auto simp: starts_with_def STRATEGY_REGISTRY_def)

interpretation nifty_state: boot_untouched "''strategy:bid_ask_imbalance_v1:nifty50:state''"
  by unfold_locales (auto simp: starts_with_def intro: last_neq dest: arg_cong [where f = last])

interpretation banknifty_state: boot_untouched "''strategy:bid_ask_imbalance_v1:banknifty:state''"
  by unfold_locales (auto simp: starts_with_def dest: arg_cong [where f = last])

interpretation strategy_cfg: boot_unbuilt "''strategy:configs:strategies:bid_ask_imbalance_v1''"
  by unfold_locales (auto simp: starts_with_def)

interpretation nifty_cfg: boot_unbuilt "''strategy:configs:strategies:bid_ask_imbalance_v1:instruments:nifty50''"
  by unfold_locales (auto simp: starts_with_def)

interpretation banknifty_cfg: boot_unbuilt "''strategy:configs:strategies:bid_ask_imbalance_v1:instruments:banknifty''"
  by unfold_locales (auto simp: starts_with_def)

interpretation nifty_enabled: boot_noconfig "''strategy:bid_ask_imbalance_v1:nifty50:enabled''"
  by unfold_locales (auto simp: starts_with_def)

interpretation banknifty_enabled: boot_noconfig "''strategy:bid_ask_imbalance_v1:banknifty:enabled''"
  by unfold_locales (auto simp: starts_with_def)

section \<open>From the boot to the vessels\<close>

text \<open>Every configuration key holds a JSON value or nothing: the NX writes keep whatever type they find.\<close>

definition configs_readable :: "db \<Rightarrow> bool" where
  "configs_readable d \<longleftrightarrow> (\<forall>k \<in> CONFIG_KEYS. \<exists>kvs. read_json_obj d k = Inr kvs)"

lemma readable_json: "d k = Some (RJson j) \<Longrightarrow> \<exists>kvs. read_json_obj d k = Inr kvs"
  by (cases j) (simp_all add: read_json_obj_def)

lemma template_registry:
  assumes "apply_template True d = Inr d'"
  shows "d' STRATEGY_REGISTRY = Some (RSet {''bid_ask_imbalance_v1:nifty50'', ''bid_ask_imbalance_v1:banknifty''})"
    and "k \<in> CONFIG_KEYS \<Longrightarrow> d' k = d k \<or> (\<exists>j. d' k = Some (RJson j))"
proof -
  define d0 where "d0 = foldl write_spec (flush_runtime_namespaces d) template_rows_all"
  have s: "seed_strategy_registry d0 = Inr d'"
    using assms by (simp add: apply_template_def full_template_eq Let_def template_rows_all_def d0_def)
  show "d' STRATEGY_REGISTRY = Some (RSet {''bid_ask_imbalance_v1:nifty50'', ''bid_ask_imbalance_v1:banknifty''})"
    using s default_vessels_valid
    by (auto simp: seed_strategy_registry_def Keys.strategy_config_def Let_def DEFAULT_VESSELS_def strategy_config_instrument_def
        DEFAULT_INSTRUMENT_CONFIGS_def set_nx_def STRATEGY_REGISTRY_def)
  assume k: "k \<in> CONFIG_KEYS"
  have "k \<notin> set template_keys" using k by (auto simp: template_keys_eq CONFIG_KEYS_def)
  then have "d0 k = flush_runtime_namespaces d k"
    using writes_other [of k written_rows] writes_filter [of _ template_rows_all]
    by (simp add: d0_def written_rows_def template_keys_def)
  moreover have "flush_runtime_namespaces d k = d k"
    using k by (auto simp: flush_runtime_namespaces_def preserved_key_def PRESERVED_PREFIXES_def starts_with_def CONFIG_KEYS_def)
  ultimately have e: "d0 k = d k" by simp
  show "d' k = d k \<or> (\<exists>j. d' k = Some (RJson j))"
    using s default_vessels_valid k e
    by (auto simp: seed_strategy_registry_def Keys.strategy_config_def Let_def DEFAULT_VESSELS_def strategy_config_instrument_def
        DEFAULT_INSTRUMENT_CONFIGS_def set_nx_def STRATEGY_REGISTRY_def CONFIG_KEYS_def split: if_splits)
qed

lemma template_flat:
  assumes "apply_template True d = Inr d'"
  shows "d' ''strategy:bid_ask_imbalance_v1:nifty50:state'' = Some (RText ''FLAT'')"
    and "d' ''strategy:bid_ask_imbalance_v1:banknifty:state'' = Some (RText ''FLAT'')"
proof -
  show "d' ''strategy:bid_ask_imbalance_v1:nifty50:state'' = Some (RText ''FLAT'')"
    by (rule template_row [OF assms, of _ "TStr ''FLAT''"]) (simp_all add: written_rows_eq STRATEGY_REGISTRY_def CONFIG_KEYS_def)
  show "d' ''strategy:bid_ask_imbalance_v1:banknifty:state'' = Some (RText ''FLAT'')"
    by (rule template_row [OF assms, of _ "TStr ''FLAT''"]) (simp_all add: written_rows_eq STRATEGY_REGISTRY_def CONFIG_KEYS_def)
qed

lemma load_spec_ok:
  "valid_strategy_id sid \<Longrightarrow> valid_index idx \<Longrightarrow>
   \<exists>a. read_json_obj d (''strategy:configs:strategies:'' @ sid) = Inr a \<Longrightarrow>
   \<exists>b. read_json_obj d (''strategy:configs:strategies:'' @ sid @ '':instruments:'' @ idx) = Inr b \<Longrightarrow>
   \<exists>s. load_spec d sid idx = Inr s"
  by (auto simp: load_spec_def Keys.strategy_config_def strategy_config_instrument_def and_then_def)

lemma read_json_obj_mark: "starts_with k ''strategy:configs:'' \<Longrightarrow> read_json_obj (mark_up name d) k = read_json_obj d k"
  by (auto simp: read_json_obj_def mark_up_def system_flag_engine_up_def starts_with_def)

lemma discover_total:
  "\<forall>e \<in> set es. entry_taken only e \<longrightarrow> (\<exists>s. load_spec d (fst (entry_parts e)) (snd (entry_parts e)) = Inr s) \<Longrightarrow>
   \<exists>ss. discover_specs only d es = Inr ss"
  by (induction es) (auto simp: and_then_def)

text \<open>A process for a strategy that no entry names ends with code 1.\<close>

lemma start_nothing:
  assumes "\<forall>e \<in> set es. \<not> entry_taken only e"
  shows "fst (strategy_start only es d) = Inl 1"
proof -
  have "discover_specs only x es = Inr []" for x using assms by (induction es) simp_all
  then show ?thesis by (simp add: strategy_start_def Let_def)
qed

text \<open>An entry with an index the key helpers do not know stops the process and leaves its flag up.\<close>

lemma bad_entry_leaves_flag_up:
  assumes "e \<in> set es" and "entry_taken only e" and "\<not> valid_index (snd (entry_parts e))"
  shows "strategy_start only es d = (Inl 1, mark_up (strategy_flag only) d)"
proof -
  have "\<exists>x. discover_specs only y es = Inl x" for y
    using assms(1)
  proof (induction es)
    case (Cons a es)
    have bad: "\<exists>x. load_spec y (fst (entry_parts e)) (snd (entry_parts e)) = Inl x"
      using assms(3) by (auto simp: load_spec_def and_then_def strategy_config_instrument_def split: sum.split)
    show ?case using Cons bad assms(2) by (cases "a = e") (auto simp: and_then_def split: sum.split)
  qed simp
  then obtain x where "discover_specs only (mark_up (strategy_flag only) d) es = Inl x" by blast
  then show ?thesis by (simp add: strategy_start_def Let_def)
qed

lemma boot_registry:
  assumes "boot_main env d = (0, d')" and "d' SYSTEM_FLAGS_TRADING_ACTIVE = Some (RText ''true'')"
  shows "set_members d' STRATEGY_REGISTRY = {''bid_ask_imbalance_v1:nifty50'', ''bid_ask_imbalance_v1:banknifty''}"
proof -
  obtain pg tok d1 d3 d4 d6 where A: "active_path env d pg tok d1 d3 d4 d6"
    and d': "d' = d6(SYSTEM_FLAGS_READY \<mapsto> RText ''true'', SYSTEM_FLAGS_TRADING_ACTIVE \<mapsto> RText ''true'',
                 SYSTEM_FLAGS_TRADING_DISABLED_REASON \<mapsto> RText ''none'')" using boot_active_path [OF assms] .
  have t: "apply_template True d = Inr d1" using A by (simp add: active_path_def)
  show ?thesis
    using reg.active_keeps [OF A] template_registry(1) [OF t] by (simp add: d' set_members_def key_const_defs)
qed

text \<open>Claim C19.  The boot leaves the strategy processes what they need.  When trading is switched on, the
  process of the bid/ask-imbalance strategy finds, in whatever order Redis lists the registry, exactly
  one vessel for each index, starts them both and raises its flag; each vessel finds itself FLAT; and
  a process started for any other strategy exits with code 1.  The only thing asked of the previous
  day is that its configuration keys hold JSON.\<close>

theorem boot_spawns_vessels:
  assumes "boot_main env d = (0, d')" and "d' SYSTEM_FLAGS_TRADING_ACTIVE = Some (RText ''true'')"
    and "configs_readable d" and "distinct es" and "set es = set_members d' STRATEGY_REGISTRY"
  shows "(\<exists>ss. strategy_start (Some ''bid_ask_imbalance_v1'') es d' = (Inr ss, mark_up ''strategy:bid_ask_imbalance_v1'' d') \<and>
      distinct (map spec_key ss) \<and> set (map spec_key ss) = set DEFAULT_VESSELS) \<and>
    (\<forall>sid idx. (sid, idx) \<in> set DEFAULT_VESSELS \<longrightarrow>
      (\<exists>k. vessel_state sid idx = Inr k \<and> d' k = Some (RText ''FLAT''))) \<and>
    (\<forall>sid. sid \<noteq> ''bid_ask_imbalance_v1'' \<longrightarrow> fst (strategy_start (Some sid) es d') = Inl 1)"
proof -
  obtain pg tok d1 d3 d4 d6 where A: "active_path env d pg tok d1 d3 d4 d6"
    and d': "d' = d6(SYSTEM_FLAGS_READY \<mapsto> RText ''true'', SYSTEM_FLAGS_TRADING_ACTIVE \<mapsto> RText ''true'',
                 SYSTEM_FLAGS_TRADING_DISABLED_REASON \<mapsto> RText ''none'')" using boot_active_path [OF assms(1,2)] .
  have t: "apply_template True d = Inr d1" using A by (simp add: active_path_def)
  have same: "hd k = CHR ''s'' \<and> hd (tl k) = CHR ''t'' \<Longrightarrow> d' k = d6 k" for k by (auto simp: d' key_const_defs)
  have es: "set es = {''bid_ask_imbalance_v1:nifty50'', ''bid_ask_imbalance_v1:banknifty''}"
    using assms(5) boot_registry [OF assms(1,2)] by simp
  have st: "d' ''strategy:bid_ask_imbalance_v1:nifty50:state'' = Some (RText ''FLAT'')"
    "d' ''strategy:bid_ask_imbalance_v1:banknifty:state'' = Some (RText ''FLAT'')"
    using nifty_state.active_keeps [OF A] banknifty_state.active_keeps [OF A] template_flat [OF t]
      same [of "''strategy:bid_ask_imbalance_v1:nifty50:state''"] same [of "''strategy:bid_ask_imbalance_v1:banknifty:state''"]
    by simp_all
  have "k \<in> CONFIG_KEYS \<Longrightarrow> d6 k = d1 k \<or> (\<exists>j. d6 k = Some (RJson j))" for k
    using strategy_cfg.active_json [OF A] nifty_cfg.active_json [OF A] banknifty_cfg.active_json [OF A]
    by (auto simp: CONFIG_KEYS_def)
  moreover have "k \<in> CONFIG_KEYS \<Longrightarrow> d' k = d6 k" for k by (rule same) (auto simp: CONFIG_KEYS_def)
  ultimately have "k \<in> CONFIG_KEYS \<Longrightarrow> d' k = d k \<or> (\<exists>j. d' k = Some (RJson j))" for k
    using template_registry(2) [OF t, of k] by metis
  then have r: "k \<in> CONFIG_KEYS \<Longrightarrow> \<exists>kvs. read_json_obj d' k = Inr kvs" for k
    using assms(3) readable_json [of d'] by (metis configs_readable_def read_json_obj_def)
  let ?d = "mark_up ''strategy:bid_ask_imbalance_v1'' d'"
  have p: "entry_parts ''bid_ask_imbalance_v1:nifty50'' = (''bid_ask_imbalance_v1'', ''nifty50'')"
    "entry_parts ''bid_ask_imbalance_v1:banknifty'' = (''bid_ask_imbalance_v1'', ''banknifty'')"
    by (simp_all add: entry_parts_def)
  have taken: "e \<in> set es \<Longrightarrow> entry_taken (Some sid) e \<longleftrightarrow> sid = ''bid_ask_imbalance_v1''" for e sid
    by (auto simp: es entry_taken_def p STRATEGY_CLASSES_def)
  have r': "k \<in> CONFIG_KEYS \<Longrightarrow> \<exists>kvs. read_json_obj ?d k = Inr kvs" for k
    using r read_json_obj_mark [of k] by (auto simp: CONFIG_KEYS_def starts_with_def)
  have "\<exists>s. load_spec ?d (fst (entry_parts e)) (snd (entry_parts e)) = Inr s" if e: "e \<in> set es" for e
  proof -
    have "\<exists>s. load_spec ?d ''bid_ask_imbalance_v1'' i = Inr s" if "i = ''nifty50'' \<or> i = ''banknifty''" for i
      by (rule load_spec_ok) (use that r' default_vessels_valid in \<open>auto simp: CONFIG_KEYS_def\<close>)
    then show ?thesis using e by (auto simp: es p)
  qed
  then obtain ss where ss: "discover_specs (Some ''bid_ask_imbalance_v1'') ?d es = Inr ss" using discover_total by blast
  have "filter (entry_taken (Some ''bid_ask_imbalance_v1'')) es = es" using taken by (simp add: filter_id_conv)
  then have keys: "map spec_key ss = map entry_parts es" using discover_keys [OF ss] by simp
  have "inj_on entry_parts (set es)" by (simp add: es p)
  then have "distinct (map spec_key ss)" using assms(4) unfolding keys distinct_map by blast
  moreover have "set (map spec_key ss) = set DEFAULT_VESSELS"
    unfolding keys set_map es DEFAULT_VESSELS_def image_insert image_empty p by (simp only: list.set)
  moreover have "ss \<noteq> []" using keys es by (metis insert_not_empty list.map_disc_iff list.set(1))
  then have "strategy_start (Some ''bid_ask_imbalance_v1'') es d' = (Inr ss, ?d)"
    using ss by (cases ss) (simp_all add: strategy_start_def strategy_flag_def)
  moreover have "\<forall>sid. sid \<noteq> ''bid_ask_imbalance_v1'' \<longrightarrow> fst (strategy_start (Some sid) es d') = Inl 1"
    using taken by (intro allI impI start_nothing) simp
  moreover have "\<exists>k. vessel_state sid idx = Inr k \<and> d' k = Some (RText ''FLAT'')" if "(sid, idx) \<in> set DEFAULT_VESSELS" for sid idx
    using that st default_vessels_valid by (auto simp: DEFAULT_VESSELS_def vessel_state_def vessel_prefix_def and_then_def)
  ultimately show ?thesis by blast
qed

theorem boot_spawns_vessels_witness:
  "\<exists>d' es ss. boot_main demo_env demo_evening = (0, d') \<and>
     strategy_start (Some ''bid_ask_imbalance_v1'') es d' = (Inr ss, mark_up ''strategy:bid_ask_imbalance_v1'' d') \<and>
     set (map spec_key ss) = set DEFAULT_VESSELS \<and> fst (strategy_start (Some ''other'') es d') = Inl 1"
proof -
  obtain d' where b: "boot_main demo_env demo_evening = (0, d')" "d' SYSTEM_FLAGS_TRADING_ACTIVE = Some (RText ''true'')"
    using demo_boot by blast
  have c: "configs_readable demo_evening"
    by (simp add: configs_readable_def CONFIG_KEYS_def demo_evening_def read_json_obj_def)
  have "finite (set_members d' STRATEGY_REGISTRY)"
    using boot_registry [OF b] by simp
  then obtain es where es: "distinct es" "set es = set_members d' STRATEGY_REGISTRY" using finite_distinct_list by metis
  note S = boot_spawns_vessels [OF b c es]
  have "fst (strategy_start (Some ''other'') es d') = Inl 1" using S by (elim conjE allE [of _ "''other''"]) simp
  then show ?thesis using S b(1) by (elim conjE exE, intro exI conjI)
qed

end
