(* ===== verification/Background.thy ===== *)
theory Background
  imports Supervision Registry
begin

text \<open>
  \<open>engines/background/main.py\<close> with its nightly tasks, and \<open>engines/scheduler/main.py\<close>: the stream of
  scheduler events with its consumer group, and the start of the scheduler with its job table.  An entry
  of the stream is its id and its fields; the group is the number of entries delivered so far.  The
  cron library accepts or refuses an hour and a minute: the parameter \<open>cron\<close>.
\<close>

section \<open>Nightly tasks\<close>

definition VACUUM_TABLES :: "string list" where
  "VACUUM_TABLES = [''trades_orders'', ''trades_closed_positions'', ''metrics_runtime'', ''logs_events'']"

text \<open>\<open>vac\<close> answers the text of the exception of a VACUUM, if it raises.\<close>

definition run_vacuum_analyze :: "(string \<Rightarrow> string option) \<Rightarrow> (string \<times> string) list" where
  "run_vacuum_analyze vac =
     map (\<lambda>t. (t, case vac t of None \<Rightarrow> ''ok'' | Some e \<Rightarrow> ''failed:'' @ e)) VACUUM_TABLES"

definition record_run :: "int \<Rightarrow> db \<Rightarrow> db" where
  "record_run now d =
     (case d SYSTEM_HEALTH_ENGINES of
        None \<Rightarrow> hset SYSTEM_HEALTH_ENGINES ''last_log_rotation_ts_ms'' (str_int now) d
      | Some (RHash _) \<Rightarrow> hset SYSTEM_HEALTH_ENGINES ''last_log_rotation_ts_ms'' (str_int now) d
      | Some _ \<Rightarrow> d)"

section \<open>The consumer of scheduler events\<close>

type_synonym bus_entry = "string \<times> (string \<times> string) list"

record bg =
  bg_db :: db
  bg_vacuums :: "(string \<times> string) list list"
  bg_acked :: "string list"

record bg_env =
  be_boot :: boot_env
  be_vacuum :: "string \<Rightarrow> string option"

text \<open>One entry: the handler by kind, then the acknowledgement, which the \<open>finally\<close> makes unconditional.\<close>

definition consume_event :: "bg_env \<Rightarrow> bus_entry \<Rightarrow> bg \<Rightarrow> bg" where
  "consume_event env e s =
     (let kind = get_or (map_of (snd e) ''kind'') [];
          s1 = (if kind = ''instrument_refresh'' then
                  s\<lparr>bg_db := snd (load_master_instruments (be_boot env) (bg_db s))\<rparr>
                else if kind = ''nightly_maintenance'' then
                  s\<lparr>bg_vacuums := bg_vacuums s @ [run_vacuum_analyze (be_vacuum env)],
                    bg_db := record_run (be_now (be_boot env)) (bg_db s)\<rparr>
                else if kind = ''daily_reset'' then s\<lparr>bg_db := on_daily_reset (bg_db s)\<rparr>
                else s)
      in s1\<lparr>bg_acked := bg_acked s1 @ [fst e]\<rparr>)"

text \<open>\<open>env e\<close> is the environment in which entry \<open>e\<close> is handled.\<close>

definition consume_all :: "(bus_entry \<Rightarrow> bg_env) \<Rightarrow> bus_entry list \<Rightarrow> bg \<Rightarrow> bg" where
  "consume_all env es s = foldl (\<lambda>s e. consume_event (env e) e s) s es"

record bus =
  bu_entries :: "bus_entry list"
  bu_group :: "nat option"
  bu_bg :: bg

definition ensure_scheduler_group :: "bus \<Rightarrow> bus" where
  "ensure_scheduler_group b =
     (case bu_group b of None \<Rightarrow> b\<lparr>bu_group := Some (length (bu_entries b))\<rparr> | Some _ \<Rightarrow> b)"

text \<open>One turn of \<open>_scheduler_consumer\<close>: XREADGROUP of at most five new entries; without a group it raises
  and the turn is skipped.\<close>

definition consumer_turn :: "(bus_entry \<Rightarrow> bg_env) \<Rightarrow> bus \<Rightarrow> bus" where
  "consumer_turn env b =
     (case bu_group b of
        None \<Rightarrow> b
      | Some n \<Rightarrow>
          let batch = take 5 (drop n (bu_entries b))
          in b\<lparr>bu_group := Some (n + length batch), bu_bg := consume_all env batch (bu_bg b)\<rparr>)"

datatype bus_event = Published bus_entry | Started | Turn | TurnFailed

definition bus_step :: "(bus_entry \<Rightarrow> bg_env) \<Rightarrow> bus_event \<Rightarrow> bus \<Rightarrow> bus" where
  "bus_step env ev b =
     (case ev of
        Published e \<Rightarrow> b\<lparr>bu_entries := bu_entries b @ [e]\<rparr>
      | Started \<Rightarrow> ensure_scheduler_group b
      | Turn \<Rightarrow> consumer_turn env b
      | TurnFailed \<Rightarrow> b)"

definition bus_run :: "(bus_entry \<Rightarrow> bg_env) \<Rightarrow> bus_event list \<Rightarrow> bus \<Rightarrow> bus" where
  "bus_run env evs b = foldl (\<lambda>b ev. bus_step env ev b) b evs"

section \<open>The scheduler process\<close>

text \<open>\<open>py_str\<close> is Python's \<open>str\<close> of a decoded JSON value; the text of a string is the string.\<close>

definition read_session_config :: "(json \<Rightarrow> string) \<Rightarrow> db \<Rightarrow> pyexc + (string \<times> string) list" where
  "read_session_config py_str d =
     and_then (read_json_obj d STRATEGY_CONFIGS_SESSION) (\<lambda>kvs. Inr (map (\<lambda>(k, v). (k, py_str v)) kvs))"

fun add_crons :: "(int \<Rightarrow> int \<Rightarrow> bool) \<Rightarrow> (string \<times> string) list \<Rightarrow> pyexc + (string \<times> int \<times> int) list" where
  "add_crons cron [] = Inr []"
| "add_crons cron ((name, hhmm) # rest) =
     (case sched_parse_hhmm hhmm of
        None \<Rightarrow> Inl ValueError
      | Some (h, m) \<Rightarrow>
          if \<not> cron h m then Inl ValueError else and_then (add_crons cron rest) (\<lambda>jobs. Inr ((name, h, m) # jobs)))"

text \<open>The two jobs without a configuration field are added when the table lacks them.\<close>

definition job_table :: "(string \<times> string) list \<Rightarrow> (string \<times> string) list" where
  "job_table session =
     (let triggers = resolve_trigger_table session
      in triggers @ filter (\<lambda>(n, _). n \<in> {''daily_reset'', ''nightly_maintenance''} \<and> n \<notin> fst ` set triggers) DEFAULT_TRIGGERS)"

definition scheduler_start ::
  "(int \<Rightarrow> int \<Rightarrow> bool) \<Rightarrow> (json \<Rightarrow> string) \<Rightarrow> db \<Rightarrow> (int + (string \<times> int \<times> int) list) \<times> db" where
  "scheduler_start cron py_str d =
     (case and_then (read_session_config py_str d) (\<lambda>session. add_crons cron (job_table session)) of
        Inl _ \<Rightarrow> (Inl 1, d)
      | Inr jobs \<Rightarrow> (Inr jobs, mark_up ''scheduler'' d))"

section \<open>The background process\<close>

text \<open>\<open>_amain\<close>: the exit code without Postgres, else the flag is raised and the tasks run until the shutdown.\<close>

definition background_start :: "bool \<Rightarrow> db \<Rightarrow> int option \<times> db" where
  "background_start postgres_ok d = (if \<not> postgres_ok then (Some 1, d) else (None, mark_up ''background'' d))"

definition background_exit :: "db \<Rightarrow> int \<times> db" where
  "background_exit d = (0, mark_down ''background'' d)"

definition scheduler_exit :: "db \<Rightarrow> int \<times> db" where
  "scheduler_exit d = (0, mark_down ''scheduler'' d)"

section \<open>Lemmas\<close>

text \<open>No start clears the exited flag: an engine restarted during the day is marked up and exited at once.\<close>

lemma restart_keeps_exited:
  "snd (background_start True (snd (background_exit d))) (system_flag_engine_up ''background'') = Some (RText ''true'')"
  "snd (background_start True (snd (background_exit d))) (system_flag_engine_exited ''background'') = Some (RText ''true'')"
  by (simp_all add: background_start_def background_exit_def mark_up_def mark_down_def system_flag_engine_up_def
      system_flag_engine_exited_def)

lemma consume_acks: "bg_acked (consume_all env es s) = bg_acked s @ map fst es"
proof (induction es arbitrary: s)
  case (Cons e es)
  have "bg_acked (consume_event (env e) e s) = bg_acked s @ [fst e]" by (simp add: consume_event_def Let_def)
  then show ?case using Cons [of "consume_event (env e) e s"] by (simp add: consume_all_def)
qed (simp add: consume_all_def)

lemma consume_append: "consume_all env (xs @ ys) s = consume_all env ys (consume_all env xs s)"
  by (simp add: consume_all_def)

definition bus_inv :: "(bus_entry \<Rightarrow> bg_env) \<Rightarrow> nat \<Rightarrow> bg \<Rightarrow> bus \<Rightarrow> bool" where
  "bus_inv env n0 s0 b \<longleftrightarrow>
     (\<exists>n. bu_group b = Some n \<and> n0 \<le> n \<and> n \<le> length (bu_entries b) \<and>
          bu_bg b = consume_all env (drop n0 (take n (bu_entries b))) s0)"

lemma bus_inv_step:
  assumes "bus_inv env n0 s0 b"
  shows "bus_inv env n0 s0 (bus_step env ev b)"
proof -
  obtain n where n: "bu_group b = Some n" "n0 \<le> n" "n \<le> length (bu_entries b)"
    "bu_bg b = consume_all env (drop n0 (take n (bu_entries b))) s0" using assms by (auto simp: bus_inv_def)
  show ?thesis
  proof (cases ev)
    case Turn
    define batch where "batch = take 5 (drop n (bu_entries b))"
    have t: "take (n + length batch) (bu_entries b) = take n (bu_entries b) @ batch"
      by (auto simp: batch_def take_add min_def)
    have "drop n0 (take (n + length batch) (bu_entries b)) = drop n0 (take n (bu_entries b)) @ batch"
      using n(2,3) by (simp add: t)
    then have "bu_bg (consumer_turn env b) = consume_all env (drop n0 (take (n + length batch) (bu_entries b))) s0"
      using n by (simp add: consumer_turn_def batch_def [symmetric] consume_append)
    moreover have "n + length batch \<le> length (bu_entries b)" using n(3) by (auto simp: batch_def min_def)
    moreover have "bu_group (consumer_turn env b) = Some (n + length batch)" "bu_entries (consumer_turn env b) = bu_entries b"
      using n(1) by (simp_all add: consumer_turn_def batch_def)
    ultimately show ?thesis using n(2) Turn by (simp add: bus_inv_def bus_step_def)
  qed (use n in \<open>simp_all add: bus_inv_def bus_step_def ensure_scheduler_group_def\<close>)
qed

lemma bus_inv_run: "bus_inv env n0 s0 b \<Longrightarrow> bus_inv env n0 s0 (bus_run env evs b)"
proof (induction evs arbitrary: b)
  case (Cons ev evs)
  then show ?case using bus_inv_step [of env n0 s0 b ev] by (simp add: bus_run_def)
qed (simp add: bus_run_def)

text \<open>Turns alone catch up, five entries each.\<close>

lemma turns_catch_up:
  "bu_group b = Some n \<Longrightarrow> n \<le> length (bu_entries b) \<Longrightarrow> length (bu_entries b) \<le> n + 5 * k \<Longrightarrow>
   bu_group (bus_run env (replicate k Turn) b) = Some (length (bu_entries b)) \<and>
   bu_entries (bus_run env (replicate k Turn) b) = bu_entries b"
proof (induction k arbitrary: b n)
  case (Suc k)
  define c where "c = consumer_turn env b"
  have c: "bu_entries c = bu_entries b" "bu_group c = Some (n + min 5 (length (bu_entries b) - n))"
    using Suc.prems by (simp_all add: c_def consumer_turn_def Let_def min_def)
  have "bus_run env (replicate (Suc k) Turn) b = bus_run env (replicate k Turn) c"
    by (simp add: bus_run_def bus_step_def c_def)
  then show ?case using Suc.IH [OF c(2)] c(1) Suc.prems by simp
qed (simp add: bus_run_def)

text \<open>The group starts at the end of the stream, so what was published before the first start of the
  engine is never handled; a restart keeps the group.\<close>

lemma first_start_skips:
  "bu_group b = None \<Longrightarrow> bus_inv env (length (bu_entries b)) (bu_bg b) (bus_step env Started b)"
  by (simp add: bus_inv_def bus_step_def ensure_scheduler_group_def consume_all_def)

text \<open>What the three kinds of events do.\<close>

lemma daily_reset_event:
  "bg_db (consume_event env (i, [(''kind'', ''daily_reset'')]) s) SYSTEM_FLAGS_DAILY_LOSS_CIRCUIT_TRIGGERED = Some (RText ''false'')"
  "bg_db (consume_event env (i, [(''kind'', ''daily_reset'')]) s) ORDERS_PNL_DAY = None"
  by (simp_all add: consume_event_def on_daily_reset_def key_const_defs)

lemma unknown_event:
  "k \<notin> {''instrument_refresh'', ''nightly_maintenance'', ''daily_reset''} \<Longrightarrow>
   consume_event env (i, [(''kind'', k)]) s = s\<lparr>bg_acked := bg_acked s @ [i]\<rparr>"
  by (auto simp: consume_event_def)

section \<open>Job times\<close>

text \<open>The text that decides when a job runs: the first two fields of the configured time when there is
  one with a colon, else the default.\<close>

definition job_text :: "(string \<times> string) list \<Rightarrow> string \<Rightarrow> string option" where
  "job_text session name =
     (case (if name \<in> set CONFIGURABLE_TRIGGERS then Option.bind (map_of session name) first_two_fields else None) of
        Some hm \<Rightarrow> Some hm
      | None \<Rightarrow> map_of DEFAULT_TRIGGERS name)"

lemma job_table_eq: "job_table session = resolve_trigger_table session"
proof -
  have s: "fst ` set (resolve_trigger_table session) = set (map fst DEFAULT_TRIGGERS)"
    using resolve_trigger_names by (metis set_map)
  have "{''daily_reset'', ''nightly_maintenance''} \<subseteq> set (map fst DEFAULT_TRIGGERS)" by (simp add: DEFAULT_TRIGGERS_def)
  then have "filter (\<lambda>(n, _). n \<in> {''daily_reset'', ''nightly_maintenance''} \<and> n \<notin> fst ` set (resolve_trigger_table session))
      DEFAULT_TRIGGERS = []" unfolding s filter_empty_conv by blast
  then show ?thesis unfolding job_table_def Let_def by simp
qed

definition trigger_step :: "(string \<times> string) list \<Rightarrow> (string \<times> string) list \<Rightarrow> string \<Rightarrow> (string \<times> string) list" where
  "trigger_step session out name =
     (case Option.bind (map_of session name) first_two_fields of None \<Rightarrow> out | Some hm \<Rightarrow> dict_set name hm out)"

lemma resolve_as_steps: "resolve_trigger_table session = foldl (trigger_step session) DEFAULT_TRIGGERS CONFIGURABLE_TRIGGERS"
proof -
  have "trigger_step session = (\<lambda>out name. case map_of session name of None \<Rightarrow> out
       | Some v \<Rightarrow> (case first_two_fields v of None \<Rightarrow> out | Some hm \<Rightarrow> dict_set name hm out))"
    by (intro ext) (simp add: trigger_step_def split: option.split)
  then show ?thesis by (simp add: resolve_trigger_table_def)
qed

lemma trigger_steps_get:
  "map_of (foldl (trigger_step session) out names) n =
     (case (if n \<in> set names then Option.bind (map_of session n) first_two_fields else None) of
        Some hm \<Rightarrow> Some hm
      | None \<Rightarrow> map_of out n)"
proof (induction names arbitrary: out)
  case (Cons a names)
  show ?case
    unfolding foldl_Cons Cons.IH
    by (auto simp: trigger_step_def map_of_dict_set split: option.split)
qed simp

lemma resolve_get: "map_of (resolve_trigger_table session) n = job_text session n"
  unfolding resolve_as_steps trigger_steps_get job_text_def ..

text \<open>A table is installed entirely or not at all.\<close>

definition job_ok :: "(int \<Rightarrow> int \<Rightarrow> bool) \<Rightarrow> string \<Rightarrow> (int \<times> int) option" where
  "job_ok cron t = (case sched_parse_hhmm t of Some (h, m) \<Rightarrow> if cron h m then Some (h, m) else None | None \<Rightarrow> None)"

lemma add_crons_iff:
  "add_crons cron tab = Inr jobs \<longleftrightarrow> map fst jobs = map fst tab \<and> map (Some \<circ> snd) jobs = map (job_ok cron \<circ> snd) tab"
proof (induction tab arbitrary: jobs)
  case (Cons r tab)
  obtain n t where r: "r = (n, t)" by (cases r)
  show ?case
  proof (cases "job_ok cron t")
    case None
    then have "\<exists>e. add_crons cron (r # tab) = Inl e" by (auto simp: r job_ok_def split: option.splits if_splits)
    then show ?thesis using None by (cases jobs) (auto simp: r)
  next
    case (Some hm)
    obtain h m where hm: "hm = (h, m)" by (cases hm)
    have "add_crons cron (r # tab) = and_then (add_crons cron tab) (\<lambda>jobs. Inr ((n, h, m) # jobs))"
      using Some by (auto simp: r hm job_ok_def split: option.splits if_splits)
    then show ?thesis using Cons.IH Some by (cases jobs) (auto simp: r hm and_then_Inr)
  qed
qed auto

lemma add_crons_fails:
  "add_crons cron tab = Inl e \<Longrightarrow> \<exists>(n, t) \<in> set tab. job_ok cron t = None"
proof (induction tab)
  case (Cons r tab)
  then show ?case by (cases r) (auto simp: and_then_Inl job_ok_def split: option.splits if_splits)
qed simp

lemma default_names_distinct: "distinct (map fst DEFAULT_TRIGGERS)"
  by (simp add: DEFAULT_TRIGGERS_def)

section \<open>Properties\<close>

text \<open>The scheduler installs the whole time table or does not start.  With a readable session
  configuration it either schedules exactly its eight jobs, each at the time of the configuration when
  that has a colon and at its default otherwise, and raises its flag; or one of those times is no hour
  and minute, and the process exits with code 1 before it has changed anything.\<close>

theorem scheduler_job_times:
  assumes "read_session_config py_str d = Inr session"
  shows "(\<exists>jobs. scheduler_start cron py_str d = (Inr jobs, mark_up ''scheduler'' d) \<and>
      map fst jobs = map fst DEFAULT_TRIGGERS \<and>
      (\<forall>(n, h, m) \<in> set jobs. \<exists>t. job_text session n = Some t \<and> sched_parse_hhmm t = Some (h, m) \<and> cron h m)) \<or>
    (scheduler_start cron py_str d = (Inl 1, d) \<and>
      (\<exists>n \<in> set (map fst DEFAULT_TRIGGERS). \<exists>t. job_text session n = Some t \<and> job_ok cron t = None))"
proof -
  define tab where "tab = resolve_trigger_table session"
  have names: "map fst tab = map fst DEFAULT_TRIGGERS" by (simp add: tab_def resolve_trigger_names)
  have get: "(n, t) \<in> set tab \<Longrightarrow> job_text session n = Some t" for n t
    using names default_names_distinct resolve_get [of session n] by (simp add: tab_def [symmetric])
  have st: "scheduler_start cron py_str d =
      (case add_crons cron tab of Inl _ \<Rightarrow> (Inl 1, d) | Inr jobs \<Rightarrow> (Inr jobs, mark_up ''scheduler'' d))"
    by (simp add: scheduler_start_def assms job_table_eq tab_def)
  show ?thesis
  proof (cases "add_crons cron tab")
    case (Inl e)
    then obtain n t where nt: "(n, t) \<in> set tab" "job_ok cron t = None" using add_crons_fails by fastforce
    then have "n \<in> set (map fst DEFAULT_TRIGGERS)" by (metis names fst_conv image_eqI set_map)
    then show ?thesis using Inl nt get st by auto
  next
    case (Inr jobs)
    then have j: "map fst jobs = map fst tab" "map (Some \<circ> snd) jobs = map (job_ok cron \<circ> snd) tab"
      by (simp_all add: add_crons_iff)
    have "\<exists>t. job_text session n = Some t \<and> sched_parse_hhmm t = Some (h, m) \<and> cron h m" if mem: "(n, h, m) \<in> set jobs" for n h m
    proof -
      obtain i where i: "i < length jobs" "jobs ! i = (n, h, m)" using mem by (auto simp: in_set_conv_nth)
      have l: "length tab = length jobs" using j(1) by (metis length_map)
      obtain t where t: "tab ! i = (n, t)" using j(1) i l by (metis fst_conv nth_map prod.collapse)
      have "Some (h, m) = job_ok cron t" using j(2) i l t by (metis comp_apply nth_map snd_conv)
      moreover have "(n, t) \<in> set tab" using t i l by (metis nth_mem)
      ultimately show ?thesis using get by (auto simp: job_ok_def split: option.splits if_splits)
    qed
    then show ?thesis using Inr st j(1) names by (auto simp del: map_map)
  qed
qed


section \<open>Witnesses\<close>

definition plain_str :: "json \<Rightarrow> string" where
  "plain_str j = (case j of JStr s \<Rightarrow> s | _ \<Rightarrow> [])"

definition sample_session :: db where
  "sample_session = (\<lambda>_. None)(STRATEGY_CONFIGS_SESSION \<mapsto>
     RJson (JObj [(''market_open'', JStr ''09:15''), (''pre_open_snapshot'', JStr ''09:14:50'')]))"

lemma sample_job_ok:
  "n \<in> set (map fst DEFAULT_TRIGGERS) \<Longrightarrow>
   job_text [(''market_open'', ''09:15''), (''pre_open_snapshot'', ''09:14:50'')] n = Some t \<Longrightarrow>
   job_ok (\<lambda>h m. h < 24 \<and> m < 60) t \<noteq> None"
  by (auto simp: job_text_def DEFAULT_TRIGGERS_def CONFIGURABLE_TRIGGERS_def first_two_fields_def job_ok_def sched_parse_hhmm_def
      int_of_str_def char_digit_def)

theorem scheduler_job_times_witness:
  "\<exists>jobs. scheduler_start (\<lambda>h m. h < 24 \<and> m < 60) plain_str sample_session =
       (Inr jobs, mark_up ''scheduler'' sample_session) \<and> map fst jobs = map fst DEFAULT_TRIGGERS"
proof -
  have "read_session_config plain_str sample_session =
      Inr [(''market_open'', ''09:15''), (''pre_open_snapshot'', ''09:14:50'')]"
    by (simp add: read_session_config_def read_json_obj_def sample_session_def plain_str_def)
  from scheduler_job_times [OF this, of "\<lambda>h m. h < 24 \<and> m < 60"] show ?thesis using sample_job_ok by blast
qed

definition sample_bus :: bus where
  "sample_bus = \<lparr>bu_entries = [(''1'', [(''kind'', ''market_open'')])], bu_group = Some 1,
     bu_bg = \<lparr>bg_db = (\<lambda>_. None), bg_vacuums = [], bg_acked = []\<rparr>\<rparr>"

definition sample_env :: "bus_entry \<Rightarrow> bg_env" where
  "sample_env e = \<lparr>be_boot = demo_env, be_vacuum = (\<lambda>_. None)\<rparr>"

definition sample_bus_events :: "bus_event list" where
  "sample_bus_events = [Published (''2'', [(''kind'', ''daily_reset'')]), TurnFailed, Turn]"


end
