(* ===== verification/Tables.thy ===== *)
theory Tables
  imports Background
begin

text \<open>
  The Postgres schema, \<open>alembic/versions/0001_initial.py\<close>: the tables and indexes as data, the migration
  and its downgrade on a catalog, and the rows a table accepts.  Of Postgres the model has the shared
  name space of tables and indexes, foreign keys, \<open>CASCADE\<close>, NOT NULL, defaults and the type of a
  value.  The indexes Postgres adds for keys have names of their own and are left out.
\<close>

section \<open>Catalog\<close>

datatype pg_type =
    PUuid | PText | PTimestamptz | PBytea | PBigserial | PJsonb | PTime | PInt | PTextArray | PBool | PDate | PNumeric | PBigint

record column =
  co_name :: string
  co_type :: pg_type
  co_required :: bool
  co_default :: bool
  co_ref :: "string option"

definition col :: "string \<Rightarrow> pg_type \<Rightarrow> column" where
  "col n t = \<lparr>co_name = n, co_type = t, co_required = False, co_default = False, co_ref = None\<rparr>"

definition req :: "column \<Rightarrow> column" where "req c = c\<lparr>co_required := True\<rparr>"
definition dft :: "column \<Rightarrow> column" where "dft c = c\<lparr>co_default := True\<rparr>"
definition ref :: "string \<Rightarrow> column \<Rightarrow> column" where "ref t c = c\<lparr>co_ref := Some t\<rparr>"

lemmas column_defs = col_def req_def dft_def ref_def

record table =
  tb_name :: string
  tb_cols :: "column list"
  tb_key :: "string list"
  tb_unique :: "string list"

type_synonym index_def = "string \<times> string \<times> string list"

record catalog =
  ct_tables :: "table list"
  ct_indexes :: "index_def list"

definition table_names :: "catalog \<Rightarrow> string set" where
  "table_names c = tb_name ` set (ct_tables c)"

definition relations :: "catalog \<Rightarrow> string set" where
  "relations c = table_names c \<union> fst ` set (ct_indexes c)"

definition refs_of :: "table \<Rightarrow> string set" where
  "refs_of t = {r. Some r \<in> co_ref ` set (tb_cols t)}"

text \<open>A name in use, a reference to a missing table and an index on missing columns are errors.\<close>

definition create_table :: "catalog \<Rightarrow> table \<Rightarrow> pyexc + catalog" where
  "create_table c t =
     (if tb_name t \<in> relations c \<or> \<not> (\<forall>k \<in> set (tb_cols t). case co_ref k of None \<Rightarrow> True | Some r \<Rightarrow> r \<in> insert (tb_name t) (table_names c))
      then Inl RuntimeError else Inr (c\<lparr>ct_tables := ct_tables c @ [t]\<rparr>))"

definition create_index :: "catalog \<Rightarrow> index_def \<Rightarrow> pyexc + catalog" where
  "create_index c ix =
     (case ix of (n, t, cols) \<Rightarrow>
        if n \<in> relations c \<or> \<not> (\<exists>tb \<in> set (ct_tables c). tb_name tb = t \<and> set cols \<subseteq> co_name ` set (tb_cols tb))
        then Inl RuntimeError else Inr (c\<lparr>ct_indexes := ct_indexes c @ [ix]\<rparr>))"

text \<open>\<open>DROP TABLE IF EXISTS n CASCADE\<close>: the table, its indexes, and the constraints of the tables that
  refer to it.\<close>

definition cut_ref :: "string \<Rightarrow> table \<Rightarrow> table" where
  "cut_ref n t = t\<lparr>tb_cols := map (\<lambda>k. if co_ref k = Some n then k\<lparr>co_ref := None\<rparr> else k) (tb_cols t)\<rparr>"

definition drop_table :: "string \<Rightarrow> catalog \<Rightarrow> catalog" where
  "drop_table n c =
     (if n \<in> table_names c
      then \<lparr>ct_tables = map (cut_ref n) (filter (\<lambda>t. tb_name t \<noteq> n) (ct_tables c)),
            ct_indexes = filter (\<lambda>(_, t, _). t \<noteq> n) (ct_indexes c)\<rparr>
      else c)"

section \<open>Tables\<close>

definition USER_ACCOUNTS :: table where
  "USER_ACCOUNTS = \<lparr>tb_name = ''user_accounts'',
     tb_cols =
      [dft (req (col ''id'' PUuid)), req (col ''username'' PText), req (col ''password_hash'' PText),
       req (col ''jwt_secret'' PText), dft (col ''role'' PText), dft (col ''created_at'' PTimestamptz)],
     tb_key = [''id''], tb_unique = [''username'']\<rparr>"

definition USER_CREDENTIALS :: table where
  "USER_CREDENTIALS = \<lparr>tb_name = ''user_credentials'',
     tb_cols =
      [req (col ''broker'' PText), req (col ''encrypted_value'' PBytea), dft (col ''updated_at'' PTimestamptz)],
     tb_key = [''broker''], tb_unique = []\<rparr>"

definition USER_AUDIT_LOG :: table where
  "USER_AUDIT_LOG = \<lparr>tb_name = ''user_audit_log'',
     tb_cols =
      [dft (req (col ''id'' PBigserial)), dft (col ''ts'' PTimestamptz),
       ref ''user_accounts'' (col ''user_id'' PUuid), req (col ''action'' PText), col ''ip'' PText,
       col ''user_agent'' PText, col ''payload'' PJsonb],
     tb_key = [''id''], tb_unique = []\<rparr>"

definition CONFIG_SETTINGS :: table where
  "CONFIG_SETTINGS = \<lparr>tb_name = ''config_settings'',
     tb_cols =
      [req (col ''key'' PText), req (col ''value'' PJsonb), dft (col ''updated_at'' PTimestamptz),
       ref ''user_accounts'' (col ''updated_by'' PUuid)],
     tb_key = [''key''], tb_unique = []\<rparr>"

definition CONFIG_TASK_DEFINITIONS :: table where
  "CONFIG_TASK_DEFINITIONS = \<lparr>tb_name = ''config_task_definitions'',
     tb_cols =
      [req (col ''id'' PText), req (col ''engine'' PText), req (col ''name'' PText), col ''cron'' PText,
       col ''start_time'' PTime, col ''end_time'' PTime, col ''duration_s'' PInt,
       req (col ''event_name'' PText), req (col ''target_engines'' PTextArray), dft (col ''enabled'' PBool)],
     tb_key = [''id''], tb_unique = []\<rparr>"

definition MARKET_CALENDAR :: table where
  "MARKET_CALENDAR = \<lparr>tb_name = ''market_calendar'',
     tb_cols =
      [req (col ''date'' PDate), req (col ''is_trading'' PBool), col ''session'' PJsonb, col ''notes'' PText],
     tb_key = [''date''], tb_unique = []\<rparr>"

definition MARKET_INSTRUMENTS_CACHE :: table where
  "MARKET_INSTRUMENTS_CACHE = \<lparr>tb_name = ''market_instruments_cache'',
     tb_cols =
      [req (col ''ts'' PTimestamptz), req (col ''index'' PText), req (col ''expiry'' PDate),
       req (col ''instrument_key'' PText), col ''strike'' PInt, col ''type'' PText, col ''lot_size'' PInt,
       col ''tick_size'' PNumeric],
     tb_key = [''ts'', ''instrument_key''], tb_unique = []\<rparr>"

definition TRADES_CLOSED_POSITIONS :: table where
  "TRADES_CLOSED_POSITIONS = \<lparr>tb_name = ''trades_closed_positions'',
     tb_cols =
      [dft (req (col ''id'' PUuid)), req (col ''sig_id'' PText), req (col ''index'' PText),
       req (col ''mode'' PText), req (col ''side'' PText), req (col ''strike'' PInt),
       req (col ''instrument_token'' PText), req (col ''qty'' PInt), req (col ''entry_ts'' PTimestamptz),
       req (col ''exit_ts'' PTimestamptz), req (col ''holding_seconds'' PInt),
       req (col ''entry_price'' PNumeric), req (col ''exit_price'' PNumeric), req (col ''pnl'' PNumeric),
       req (col ''pnl_pct'' PNumeric), req (col ''exit_reason'' PText), req (col ''intent'' PText),
       req (col ''signal_snapshot'' PJsonb), req (col ''pre_open_snapshot'' PJsonb),
       req (col ''market_snapshot_entry'' PJsonb), req (col ''market_snapshot_exit'' PJsonb),
       col ''exit_eval_history'' PJsonb, col ''trailing_history'' PJsonb, req (col ''order_events'' PJsonb),
       req (col ''latencies'' PJsonb), req (col ''pnl_breakdown'' PJsonb),
       col ''delta_pcr_at_entry'' PNumeric, col ''delta_pcr_at_exit'' PNumeric,
       col ''raw_broker_responses'' PJsonb, req (col ''strategy_version'' PText),
       dft (col ''created_at'' PTimestamptz)],
     tb_key = [''id''], tb_unique = []\<rparr>"

definition TRADES_REJECTED_SIGNALS :: table where
  "TRADES_REJECTED_SIGNALS = \<lparr>tb_name = ''trades_rejected_signals'',
     tb_cols =
      [dft (req (col ''id'' PBigserial)), dft (col ''ts'' PTimestamptz), req (col ''sig_id'' PText),
       req (col ''index'' PText), req (col ''reason'' PText), col ''signal_payload'' PJsonb],
     tb_key = [''id''], tb_unique = []\<rparr>"

definition METRICS_ORDER_EVENTS :: table where
  "METRICS_ORDER_EVENTS = \<lparr>tb_name = ''metrics_order_events'',
     tb_cols =
      [dft (req (col ''id'' PBigserial)), req (col ''ts'' PTimestamptz), col ''position_id'' PUuid,
       req (col ''order_id'' PText), col ''index'' PText, req (col ''event_type'' PText),
       col ''broker_status'' PText, col ''payload'' PJsonb, col ''internal_latency_ms'' PInt],
     tb_key = [''id''], tb_unique = []\<rparr>"

definition METRICS_PNL_HISTORY :: table where
  "METRICS_PNL_HISTORY = \<lparr>tb_name = ''metrics_pnl_history'',
     tb_cols =
      [dft (req (col ''id'' PBigserial)), req (col ''ts'' PTimestamptz), req (col ''mode'' PText),
       col ''index'' PText, col ''realized'' PNumeric, col ''unrealized'' PNumeric, col ''open_count'' PInt,
       col ''day_trades'' PInt, col ''win_rate'' PNumeric],
     tb_key = [''id''], tb_unique = []\<rparr>"

definition METRICS_DELTA_PCR_HISTORY :: table where
  "METRICS_DELTA_PCR_HISTORY = \<lparr>tb_name = ''metrics_delta_pcr_history'',
     tb_cols =
      [dft (req (col ''id'' PBigserial)), req (col ''ts'' PTimestamptz), req (col ''index'' PText),
       col ''spot'' PNumeric, col ''atm'' PInt, col ''total_d_put_oi'' PBigint,
       col ''total_d_call_oi'' PBigint, col ''cumulative_d_put_oi'' PBigint,
       col ''cumulative_d_call_oi'' PBigint, col ''interval_pcr'' PNumeric, col ''cumulative_pcr'' PNumeric,
       col ''per_strike_breakdown'' PJsonb],
     tb_key = [''id''], tb_unique = []\<rparr>"

definition METRICS_HEALTH_HISTORY :: table where
  "METRICS_HEALTH_HISTORY = \<lparr>tb_name = ''metrics_health_history'',
     tb_cols =
      [dft (req (col ''id'' PBigserial)), req (col ''ts'' PTimestamptz), req (col ''summary'' PText),
       col ''engines'' PJsonb, col ''dependencies'' PJsonb],
     tb_key = [''id''], tb_unique = []\<rparr>"

definition METRICS_SYSTEM_EVENTS :: table where
  "METRICS_SYSTEM_EVENTS = \<lparr>tb_name = ''metrics_system_events'',
     tb_cols =
      [dft (req (col ''id'' PBigserial)), dft (col ''ts'' PTimestamptz), req (col ''event'' PText),
       col ''payload'' PJsonb],
     tb_key = [''id''], tb_unique = []\<rparr>"

definition INDEXES_0001 :: "index_def list" where
  "INDEXES_0001 =
    [(''idx_user_audit_log_ts'', ''user_audit_log'', [''ts'']),
     (''idx_user_audit_log_user_ts'', ''user_audit_log'', [''user_id'', ''ts'']),
     (''idx_market_instruments_index_expiry'', ''market_instruments_cache'', [''index'', ''expiry'']),
     (''idx_trades_closed_entry_ts'', ''trades_closed_positions'', [''entry_ts'']),
     (''idx_trades_closed_index_entry_ts'', ''trades_closed_positions'', [''index'', ''entry_ts'']),
     (''idx_trades_closed_mode_entry_ts'', ''trades_closed_positions'', [''mode'', ''entry_ts'']),
     (''idx_trades_closed_sig_id'', ''trades_closed_positions'', [''sig_id'']),
     (''idx_trades_rejected_ts'', ''trades_rejected_signals'', [''ts'']),
     (''idx_trades_rejected_index'', ''trades_rejected_signals'', [''index'', ''ts'']),
     (''idx_metrics_order_events_ts'', ''metrics_order_events'', [''ts'']),
     (''idx_metrics_order_events_position'', ''metrics_order_events'', [''position_id'', ''ts'']),
     (''idx_metrics_order_events_order'', ''metrics_order_events'', [''order_id'']),
     (''idx_metrics_pnl_history_ts'', ''metrics_pnl_history'', [''ts'']),
     (''idx_metrics_pnl_history_index_ts'', ''metrics_pnl_history'', [''index'', ''ts'']),
     (''idx_metrics_delta_pcr_index_ts'', ''metrics_delta_pcr_history'', [''index'', ''ts'']),
     (''idx_metrics_health_history_ts'', ''metrics_health_history'', [''ts'']),
     (''idx_metrics_system_events_ts'', ''metrics_system_events'', [''ts'']),
     (''idx_metrics_system_events_event'', ''metrics_system_events'', [''event'', ''ts''])]"

definition TABLES_IN_ORDER :: "table list" where
  "TABLES_IN_ORDER =
    [USER_ACCOUNTS, USER_CREDENTIALS, USER_AUDIT_LOG, CONFIG_SETTINGS, CONFIG_TASK_DEFINITIONS,
     MARKET_CALENDAR, MARKET_INSTRUMENTS_CACHE, TRADES_CLOSED_POSITIONS, TRADES_REJECTED_SIGNALS,
     METRICS_ORDER_EVENTS, METRICS_PNL_HISTORY, METRICS_DELTA_PCR_HISTORY, METRICS_HEALTH_HISTORY,
     METRICS_SYSTEM_EVENTS]"

lemmas table_defs = USER_ACCOUNTS_def USER_CREDENTIALS_def USER_AUDIT_LOG_def CONFIG_SETTINGS_def CONFIG_TASK_DEFINITIONS_def
  MARKET_CALENDAR_def MARKET_INSTRUMENTS_CACHE_def TRADES_CLOSED_POSITIONS_def TRADES_REJECTED_SIGNALS_def
  METRICS_ORDER_EVENTS_def METRICS_PNL_HISTORY_def METRICS_DELTA_PCR_HISTORY_def METRICS_HEALTH_HISTORY_def
  METRICS_SYSTEM_EVENTS_def

fun run_all :: "('s \<Rightarrow> 'a \<Rightarrow> pyexc + 's) \<Rightarrow> 'a list \<Rightarrow> 's \<Rightarrow> pyexc + 's" where
  "run_all f [] s = Inr s"
| "run_all f (x # xs) s = and_then (f s x) (run_all f xs)"

definition initial_upgrade :: "catalog \<Rightarrow> pyexc + catalog" where
  "initial_upgrade c = and_then (run_all create_table TABLES_IN_ORDER c) (run_all create_index INDEXES_0001)"

definition initial_downgrade :: "catalog \<Rightarrow> catalog" where
  "initial_downgrade c = foldl (\<lambda>c t. drop_table (tb_name t) c) c (rev TABLES_IN_ORDER)"

section \<open>Rows\<close>

datatype sql_val = VText string | VInt int | VNum rat | VTime int | VJson json | VBytes "nat list" | VBool bool | VTexts "string list"

text \<open>Of the texts Postgres reads as a TIME, the two forms the seed uses: HH:MM and HH:MM:SS.\<close>

definition two_digits :: "nat \<Rightarrow> char \<Rightarrow> char \<Rightarrow> bool" where
  "two_digits bound a b \<longleftrightarrow> is_digit a \<and> is_digit b \<and> digits_value [a, b] < bound"

definition clock_text :: "string \<Rightarrow> bool" where
  "clock_text s =
     (case s of
        [h1, h2, c, m1, m2] \<Rightarrow> two_digits 24 h1 h2 \<and> c = CHR '':'' \<and> two_digits 60 m1 m2
      | [h1, h2, c, m1, m2, d, s1, s2] \<Rightarrow>
          two_digits 24 h1 h2 \<and> c = CHR '':'' \<and> two_digits 60 m1 m2 \<and> d = CHR '':'' \<and> two_digits 60 s1 s2
      | _ \<Rightarrow> False)"

definition fits :: "pg_type \<Rightarrow> sql_val \<Rightarrow> bool" where
  "fits t v =
     (case v of
        VText s \<Rightarrow> t = PText \<or> t = PTime \<and> clock_text s
      | VInt i \<Rightarrow> t = PInt \<and> - (2 ^ 31) \<le> i \<and> i < 2 ^ 31 \<or> t = PBigint \<and> - (2 ^ 63) \<le> i \<and> i < 2 ^ 63
      | VNum _ \<Rightarrow> t = PNumeric
      | VTime _ \<Rightarrow> t = PTimestamptz
      | VJson _ \<Rightarrow> t = PJsonb
      | VBytes _ \<Rightarrow> t = PBytea
      | VBool _ \<Rightarrow> t = PBool
      | VTexts _ \<Rightarrow> t = PTextArray)"

type_synonym sql_row = "(string \<times> sql_val option) list"

definition value_ok :: "column \<Rightarrow> sql_val option \<Rightarrow> bool" where
  "value_ok c v = (case v of None \<Rightarrow> \<not> co_required c | Some x \<Rightarrow> fits (co_type c) x)"

text \<open>The columns of an INSERT are columns of the table, their values are of its types, and a column
  that is left out may be NULL or has a default.\<close>

definition accepts :: "table \<Rightarrow> sql_row \<Rightarrow> bool" where
  "accepts t row \<longleftrightarrow>
     distinct (map fst row) \<and> set (map fst row) \<subseteq> set (map co_name (tb_cols t)) \<and>
     (\<forall>c \<in> set (tb_cols t).
        case map_of row (co_name c) of None \<Rightarrow> co_required c \<longrightarrow> co_default c | Some v \<Rightarrow> value_ok c v)"

text \<open>\<open>persist_report\<close>: \<open>payload\<close> is the JSON form of the report's nested fields, as pydantic dumps them;
  \<open>raw\<close>, \<open>pcr_in\<close> and \<open>pcr_out\<close> are the fields of the report that the engine leaves empty.\<close>

definition or_null :: "json \<Rightarrow> sql_val option" where
  "or_null j = (if truthy j then Some (VJson j) else None)"

definition persist_row :: "(string \<Rightarrow> json) \<Rightarrow> json \<Rightarrow> rat option \<Rightarrow> rat option \<Rightarrow> report \<Rightarrow> sql_row" where
  "persist_row payload raw pcr_in pcr_out r =
     [(''sig_id'', Some (VText (r_sig_id r))), (''index'', Some (VText (r_index r))), (''mode'', Some (VText (r_mode r))),
      (''side'', Some (VText (side_value (r_side r)))), (''strike'', Some (VInt (r_strike r))),
      (''instrument_token'', Some (VText (r_instrument_token r))), (''qty'', Some (VInt (r_qty r))),
      (''entry_ts'', Some (VTime (r_entry_ts r))), (''exit_ts'', Some (VTime (r_exit_ts r))),
      (''holding_seconds'', Some (VInt (r_holding_seconds r))),
      (''entry_price'', Some (VNum (r_entry_price r))), (''exit_price'', Some (VNum (r_exit_price r))),
      (''pnl'', Some (VNum (r_pnl r))), (''pnl_pct'', Some (VNum (r_pnl_pct r))),
      (''exit_reason'', Some (VText (exit_reason_value (r_exit_reason r)))), (''intent'', Some (VText (intent_value (r_intent r)))),
      (''signal_snapshot'', Some (VJson (payload ''signal_snapshot''))),
      (''pre_open_snapshot'', Some (VJson (payload ''pre_open_snapshot''))),
      (''market_snapshot_entry'', Some (VJson (payload ''market_snapshot_entry''))),
      (''market_snapshot_exit'', Some (VJson (payload ''market_snapshot_exit''))),
      (''exit_eval_history'', or_null (payload ''exit_eval_history'')),
      (''trailing_history'', or_null (payload ''trailing_history'')),
      (''order_events'', Some (VJson (payload ''order_events''))), (''latencies'', Some (VJson (payload ''latencies''))),
      (''pnl_breakdown'', Some (VJson (payload ''pnl_breakdown''))),
      (''delta_pcr_at_entry'', map_option VNum pcr_in), (''delta_pcr_at_exit'', map_option VNum pcr_out),
      (''raw_broker_responses'', or_null raw), (''strategy_version'', Some (VText (r_strategy_version r)))]"

section \<open>Lemmas\<close>

text \<open>A catalog as Postgres keeps it: no dangling reference, no index without its table.\<close>

definition catalog_ok :: "catalog \<Rightarrow> bool" where
  "catalog_ok c \<longleftrightarrow>
     (\<forall>t \<in> set (ct_tables c). refs_of t \<subseteq> table_names c) \<and> (\<forall>(_, t, _) \<in> set (ct_indexes c). t \<in> table_names c)"

fun refs_ready :: "string set \<Rightarrow> table list \<Rightarrow> bool" where
  "refs_ready N [] = True"
| "refs_ready N (t # ts) \<longleftrightarrow>
     (\<forall>k \<in> set (tb_cols t). case co_ref k of None \<Rightarrow> True | Some r \<Rightarrow> r \<in> insert (tb_name t) N) \<and>
     refs_ready (insert (tb_name t) N) ts"

lemma refs_ready_mono: "refs_ready N ts \<Longrightarrow> N \<subseteq> M \<Longrightarrow> refs_ready M ts"
proof (induction ts arbitrary: N M)
  case (Cons t ts)
  have "refs_ready (insert (tb_name t) M) ts" using Cons.IH [of "insert (tb_name t) N"] Cons.prems by auto
  then show ?case using Cons.prems by (fastforce split: option.split option.split_asm)
qed simp

lemma create_all:
  "distinct (map tb_name ts) \<Longrightarrow> relations c \<inter> tb_name ` set ts = {} \<Longrightarrow> refs_ready (table_names c) ts \<Longrightarrow>
   run_all create_table ts c = Inr (c\<lparr>ct_tables := ct_tables c @ ts\<rparr>)"
proof (induction ts arbitrary: c)
  case (Cons t ts)
  define c1 where "c1 = c\<lparr>ct_tables := ct_tables c @ [t]\<rparr>"
  have n: "table_names c1 = insert (tb_name t) (table_names c)" "relations c1 = insert (tb_name t) (relations c)"
    by (auto simp: c1_def table_names_def relations_def)
  have "create_table c t = Inr c1" using Cons.prems by (simp add: create_table_def c1_def)
  moreover have "run_all create_table ts c1 = Inr (c1\<lparr>ct_tables := ct_tables c1 @ ts\<rparr>)"
    using Cons.prems by (intro Cons.IH) (auto simp: n)
  ultimately show ?case by (simp add: and_then_def c1_def)
qed simp

lemma refs_ready_refs: "refs_ready N ts \<Longrightarrow> t \<in> set ts \<Longrightarrow> refs_of t \<subseteq> N \<union> tb_name ` set ts"
proof (induction ts arbitrary: N)
  case (Cons a ts)
  show ?case
  proof (cases "t = a")
    case True
    then show ?thesis using Cons.prems by (force simp: refs_of_def split: option.split_asm)
  next
    case False
    then show ?thesis using Cons.IH [of "insert (tb_name a) N"] Cons.prems by auto
  qed
qed simp

lemma index_all:
  "distinct (map fst ixs) \<Longrightarrow> relations c \<inter> fst ` set ixs = {} \<Longrightarrow>
   \<forall>(_, t, cols) \<in> set ixs. \<exists>tb \<in> set (ct_tables c). tb_name tb = t \<and> set cols \<subseteq> co_name ` set (tb_cols tb) \<Longrightarrow>
   run_all create_index ixs c = Inr (c\<lparr>ct_indexes := ct_indexes c @ ixs\<rparr>)"
proof (induction ixs arbitrary: c)
  case (Cons ix ixs)
  define c1 where "c1 = c\<lparr>ct_indexes := ct_indexes c @ [ix]\<rparr>"
  have n: "ct_tables c1 = ct_tables c" "relations c1 = insert (fst ix) (relations c)"
    by (auto simp: c1_def table_names_def relations_def)
  have "create_index c ix = Inr c1" using Cons.prems by (auto simp: create_index_def c1_def split: prod.split)
  moreover have "run_all create_index ixs c1 = Inr (c1\<lparr>ct_indexes := ct_indexes c1 @ ixs\<rparr>)"
    using Cons.prems by (intro Cons.IH) (auto simp: n)
  ultimately show ?case by (simp add: and_then_def c1_def)
qed simp

lemma cut_ref_simps [simp]: "tb_name (cut_ref n t) = tb_name t" "refs_of (cut_ref n t) = refs_of t - {n}"
  by (auto simp: cut_ref_def refs_of_def image_iff split: if_splits)

lemma cut_ref_id: "n \<notin> refs_of t \<Longrightarrow> cut_ref n t = t"
proof -
  assume "n \<notin> refs_of t"
  then have "map (\<lambda>k. if co_ref k = Some n then k\<lparr>co_ref := None\<rparr> else k) (tb_cols t) = tb_cols t"
    by (intro map_idI) (force simp: refs_of_def)
  then show ?thesis by (simp add: cut_ref_def)
qed

lemma drop_table_eq:
  assumes "catalog_ok c"
  shows "drop_table n c = \<lparr>ct_tables = map (cut_ref n) (filter (\<lambda>t. tb_name t \<noteq> n) (ct_tables c)),
    ct_indexes = filter (\<lambda>(_, t, _). t \<noteq> n) (ct_indexes c)\<rparr>"
proof (cases "n \<in> table_names c")
  case False
  then have "filter (\<lambda>t. tb_name t \<noteq> n) (ct_tables c) = ct_tables c" by (auto simp: filter_id_conv table_names_def)
  moreover have "map (cut_ref n) (ct_tables c) = ct_tables c"
    using assms False by (intro map_idI cut_ref_id) (auto simp: catalog_ok_def)
  moreover have "filter (\<lambda>(_, t, _). t \<noteq> n) (ct_indexes c) = ct_indexes c"
    using assms False by (auto simp: filter_id_conv catalog_ok_def)
  ultimately show ?thesis using False by (simp add: drop_table_def)
qed (simp add: drop_table_def)

lemma drop_table_ok:
  assumes "catalog_ok c"
  shows "catalog_ok (drop_table n c)"
proof -
  have "table_names (drop_table n c) = table_names c - {n}" by (auto simp: drop_table_eq [OF assms] table_names_def image_iff)
  then show ?thesis using assms by (auto simp: catalog_ok_def drop_table_eq [OF assms])
qed

lemma drop_all:
  "catalog_ok c \<Longrightarrow>
   ct_tables (foldl (\<lambda>c n. drop_table n c) c ns) =
     map (\<lambda>t. foldl (\<lambda>t n. cut_ref n t) t ns) (filter (\<lambda>t. tb_name t \<notin> set ns) (ct_tables c)) \<and>
   ct_indexes (foldl (\<lambda>c n. drop_table n c) c ns) = filter (\<lambda>(_, t, _). t \<notin> set ns) (ct_indexes c)"
proof (induction ns arbitrary: c)
  case (Cons n ns)
  show ?case
    using Cons.IH [OF drop_table_ok [OF Cons.prems, of n]] Cons.prems
    by (auto simp: drop_table_eq filter_map o_def intro!: filter_cong map_cong)
qed (simp add: case_prod_unfold)

lemma cut_refs_id: "refs_of t \<inter> set ns = {} \<Longrightarrow> foldl (\<lambda>t n. cut_ref n t) t ns = t"
  by (induction ns) (simp_all add: cut_ref_id)

definition migration_names :: "string set" where
  "migration_names = tb_name ` set TABLES_IN_ORDER \<union> fst ` set INDEXES_0001"

lemma table_name_list:
  "map tb_name TABLES_IN_ORDER =
     [''user_accounts'', ''user_credentials'', ''user_audit_log'', ''config_settings'', ''config_task_definitions'',
      ''market_calendar'', ''market_instruments_cache'', ''trades_closed_positions'', ''trades_rejected_signals'',
      ''metrics_order_events'', ''metrics_pnl_history'', ''metrics_delta_pcr_history'', ''metrics_health_history'',
      ''metrics_system_events'']"
  by (simp add: TABLES_IN_ORDER_def table_defs)

lemma tables_ready: "distinct (map tb_name TABLES_IN_ORDER)" "refs_ready {} TABLES_IN_ORDER"
  unfolding table_name_list by (simp_all add: TABLES_IN_ORDER_def table_defs column_defs)

lemma indexes_ready:
  "distinct (map fst INDEXES_0001)" "tb_name ` set TABLES_IN_ORDER \<inter> fst ` set INDEXES_0001 = {}"
  unfolding set_map [symmetric] table_name_list by (simp_all add: INDEXES_0001_def)

lemma indexes_find_columns:
  "\<forall>(_, t, cols) \<in> set INDEXES_0001. \<exists>tb \<in> set TABLES_IN_ORDER. tb_name tb = t \<and> set cols \<subseteq> co_name ` set (tb_cols tb)"
  by (simp add: INDEXES_0001_def TABLES_IN_ORDER_def table_defs column_defs)

lemma upgrade_eq:
  assumes "relations c \<inter> migration_names = {}"
  shows "initial_upgrade c =
    Inr \<lparr>ct_tables = ct_tables c @ TABLES_IN_ORDER, ct_indexes = ct_indexes c @ INDEXES_0001\<rparr>"
proof -
  define c1 where "c1 = c\<lparr>ct_tables := ct_tables c @ TABLES_IN_ORDER\<rparr>"
  have "run_all create_table TABLES_IN_ORDER c = Inr c1"
    unfolding c1_def using assms tables_ready refs_ready_mono [OF tables_ready(2)]
    by (intro create_all) (auto simp: migration_names_def)
  moreover have "run_all create_index INDEXES_0001 c1 = Inr (c1\<lparr>ct_indexes := ct_indexes c1 @ INDEXES_0001\<rparr>)"
  proof (rule index_all)
    have "relations c1 = relations c \<union> tb_name ` set TABLES_IN_ORDER" by (auto simp: c1_def relations_def table_names_def)
    then show "relations c1 \<inter> fst ` set INDEXES_0001 = {}" using assms indexes_ready(2) by (auto simp: migration_names_def)
    show "\<forall>(_, t, cols) \<in> set INDEXES_0001. \<exists>tb \<in> set (ct_tables c1). tb_name tb = t \<and> set cols \<subseteq> co_name ` set (tb_cols tb)"
      using indexes_find_columns by (fastforce simp: c1_def)
  qed (rule indexes_ready)
  ultimately show ?thesis by (simp add: initial_upgrade_def and_then_def c1_def)
qed

text \<open>Three of the four tables of the nightly VACUUM are tables of no migration.\<close>

lemma vacuum_tables_missing:
  "filter (\<lambda>t. t \<in> tb_name ` set TABLES_IN_ORDER) VACUUM_TABLES = [''trades_closed_positions'']"
  unfolding set_map [symmetric] table_name_list by (simp add: VACUUM_TABLES_def)

lemma vacuum_always_fails:
  assumes "initial_upgrade \<lparr>ct_tables = [], ct_indexes = []\<rparr> = Inr c"
    and "\<forall>t. t \<notin> table_names c \<longrightarrow> vac t \<noteq> None" and "t \<in> {''trades_orders'', ''metrics_runtime'', ''logs_events''}"
  shows "\<exists>e. (t, ''failed:'' @ e) \<in> set (run_vacuum_analyze vac)"
proof -
  have "table_names c = set (map tb_name TABLES_IN_ORDER)"
    using assms(1) upgrade_eq [of "\<lparr>ct_tables = [], ct_indexes = []\<rparr>"] by (auto simp: relations_def table_names_def)
  moreover have "t \<notin> set (map tb_name TABLES_IN_ORDER)"
    using assms(3) unfolding table_name_list by (elim insertE emptyE) simp_all
  ultimately obtain e where "vac t = Some e" using assms(2) by blast
  moreover have "t \<in> set VACUUM_TABLES" using assms(3) unfolding VACUUM_TABLES_def by (elim insertE emptyE) simp_all
  ultimately show ?thesis by (intro exI [of _ e]) (force simp: run_vacuum_analyze_def)
qed

section \<open>Properties\<close>

text \<open>The first migration can be applied and taken back.  On every well-formed catalog that
  uses none of its names, each CREATE TABLE finds the tables its foreign keys refer to and each CREATE
  INDEX its table and columns, so the upgrade succeeds and adds exactly the fourteen tables and
  eighteen indexes; the downgrade then restores the catalog it started from.\<close>

theorem migration_roundtrip:
  assumes "catalog_ok c" and "relations c \<inter> migration_names = {}"
  shows "\<exists>c'. initial_upgrade c = Inr c' \<and> ct_tables c' = ct_tables c @ TABLES_IN_ORDER \<and>
    ct_indexes c' = ct_indexes c @ INDEXES_0001 \<and> initial_downgrade c' = c"
proof -
  define c' where "c' = \<lparr>ct_tables = ct_tables c @ TABLES_IN_ORDER, ct_indexes = ct_indexes c @ INDEXES_0001\<rparr>"
  define ns where "ns = map tb_name (rev TABLES_IN_ORDER)"
  have n: "set ns = tb_name ` set TABLES_IN_ORDER" by (simp add: ns_def)
  have tn: "table_names c' = table_names c \<union> tb_name ` set TABLES_IN_ORDER" by (auto simp: c'_def table_names_def)
  have it: "\<forall>(_, t, _) \<in> set INDEXES_0001. t \<in> tb_name ` set TABLES_IN_ORDER" using indexes_find_columns by fast
  have ok: "catalog_ok c'"
    using assms(1) it refs_ready_refs [OF tables_ready(2)] unfolding catalog_ok_def tn by (auto simp: c'_def)
  have down: "initial_downgrade c' = foldl (\<lambda>c n. drop_table n c) c' ns" by (simp add: initial_downgrade_def ns_def foldl_map)
  have old: "tb_name t \<notin> set ns" "refs_of t \<inter> set ns = {}" if "t \<in> set (ct_tables c)" for t
  proof -
    have d: "table_names c \<inter> set ns = {}" using assms(2) by (auto simp: relations_def n migration_names_def)
    show "tb_name t \<notin> set ns" using that d by (auto simp: table_names_def)
    show "refs_of t \<inter> set ns = {}" using that assms(1) d by (auto simp: catalog_ok_def)
  qed
  have "ct_tables (initial_downgrade c') = ct_tables c"
    unfolding down conjunct1 [OF drop_all [OF ok]]
    by (simp add: c'_def n old(1) [unfolded n] filter_id_conv cut_refs_id [OF old(2)] map_idI cong: filter_cong)
  moreover have "ct_indexes (initial_downgrade c') = ct_indexes c"
  proof -
    have "filter (\<lambda>(_, t, _). t \<notin> set ns) INDEXES_0001 = []" using it by (auto simp: filter_empty_conv n)
    moreover have "filter (\<lambda>(_, t, _). t \<notin> set ns) (ct_indexes c) = ct_indexes c"
      using assms(1) old(1) by (force simp: filter_id_conv catalog_ok_def table_names_def)
    ultimately show ?thesis unfolding down conjunct2 [OF drop_all [OF ok]] by (simp add: c'_def)
  qed
  ultimately have "initial_downgrade c' = c" by simp
  then show ?thesis using upgrade_eq [OF assms(2)] by (simp add: c'_def)
qed

text \<open>A closed trade fits its table.  For every report whose strike, quantity and holding time
  are 32-bit integers the row of the INSERT names only columns of trades_closed_positions, each once,
  gives each a value of its type, gives NULL only where the table allows it, and leaves out only
  columns with a default: the INSERT can fail for no reason of the schema, whatever the trade was.\<close>

theorem report_fits_table:
  assumes "\<forall>i \<in> {r_strike r, r_qty r, r_holding_seconds r}. - (2 ^ 31) \<le> i \<and> i < 2 ^ 31"
  shows "accepts TRADES_CLOSED_POSITIONS (persist_row payload raw pcr_in pcr_out r)"
  using assms
  by (simp add: accepts_def persist_row_def TRADES_CLOSED_POSITIONS_def column_defs value_ok_def fits_def or_null_def split: option.split)

section \<open>Witnesses\<close>

theorem migration_roundtrip_witness:
  "\<exists>c'. initial_upgrade \<lparr>ct_tables = [\<lparr>tb_name = ''alembic_version'', tb_cols = [col ''version_num'' PText], tb_key = [], tb_unique = []\<rparr>],
      ct_indexes = []\<rparr> = Inr c' \<and> length (ct_tables c') = 15"
proof -
  define c :: catalog where
    "c = \<lparr>ct_tables = [\<lparr>tb_name = ''alembic_version'', tb_cols = [col ''version_num'' PText], tb_key = [], tb_unique = []\<rparr>], ct_indexes = []\<rparr>"
  have "catalog_ok c" by (simp add: c_def catalog_ok_def refs_of_def column_defs)
  moreover have "relations c \<inter> migration_names = {}"
    unfolding migration_names_def set_map [symmetric] table_name_list
    by (simp add: c_def relations_def table_names_def INDEXES_0001_def)
  ultimately show ?thesis using migration_roundtrip [of c] by (auto simp: c_def TABLES_IN_ORDER_def)
qed

definition sample_report :: report where
  "sample_report =
     (let snap = \<lparr>ms_ts = 0, ms_spot = 24000, ms_sum_ce = 90, ms_sum_pe = 95, ms_delta = 5, ms_delta_pcr_cumulative = None\<rparr>
      in \<lparr>r_sig_id = ''sig'', r_index = ''nifty50'', r_mode = ''paper'', r_side = CE, r_strike = 24000,
          r_instrument_token = ''NSE_FO|1'', r_qty = 75, r_entry_ts = 0, r_exit_ts = 60000, r_holding_seconds = 60,
          r_entry_price = 100, r_exit_price = 110, r_pnl = 750, r_pnl_pct = 10, r_exit_reason = ER_HARD_TARGET,
          r_intent = FRESH_ENTRY, r_signal_snapshot = None, r_market_snapshot_entry = snap, r_market_snapshot_exit = snap,
          r_exit_eval_history = None, r_trailing_history = None, r_order_events = [],
          r_latencies = \<lparr>lt_signal_to_submit_ms = 1, lt_submit_to_ack_ms = 1, lt_ack_to_fill_ms = 1,
            lt_decision_to_exit_submit_ms = 1, lt_exit_submit_to_fill_ms = 1\<rparr>,
          r_pnl_breakdown = \<lparr>pb_gross = 750, pb_charges = 0, pb_slippage = 0, pb_net = 750\<rparr>,
          r_strategy_version = ''v1''\<rparr>)"

theorem report_fits_table_witness:
  "accepts TRADES_CLOSED_POSITIONS (persist_row (\<lambda>_. JObj []) (JObj []) None None sample_report)"
  by (rule report_fits_table) (simp add: sample_report_def Let_def)

end
