(* ===== verification/Seed.thy ===== *)
theory Seed
  imports Tables
begin

text \<open>
  The runtime configuration in Postgres: the seed migration \<open>alembic/versions/0002_seed.py\<close>, the models
  of \<open>state/schemas/config.py\<close> and the loader \<open>state/config_loader.py\<close>, up to the rows the boot reads.
  Parameters: bcrypt (\<open>hashpw\<close>), the decryption of a stored credential, \<open>str\<close> of a JSON value, and
  what Postgres does with a statement whose dollar quote ends early (\<open>broken\<close>).
\<close>

section \<open>Configuration models\<close>

datatype field_type = FInt | FFloat | FStr | FBool | FOneOf "string list"

datatype bound = Gt rat | Ge rat | Lt rat | Le rat

record field_spec =
  fs_name :: string
  fs_type :: field_type
  fs_default :: "json option"
  fs_bounds :: "bound list"

definition must :: "string \<Rightarrow> field_type \<Rightarrow> bound list \<Rightarrow> field_spec" where
  "must n t bs = \<lparr>fs_name = n, fs_type = t, fs_default = None, fs_bounds = bs\<rparr>"

definition may :: "string \<Rightarrow> field_type \<Rightarrow> bound list \<Rightarrow> json \<Rightarrow> field_spec" where
  "may n t bs d = \<lparr>fs_name = n, fs_type = t, fs_default = Some d, fs_bounds = bs\<rparr>"

lemmas spec_defs = must_def may_def

fun typed :: "field_type \<Rightarrow> json \<Rightarrow> bool" where
  "typed FInt (JInt _) = True"
| "typed FFloat (JInt _) = True"
| "typed FFloat (JFloat _) = True"
| "typed FStr (JStr _) = True"
| "typed FBool (JBool _) = True"
| "typed (FOneOf xs) (JStr s) = (s \<in> set xs)"
| "typed _ _ = False"

fun within_rat :: "bound \<Rightarrow> rat \<Rightarrow> bool" where
  "within_rat (Gt b) x = (b < x)"
| "within_rat (Ge b) x = (b \<le> x)"
| "within_rat (Lt b) x = (x < b)"
| "within_rat (Le b) x = (x \<le> b)"

fun lower_bound :: "bound \<Rightarrow> bool" where
  "lower_bound (Gt _) = True"
| "lower_bound (Ge _) = True"
| "lower_bound _ = False"

fun in_bound :: "bound \<Rightarrow> json \<Rightarrow> bool" where
  "in_bound b (JInt i) = within_rat b (of_int i)"
| "in_bound b (JFloat (Fin r)) = within_rat b r"
| "in_bound b (JFloat (Infinity neg)) = (neg \<noteq> lower_bound b)"
| "in_bound _ _ = False"

text \<open>\<open>extra="forbid"\<close>: no field beside the model's.  A value of the field's own type is taken as it is;
  pydantic also converts some values of other types, which \<open>conforms\<close> leaves out.\<close>

definition field_ok :: "(string \<times> json) list \<Rightarrow> field_spec \<Rightarrow> bool" where
  "field_ok kvs f =
     (case map_of kvs (fs_name f) of
        None \<Rightarrow> fs_default f \<noteq> None
      | Some v \<Rightarrow> typed (fs_type f) v \<and> (\<forall>b \<in> set (fs_bounds f). in_bound b v))"

definition conforms :: "field_spec list \<Rightarrow> json \<Rightarrow> bool" where
  "conforms spec j =
     (case j of
        JObj kvs \<Rightarrow> fst ` set kvs \<subseteq> fs_name ` set spec \<and> (\<forall>f \<in> set spec. field_ok kvs f)
      | _ \<Rightarrow> False)"

definition EXECUTION_CONFIG :: "field_spec list" where
  "EXECUTION_CONFIG =
     [must ''buffer_inr'' FFloat [Ge 0], must ''eod_buffer_inr'' FFloat [Ge 0], must ''spread_skip_pct'' FFloat [Ge 0, Le 1],
      must ''drift_threshold_inr'' FFloat [Ge 0], must ''chase_ceiling_inr'' FFloat [Ge 0], must ''open_timeout_sec'' FInt [Gt 0],
      must ''partial_grace_sec'' FInt [Ge 0], must ''max_retries'' FInt [Ge 0], must ''worker_pool_size'' FInt [Gt 0],
      must ''liquidity_exit_suppress_after'' FStr []]"

definition SESSION_CONFIG :: "field_spec list" where
  "SESSION_CONFIG =
     [may ''market_open'' FStr [] (JStr ''09:15''), may ''pre_open_snapshot'' FStr [] (JStr ''09:14:50''),
      may ''ws_subscribe_at'' FStr [] (JStr ''09:14:00''), may ''delta_pcr_first_compute'' FStr [] (JStr ''09:18''),
      may ''delta_pcr_interval_minutes'' FInt [Gt 0] (JInt 3), may ''entry_freeze'' FStr [] (JStr ''15:10''),
      may ''eod_squareoff'' FStr [] (JStr ''15:15''), may ''market_close'' FStr [] (JStr ''15:30''),
      may ''graceful_shutdown'' FStr [] (JStr ''15:45''), may ''instrument_refresh'' FStr [] (JStr ''05:30'')]"

definition RISK_CONFIG :: "field_spec list" where
  "RISK_CONFIG =
     [must ''daily_loss_circuit_pct'' FFloat [Gt 0, Lt 1], must ''max_concurrent_positions'' FInt [Gt 0],
      must ''trading_capital_inr'' FFloat [Gt 0]]"

definition INDEX_CONFIG :: "field_spec list" where
  "INDEX_CONFIG =
     [must ''index'' (FOneOf [''nifty50'', ''banknifty'']) [], must ''strike_step'' FInt [Gt 0], must ''lot_size'' FInt [Gt 0],
      may ''exchange'' FStr [] (JStr ''NFO''), must ''pre_open_subscribe_window'' FInt [Gt 0], must ''trading_basket_range'' FInt [Gt 0],
      must ''reversal_threshold_inr'' FFloat [Gt 0], must ''entry_dominance_threshold_inr'' FFloat [Gt 0],
      must ''post_sl_cooldown_sec'' FInt [Ge 0], must ''post_reversal_cooldown_sec'' FInt [Ge 0],
      must ''max_entries_per_day'' FInt [Gt 0], must ''max_reversals_per_day'' FInt [Ge 0], must ''qty_lots'' FInt [Gt 0],
      must ''sl_pct'' FFloat [Gt 0, Lt 1], must ''target_pct'' FFloat [Gt 0], must ''tsl_arm_pct'' FFloat [Gt 0],
      must ''tsl_trail_pct'' FFloat [Gt 0, Lt 1], must ''max_hold_sec'' FInt [Gt 0],
      may ''delta_pcr_required_for_entry'' FBool [] (JBool False)]"

definition MODEL_BY_SECTION :: "(string \<times> field_spec list) list" where
  "MODEL_BY_SECTION =
     [(''execution'', EXECUTION_CONFIG), (''session'', SESSION_CONFIG), (''risk'', RISK_CONFIG),
      (''index:nifty50'', INDEX_CONFIG), (''index:banknifty'', INDEX_CONFIG)]"

section \<open>Seed data\<close>

definition EXECUTION_DEFAULT :: json where
  "EXECUTION_DEFAULT =
     JObj [(''buffer_inr'', JInt 2), (''eod_buffer_inr'', JInt 5), (''spread_skip_pct'', JFloat (Fin 0.05)),
       (''drift_threshold_inr'', JInt 3), (''chase_ceiling_inr'', JInt 15), (''open_timeout_sec'', JInt 8),
       (''partial_grace_sec'', JInt 3), (''max_retries'', JInt 2), (''worker_pool_size'', JInt 8),
       (''liquidity_exit_suppress_after'', JStr ''15:00'')]"

definition SESSION_DEFAULT :: json where
  "SESSION_DEFAULT =
     JObj [(''market_open'', JStr ''09:15''), (''pre_open_snapshot'', JStr ''09:14:50''),
       (''ws_subscribe_at'', JStr ''09:14:00''), (''delta_pcr_first_compute'', JStr ''09:18''),
       (''delta_pcr_interval_minutes'', JInt 3), (''entry_freeze'', JStr ''15:10''),
       (''eod_squareoff'', JStr ''15:15''), (''market_close'', JStr ''15:30''),
       (''graceful_shutdown'', JStr ''15:45''), (''instrument_refresh'', JStr ''05:30'')]"

definition RISK_DEFAULT :: json where
  "RISK_DEFAULT =
     JObj [(''daily_loss_circuit_pct'', JFloat (Fin 0.08)), (''max_concurrent_positions'', JInt 2),
       (''trading_capital_inr'', JInt 200000)]"

definition seed_index_config :: "string \<Rightarrow> int \<Rightarrow> int \<Rightarrow> int \<Rightarrow> json" where
  "seed_index_config idx step lot reversal =
     JObj [(''index'', JStr idx), (''strike_step'', JInt step), (''lot_size'', JInt lot), (''exchange'', JStr ''NFO''),
       (''pre_open_subscribe_window'', JInt 6), (''trading_basket_range'', JInt 2),
       (''reversal_threshold_inr'', JInt reversal), (''entry_dominance_threshold_inr'', JInt reversal),
       (''post_sl_cooldown_sec'', JInt 60), (''post_reversal_cooldown_sec'', JInt 90), (''max_entries_per_day'', JInt 8),
       (''max_reversals_per_day'', JInt 4), (''qty_lots'', JInt 1), (''sl_pct'', JFloat (Fin 0.20)),
       (''target_pct'', JFloat (Fin 0.50)), (''tsl_arm_pct'', JFloat (Fin 0.15)), (''tsl_trail_pct'', JFloat (Fin 0.05)),
       (''max_hold_sec'', JInt (25 * 60)), (''delta_pcr_required_for_entry'', JBool False)]"

definition CONFIG_ROWS :: "(string \<times> json) list" where
  "CONFIG_ROWS =
     [(''execution'', EXECUTION_DEFAULT), (''session'', SESSION_DEFAULT), (''risk'', RISK_DEFAULT),
      (''index:nifty50'', seed_index_config ''nifty50'' 50 75 20), (''index:banknifty'', seed_index_config ''banknifty'' 100 35 40)]"

record task_row =
  tr_id :: string
  tr_engine :: string
  tr_name :: string
  tr_cron :: "string option"
  tr_start_time :: "string option"
  tr_end_time :: "string option"
  tr_duration_s :: "int option"
  tr_event_name :: string
  tr_target_engines :: "string list"
  tr_enabled :: bool

text \<open>All ten are rows of the scheduler whose event has the name of the row, without end or duration.\<close>

definition task :: "string \<Rightarrow> string \<Rightarrow> string option \<Rightarrow> string option \<Rightarrow> string list \<Rightarrow> task_row" where
  "task i name cron start targets =
     \<lparr>tr_id = i, tr_engine = ''scheduler'', tr_name = name, tr_cron = cron, tr_start_time = start, tr_end_time = None,
      tr_duration_s = None, tr_event_name = i, tr_target_engines = targets, tr_enabled = True\<rparr>"

text \<open>Names are UTF-8 text: the two bytes are a capital delta.\<close>

definition TASK_ROWS :: "task_row list" where
  "TASK_ROWS =
     [task ''instrument_refresh'' ''Daily instruments master refresh'' None (Some ''05:30'') [''init'', ''data_pipeline''],
      task ''ws_subscribe'' ''Open WebSocket subscriptions for the day'' None (Some ''09:14:00'') [''data_pipeline'', ''background''],
      task ''pre_open_snapshot'' ''Snapshot OI baseline before open'' None (Some ''09:14:50'') [''background''],
      task ''session_open'' ''Allow strategy entries'' None (Some ''09:15'') [''strategy'', ''order_exec''],
      task ''delta_pcr_first_compute'' (''First '' @ [CHR 0xCE, CHR 0x94] @ ''PCR compute of the day'') None (Some ''09:18'') [''background''],
      task ''entry_freeze'' ''Block new entries; exit-only mode'' None (Some ''15:10'') [''strategy'', ''order_exec''],
      task ''eod_squareoff'' ''Force-close any open positions'' None (Some ''15:15'') [''order_exec''],
      task ''session_close'' ''Mark session ended'' None (Some ''15:30'') [''strategy'', ''order_exec'', ''data_pipeline'', ''background''],
      task ''graceful_shutdown'' ''Drain queues and stop engines'' None (Some ''15:45'')
        [''init'', ''data_pipeline'', ''strategy'', ''order_exec'', ''background'', ''scheduler'', ''health'', ''api_gateway''],
      task ''token_refresh_check'' ''Verify Upstox access token freshness'' (Some ''*/15 * * * *'') None [''background'']]"

section \<open>The migration\<close>

record user_row =
  ur_username :: string
  ur_password_hash :: string
  ur_jwt_secret :: string
  ur_role :: "string option"

text \<open>Rows in the order they were inserted; \<open>created_at\<close> is the time of the insert.\<close>

record pg_db =
  pd_users :: "user_row list"
  pd_creds :: "(string \<times> nat list) list"
  pd_configs :: "(string \<times> json) list"
  pd_tasks :: "task_row list"
  pd_calendar :: "(string \<times> bool \<times> json option) list"

definition nonempty :: "string option \<Rightarrow> string option" where
  "nonempty s = (if s = Some [] then None else s)"

definition opt_or :: "string option \<Rightarrow> string option \<Rightarrow> string option" where
  "opt_or a b = (case nonempty a of None \<Rightarrow> nonempty b | Some s \<Rightarrow> Some s)"

text \<open>\<open>settings\<close> is \<open>get_settings()\<close>, which raises when a required variable is missing.\<close>

definition admin_password_and_secret ::
  "(string \<Rightarrow> string option) \<Rightarrow> pyexc + (string option \<times> string) \<Rightarrow> pyexc + (string \<times> string)" where
  "admin_password_and_secret getenv settings =
     (case (nonempty (getenv ''SEED_ADMIN_PASSWORD''), nonempty (getenv ''JWT_SECRET'')) of
        (Some pw, Some js) \<Rightarrow> Inr (pw, js)
      | (pw, js) \<Rightarrow>
          and_then settings (\<lambda>(seed_pw, secret).
            case (opt_or pw seed_pw, opt_or js (Some secret)) of
              (Some p, Some s) \<Rightarrow> Inr (p, s)
            | _ \<Rightarrow> Inl RuntimeError))"

text \<open>The text between two \<open>$$\<close> is itself only when no \<open>$$\<close> ends it earlier.\<close>

fun has_dollars :: "string \<Rightarrow> bool" where
  "has_dollars (a # b # r) = (a = CHR ''$'' \<and> b = CHR ''$'' \<or> has_dollars (b # r))"
| "has_dollars _ = False"

definition quote_safe :: "string \<Rightarrow> bool" where
  "quote_safe s \<longleftrightarrow> \<not> has_dollars (s @ ''$'')"

definition insert_new :: "('r \<Rightarrow> 'k) \<Rightarrow> 'r list \<Rightarrow> 'r \<Rightarrow> 'r list" where
  "insert_new key t r = (if key r \<in> key ` set t then t else t @ [r])"

text \<open>Alembic runs the migration in one transaction: an error leaves the database as it was.\<close>

definition seed_upgrade ::
  "(string \<Rightarrow> string) \<Rightarrow> (pg_db \<Rightarrow> pyexc + pg_db) \<Rightarrow> (string \<Rightarrow> string option) \<Rightarrow> pyexc + (string option \<times> string) \<Rightarrow> pg_db
     \<Rightarrow> pyexc + pg_db" where
  "seed_upgrade hashpw broken getenv settings db =
     and_then (admin_password_and_secret getenv settings) (\<lambda>(pw, secret).
       if \<not> (quote_safe (hashpw pw) \<and> quote_safe secret) then broken db
       else Inr (db\<lparr>
              pd_users := insert_new ur_username (pd_users db)
                \<lparr>ur_username = ''admin'', ur_password_hash = hashpw pw, ur_jwt_secret = secret, ur_role = Some ''admin''\<rparr>,
              pd_configs := foldl (insert_new fst) (pd_configs db) CONFIG_ROWS,
              pd_tasks := foldl (insert_new tr_id) (pd_tasks db) TASK_ROWS\<rparr>))"

definition seed_downgrade :: "pg_db \<Rightarrow> pg_db" where
  "seed_downgrade db = db\<lparr>
     pd_tasks := filter (\<lambda>t. tr_id t \<notin> tr_id ` set TASK_ROWS) (pd_tasks db),
     pd_configs := filter (\<lambda>c. fst c \<notin> fst ` set CONFIG_ROWS) (pd_configs db),
     pd_users := filter (\<lambda>u. ur_username u \<noteq> ''admin'') (pd_users db)\<rparr>"

section \<open>What the boot reads\<close>

text \<open>\<open>load_runtime_configs\<close>: JSONB arrives as text and is decoded, or as a dictionary already.\<close>

definition load_runtime_configs :: "pg_db \<Rightarrow> (string \<times> json) list" where
  "load_runtime_configs db = foldl (\<lambda>out (k, v). dict_set k v out) [] (pd_configs db)"

definition session_texts :: "(json \<Rightarrow> string) \<Rightarrow> json \<Rightarrow> (string \<times> string) list option" where
  "session_texts py_str j = (case j of JObj kvs \<Rightarrow> Some (map (\<lambda>(k, v). (k, py_str v)) kvs) | _ \<Rightarrow> None)"

text \<open>The queries of the hydrators; \<open>None\<close> when one raises.  A session value of the day that is no object
  cannot update the configured one; without it a false configured value counts as no session, and any
  other that is no object has no items.\<close>

definition boot_rows :: "(nat list \<Rightarrow> json option) \<Rightarrow> (json \<Rightarrow> string) \<Rightarrow> string \<Rightarrow> pg_db \<Rightarrow> pg_rows option" where
  "boot_rows decrypt py_str today db =
     (let base = (case map_of (pd_configs db) ''session'' of None \<Rightarrow> JObj [] | Some j \<Rightarrow> j);
          own = (case map_of (pd_calendar db) today of Some (_, s) \<Rightarrow> s | None \<Rightarrow> None);
          sessions = (case own of
                        None \<Rightarrow> if truthy base then (session_texts py_str base, Some []) else (Some [], Some [])
                      | Some j \<Rightarrow> (session_texts py_str base, session_texts py_str j))
      in case sessions of
           (Some s, Some o') \<Rightarrow>
             Some \<lparr>pg_user = (case pd_users db of [] \<Rightarrow> None | u # _ \<Rightarrow> Some (ur_username u, ur_jwt_secret u, ur_role u)),
                   pg_creds = map_option decrypt (map_of (pd_creds db) ''upstox''),
                   pg_configs = load_runtime_configs db,
                   pg_calendar = map (\<lambda>(d, t, _). (d, t)) (pd_calendar db),
                   pg_session = s, pg_session_today = o'\<rparr>
         | _ \<Rightarrow> None)"

section \<open>Lemmas\<close>

text \<open>Every seeded configuration is one the model of its section accepts.\<close>

lemmas model_defs = EXECUTION_CONFIG_def SESSION_CONFIG_def RISK_CONFIG_def INDEX_CONFIG_def spec_defs

lemma seeded_execution: "conforms EXECUTION_CONFIG EXECUTION_DEFAULT"
  by (simp add: conforms_def field_ok_def EXECUTION_DEFAULT_def model_defs)

lemma seeded_session: "conforms SESSION_CONFIG SESSION_DEFAULT"
  by (simp add: conforms_def field_ok_def SESSION_DEFAULT_def model_defs)

lemma seeded_risk: "conforms RISK_CONFIG RISK_DEFAULT"
  by (simp add: conforms_def field_ok_def RISK_DEFAULT_def model_defs)

lemma seeded_index:
  "idx \<in> {''nifty50'', ''banknifty''} \<Longrightarrow> 0 < step \<Longrightarrow> 0 < lot \<Longrightarrow> 0 < threshold \<Longrightarrow>
   conforms INDEX_CONFIG (seed_index_config idx step lot threshold)"
  by (simp add: conforms_def field_ok_def seed_index_config_def model_defs)

lemma seeded_configs_conform:
  "(k, v) \<in> set CONFIG_ROWS \<Longrightarrow> \<exists>spec. map_of MODEL_BY_SECTION k = Some spec \<and> conforms spec v"
  unfolding CONFIG_ROWS_def list.set
  by (elim insertE emptyE) (simp_all add: MODEL_BY_SECTION_def seeded_execution seeded_session seeded_risk seeded_index)

text \<open>The model leaves no room for the spread thresholds the strategy reads: no configuration it accepts
  has them.\<close>

lemma index_config_has_no_spread:
  "conforms INDEX_CONFIG (JObj kvs) \<Longrightarrow> n \<in> {''spread_good_inr'', ''spread_moderate_inr'', ''basket_size''} \<Longrightarrow> map_of kvs n = None"
  unfolding map_of_eq_None_iff conforms_def json.case
  by (rule notI, elim conjE, drule (1) subsetD) (auto simp: model_defs)

text \<open>The rows of the seed fit the tables of the first migration.\<close>

definition user_sql :: "user_row \<Rightarrow> sql_row" where
  "user_sql u =
     [(''username'', Some (VText (ur_username u))), (''password_hash'', Some (VText (ur_password_hash u))),
      (''jwt_secret'', Some (VText (ur_jwt_secret u))), (''role'', map_option VText (ur_role u))]"

definition task_sql :: "task_row \<Rightarrow> sql_row" where
  "task_sql t =
     [(''id'', Some (VText (tr_id t))), (''engine'', Some (VText (tr_engine t))), (''name'', Some (VText (tr_name t))),
      (''cron'', map_option VText (tr_cron t)), (''start_time'', map_option VText (tr_start_time t)),
      (''end_time'', map_option VText (tr_end_time t)), (''duration_s'', map_option VInt (tr_duration_s t)),
      (''event_name'', Some (VText (tr_event_name t))), (''target_engines'', Some (VTexts (tr_target_engines t))),
      (''enabled'', Some (VBool (tr_enabled t)))]"

lemma seed_rows_fit:
  "accepts USER_ACCOUNTS (user_sql u)"
  "accepts CONFIG_SETTINGS [(''key'', Some (VText k)), (''value'', Some (VJson v))]"
  by (auto simp: accepts_def user_sql_def USER_ACCOUNTS_def CONFIG_SETTINGS_def column_defs value_ok_def fits_def split: option.split)

lemma task_fits:
  "case start of None \<Rightarrow> True | Some c \<Rightarrow> clock_text c \<Longrightarrow> accepts CONFIG_TASK_DEFINITIONS (task_sql (task i n cron start targets))"
  by (auto simp: accepts_def task_sql_def task_def CONFIG_TASK_DEFINITIONS_def column_defs value_ok_def fits_def split: option.splits)

lemma task_rows_fit: "\<forall>t \<in> set TASK_ROWS. accepts CONFIG_TASK_DEFINITIONS (task_sql t)"
  unfolding TASK_ROWS_def
  by (simp, intro conjI task_fits) (simp_all add: clock_text_def two_digits_def is_digit_def char_digit_def digits_value_def)

text \<open>Inserting only what is missing.\<close>

lemma insert_new_all:
  "distinct (map key rs) \<Longrightarrow> foldl (insert_new key) t rs = t @ filter (\<lambda>r. key r \<notin> key ` set t) rs"
proof (induction rs arbitrary: t)
  case (Cons r rs)
  show ?case
  proof (cases "key r \<in> key ` set t")
    case True
    then show ?thesis using Cons by (simp add: insert_new_def)
  next
    case False
    have "filter (\<lambda>x. key x \<notin> key ` set (t @ [r])) rs = filter (\<lambda>x. key x \<notin> key ` set t) rs"
      using Cons.prems by (intro filter_cong) (auto simp: image_iff)
    then show ?thesis using Cons.IH [of "t @ [r]"] Cons.prems False by (simp add: insert_new_def)
  qed
qed simp

lemma insert_new_again:
  "distinct (map key rs) \<Longrightarrow> key ` set rs \<subseteq> key ` set t \<Longrightarrow> foldl (insert_new key) t rs = t"
  by (auto simp: insert_new_all filter_empty_conv)

lemma insert_new_keys:
  "distinct (map key rs) \<Longrightarrow> key ` set rs \<subseteq> key ` set (foldl (insert_new key) t rs)"
  by (auto simp: insert_new_all)

lemma seed_keys_distinct: "distinct (map fst CONFIG_ROWS)" "distinct (map tr_id TASK_ROWS)"
  by (simp_all add: CONFIG_ROWS_def TASK_ROWS_def task_def)

text \<open>A secret that holds or ends in a dollar quote is not quoted: the seed escapes its configurations,
  which need it not, and not its secrets.\<close>

lemma unsafe_secrets: "\<not> quote_safe ''a$$b''" "\<not> quote_safe ''ab$''"
  by (simp_all add: quote_safe_def)

lemma load_fresh: "distinct (map fst rows) \<Longrightarrow> foldl (\<lambda>out (k, v). dict_set k v out) [] rows = rows"
proof (induction rows rule: rev_induct)
  case (snoc r rows)
  have f: "k \<notin> fst ` set xs \<Longrightarrow> dict_set k v xs = xs @ [(k, v)]" for k :: 'a and v :: 'b and xs
    by (induction k v xs rule: dict_set.induct) auto
  then show ?case using snoc by (cases r) simp
qed simp

section \<open>Properties\<close>

text \<open>Claim C17.  Re-running the seed is a safe no-op, as its comment promises.  With a password and a
  secret that the quoting leaves intact the upgrade succeeds on every database; it keeps every user,
  every configuration and every task that is there, as it is and where it is, and only appends seeded
  rows whose key is missing; afterwards the administrator, every seeded section and every seeded task
  exist; a second run, with any other password, salt or secret, changes nothing.  The downgrade removes
  the seeded keys whoever wrote their rows.\<close>

theorem seed_upgrade_safe:
  assumes "admin_password_and_secret getenv settings = Inr (pw, secret)" and "quote_safe (hashpw pw)" and "quote_safe secret"
  shows "\<exists>db' us cs ts. seed_upgrade hashpw broken getenv settings db = Inr db' \<and>
    db' = db\<lparr>pd_users := pd_users db @ us, pd_configs := pd_configs db @ cs, pd_tasks := pd_tasks db @ ts\<rparr> \<and>
    cs = filter (\<lambda>c. fst c \<notin> fst ` set (pd_configs db)) CONFIG_ROWS \<and>
    ts = filter (\<lambda>t. tr_id t \<notin> tr_id ` set (pd_tasks db)) TASK_ROWS \<and>
    ''admin'' \<in> ur_username ` set (pd_users db') \<and> (us \<noteq> [] \<longrightarrow> ''admin'' \<notin> ur_username ` set (pd_users db)) \<and>
    (\<forall>hash2 env2 settings2 pw2 secret2.
       admin_password_and_secret env2 settings2 = Inr (pw2, secret2) \<longrightarrow> quote_safe (hash2 pw2) \<longrightarrow> quote_safe secret2 \<longrightarrow>
       seed_upgrade hash2 broken env2 settings2 db' = Inr db') \<and>
    seed_downgrade db' = seed_downgrade db"
proof -
  define admin where "admin = \<lparr>ur_username = ''admin'', ur_password_hash = hashpw pw, ur_jwt_secret = secret, ur_role = Some ''admin''\<rparr>"
  define us where "us = (if ''admin'' \<in> ur_username ` set (pd_users db) then [] else [admin])"
  define cs where "cs = filter (\<lambda>c. fst c \<notin> fst ` set (pd_configs db)) CONFIG_ROWS"
  define ts where "ts = filter (\<lambda>t. tr_id t \<notin> tr_id ` set (pd_tasks db)) TASK_ROWS"
  define db' where "db' = db\<lparr>pd_users := pd_users db @ us, pd_configs := pd_configs db @ cs, pd_tasks := pd_tasks db @ ts\<rparr>"
  have up: "seed_upgrade hashpw broken getenv settings db = Inr db'"
    using assms
    by (simp add: seed_upgrade_def and_then_def db'_def us_def cs_def ts_def insert_new_all seed_keys_distinct)
      (auto simp: insert_new_def admin_def)
  have a: "''admin'' \<in> ur_username ` set (pd_users db')" by (auto simp: db'_def us_def admin_def)
  have k: "fst ` set CONFIG_ROWS \<subseteq> fst ` set (pd_configs db')" "tr_id ` set TASK_ROWS \<subseteq> tr_id ` set (pd_tasks db')"
    using insert_new_keys [OF seed_keys_distinct(1), of "pd_configs db"] insert_new_keys [OF seed_keys_distinct(2), of "pd_tasks db"]
    by (simp_all add: insert_new_all seed_keys_distinct db'_def cs_def ts_def)
  have again: "seed_upgrade hash2 broken env2 settings2 db' = Inr db'"
    if "admin_password_and_secret env2 settings2 = Inr (pw2, secret2)" "quote_safe (hash2 pw2)" "quote_safe secret2"
    for hash2 env2 settings2 pw2 secret2
    using that a insert_new_again [OF seed_keys_distinct(1) k(1)] insert_new_again [OF seed_keys_distinct(2) k(2)]
    by (simp add: seed_upgrade_def and_then_def insert_new_def)
  have "filter (\<lambda>c. fst c \<notin> fst ` set CONFIG_ROWS) cs = []" "filter (\<lambda>t. tr_id t \<notin> tr_id ` set TASK_ROWS) ts = []"
    "filter (\<lambda>u. ur_username u \<noteq> ''admin'') us = []"
    by (auto simp: cs_def ts_def us_def admin_def filter_empty_conv)
  then have "seed_downgrade db' = seed_downgrade db" by (simp add: seed_downgrade_def db'_def)
  then show ?thesis
    using up a again
    by (intro exI [of _ db'] exI [of _ us] exI [of _ cs] exI [of _ ts]) (auto simp: db'_def cs_def ts_def us_def)
qed

section \<open>Witness\<close>

definition sample_vars :: "string \<Rightarrow> string option" where
  "sample_vars n = (if n = ''SEED_ADMIN_PASSWORD'' then Some ''pw'' else if n = ''JWT_SECRET'' then Some ''0123abcd'' else None)"

definition sample_hash :: "string \<Rightarrow> string" where
  "sample_hash pw = ''$2b$12$'' @ rev pw"

definition empty_pg :: pg_db where
  "empty_pg = \<lparr>pd_users = [], pd_creds = [], pd_configs = [], pd_tasks = [], pd_calendar = []\<rparr>"

lemma sample_seed:
  "admin_password_and_secret sample_vars (Inl ValueError) = Inr (''pw'', ''0123abcd'')"
  "quote_safe (sample_hash ''pw'')" "quote_safe ''0123abcd''"
  by (simp_all add: admin_password_and_secret_def sample_vars_def nonempty_def sample_hash_def quote_safe_def)

theorem seed_upgrade_safe_witness:
  "\<exists>db'. seed_upgrade sample_hash Inr sample_vars (Inl ValueError) (empty_pg\<lparr>pd_configs := [(''risk'', JNull)]\<rparr>) = Inr db' \<and>
     map_of (pd_configs db') ''risk'' = Some JNull \<and> map_of (pd_configs db') ''execution'' = Some EXECUTION_DEFAULT \<and>
     seed_upgrade sample_hash Inr sample_vars (Inl ValueError) db' = Inr db'"
proof -
  obtain db' where "seed_upgrade sample_hash Inr sample_vars (Inl ValueError) (empty_pg\<lparr>pd_configs := [(''risk'', JNull)]\<rparr>) = Inr db'"
    "pd_configs db' = [(''risk'', JNull)] @ filter (\<lambda>c. fst c \<notin> fst ` set [(''risk'', JNull)]) CONFIG_ROWS"
    "seed_upgrade sample_hash Inr sample_vars (Inl ValueError) db' = Inr db'"
    using seed_upgrade_safe [OF sample_seed(1), of sample_hash Inr "empty_pg\<lparr>pd_configs := [(''risk'', JNull)]\<rparr>", OF sample_seed(2,3)]
      sample_seed by (auto simp: empty_pg_def)
  then show ?thesis by (intro exI [of _ db']) (simp add: CONFIG_ROWS_def)
qed

end
