(* ===== verification/WorkerPool.thy ===== *)
theory WorkerPool
  imports HealthEngine Registry Dispatcher "HOL-Library.Multiset"
begin

text \<open>
  \<open>order_exec/main.py\<close>: the pool of worker threads behind the dispatcher's queue.  The threads share one
  FIFO queue; whichever is idle takes the next item, and a shutdown puts one sentinel per thread behind
  the signals.  What a thread does with a signal is \<open>process_signal\<close> (Worker); here it is busy until it is
  done.  \<open>po_enqueued\<close>, \<open>po_taken\<close> and \<open>po_finished\<close> record the history.
\<close>

section \<open>Start of the engine\<close>

text \<open>\<open>int(cfg.get("worker_pool_size") or 8)\<close>; every exception of it gives 8.\<close>

definition pool_size_of :: "json \<Rightarrow> int" where
  "pool_size_of j =
     (case and_then (py_or (jget j ''worker_pool_size'') (Inr (JInt 8))) (\<lambda>v. cfg_int (JObj [(''n'', v)]) ''n'') of
        Inl _ \<Rightarrow> 8
      | Inr n \<Rightarrow> n)"

definition read_pool_size :: "db \<Rightarrow> pyexc + int" where
  "read_pool_size d =
     (case d STRATEGY_CONFIGS_EXECUTION of
        Some (RJson j) \<Rightarrow> Inr (pool_size_of j)
      | Some (RHash _) \<Rightarrow> Inl RuntimeError
      | Some (RSet _) \<Rightarrow> Inl RuntimeError
      | _ \<Rightarrow> Inr 8)"

text \<open>\<open>_amain\<close> up to the dispatcher: an exit code, or the number of threads started.\<close>

definition order_exec_start :: "bool \<Rightarrow> int \<Rightarrow> db \<Rightarrow> (int + nat) \<times> db" where
  "order_exec_start postgres_ok now d =
     (if \<not> postgres_ok then (Inl 1, d)
      else
        (case read_pool_size d of
           Inl _ \<Rightarrow> (Inl 1, d)
         | Inr n \<Rightarrow>
             (Inr (nat n), hset SYSTEM_HEALTH_HEARTBEATS ''order_exec'' (str_int now) (mark_up ''order_exec'' d))))"

definition order_exec_exit :: "db \<Rightarrow> int \<times> db" where
  "order_exec_exit d = (0, mark_down ''order_exec'' d)"

text \<open>The engine beats once, when it starts: more than thirty seconds later every health summary is red.\<close>

lemma order_exec_goes_red:
  assumes "order_exec_start True t d = (Inr n, d')" and "d' SYSTEM_HEALTH_HEARTBEATS = Some (RHash (pi_beats i))"
    and "t + 30000 < pi_now i" and "cycle_status i = Some s"
  shows "s = Red"
proof -
  have "map_of (pi_beats i) ''order_exec'' = Some (str_int t)"
    using assms(1,2) by (auto simp: order_exec_start_def split: sum.splits intro: hset_get)
  then have "map_of (dict_set ''health'' (str_int (pi_now i)) (pi_beats i)) ''order_exec'' = Some (str_int t)"
    by (simp add: map_of_dict_set)
  then show ?thesis using silent_engine_red [OF map_of_SomeD assms(3,4)] by blast
qed

section \<open>The pool\<close>

datatype thread_state = Idle | Busy signal | Exited

record pool =
  po_queue :: "signal option list"
  po_threads :: "thread_state list"
  po_stopping :: bool
  po_enqueued :: "signal list"
  po_taken :: "signal list"
  po_finished :: "signal list"

definition pool_start :: "nat \<Rightarrow> pool" where
  "pool_start n =
     \<lparr>po_queue = [], po_threads = replicate n Idle, po_stopping = False, po_enqueued = [], po_taken = [], po_finished = []\<rparr>"

definition pool_put :: "signal \<Rightarrow> pool \<Rightarrow> pool" where
  "pool_put s p = p\<lparr>po_queue := po_queue p @ [Some s], po_enqueued := po_enqueued p @ [s]\<rparr>"

definition pool_stop :: "pool \<Rightarrow> pool" where
  "pool_stop p = p\<lparr>po_queue := po_queue p @ replicate (length (po_threads p)) None, po_stopping := True\<rparr>"

text \<open>\<open>worker_loop\<close>: \<open>work_queue.get()\<close> of thread \<open>i\<close>, and its return to the queue.\<close>

definition pool_get :: "nat \<Rightarrow> pool \<Rightarrow> pool" where
  "pool_get i p =
     (case po_queue p of
        [] \<Rightarrow> p
      | None # q \<Rightarrow> p\<lparr>po_queue := q, po_threads := (po_threads p)[i := Exited]\<rparr>
      | Some s # q \<Rightarrow> p\<lparr>po_queue := q, po_threads := (po_threads p)[i := Busy s], po_taken := po_taken p @ [s]\<rparr>)"

definition pool_done :: "nat \<Rightarrow> pool \<Rightarrow> pool" where
  "pool_done i p =
     (case po_threads p ! i of
        Busy s \<Rightarrow> p\<lparr>po_threads := (po_threads p)[i := Idle], po_finished := po_finished p @ [s]\<rparr>
      | _ \<Rightarrow> p)"

inductive pool_step :: "pool \<Rightarrow> pool \<Rightarrow> bool" where
  put: "\<not> po_stopping p \<Longrightarrow> pool_step p (pool_put s p)"
| stop: "\<not> po_stopping p \<Longrightarrow> pool_step p (pool_stop p)"
| get: "i < length (po_threads p) \<Longrightarrow> po_threads p ! i = Idle \<Longrightarrow> po_queue p \<noteq> [] \<Longrightarrow> pool_step p (pool_get i p)"
| fin: "i < length (po_threads p) \<Longrightarrow> po_threads p ! i = Busy s \<Longrightarrow> pool_step p (pool_done i p)"

inductive_cases pool_stepE: "pool_step p p'"

inductive pool_reachable :: "nat \<Rightarrow> pool \<Rightarrow> bool" for n where
  init: "pool_reachable n (pool_start n)"
| step: "pool_reachable n p \<Longrightarrow> pool_step p p' \<Longrightarrow> pool_reachable n p'"

section \<open>Invariant\<close>

primrec busy_of :: "thread_state \<Rightarrow> signal multiset" where
  "busy_of Idle = {#}"
| "busy_of (Busy s) = {#s#}"
| "busy_of Exited = {#}"

definition busy_signals :: "thread_state list \<Rightarrow> signal multiset" where
  "busy_signals ts = (\<Sum>t \<in># mset ts. busy_of t)"

definition exited :: "thread_state list \<Rightarrow> nat" where
  "exited ts = count (mset ts) Exited"

definition queued :: "pool \<Rightarrow> signal list" where
  "queued p = concat (map (\<lambda>x. case x of None \<Rightarrow> [] | Some s \<Rightarrow> [s]) (po_queue p))"

definition pool_inv :: "nat \<Rightarrow> pool \<Rightarrow> bool" where
  "pool_inv n p \<longleftrightarrow>
     length (po_threads p) = n \<and>
     (\<exists>m. po_queue p = map Some (queued p) @ replicate m None \<and>
          m + exited (po_threads p) = (if po_stopping p then n else 0)) \<and>
     (exited (po_threads p) = 0 \<or> queued p = []) \<and>
     po_taken p @ queued p = po_enqueued p \<and>
     mset (po_finished p) + busy_signals (po_threads p) = mset (po_taken p)"

lemma thread_update:
  assumes "i < length ts"
  shows "busy_signals (ts[i := t]) + busy_of (ts ! i) = busy_signals ts + busy_of t"
    and "exited (ts[i := t]) + (if ts ! i = Exited then 1 else 0) = exited ts + (if t = Exited then 1 else 0)"
proof -
  define R where "R = mset ts - {#ts ! i#}"
  have "mset ts = add_mset (ts ! i) R" "mset (ts[i := t]) = add_mset t R"
    using assms by (simp_all add: R_def mset_update)
  then show "busy_signals (ts[i := t]) + busy_of (ts ! i) = busy_signals ts + busy_of t"
    and "exited (ts[i := t]) + (if ts ! i = Exited then 1 else 0) = exited ts + (if t = Exited then 1 else 0)"
    by (simp_all add: busy_signals_def exited_def)
qed

lemma queued_simps [simp]:
  "queued (p\<lparr>po_threads := ts\<rparr>) = queued p" "queued (p\<lparr>po_taken := a\<rparr>) = queued p" "queued (p\<lparr>po_finished := a\<rparr>) = queued p"
  "queued (p\<lparr>po_enqueued := a\<rparr>) = queued p" "queued (p\<lparr>po_stopping := b\<rparr>) = queued p"
  "queued (p\<lparr>po_queue := map Some ss @ replicate m None\<rparr>) = ss"
proof -
  have "concat (map (\<lambda>x. case x of None \<Rightarrow> [] | Some s \<Rightarrow> [s]) (replicate m None)) = []" by (induction m) simp_all
  moreover have "concat (map ((\<lambda>x. case x of None \<Rightarrow> [] | Some s \<Rightarrow> [s]) \<circ> Some) ss) = ss" by (induction ss) simp_all
  ultimately show "queued (p\<lparr>po_queue := map Some ss @ replicate m None\<rparr>) = ss" by (simp add: queued_def)
qed (simp_all add: queued_def)

lemma pool_inv_start: "pool_inv n (pool_start n)"
proof -
  have "busy_signals (replicate n Idle) = {#}" "exited (replicate n Idle) = 0"
    by (induction n) (simp_all add: busy_signals_def exited_def)
  then show ?thesis by (simp add: pool_inv_def pool_start_def queued_def)
qed

lemma pool_inv_get:
  assumes "pool_inv n p" and "i < length (po_threads p)" and "po_threads p ! i = Idle" and "po_queue p \<noteq> []"
  shows "pool_inv n (pool_get i p)"
proof -
  obtain m where I: "length (po_threads p) = n" "po_queue p = map Some (queued p) @ replicate m None"
      "m + exited (po_threads p) = (if po_stopping p then n else 0)" "po_taken p @ queued p = po_enqueued p"
      "exited (po_threads p) = 0 \<or> queued p = []"
      "mset (po_finished p) + busy_signals (po_threads p) = mset (po_taken p)"
    using assms(1) by (auto simp: pool_inv_def)
  note U = thread_update [OF assms(2)]
  show ?thesis
  proof (cases "queued p")
    case Nil
    then obtain k where k: "m = Suc k" using assms(4) I(2) by (cases m) simp_all
    have q: "po_queue p = None # (map Some [] @ replicate k None)" using I(2) Nil k by simp
    have g: "pool_get i p = p\<lparr>po_queue := map Some [] @ replicate k None, po_threads := (po_threads p)[i := Exited]\<rparr>"
      by (simp add: pool_get_def q)
    show ?thesis
      unfolding pool_inv_def g queued_simps
      using I Nil k U(1) [of Exited] U(2) [of Exited] assms(3) by auto
  next
    case (Cons s ss)
    have q: "po_queue p = Some s # (map Some ss @ replicate m None)" using I(2) Cons by simp
    have g: "pool_get i p = p\<lparr>po_queue := map Some ss @ replicate m None, po_threads := (po_threads p)[i := Busy s],
        po_taken := po_taken p @ [s]\<rparr>" by (simp add: pool_get_def q)
    show ?thesis
      unfolding pool_inv_def g queued_simps
      using I Cons U(1) [of "Busy s"] U(2) [of "Busy s"] assms(3) by auto
  qed
qed

lemma pool_inv_done:
  assumes "pool_inv n p" and "i < length (po_threads p)" and "po_threads p ! i = Busy s"
  shows "pool_inv n (pool_done i p)"
proof -
  have "busy_signals (po_threads p) = add_mset s (busy_signals ((po_threads p)[i := Idle]))"
    "exited ((po_threads p)[i := Idle]) = exited (po_threads p)"
    using thread_update [OF assms(2), of Idle] assms(3) by simp_all
  then show ?thesis using assms by (auto simp: pool_inv_def pool_done_def)
qed

lemma pool_inv_put:
  assumes "pool_inv n p" and "\<not> po_stopping p"
  shows "pool_inv n (pool_put s p)"
proof -
  have "po_queue p = map Some (queued p)" using assms by (auto simp: pool_inv_def)
  then have g: "pool_put s p = p\<lparr>po_queue := map Some (queued p @ [s]) @ replicate 0 None, po_enqueued := po_enqueued p @ [s]\<rparr>"
    by (simp add: pool_put_def)
  show ?thesis unfolding pool_inv_def g queued_simps using assms by (auto simp: pool_inv_def)
qed

lemma pool_inv_stop:
  assumes "pool_inv n p" and "\<not> po_stopping p"
  shows "pool_inv n (pool_stop p)"
proof -
  have "po_queue p = map Some (queued p)" using assms by (auto simp: pool_inv_def)
  then have g: "pool_stop p = p\<lparr>po_queue := map Some (queued p) @ replicate (length (po_threads p)) None, po_stopping := True\<rparr>"
    by (simp add: pool_stop_def)
  show ?thesis unfolding pool_inv_def g queued_simps using assms by (auto simp: pool_inv_def)
qed

lemma pool_inv_step: "pool_step p p' \<Longrightarrow> pool_inv n p \<Longrightarrow> pool_inv n p'"
  by (erule pool_stepE) (auto intro: pool_inv_put pool_inv_stop pool_inv_get pool_inv_done)

lemma pool_reachable_inv: "pool_reachable n p \<Longrightarrow> pool_inv n p"
  by (induction rule: pool_reachable.induct) (auto intro: pool_inv_start pool_inv_step)

section \<open>The threads bring a stopped pool to rest\<close>

definition pool_work :: "pool \<Rightarrow> nat" where
  "pool_work p = 2 * length (po_queue p) + size (busy_signals (po_threads p))"

lemma pool_get_work:
  assumes "i < length (po_threads p)" and "po_threads p ! i = Idle" and "po_queue p \<noteq> []"
  shows "pool_work (pool_get i p) < pool_work p"
proof (cases "hd (po_queue p)")
  case None
  then obtain q where "po_queue p = None # q" using assms(3) by (cases "po_queue p") auto
  then show ?thesis using thread_update(1) [OF assms(1), of Exited] assms(2) by (simp add: pool_work_def pool_get_def)
next
  case (Some s)
  then obtain q where "po_queue p = Some s # q" using assms(3) by (cases "po_queue p") auto
  then show ?thesis using thread_update(1) [OF assms(1), of "Busy s"] assms(2) by (simp add: pool_work_def pool_get_def)
qed

lemma pool_done_work:
  assumes "i < length (po_threads p)" and "po_threads p ! i = Busy s"
  shows "pool_work (pool_done i p) < pool_work p"
proof -
  have "size (busy_signals ((po_threads p)[i := Idle]) + {#s#}) = size (busy_signals (po_threads p))"
    using thread_update(1) [OF assms(1), of Idle] assms(2) by simp
  then show ?thesis using assms(2) by (simp add: pool_work_def pool_done_def)
qed

lemma pool_worker_enabled:
  assumes "pool_inv n p" and "po_stopping p" and "exited (po_threads p) \<noteq> n"
  obtains p' where "pool_step p p'" and "po_stopping p'" and "po_enqueued p' = po_enqueued p" and "pool_work p' < pool_work p"
proof -
  have "\<exists>t \<in> set (po_threads p). t \<noteq> Exited"
  proof (rule ccontr)
    assume "\<not> ?thesis"
    then have "po_threads p = replicate (length (po_threads p)) Exited" by (intro replicate_eqI) auto
    then have "exited (po_threads p) = length (po_threads p)" by (metis count_replicate_mset exited_def mset_replicate)
    then show False using assms by (simp add: pool_inv_def)
  qed
  then obtain i where i: "i < length (po_threads p)" "po_threads p ! i \<noteq> Exited" by (auto simp: in_set_conv_nth)
  show thesis
  proof (cases "po_threads p ! i")
    case Idle
    have "po_queue p \<noteq> []" using assms by (auto simp: pool_inv_def)
    moreover have "po_stopping (pool_get i p)" "po_enqueued (pool_get i p) = po_enqueued p"
      using assms(2) by (simp_all add: pool_get_def split: list.split option.split)
    ultimately show thesis using that [of "pool_get i p"] pool_get_work [OF i(1) Idle] pool_step.get [OF i(1) Idle] by blast
  next
    case (Busy s)
    have "po_stopping (pool_done i p)" "po_enqueued (pool_done i p) = po_enqueued p"
      using assms(2) Busy by (simp_all add: pool_done_def)
    then show thesis using that [of "pool_done i p"] pool_done_work [OF i(1) Busy] pool_step.fin [OF i(1) Busy] by blast
  qed (use i in simp)
qed

lemma pool_comes_to_rest:
  "pool_inv n p \<Longrightarrow> po_stopping p \<Longrightarrow>
   \<exists>p'. pool_step\<^sup>*\<^sup>* p p' \<and> exited (po_threads p') = n \<and> po_enqueued p' = po_enqueued p"
proof (induction "pool_work p" arbitrary: p rule: less_induct)
  case less
  show ?case
  proof (cases "exited (po_threads p) = n")
    case False
    obtain q where q: "pool_step p q" "po_stopping q" "po_enqueued q = po_enqueued p" "pool_work q < pool_work p"
      using pool_worker_enabled [OF less.prems False] .
    obtain p' where "pool_step\<^sup>*\<^sup>* q p'" "exited (po_threads p') = n" "po_enqueued p' = po_enqueued q"
      using less.hyps [OF q(4) pool_inv_step [OF q(1) less.prems(1)] q(2)] by blast
    then show ?thesis using q by (metis converse_rtranclp_into_rtranclp)
  qed blast
qed

text \<open>At rest every signal has been finished.\<close>

lemma all_exited:
  assumes "exited ts = length ts"
  shows "busy_signals ts = {#}"
proof -
  have "t = Exited" if "t \<in> set ts" for t
    using assms length_filter_less [OF that, of "\<lambda>y. Exited = y"] by (auto simp: exited_def count_mset count_list_eq_length_filter)
  then have "\<forall>t \<in> set ts. busy_of t = {#}" by (metis busy_of.simps(3))
  then show ?thesis by (simp add: busy_signals_def)
qed

lemma busy_bound: "size (busy_signals ts) \<le> length ts"
proof (induction ts)
  case (Cons t ts)
  then show ?case by (cases t) (simp_all add: busy_signals_def)
qed (simp add: busy_signals_def)

text \<open>With no thread (a negative pool size) nothing is ever taken.\<close>

lemma no_thread_no_work: "pool_reachable 0 p \<Longrightarrow> po_taken p = []"
proof (induction rule: pool_reachable.induct)
  case (step p p')
  have "po_threads p = []" using pool_reachable_inv [OF step.hyps(1)] by (simp add: pool_inv_def)
  with step.hyps(2) step.IH show ?case by cases (simp_all add: pool_put_def pool_stop_def)
qed (simp add: pool_start_def)

lemma negative_pool_size: "read_pool_size ((\<lambda>_. None)(STRATEGY_CONFIGS_EXECUTION \<mapsto>
    RJson (JObj [(''worker_pool_size'', JInt (- 1))]))) = Inr (- 1)"
  by (simp add: read_pool_size_def pool_size_of_def cfg_int_def)

text \<open>The threads are daemons and are joined for five seconds each: a process that ends then loses the
  signals still in work, although their stream entries were acknowledged when they were queued.\<close>

definition abandoned :: "pool \<Rightarrow> signal multiset" where
  "abandoned p = busy_signals (po_threads p)"

lemma shutdown_abandons_open_trade:
  "\<exists>p. pool_reachable 1 p \<and> po_stopping p \<and> abandoned p = {#s#} \<and> po_finished p = []"
proof -
  define p1 where "p1 = pool_put s (pool_start 1)"
  define p2 where "p2 = pool_get 0 p1"
  have "pool_reachable 1 p1" unfolding p1_def by (rule pool_reachable.step [OF init put]) (simp add: pool_start_def)
  then have "pool_reachable 1 p2" unfolding p2_def
    by (rule pool_reachable.step, intro pool_step.get) (simp_all add: p1_def pool_put_def pool_start_def)
  then have "pool_reachable 1 (pool_stop p2)"
    by (rule pool_reachable.step, intro pool_step.stop)
      (simp add: p2_def p1_def pool_get_def pool_put_def pool_start_def)
  moreover have "abandoned (pool_stop p2) = {#s#}" "po_stopping (pool_stop p2)" "po_finished (pool_stop p2) = []"
    by (simp_all add: abandoned_def busy_signals_def pool_stop_def p2_def p1_def pool_get_def pool_put_def pool_start_def)
  ultimately show ?thesis by blast
qed


text \<open>Two threads, three signals: the second thread finishes two of them.\<close>

definition sample_pool :: "signal \<Rightarrow> signal \<Rightarrow> signal \<Rightarrow> pool" where
  "sample_pool a b c =
     pool_done 1 (pool_get 1 (pool_done 1 (pool_get 1 (pool_get 0 (pool_stop (pool_put c (pool_put b (pool_put a (pool_start 2)))))))))"

lemma sample_pool_reachable: "pool_reachable 2 (sample_pool a b c)"
  unfolding sample_pool_def
  by (intro pool_reachable.step [OF _ pool_step.fin [where s = c]] pool_reachable.step [OF _ pool_step.fin [where s = b]]
      pool_reachable.step [OF _ pool_step.get] pool_reachable.step [OF _ pool_step.stop] pool_reachable.step [OF _ pool_step.put]
      pool_reachable.init)
    (simp_all add: pool_done_def pool_get_def pool_put_def pool_stop_def pool_start_def numeral_2_eq_2)


end
