(* ===== verification/FreshInstall.thy ===== *)
theory FreshInstall
  imports Seed WorkerPool
begin

text \<open>
  What makes a day tradable: the converse of the activation gate of the boot (\<open>engines/init/main.py\<close>),
  and its application to a fresh installation, from the seeded tables over the boot to the scheduler,
  the worker pool and the strategy's vessels.
\<close>

section \<open>A healthy morning\<close>

text \<open>The builder's configuration has every field the builder reads, with a positive step.\<close>

definition config_complete :: "json \<Rightarrow> bool" where
  "config_complete cfg \<longleftrightarrow>
     (\<exists>kvs step window r lot. cfg = JObj kvs \<and> cfg_int cfg ''strike_step'' = Inr step \<and> 0 < step \<and>
        cfg_int cfg ''pre_open_subscribe_window'' = Inr window \<and> cfg_int cfg ''trading_basket_range'' = Inr r \<and>
        cfg_int cfg ''lot_size'' = Inr lot)"

text \<open>The broker quotes the spot of the index and lists a contract that has not expired.\<close>

definition market_answers :: "boot_env \<Rightarrow> index_name \<Rightarrow> bool" where
  "market_answers env idx \<longleftrightarrow>
     (\<exists>tok quotes spot cs expiry. map_of INDEX_SPOT_TOKENS idx = Some tok \<and> be_ltp env tok = Inr quotes \<and>
        map_of quotes tok = Some spot \<and> be_contracts env tok = Inr cs \<and> discover_nearest_expiry cs (be_today env) = Some expiry)"

lemma build_succeeds:
  assumes "valid_index idx" and "config_complete cfg" and "market_answers env idx"
    and "d (''strategy:configs:strategies:bid_ask_imbalance_v1:instruments:'' @ idx) = Some (RJson cfg)"
  shows "is_built (fst (build_for_index (be_ltp env) (be_contracts env) (be_today env) idx d))"
proof -
  obtain kvs step window r lot where c: "cfg = JObj kvs" "cfg_int cfg ''strike_step'' = Inr step" "0 < step"
    "cfg_int cfg ''pre_open_subscribe_window'' = Inr window" "cfg_int cfg ''trading_basket_range'' = Inr r"
    "cfg_int cfg ''lot_size'' = Inr lot" using assms(2) by (auto simp: config_complete_def)
  obtain tok quotes spot cs expiry where m: "map_of INDEX_SPOT_TOKENS idx = Some tok" "be_ltp env tok = Inr quotes"
    "map_of quotes tok = Some spot" "be_contracts env tok = Inr cs" "discover_nearest_expiry cs (be_today env) = Some expiry"
    using assms(3) by (auto simp: market_answers_def)
  have k: "read_builder_config d idx = Inr cfg"
    using assms(1,4) default_vessels_valid
    by (simp add: read_builder_config_def strategy_config_index_def strategy_config_instrument_def DEFAULT_STRATEGY_ID_def)
  obtain atm where a: "init_compute_atm spot step = Inr atm" using c(3) by (simp add: init_compute_atm_def)
  obtain ks inw where f: "filter_atm_window_strikes cs expiry atm step window = (ks, inw)" by fastforce
  have e: "\<exists>ex. jget_default cfg ''exchange'' (JStr ''NFO'') = Inr ex" by (simp add: c(1))
  show ?thesis
    using assms(1) e default_vessels_valid
    by (auto simp: build_for_index_def k m a c(2,4-6) build_with_contracts_def f Let_def persist_index_def market_key_defs
        is_built_def)
qed

abbreviation config_key :: "index_name \<Rightarrow> string" where
  "config_key idx \<equiv> ''strategy:configs:strategies:bid_ask_imbalance_v1:instruments:'' @ idx"

lemma config_kept:
  assumes "valid_index idx"
  shows "build_for_index l c today a d = (r, d') \<Longrightarrow> d' (config_key idx) = d (config_key idx)"
    and "disable_index a d (config_key idx) = d (config_key idx)"
    and "ensure_valid_token env d = (res, d') \<Longrightarrow> d' (config_key idx) = d (config_key idx)"
    and "resolve_mode (snd (load_master_instruments env d)) (config_key idx) = d (config_key idx)"
  using assms nifty_cfg.build_keeps banknifty_cfg.build_keeps nifty_cfg.disable_keeps banknifty_cfg.disable_keeps
    nifty_cfg.token_keeps banknifty_cfg.token_keeps nifty_cfg.market_keeps banknifty_cfg.market_keeps
  by (auto simp: valid_index_cases)

lemma builds_some:
  assumes "valid_index idx" and "config_complete cfg" and "market_answers env idx"
  shows "idx \<in> set is \<Longrightarrow> d (config_key idx) = Some (RJson cfg) \<Longrightarrow> 0 < fst (build_indexes env is d)"
proof (induction "is" arbitrary: d)
  case (Cons a rest)
  obtain r d1 where b: "build_for_index (be_ltp env) (be_contracts env) (be_today env) a d = (r, d1)" by fastforce
  define d2 where "d2 = (case r of Inl _ \<Rightarrow> disable_index a d1 | Inr _ \<Rightarrow> d1)"
  obtain n' d3 where i: "build_indexes env rest d2 = (n', d3)" by fastforce
  have e: "fst (build_indexes env (a # rest) d) = (if is_built r then Suc n' else n')" by (simp add: b d2_def [symmetric] i)
  show ?case
  proof (cases "a = idx")
    case True
    then show ?thesis using build_succeeds [OF assms, of d] Cons.prems(2) b e by simp
  next
    case False
    have "d2 (config_key idx) = Some (RJson cfg)"
      using config_kept(1) [OF assms(1) b] config_kept(2) [OF assms(1)] Cons.prems(2) by (simp add: d2_def split: sum.split)
    then have "0 < n'" using Cons.IH [of d2] Cons.prems(1) False i by simp
    then show ?thesis using e by simp
  qed
qed simp

text \<open>The last row of a section is the one that Redis keeps.\<close>

lemma section_key_inj:
  assumes "redis_key_for_config x = Inr k" and "redis_key_for_config y = Inr k"
  shows "x = y"
  using assms default_vessels_valid
  by (auto simp: redis_key_for_config_def strategy_config_index_def strategy_config_instrument_def DEFAULT_STRATEGY_ID_def
      key_const_defs split: if_splits)

lemma config_key_row: "valid_index idx \<Longrightarrow> redis_key_for_config (''index:'' @ idx) = Inr (config_key idx)"
  using default_vessels_valid
  by (auto simp: valid_index_cases redis_key_for_config_def strategy_config_index_def strategy_config_instrument_def
      DEFAULT_STRATEGY_ID_def)

lemma hydrate_configs_append: "hydrate_configs (xs @ ys) d = hydrate_configs ys (hydrate_configs xs d)"
  by (induction xs d rule: hydrate_configs.induct) simp_all

lemma section_hydrated:
  "redis_key_for_config x = Inr k \<Longrightarrow> map_of (rev rows) x = Some v \<Longrightarrow> hydrate_configs rows d k = Some (RJson v)"
proof (induction rows arbitrary: d rule: rev_induct)
  case (snoc r rows)
  obtain y w where r: "r = (y, w)" by (cases r)
  show ?case
  proof (cases "y = x")
    case True
    then show ?thesis using snoc.prems by (simp add: hydrate_configs_append r)
  next
    case False
    then have "redis_key_for_config y \<noteq> Inr k" using section_key_inj snoc.prems(1) by blast
    moreover have "hydrate_configs rows d k = Some (RJson v)" using snoc False by (simp add: r)
    ultimately show ?thesis by (auto simp: hydrate_configs_append r split: sum.split)
  qed
qed simp

lemma config_hydrated:
  assumes "valid_index idx" and "hydrate_all today pg d = (ok, d')" and "map_of (rev (pg_configs pg)) (''index:'' @ idx) = Some cfg"
  shows "d' (config_key idx) = Some (RJson cfg)"
  using assms(1) nifty_cfg.hydrate_others [OF assms(2)] banknifty_cfg.hydrate_others [OF assms(2)] section_hydrated [OF config_key_row [OF assms(1)] assms(3)]
  by (auto simp: valid_index_cases)

lemma enabled_mem:
  "valid_index i \<Longrightarrow> d (''strategy:bid_ask_imbalance_v1:'' @ i @ '':enabled'') = Some (RText ''true'') \<Longrightarrow> i \<in> set (enabled_indexes d)"
  using default_vessels_valid(1)
  by (simp add: enabled_indexes_def INDEXES_valid strategy_enabled_def vessel_enabled_def vessel_prefix_def DEFAULT_STRATEGY_ID_def
      read_str_def py_lower_def lower_char_def)

lemma enabled_kept:
  assumes "hydrate_all today pg d = (ok, d1)" and "ensure_valid_token env d1 = (res, d2)" and "valid_index i"
  shows "resolve_mode (snd (load_master_instruments env d2)) (''strategy:bid_ask_imbalance_v1:'' @ i @ '':enabled'') =
    d (''strategy:bid_ask_imbalance_v1:'' @ i @ '':enabled'')"
  using assms(3) nifty_enabled.market_keeps banknifty_enabled.market_keeps nifty_enabled.token_keeps [OF assms(2)]
    banknifty_enabled.token_keeps [OF assms(2)] nifty_enabled.hydrate_keeps [OF assms(1)] banknifty_enabled.hydrate_keeps [OF assms(1)]
  by (auto simp: valid_index_cases)

text \<open>A usable access token: cached and accepted by the broker, or from a login that succeeds.\<close>

definition token_available :: "boot_env \<Rightarrow> db \<Rightarrow> bool" where
  "token_available env d \<longleftrightarrow>
     (\<exists>t. read_cached_token d = Some t \<and> be_validate env t) \<or> (\<exists>c cs. be_login env = Some (c # cs))"

lemma ensure_token_succeeds:
  assumes "read_creds d = Some creds" and "truthy creds" and "token_available env d"
  obtains tok fresh d' where "ensure_valid_token env d = (AuthValid tok fresh, d')"
proof -
  have "\<exists>tok fresh d'. ensure_valid_token env d = (AuthValid tok fresh, d')"
    using assms by (cases "read_cached_token d") (auto simp: ensure_valid_token_def token_available_def split: option.split list.split)
  then show thesis using that by blast
qed

definition healthy_morning :: "boot_env \<Rightarrow> pg_rows \<Rightarrow> db \<Rightarrow> index_name \<Rightarrow> bool" where
  "healthy_morning env pg d idx \<longleftrightarrow>
     be_redis env \<and> be_postgres env \<and> be_pg env = Some pg \<and>
     (\<exists>creds. pg_creds pg = Some (Some creds) \<and> truthy creds) \<and> token_available env d \<and>
     (\<forall>tok. tok \<noteq> [] \<longrightarrow> is_trading_day_today (trading_dates pg (be_today env) True) (trading_dates pg (be_today env) False)
                          (be_today env) (Some tok) (be_holidays env)) \<and>
     (\<forall>es. be_timings env = Inr es \<longrightarrow> is_standard_session es ''NSE'') \<and>
     valid_index idx \<and> (\<exists>cfg. map_of (rev (pg_configs pg)) (''index:'' @ idx) = Some cfg \<and> config_complete cfg) \<and>
     market_answers env idx"

lemma template_enabled:
  assumes "apply_template True d = Inr d'"
  shows "d' ''strategy:bid_ask_imbalance_v1:nifty50:enabled'' = Some (RText ''true'')"
    and "d' ''strategy:bid_ask_imbalance_v1:banknifty:enabled'' = Some (RText ''true'')"
proof -
  show "d' ''strategy:bid_ask_imbalance_v1:nifty50:enabled'' = Some (RText ''true'')"
    by (rule template_row [OF assms, of _ "TStr ''true''"]) (simp_all add: written_rows_eq STRATEGY_REGISTRY_def CONFIG_KEYS_def)
  show "d' ''strategy:bid_ask_imbalance_v1:banknifty:enabled'' = Some (RText ''true'')"
    by (rule template_row [OF assms, of _ "TStr ''true''"]) (simp_all add: written_rows_eq STRATEGY_REGISTRY_def CONFIG_KEYS_def)
qed

lemma healthy_morning_boots:
  assumes "healthy_morning env pg d idx"
  shows "\<exists>d'. boot_main env d = (0, d') \<and> d' SYSTEM_FLAGS_TRADING_ACTIVE = Some (RText ''true'')"
proof -
  obtain creds cfg where H: "be_redis env" "be_postgres env" "be_pg env = Some pg" "pg_creds pg = Some (Some creds)" "truthy creds"
    "token_available env d" "valid_index idx" "map_of (rev (pg_configs pg)) (''index:'' @ idx) = Some cfg" "config_complete cfg"
    "market_answers env idx" "\<forall>es. be_timings env = Inr es \<longrightarrow> is_standard_session es ''NSE''"
    and td: "\<forall>tok. tok \<noteq> [] \<longrightarrow> is_trading_day_today (trading_dates pg (be_today env) True)
        (trading_dates pg (be_today env) False) (be_today env) (Some tok) (be_holidays env)"
    using assms by (auto simp: healthy_morning_def)
  obtain d1 where t: "apply_template True d = Inr d1" using apply_template_eq by blast
  define d2 where "d2 = d1(SYSTEM_LIFECYCLE_START_TS \<mapsto> RText (str_int (be_now env)), SYSTEM_LIFECYCLE_GIT_SHA \<mapsto> RText (be_git_sha env))"
  obtain ok d3 where h: "hydrate_all (be_today env) pg d2 = (ok, d3)" by fastforce
  then have ok: "ok" using H(4) by (auto simp: hydrate_all_def hydrate_credentials_def Let_def split: prod.splits)
  note F = hydrate_frame [OF h] step_key_neq(11,12)
  have "read_creds d3 = Some creds" using hydrate_creds [of "be_today env" pg d2 d3] h ok H(4) by (auto simp: read_creds_def)
  moreover have "d3 USER_AUTH_ACCESS_TOKEN = d USER_AUTH_ACCESS_TOKEN"
    using template_user_key [OF t, of USER_AUTH_ACCESS_TOKEN] F [of USER_AUTH_ACCESS_TOKEN]
    by (simp add: auth_keys d2_def) (simp add: auth_key_def starts_with_def)
  then have "token_available env d3" using H(6) read_cached_cong [of d3 d] by (simp add: token_available_def)
  ultimately obtain tok fresh d4 where e: "ensure_valid_token env d3 = (AuthValid tok fresh, d4)"
    using ensure_token_succeeds H(5) by metis
  have cal: "d2 SYSTEM_SCHEDULER_TRADING_DAYS = None" "d2 SYSTEM_SCHEDULER_HOLIDAYS = None"
    using template_market(2,3) [OF t] by (simp_all add: d2_def key_const_defs)
  have day: "is_trading_day_today (set_members d4 SYSTEM_SCHEDULER_TRADING_DAYS) (set_members d4 SYSTEM_SCHEDULER_HOLIDAYS)
      (be_today env) (Some tok) (be_holidays env)"
    using td ensure_token_valid [OF e] hydrate_calendar [OF h cal] ensure_token_calendar [OF e] by simp
  define d5 where "d5 = resolve_mode (snd (load_master_instruments env d4))"
  have cfg: "d5 (config_key idx) = Some (RJson cfg)"
    unfolding d5_def config_kept(4) [OF H(7)] config_kept(3) [OF H(7) e] by (rule config_hydrated [OF H(7) h H(8)])
  have en5: "d5 (''strategy:bid_ask_imbalance_v1:'' @ idx @ '':enabled'') = Some (RText ''true'')"
    unfolding d5_def enabled_kept [OF h e H(7)]
    using template_enabled [OF t] H(7) unfolding valid_index_cases by (elim disjE) (simp_all add: d2_def key_const_defs)
  have en: "idx \<in> set (enabled_indexes d5)"
    using H(7) enabled_mem en5 by blast
  obtain n d6 where b: "build_indexes env (enabled_indexes d5) d5 = (n, d6)" by fastforce
  then have "n \<noteq> 0" using builds_some [OF H(7,9,10) en, of d5] cfg by simp
  moreover have "enabled_indexes d5 \<noteq> []" using en by auto
  ultimately have bb: "\<exists>d'. boot_baskets env d5 = (0, d') \<and> d' SYSTEM_FLAGS_TRADING_ACTIVE = Some (RText ''true'')"
    using b by (simp add: boot_baskets_def key_const_defs)
  have flags: "d3 (flag_key ''skip_today'') = None" "d3 (flag_key ''auto_continue'') = None"
    using template_flags [OF t] F [of "flag_key x" for x] by (simp_all add: d2_def)
  have "boot_market env tok d4 = boot_baskets env d5" using day H(11) by (auto simp: boot_market_def d5_def split: sum.split)
  moreover have "read_str d3 ''system:flags:auto_continue'' x = x" "read_str d3 ''system:flags:skip_today'' x = x" for x
    using flags by (simp_all add: read_str_def flag_key_def)
  ultimately have "boot_session env ok d3 = boot_baskets env d5"
    using ok e by (simp add: boot_session_def py_lower_def lower_char_def)
  then have "boot_main env d = boot_baskets env d5" using H(1-3) t h by (simp add: boot_main_def d2_def [symmetric] Let_def)
  then show ?thesis using bb by simp
qed

section \<open>Sections after the boot\<close>

interpretation execution_cfg: boot_unbuilt STRATEGY_CONFIGS_EXECUTION
  by unfold_locales (auto simp: starts_with_def STRATEGY_CONFIGS_EXECUTION_def)

interpretation session_cfg: boot_unbuilt STRATEGY_CONFIGS_SESSION
  by unfold_locales (auto simp: starts_with_def STRATEGY_CONFIGS_SESSION_def)

interpretation risk_cfg: boot_unbuilt STRATEGY_CONFIGS_RISK
  by unfold_locales (auto simp: starts_with_def STRATEGY_CONFIGS_RISK_def)

text \<open>A day that trades runs on the sections of Postgres.\<close>

lemma section_after_boot:
  assumes "boot_main env d = (0, d')" and "d' SYSTEM_FLAGS_TRADING_ACTIVE = Some (RText ''true'')"
    and "be_pg env = Some pg" and "redis_key_for_config x = Inr k" and "map_of (rev (pg_configs pg)) x = Some v"
  shows "d' k = Some (RJson v)"
proof -
  obtain pg' tok d1 d3 d4 d6 where A: "active_path env d pg' tok d1 d3 d4 d6"
    and d': "d' = d6(SYSTEM_FLAGS_READY \<mapsto> RText ''true'', SYSTEM_FLAGS_TRADING_ACTIVE \<mapsto> RText ''true'',
                 SYSTEM_FLAGS_TRADING_DISABLED_REASON \<mapsto> RText ''none'')" using boot_active_path [OF assms(1,2)] .
  have pg: "pg' = pg" using A assms(3) by (simp add: active_path_def)
  have k: "k \<in> {STRATEGY_CONFIGS_EXECUTION, STRATEGY_CONFIGS_SESSION, STRATEGY_CONFIGS_RISK, config_key ''nifty50'', config_key ''banknifty''}"
    using assms(4) default_vessels_valid
    by (auto simp: redis_key_for_config_def strategy_config_index_def strategy_config_instrument_def DEFAULT_STRATEGY_ID_def
        split: if_splits)
  then have "\<exists>d0. d6 k = hydrate_configs (pg_configs pg) d0 k"
    using execution_cfg.active_path_key [OF A] session_cfg.active_path_key [OF A] risk_cfg.active_path_key [OF A]
      nifty_cfg.active_path_key [OF A] banknifty_cfg.active_path_key [OF A] unfolding pg by auto
  then have "d6 k = Some (RJson v)" using section_hydrated [OF assms(4,5)] by metis
  moreover have "d' k = d6 k" using k by (auto simp: d' key_const_defs)
  ultimately show ?thesis by simp
qed

section \<open>A fresh installation\<close>

text \<open>Whatever the model of an index accepts is complete for the basket builder.\<close>

lemma conforming_complete:
  assumes "conforms INDEX_CONFIG cfg"
  shows "config_complete cfg"
proof -
  obtain kvs where cfg: "cfg = JObj kvs" using assms by (cases cfg) (auto simp: conforms_def)
  have int: "\<exists>i. cfg_int cfg n = Inr i \<and> 0 < i" if "must n FInt [Gt 0] \<in> set INDEX_CONFIG" for n
  proof -
    have "field_ok kvs (must n FInt [Gt 0])" using assms that by (auto simp: cfg conforms_def)
    then obtain v where "map_of kvs n = Some v" "typed FInt v" "in_bound (Gt 0) v"
      by (auto simp: field_ok_def spec_defs split: option.splits)
    then show ?thesis by (cases v) (auto simp: cfg cfg_int_def)
  qed
  have "\<exists>i. cfg_int cfg ''strike_step'' = Inr i \<and> 0 < i" "\<exists>i. cfg_int cfg ''pre_open_subscribe_window'' = Inr i \<and> 0 < i"
    "\<exists>i. cfg_int cfg ''trading_basket_range'' = Inr i \<and> 0 < i" "\<exists>i. cfg_int cfg ''lot_size'' = Inr i \<and> 0 < i"
    by (rule int, simp add: INDEX_CONFIG_def)+
  then show ?thesis using cfg by (auto simp: config_complete_def)
qed

text \<open>The seed ran on empty tables; then the operator stored the broker's credentials and the calendar.\<close>

definition installed :: "pg_db \<Rightarrow> (nat list \<Rightarrow> json option) \<Rightarrow> string \<Rightarrow> pg_db \<Rightarrow> bool" where
  "installed db0 decrypt today db \<longleftrightarrow>
     (\<exists>blob creds cal. db = db0\<lparr>pd_creds := [(''upstox'', blob)], pd_calendar := cal\<rparr> \<and>
        decrypt blob = Some creds \<and> truthy creds \<and> map_of cal today = Some (True, None))"

text \<open>The outside world of a good morning: services up, a token to be had, no special session.\<close>

definition world_ready :: "boot_env \<Rightarrow> db \<Rightarrow> bool" where
  "world_ready env d \<longleftrightarrow>
     be_redis env \<and> be_postgres env \<and> token_available env d \<and> (\<forall>es. be_timings env = Inr es \<longrightarrow> is_standard_session es ''NSE'')"

lemma fresh_configs:
  assumes "admin_password_and_secret getenv settings = Inr (pw, secret)" and "quote_safe (hashpw pw)" and "quote_safe secret"
    and "seed_upgrade hashpw broken getenv settings empty_pg = Inr db0"
  shows "pd_configs db0 = CONFIG_ROWS"
proof -
  have "db0 = empty_pg\<lparr>pd_users := insert_new ur_username [] \<lparr>ur_username = ''admin'', ur_password_hash = hashpw pw,
      ur_jwt_secret = secret, ur_role = Some ''admin''\<rparr>,
      pd_configs := foldl (insert_new fst) [] CONFIG_ROWS, pd_tasks := foldl (insert_new tr_id) [] TASK_ROWS\<rparr>"
    using assms by (simp add: seed_upgrade_def and_then_def empty_pg_def)
  then show ?thesis by (simp add: insert_new_all seed_keys_distinct)
qed

lemma fresh_rows:
  assumes "pd_configs db = CONFIG_ROWS" and "map_of (pd_calendar db) today = Some (True, None)"
    and "map_of (pd_creds db) ''upstox'' = Some blob" and "decrypt blob = Some creds"
  obtains pg where "boot_rows decrypt py_str today db = Some pg" and "pg_configs pg = CONFIG_ROWS"
    and "pg_creds pg = Some (Some creds)" and "today \<in> trading_dates pg today True"
proof -
  have s: "map_of (pd_configs db) ''session'' = Some SESSION_DEFAULT" unfolding assms(1) by (simp add: CONFIG_ROWS_def)
  have c: "load_runtime_configs db = CONFIG_ROWS"
    unfolding load_runtime_configs_def assms(1) by (rule load_fresh) (rule seed_keys_distinct)
  have "(today, True) \<in> set (map (\<lambda>(d, t, _). (d, t)) (pd_calendar db))" using map_of_SomeD [OF assms(2)] by force
  then show thesis
    using assms(2-4) s c that
    by (auto simp: boot_rows_def Let_def session_texts_def SESSION_DEFAULT_def trading_dates_def split: option.splits list.splits)
qed

text \<open>What the engines read from the seeded sections.  The seconds of a configured time are dropped.\<close>

definition seeded_jobs :: "(string \<times> int \<times> int) list" where
  "seeded_jobs =
     [(''instrument_refresh'', 5, 30), (''pre_open_snapshot'', 9, 14), (''market_open'', 9, 15), (''entry_freeze'', 15, 10),
      (''eod_squareoff'', 15, 15), (''market_close'', 15, 30), (''daily_reset'', 15, 35), (''nightly_maintenance'', 2, 0)]"

lemma seeded_job_table:
  assumes "\<And>s. py_str (JStr s) = s"
  shows "resolve_trigger_table (map (\<lambda>(k, v). (k, py_str v)) (case SESSION_DEFAULT of JObj kvs \<Rightarrow> kvs)) = DEFAULT_TRIGGERS"
  by (simp add: SESSION_DEFAULT_def resolve_trigger_table_def CONFIGURABLE_TRIGGERS_def DEFAULT_TRIGGERS_def first_two_fields_def assms)

lemma default_jobs:
  assumes "\<And>h m. 0 \<le> h \<Longrightarrow> h < 24 \<Longrightarrow> 0 \<le> m \<Longrightarrow> m < 60 \<Longrightarrow> cron h m"
  shows "add_crons cron DEFAULT_TRIGGERS = Inr seeded_jobs"
  by (simp add: DEFAULT_TRIGGERS_def seeded_jobs_def sched_parse_hhmm_def int_of_str_def char_digit_def and_then_def assms)

lemma seeded_scheduler:
  assumes "d STRATEGY_CONFIGS_SESSION = Some (RJson SESSION_DEFAULT)" and "\<And>s. py_str (JStr s) = s"
    and "\<And>h m. 0 \<le> h \<Longrightarrow> h < 24 \<Longrightarrow> 0 \<le> m \<Longrightarrow> m < 60 \<Longrightarrow> cron h m"
  shows "scheduler_start cron py_str d = (Inr seeded_jobs, mark_up ''scheduler'' d)"
proof -
  obtain kvs where k: "SESSION_DEFAULT = JObj kvs" by (simp add: SESSION_DEFAULT_def)
  have "read_session_config py_str d = Inr (map (\<lambda>(k, v). (k, py_str v)) kvs)"
    using assms(1) by (simp add: read_session_config_def read_json_obj_def k and_then_def)
  moreover have "resolve_trigger_table (map (\<lambda>(k, v). (k, py_str v)) kvs) = DEFAULT_TRIGGERS"
    using seeded_job_table [of py_str] assms(2) by (simp add: k)
  ultimately show ?thesis using default_jobs [of cron] assms(3) by (simp add: scheduler_start_def job_table_eq and_then_def)
qed

lemma seeded_pool: "d STRATEGY_CONFIGS_EXECUTION = Some (RJson EXECUTION_DEFAULT) \<Longrightarrow> read_pool_size d = Inr 8"
  by (simp add: read_pool_size_def pool_size_of_def EXECUTION_DEFAULT_def jget_def jget_default_def py_or_def and_then_def cfg_int_def)

text \<open>The template's spread thresholds and basket size do not survive a boot that reads the index from
  Postgres, and the model forbids adding them there: the strategy runs on the defaults in its code.\<close>

lemma spread_thresholds_lost:
  assumes "boot_main env d = (0, d')" and "d' SYSTEM_FLAGS_TRADING_ACTIVE = Some (RText ''true'')" and "be_pg env = Some pg"
    and "valid_index i" and "map_of (rev (pg_configs pg)) (''index:'' @ i) = Some cfg" and "conforms INDEX_CONFIG cfg"
  shows "\<exists>kvs. d' (config_key i) = Some (RJson (JObj kvs)) \<and> map_of kvs ''spread_good_inr'' = None \<and>
    map_of kvs ''spread_moderate_inr'' = None \<and> map_of kvs ''basket_size'' = None"
proof -
  obtain kvs where "cfg = JObj kvs" using assms(6) by (cases cfg) (auto simp: conforms_def)
  then show ?thesis
    using section_after_boot [OF assms(1-3) config_key_row [OF assms(4)] assms(5)] index_config_has_no_spread assms(6) by simp
qed

section \<open>Properties\<close>

text \<open>Claim C9.  The converse of the activation gate: on a healthy morning the boot switches trading on.
  When Redis and Postgres answer, the credentials can be decrypted, a usable token is cached or the
  login succeeds, today is a trading day with no special session, and for at least one index the
  configuration is complete and the broker quotes the spot and lists an unexpired contract, the boot
  ends with code 0 and trading active, whatever the previous day left in Redis.\<close>

theorem healthy_morning_trades:
  assumes "healthy_morning env pg d idx"
  shows "\<exists>d'. boot_main env d = (0, d') \<and> d' SYSTEM_FLAGS_TRADING_ACTIVE = Some (RText ''true'')"
  by (rule healthy_morning_boots [OF assms])


section \<open>Witnesses\<close>

lemma demo_healthy: "healthy_morning demo_env demo_rows demo_evening ''nifty50''"
proof -
  have "config_complete demo_config" by (simp add: config_complete_def demo_config_def cfg_int_def)
  moreover have "market_answers demo_env ''nifty50''"
    by (simp add: market_answers_def demo_env_def INDEX_SPOT_TOKENS_def discover_nearest_expiry_def nonempty_texts_def demo_contract_def)
  moreover have "token_available demo_env demo_evening"
    by (simp add: token_available_def read_cached_token_def demo_evening_def demo_env_def USER_AUTH_ACCESS_TOKEN_def)
  ultimately show ?thesis
    by (simp add: healthy_morning_def demo_env_def demo_rows_def is_trading_day_today_def is_trading_day_via_cache_def
        trading_dates_def valid_index_def)
qed

theorem healthy_morning_trades_witness:
  "\<exists>d'. boot_main demo_env demo_evening = (0, d') \<and> d' SYSTEM_FLAGS_TRADING_ACTIVE = Some (RText ''true'')"
  using healthy_morning_trades [OF demo_healthy] .

definition sample_decrypt :: "nat list \<Rightarrow> json option" where
  "sample_decrypt b = (if b = [1] then Some (JObj [(''api_key'', JStr ''k'')]) else None)"

definition sample_pg :: pg_db where
  "sample_pg = (case seed_upgrade sample_hash Inr sample_vars (Inl ValueError) empty_pg of
     Inr db0 \<Rightarrow> db0\<lparr>pd_creds := [(''upstox'', [1])], pd_calendar := [(''2026-01-01'', True, None)]\<rparr> | Inl _ \<Rightarrow> empty_pg)"


end
