(* ===== verification/Spec2Isabelle.thy ===== *)
theory Spec2Isabelle
  imports WorkerLiveness Dispatcher PipelineProps BootGate Supervision OrderWire GatewayProps GatewayViews Credentials FreshInstall
begin

text \<open>
  A verification development for the pcr-momentum option-trading system (\<open>src/backend\<close>).

  \<^bold>\<open>The program.\<close>  Seven Python processes share one Redis and one Postgres.  Before the market opens
  the \<^emph>\<open>init\<close> engine runs twelve steps: it clears the runtime key spaces, installs the day's template,
  checks credentials and calendar, builds the option-chain templates and the starting baskets, and
  decides whether the day is traded.  The \<^emph>\<open>data pipeline\<close> turns broker frames into ticks, keeps the
  option chain in memory, flushes it to Redis and notifies the strategies.  Every \<^emph>\<open>strategy vessel\<close> reads
  the chain on a notification, computes the bid/ask-imbalance metrics and publishes ENTER, FLIP and
  EXIT signals on a stream.  The \<^emph>\<open>order engine\<close> takes each signal through six stages: (A) the
  pre-entry gate, which reserves a capital slot, (B, C) the BUY, (D) the monitor loop with the exit
  cascade, (E) the SELL, (F) the report and the clean-up.  The \<^emph>\<open>scheduler\<close>, \<^emph>\<open>background\<close> and \<^emph>\<open>health\<close>
  engines flip the day's flags, drain the reports into Postgres and watch the others; the \<^emph>\<open>API
  gateway\<close> serves operators over REST and a socket.

  \<^bold>\<open>Theories and sources\<close> (paths under \<open>src/backend\<close>).

  \<^item> Foundations.  Prelude: Python numbers, text, rounding and dictionary defaults.  Schemas:
    \<open>state/schemas\<close>, the pydantic models as records and datatypes.  Store: the part of Redis that order
    execution and the vessels share, one record field per key family.  Keys: every helper of
    \<open>state/keys.py\<close>.  Json: decoded JSON with \<open>or\<close>, \<open>get\<close>, \<open>float\<close> and \<open>int\<close>.
  \<^item> \<open>engines/order_exec\<close>.  Allocator, PreEntryGate, OrderEntry, ExitEval, ExitSubmit, Reporting (with
    \<open>cleanup.py\<close>) model the files of their names.  PositionHash is the position hash that \<open>worker.py\<close> writes
    and reads back; Worker is \<open>process_signal\<close> with the flip path and the monitor loop; WorkerProps and
    WorkerLiveness hold its properties.  Dispatcher is the stream reader that feeds it.
  \<^item> \<open>engines/strategy\<close>.  StrategyMetrics (snapshot, buffer, the eight metrics), StrategyDecisions (entry
    gates, continuation, reversal), Basket, StrategyTick (\<open>on_tick\<close>) and Vessel (\<open>runner.py\<close>,
    \<open>ingestion.py\<close>, the vessel state and the publisher).
  \<^item> \<open>engines/data_pipeline\<close>.  TickParser, Aggregator, TickProcessor (\<open>state.py\<close>, \<open>tick_processor.py\<close>, the
    loop of \<open>main.py\<close>, the callback of \<open>ws_io.py\<close>), Subscriptions (the subscription set and the pre-market
    gate) and PipelineProps.
  \<^item> \<open>engines/init\<close>.  Calendar (with the broker's calendar calls), BasketBuilder, InitTemplate, Boot, and
    the properties in BootProps and BootGate.
  \<^item> The other engines.  Supervision: the jobs of \<open>engines/scheduler\<close>, the report drainer and the kill-switch
    poller of \<open>engines/background\<close>, the kill-switch predicate.  Background: the event consumer of
    \<open>engines/background/main.py\<close> with its nightly tasks, and the start of the scheduler.  HealthEngine:
    \<open>engines/health\<close>.  Registry: which vessels a strategy process starts (\<open>strategy/registry.py\<close>, \<open>main.py\<close>,
    \<open>heartbeat.py\<close>).  WorkerPool: the threads of \<open>order_exec/main.py\<close> behind the dispatcher's queue.
  \<^item> \<open>brokers/upstox\<close>.  BrokerHttp (rate limiter, request layer, envelopes, order calls), BrokerReads
    (all other REST endpoints, option helpers, tokens and their cache), OrderWire (the order engine run
    on the modelled client).
  \<^item> \<open>engines/api_gateway\<close>.  GatewayAccess (tokens, roles, the rate limiter), Gateway (the endpoints and
    the routing of a request), GatewayViews (view router and socket), GatewayProps.
  \<^item> Credentials: \<open>state/crypto.py\<close>, \<open>state/credentials_store.py\<close> and the masking of \<open>util.py\<close>.
  \<^item> Postgres.  Tables: the schema of \<open>alembic/versions/0001_initial.py\<close> as a catalog with its upgrade and
    downgrade, and the row of a closed trade.  Seed: \<open>alembic/versions/0002_seed.py\<close>, the models of
    \<open>state/schemas/config.py\<close>, \<open>state/config_loader.py\<close> and the rows the boot reads.  FreshInstall: the boot
    of a healthy morning, on any database and on a freshly seeded one.

  \<^bold>\<open>State.\<close>  Redis appears in two forms.  Where the code works on key families it knows, the state is a
  record with a typed field per family (\<open>world\<close>, \<open>allocator_db\<close>, \<open>market_db\<close>).  Where it works on key
  names (template, flush, scheduler, gateway, credentials) it is \<open>db\<close>, a function from key texts to
  values.  \<open>Keys.keys_never_collide\<close> licenses the first form: no two helpers or arguments give the
  same text.  Every operation takes the state and returns it updated; whatever a process waits for is
  an explicit argument: the answers of the broker, the events seen at each poll, the clock readings.
  Exceptions are values of a sum type, and a result that Python raises on is a branch of the model.

  \<^bold>\<open>Interfaces.\<close>  \<open>slot_allocator\<close> (Allocator) is what the engines need of the capital counters: an
  atomic reserve and release that keep an abstraction to the ledger; the transaction of
  \<open>allocator.py\<close> with its bounded retry interprets it.  \<open>alloc_invariant\<close> (WorkerProps) is a property of
  the counters that survives other clients, threaded once through all stages of the worker and
  interpreted at \<open>holds\<close>.  \<open>live_invariant\<close> (Vessel) threads an invariant through the vessel loop and is
  interpreted at the routing table.  \<open>broker_client\<close> (OrderWire) is what the order stages assume of a
  broker; the modelled Upstox client interprets it.  \<open>boot_outside\<close> and its extension \<open>boot_untouched\<close>
  (Registry) are frames of the boot: what it leaves of a key, interpreted at the registry, the vessel
  states and the configuration keys.

  \<^bold>\<open>What the lemmas show\<close> (each theory has its component lemmas, and its properties after a numbered
  claim).
  Order execution: the counters equal the sum of the held reservations under every
  interleaving and never exceed their caps; a slot is given back on every path; a paper trade always
  closes; live orders send one BUY at most, exactly the position's quantity, and return; the exit cascade is
  the choice of highest priority; the trailing stop has a closed form; the report can always be built.
  Strategy: the buffer is the recent history; ENTER is given exactly when every gate holds; a vessel
  publishes at most one signal a pass, and only in the states that permit it.  Pipeline: after a clean
  run the chain in Redis is what the accepted frames said; it never lags by more than the flush
  interval.  Boot: trading is switched on only if every check passed, and what the boot leaves is what the
  pipeline loads and the strategy process starts; conversely a healthy morning trades, on a freshly
  seeded installation in particular.  The migrations can be applied, repeated and taken back.  Processes: the worker pool finishes every signal it
  was given, the background engine handles every event once and in order, the health engine raises one
  alert per outage.  Gateway: only an administrator writes; a kill keeps entries out.  Credentials
  survive a loss of Redis.  Signals, positions, credentials and keys round-trip through their texts.
  Some lemmas record defects: \<open>release_twice_corrupts\<close>, \<open>bad_frame_stops_pipeline\<close>,
  \<open>health_summary_always_red\<close>, \<open>saved_token_never_valid\<close>, \<open>short_secret_shown\<close>.

  \<^bold>\<open>Loops and fuel.\<close>  No fuel is chosen by us.  A loop of the code that waits (entry, exit, monitor,
  vessel, pipeline, dispatcher, gate) recurses over the list of what it sees at each iteration; a
  result such as \<open>None\<close>, \<open>Running\<close> or \<open>GateWaiting\<close> says that it is still looping when that list ends.  That it returns
  is proved as such: \<open>live_entry_returns\<close>, \<open>live_exit_completes\<close>, \<open>paper_trade_always_closes\<close>,
  \<open>premarket_gate_opens\<close>, \<open>vessel_drains_at_close\<close>; that the boot trades, by \<open>healthy_morning_trades\<close>.  Where threads or processes interleave (allocator,
  worker pool) the model is a step relation with reachability.  The allocator's retry count is the code's constant.

  \<^bold>\<open>Modelling decisions.\<close>
  \<^item> A Python float is an exact rational; every rounding of the code is written out, binary rounding is
    not modelled.  Integers are unbounded, as in Python.  Times are epoch milliseconds.
  \<^item> Configuration dictionaries are records of options with the code's defaults.
  \<^item> A Redis call does not fail, except where a lemma's environment says so; the clock stands still between
    two polls; the trimming of streams by length is left out.
  \<^item> Of Postgres the model has names, foreign keys, keys, NOT NULL, defaults and types; a statement whose
    quoting ends early is a parameter.
  \<^item> Parameters: SHA-256 and JWT verification, bcrypt, the AES-GCM cipher, the JSON decoder, \<open>datetime\<close> parsing
    and the validation of request bodies.  Each law a property needs of one of them is a hypothesis of
    that property, and its witness instantiates the parameter.
  \<^item> HTTP error texts are kept by their parts; timeouts and URL overrides are omitted.  Bodies are
    compared by decoded value.
  \<^item> A worker is not cancelled between taking a report and inserting it, and of the gathered tasks of the
    pipeline only the tick loop can raise.

  \<^bold>\<open>Not modelled.\<close>  Signal handling, the live display and the decision log (input and output around the
  modelled loops); the endpoints that only run an SQL query
  and the SQL text itself; the connection pools and the alembic environment; logging; the browser login,
  the download of the contract master and the SDK streamers; \<open>client.py\<close>, which forwards to the
  modelled calls; \<open>state/streams.py\<close>, which no engine imports.
\<close>

end
